(* ===== verification/Prelude.thy ===== *)
theory Prelude
  imports Main
begin

text \<open>
  Shared vocabulary of the review-manager development: the identifier and time types
  of the model, the simp collection the component theories extend, and generic facts
  about lists of rows (in-place replacement as done by a SQL \<open>UPDATE\<close>, ordering
  by a random key as done by \<open>ORDER BY random()\<close>) and Go's \<open>strings.TrimSpace\<close>, which the validation and the
  bearer-token check use.
\<close>

section \<open>Types of the model\<close>

type_synonym uid = string        \<comment> \<open>users.user_id, caller supplied\<close>
type_synonym pid = string        \<comment> \<open>pull_requests.pull_request_id, caller supplied\<close>
type_synonym team_id = int       \<comment> \<open>teams.id, a Go \<open>int\<close> assigned by the store\<close>
type_synonym timestamp = nat     \<comment> \<open>a \<open>time.Time\<close>, only compared and copied\<close>

named_theorems store_simps \<open>unfolding rules of the store operations\<close>

section \<open>Replacing list elements in place\<close>

text \<open>
  \<open>replace_all a b xs\<close> rewrites every \<open>a\<close> of \<open>xs\<close> into \<open>b\<close> and keeps the
  positions, as \<open>UPDATE \<dots> SET reviewer_id = b WHERE reviewer_id = a\<close> does to the rows.
\<close>

definition replace_all :: "'a \<Rightarrow> 'a \<Rightarrow> 'a list \<Rightarrow> 'a list" where
  "replace_all a b xs = map (\<lambda>x. if x = a then b else x) xs"

lemma length_replace_all [simp]: "length (replace_all a b xs) = length xs"
  by (simp add: replace_all_def)

lemma replace_all_absent [simp]: "a \<notin> set xs \<Longrightarrow> replace_all a b xs = xs"
  by (induction xs) (auto simp: replace_all_def)

lemma set_replace_all:
  "a \<in> set xs \<Longrightarrow> set (replace_all a b xs) = insert b (set xs - {a})"
  by (auto simp: replace_all_def)

lemma distinct_replace_all:
  "distinct xs \<Longrightarrow> b \<notin> set xs \<Longrightarrow> distinct (replace_all a b xs)"
proof (induction xs)
  case Nil
  then show ?case by (simp add: replace_all_def)
next
  case (Cons x xs)
  then have "distinct (replace_all a b xs)" by simp
  moreover have "(if x = a then b else x) \<notin> set (replace_all a b xs)"
    using Cons.prems by (auto simp: replace_all_def)
  ultimately show ?case by (simp add: replace_all_def)
qed

lemma filter_map_replace:
  "filter P (map (\<lambda>x. if x = a then b else x) xs) =
   map (\<lambda>x. if x = a then b else x) (filter P xs)"
  if "P a" "P b"
  using that by (induction xs) auto

lemma filter_map_replace_out:
  "\<not> P a \<Longrightarrow> \<not> P b \<Longrightarrow> filter P (map (\<lambda>x. if x = a then b else x) xs) = filter P xs"
  by (induction xs) auto

lemma map_snd_replace_pair:
  "\<forall>y \<in> set ys. fst y = p \<Longrightarrow>
   map snd (map (\<lambda>x. if x = (p, old) then (p, new) else x) ys) =
   map (\<lambda>x. if x = old then new else x) (map snd ys)"
  by (induction ys) auto

section \<open>Looking rows up\<close>

lemma find_append_single:
  "find P (xs @ [y]) = (case find P xs of None \<Rightarrow> (if P y then Some y else None) | Some x \<Rightarrow> Some x)"
  by (induction xs) auto

lemma find_distinct_key:
  "distinct (map f xs) \<Longrightarrow> x \<in> set xs \<Longrightarrow> find (\<lambda>y. f y = f x) xs = Some x"
  by (induction xs) (auto simp: image_iff)

lemma find_map_update:
  "find P (map (\<lambda>u. if f u = a then g u else u) xs) =
   map_option (\<lambda>u. if f u = a then g u else u) (find (\<lambda>u. P (if f u = a then g u else u)) xs)"
  by (induction xs) auto

lemma find_map_key:
  "(\<And>u. f (g u) = f u) \<Longrightarrow>
   find (\<lambda>u. f u = y) (map g xs) = map_option g (find (\<lambda>u. f u = y) xs)"
  by (induction xs) auto

section \<open>Ordering rows by a random key\<close>

text \<open>
  \<open>ORDER BY random() LIMIT n\<close> gives each row a random key, sorts by it and keeps
  the first \<open>n\<close>: \<open>take n (sort_key k rows)\<close> for the key function \<open>k\<close> the store
  drew. The facts the selection proofs share:
\<close>

lemma distinct_map_sort_key: "distinct (map g (sort_key f xs)) = distinct (map g xs)"
  by (metis card_distinct distinct_card length_map length_sort set_map set_sort)

lemma set_take_sort_key_subset: "set (take n (sort_key k xs)) \<subseteq> set xs"
  by (metis set_sort set_take_subset)

lemma distinct_take_sort_key: "distinct xs \<Longrightarrow> distinct (take n (sort_key k xs))"
  by (simp add: distinct_sort)

lemma length_take_sort_key: "length (take n (sort_key k xs)) = min n (length xs)"
  by (simp add: length_sort)

lemma take_sort_key_Nil_iff: "0 < n \<Longrightarrow> (take n (sort_key k xs) = []) = (xs = [])"
  by (auto simp: length_sort simp flip: length_0_conv)

section \<open>Trimming white space\<close>

text \<open>
  Go's \<open>strings.TrimSpace\<close> drops leading and trailing white space. The model takes
  the ASCII white space of \<open>unicode.IsSpace\<close> (tab, newline, vertical tab, form
  feed, carriage return, space); the Unicode spaces beyond ASCII are not modelled.
\<close>

definition is_space :: "char \<Rightarrow> bool" where
  "is_space c \<longleftrightarrow> c \<in> set [CHR 0x09, CHR 0x0A, CHR 0x0B, CHR 0x0C, CHR 0x0D, CHR 0x20]"

definition trim_space :: "string \<Rightarrow> string" where
  "trim_space s = rev (dropWhile is_space (rev (dropWhile is_space s)))"

lemma list_all_dropWhile: "list_all P (dropWhile P xs) = list_all P xs"
  by (induction xs) auto

lemma trim_space_Nil_iff: "(trim_space s = []) = list_all is_space s"
proof -
  have "(rev (dropWhile is_space (rev ys)) = []) = list_all is_space ys" for ys
    by (induction ys rule: rev_induct) (auto simp: list_all_iff)
  then show ?thesis
    by (simp add: trim_space_def list_all_dropWhile)
qed

section \<open>Decimal rendering\<close>

text \<open>The decimal digits of a natural number, as \<open>strconv.Itoa\<close> prints it.\<close>

fun decimal :: "nat \<Rightarrow> string" where
  "decimal n = (if n < 10 then [char_of (48 + n)] else decimal (n div 10) @ [char_of (48 + n mod 10)])"

declare decimal.simps [simp del]

end
