(* ===== verification/Store.thy ===== *)
theory Store
  imports Prelude
begin

text \<open>
  The data model of \<open>internal/repository/types.go\<close> and the relational store the
  repositories talk to. The store is a record of its four tables (teams, users,
  pull_requests, pull_request_reviewers) and the serial counter of \<open>teams.id\<close>;
  the status table \<open>pr_statuses\<close> is fixed. Repository errors of \<open>types.go\<close> are
  the constructors of \<open>error\<close>, and a raw PostgreSQL error is \<open>ErrDb\<close> with its
  SQLSTATE code. \<open>TxManager.WithinTx\<close> of \<open>tx.go\<close> is modelled here as well.
\<close>

section \<open>Rows and Go structs\<close>

text \<open>\<open>repository.Team\<close>: a row of the teams table.\<close>

record team =
  team_row_id :: team_id
  team_row_name :: string

text \<open>A row of the users table (columns user_id, username, team_id, is_active).\<close>

record user_row =
  row_user_id :: uid
  row_username :: string
  row_team_id :: team_id
  row_is_active :: bool

text \<open>\<open>repository.User\<close>: a user joined with the name of its team.\<close>

record user =
  user_id :: uid
  username :: string
  user_team_id :: team_id
  user_team_name :: string
  is_active :: bool

text \<open>A row of the pull_requests table.\<close>

record pr_row =
  pr_row_id :: pid
  pr_row_name :: string
  pr_row_author :: uid
  pr_row_status :: int
  pr_row_created :: timestamp
  pr_row_merged :: "timestamp option"
  pr_row_need_more :: bool

text \<open>\<open>repository.PullRequest\<close>: a pull request joined with its status name.\<close>

record pull_request =
  pr_id :: pid
  pr_name :: string
  pr_author :: uid
  pr_status_id :: int
  pr_status_name :: string
  pr_created_at :: timestamp
  pr_merged_at :: "timestamp option"

text \<open>\<open>repository.PullRequestShort\<close>.\<close>

record pull_request_short =
  short_id :: pid
  short_name :: string
  short_author :: uid
  short_status_name :: string

text \<open>\<open>repository.ReviewerStatRow\<close>.\<close>

record reviewer_stat_row =
  stat_user_id :: uid
  stat_username :: string
  stat_count :: nat

text \<open>The constants \<open>StatusOpen\<close> and \<open>StatusMerged\<close> of \<open>types.go\<close>.\<close>

abbreviation StatusOpen :: int where "StatusOpen \<equiv> 1"
abbreviation StatusMerged :: int where "StatusMerged \<equiv> 2"

text \<open>
  The contents of the \<open>pr_statuses\<close> table, which the repository joins to read a
  status name (\<open>s.name\<close>). The schema is not part of the sources; the names are the
  ones the services compare against (\<open>"OPEN"\<close>, \<open>"MERGED"\<close>).
\<close>

definition pr_statuses :: "(int \<times> string) list" where
  "pr_statuses = [(StatusOpen, ''OPEN''), (StatusMerged, ''MERGED'')]"

section \<open>Errors\<close>

text \<open>
  The sentinel errors of \<open>types.go\<close>, compared with \<open>errors.Is\<close> by identity, so
  \<open>ErrTeamNotFound\<close>, \<open>ErrUserNotFound\<close> and \<open>ErrPRNotFound\<close> are distinct even
  though their messages agree; \<open>ErrDb code\<close> is an unrecognised driver error.
\<close>

datatype error =
    ErrTeamExists
  | ErrTeamNotFound
  | ErrUserNotFound
  | ErrPRNotFound
  | ErrNoCandidate
  | ErrReviewerNotSet
  | ErrPRMerged
  | ErrPRExists
  | ErrDb string

text \<open>SQLSTATE codes the model produces: unique violation and undefined column.\<close>

abbreviation uniqueViolationErr :: string where "uniqueViolationErr \<equiv> ''23505''"
abbreviation undefinedColumnErr :: string where "undefinedColumnErr \<equiv> ''42703''"

section \<open>The store\<close>

record store =
  teams :: "team list"
  team_seq :: team_id
  users :: "user_row list"
  prs :: "pid \<Rightarrow> pr_row option"
  pr_reviewers :: "(pid \<times> uid) list"

definition empty_store :: store where
  "empty_store = \<lparr>teams = [], team_seq = 0, users = [], prs = Map.empty, pr_reviewers = []\<rparr>"

text \<open>
  A service call that may write before it fails returns the error or its result
  together with the store it leaves behind.
\<close>

type_synonym 'a outcome = "(error + 'a) \<times> store"

section \<open>Randomness\<close>

text \<open>
  The two sources of randomness of the engine, made explicit parameters:
  \<open>order_key\<close> is the key \<open>ORDER BY random()\<close> gives each user row, and
  \<open>intn\<close> is \<open>math/rand.Intn\<close>. \<open>rng_ok\<close> is the contract of \<open>rand.Intn\<close>:
  for \<open>n > 0\<close> the result lies in \<open>[0, n)\<close>.
\<close>

record rng =
  order_key :: "uid \<Rightarrow> nat"
  intn :: "nat \<Rightarrow> nat"

definition rng_ok :: "rng \<Rightarrow> bool" where
  "rng_ok g \<longleftrightarrow> (\<forall>n. 0 < n \<longrightarrow> intn g n < n)"

definition default_rng :: rng where
  "default_rng = \<lparr>order_key = (\<lambda>_. 0), intn = (\<lambda>_. 0)\<rparr>"

lemma rng_ok_default_rng [simp]: "rng_ok default_rng"
  by (simp add: rng_ok_def default_rng_def)

section \<open>Transactions\<close>

text \<open>
  \<open>PgTxManager.WithinTx\<close> begins a transaction, stores it in the context under
  \<open>txKey\<close> and commits when the callback succeeds, rolls back otherwise. The
  repositories, however, execute every statement on the pool \<open>r.db\<close>: the helper
  \<open>currentDB\<close>, which would pick the transaction out of the context, is never
  called. Each statement of the callback therefore commits on its own, and the
  rollback finds an empty transaction. The model is the callback run on the store.
\<close>

definition within_tx :: "(store \<Rightarrow> 'a outcome) \<Rightarrow> store \<Rightarrow> 'a outcome" where
  "within_tx fn s = (case fn s of (Inl e, s') \<Rightarrow> (Inl e, s') | (Inr a, s') \<Rightarrow> (Inr a, s'))"

text \<open>
  The rollback the callback would get if the repositories used the transaction:
  on error the store is the one before the call.
\<close>

definition within_tx_atomic :: "(store \<Rightarrow> 'a outcome) \<Rightarrow> store \<Rightarrow> 'a outcome" where
  "within_tx_atomic fn s = (case fn s of (Inl e, _) \<Rightarrow> (Inl e, s) | (Inr a, s') \<Rightarrow> (Inr a, s'))"

lemma within_tx_eq: "within_tx fn s = fn s"
  by (simp add: within_tx_def split: prod.splits sum.splits)

lemma within_tx_atomic_error:
  "fst (within_tx_atomic fn s) = Inl e \<Longrightarrow> snd (within_tx_atomic fn s) = s"
  by (simp add: within_tx_atomic_def split: prod.splits sum.splits)

end
