(* ===== verification/PrRepo.thy ===== *)
theory PrRepo
  imports Store
begin

text \<open>
  \<open>PgPrRepo\<close> of \<open>internal/repository/pr_repo.go\<close>: the statements on the
  pull_requests and pull_request_reviewers tables. Reads are functions of the store,
  writes return the new store or the error the statement raises. The unique
  constraints the store enforces are the primary key of pull_requests and the key
  \<open>(pull_request_id, reviewer_id)\<close> named by \<open>ON CONFLICT\<close> in \<open>AddReviewers\<close>.
\<close>

section \<open>Reading\<close>

text \<open>\<open>Exists\<close>: \<open>SELECT EXISTS (\<dots> WHERE pull_request_id = $1)\<close>.\<close>

definition pr_exists :: "store \<Rightarrow> pid \<Rightarrow> bool" where
  "pr_exists s p \<longleftrightarrow> prs s p \<noteq> None"

text \<open>The reviewer ids of one pull request, in table order (the query has no ORDER BY).\<close>

definition reviewers_of :: "store \<Rightarrow> pid \<Rightarrow> uid list" where
  "reviewers_of s p = map snd (filter (\<lambda>r. fst r = p) (pr_reviewers s))"

text \<open>The pull request of a row joined with its status name.\<close>

definition pr_of_row :: "pr_row \<Rightarrow> string \<Rightarrow> pull_request" where
  "pr_of_row r nm =
     \<lparr>pr_id = pr_row_id r, pr_name = pr_row_name r, pr_author = pr_row_author r,
      pr_status_id = pr_row_status r, pr_status_name = nm,
      pr_created_at = pr_row_created r, pr_merged_at = pr_row_merged r\<rparr>"

text \<open>
  \<open>GetWithReviewers\<close>: the pull request joined with \<open>pr_statuses\<close> (no row:
  \<open>ErrPRNotFound\<close>), then its reviewers.
\<close>

definition get_with_reviewers :: "store \<Rightarrow> pid \<Rightarrow> error + (pull_request \<times> uid list)" where
  "get_with_reviewers s p =
     (case prs s p of
        None \<Rightarrow> Inl ErrPRNotFound
      | Some r \<Rightarrow>
          (case map_of pr_statuses (pr_row_status r) of
             None \<Rightarrow> Inl ErrPRNotFound
           | Some nm \<Rightarrow> Inr (pr_of_row r nm, reviewers_of s p)))"

section \<open>Writing\<close>

text \<open>\<open>Insert\<close>: one row, \<open>need_more_reviewers = false\<close>; a taken id violates the key.\<close>

definition pr_insert :: "pull_request \<Rightarrow> store \<Rightarrow> error + store" where
  "pr_insert pr s =
     (if prs s (pr_id pr) \<noteq> None then Inl (ErrDb uniqueViolationErr)
      else Inr (s\<lparr>prs := (prs s)(pr_id pr \<mapsto>
        \<lparr>pr_row_id = pr_id pr, pr_row_name = pr_name pr, pr_row_author = pr_author pr,
         pr_row_status = pr_status_id pr, pr_row_created = pr_created_at pr,
         pr_row_merged = pr_merged_at pr, pr_row_need_more = False\<rparr>)\<rparr>))"

text \<open>
  \<open>AddReviewers\<close>: one \<open>INSERT \<dots> ON CONFLICT DO NOTHING\<close> per id, in order; an
  empty list returns at once. A row already present is skipped.
\<close>

fun add_reviewer_rows :: "pid \<Rightarrow> uid list \<Rightarrow> (pid \<times> uid) list \<Rightarrow> (pid \<times> uid) list" where
  "add_reviewer_rows p [] rows = rows"
| "add_reviewer_rows p (r # rs) rows =
     add_reviewer_rows p rs (if (p, r) \<in> set rows then rows else rows @ [(p, r)])"

definition add_reviewers :: "pid \<Rightarrow> uid list \<Rightarrow> store \<Rightarrow> store" where
  "add_reviewers p ids s =
     (if ids = [] then s else s\<lparr>pr_reviewers := add_reviewer_rows p ids (pr_reviewers s)\<rparr>)"

text \<open>
  \<open>SetMerged\<close>: \<open>SET status_id = merged, merged_at = COALESCE(merged_at, $2)\<close>
  \<open>RETURNING \<dots>\<close>, then the status name. No row: \<open>ErrPRNotFound\<close>.
\<close>

definition set_merged :: "pid \<Rightarrow> timestamp \<Rightarrow> store \<Rightarrow> error + (pull_request \<times> store)" where
  "set_merged p now s =
     (case prs s p of
        None \<Rightarrow> Inl ErrPRNotFound
      | Some r \<Rightarrow>
          (let r' = r\<lparr>pr_row_status := StatusMerged,
                      pr_row_merged := (case pr_row_merged r of None \<Rightarrow> Some now | Some t \<Rightarrow> Some t)\<rparr>;
               s' = s\<lparr>prs := (prs s)(p \<mapsto> r')\<rparr>
           in case map_of pr_statuses (pr_row_status r') of
                None \<Rightarrow> Inl (ErrDb ''no rows'')
              | Some nm \<Rightarrow> Inr (pr_of_row r' nm, s')))"

text \<open>
  \<open>ReplaceReviewer\<close>: \<open>UPDATE pull_request_reviewers SET reviewer_id = $3
  WHERE pull_request_id = $1 AND reviewer_id = $2\<close>. No affected row:
  \<open>ErrReviewerNotSet\<close>; an update that would duplicate a key: unique violation.
\<close>

definition replace_reviewer :: "pid \<Rightarrow> uid \<Rightarrow> uid \<Rightarrow> store \<Rightarrow> error + store" where
  "replace_reviewer p old new s =
     (let rows' = replace_all (p, old) (p, new) (pr_reviewers s)
      in if (p, old) \<notin> set (pr_reviewers s) then Inl ErrReviewerNotSet
         else if \<not> distinct rows' then Inl (ErrDb uniqueViolationErr)
         else Inr (s\<lparr>pr_reviewers := rows'\<rparr>))"

section \<open>Lemmas on the reviewer table\<close>

lemma reviewers_of_prs_update [simp]:
  "reviewers_of (s\<lparr>prs := m\<rparr>) p = reviewers_of s p"
  by (simp add: reviewers_of_def)

lemma set_reviewers_of: "set (reviewers_of s p) = {r. (p, r) \<in> set (pr_reviewers s)}"
  by (force simp: reviewers_of_def)

lemma distinct_reviewers_of:
  "distinct (pr_reviewers s) \<Longrightarrow> distinct (reviewers_of s p)"
  by (auto simp: reviewers_of_def distinct_map intro: inj_onI)

lemma add_reviewer_rows_other:
  "q \<noteq> p \<Longrightarrow> filter (\<lambda>r. fst r = q) (add_reviewer_rows p ids rows) = filter (\<lambda>r. fst r = q) rows"
  by (induction p ids rows rule: add_reviewer_rows.induct) auto

lemma add_reviewer_rows_fresh:
  "(\<forall>r \<in> set ids. (p, r) \<notin> set rows) \<Longrightarrow> distinct ids \<Longrightarrow>
   add_reviewer_rows p ids rows = rows @ map (Pair p) ids"
proof (induction ids arbitrary: rows)
  case Nil
  then show ?case by simp
next
  case (Cons a ids)
  then have "\<forall>r \<in> set ids. (p, r) \<notin> set (rows @ [(p, a)])" by auto
  with Cons show ?case by simp
qed

lemma set_add_reviewer_rows:
  "set (add_reviewer_rows p ids rows) = set rows \<union> Pair p ` set ids"
  by (induction p ids rows rule: add_reviewer_rows.induct) auto

lemma distinct_add_reviewer_rows:
  "distinct rows \<Longrightarrow> distinct (add_reviewer_rows p ids rows)"
  by (induction p ids rows rule: add_reviewer_rows.induct) auto

lemma reviewers_of_add_reviewers_fresh:
  "reviewers_of s p = [] \<Longrightarrow> distinct ids \<Longrightarrow> reviewers_of (add_reviewers p ids s) p = ids"
proof -
  assume none: "reviewers_of s p = []" and d: "distinct ids"
  from none have "\<forall>r \<in> set ids. (p, r) \<notin> set (pr_reviewers s)"
    by (metis empty_iff empty_set mem_Collect_eq set_reviewers_of)
  then have "add_reviewer_rows p ids (pr_reviewers s) = pr_reviewers s @ map (Pair p) ids"
    using d by (rule add_reviewer_rows_fresh)
  with none show ?thesis
    by (auto simp: add_reviewers_def reviewers_of_def comp_def)
qed

lemma reviewers_of_add_reviewers_other:
  "q \<noteq> p \<Longrightarrow> reviewers_of (add_reviewers p ids s) q = reviewers_of s q"
  by (simp add: add_reviewers_def reviewers_of_def add_reviewer_rows_other)

lemma prs_add_reviewers [simp]: "prs (add_reviewers p ids s) = prs s"
  by (simp add: add_reviewers_def)

lemma users_add_reviewers [simp]: "users (add_reviewers p ids s) = users s"
  by (simp add: add_reviewers_def)

lemma teams_add_reviewers [simp]: "teams (add_reviewers p ids s) = teams s"
  by (simp add: add_reviewers_def)

lemma team_seq_add_reviewers [simp]: "team_seq (add_reviewers p ids s) = team_seq s"
  by (simp add: add_reviewers_def)

lemma replace_reviewer_Inr:
  "replace_reviewer p old new s = Inr s' \<Longrightarrow>
   (p, old) \<in> set (pr_reviewers s) \<and> distinct (replace_all (p, old) (p, new) (pr_reviewers s)) \<and>
   s' = s\<lparr>pr_reviewers := replace_all (p, old) (p, new) (pr_reviewers s)\<rparr>"
  by (auto simp: replace_reviewer_def Let_def split: if_splits)

lemma replace_reviewer_not_set:
  "(p, old) \<notin> set (pr_reviewers s) \<Longrightarrow> replace_reviewer p old new s = Inl ErrReviewerNotSet"
  by (simp add: replace_reviewer_def)

lemma reviewers_of_replace_all:
  "reviewers_of (s\<lparr>pr_reviewers := replace_all (p, old) (p, new) (pr_reviewers s)\<rparr>) q =
   (if q = p then replace_all old new (reviewers_of s p) else reviewers_of s q)"
proof -
  have "map snd (filter (\<lambda>r. fst r = q) (replace_all (p, old) (p, new) xs)) =
        (if q = p then replace_all old new (map snd (filter (\<lambda>r. fst r = p) xs))
         else map snd (filter (\<lambda>r. fst r = q) xs))" for xs :: "(pid \<times> uid) list"
  proof (cases "q = p")
    case True
    then show ?thesis
      unfolding replace_all_def
      by (simp only: if_True filter_map_replace [where P = "\<lambda>r. fst r = p"] fst_conv
                     map_snd_replace_pair [where ys = "filter (\<lambda>r. fst r = p) xs"]) simp
  next
    case False
    then show ?thesis by (simp add: replace_all_def filter_map_replace_out)
  qed
  from this [of "pr_reviewers s"] show ?thesis unfolding reviewers_of_def by simp
qed

lemma get_with_reviewers_rows_update [simp]:
  "get_with_reviewers (s\<lparr>pr_reviewers := rows\<rparr>) p =
   map_sum id (\<lambda>(pr, _). (pr, reviewers_of (s\<lparr>pr_reviewers := rows\<rparr>) p)) (get_with_reviewers s p)"
  by (simp add: get_with_reviewers_def split: option.splits)

lemma get_with_reviewers_Inr:
  "get_with_reviewers s p = Inr (pr, rs) \<Longrightarrow>
   rs = reviewers_of s p \<and>
   (\<exists>r nm. prs s p = Some r \<and> map_of pr_statuses (pr_row_status r) = Some nm \<and> pr = pr_of_row r nm)"
  by (auto simp: get_with_reviewers_def split: option.splits)

lemma replace_reviewer_Inl:
  "replace_reviewer p old new s = Inl e \<Longrightarrow> e = ErrReviewerNotSet \<or> e = ErrDb uniqueViolationErr"
  by (auto simp: replace_reviewer_def Let_def split: if_splits)

end
