(* ===== verification/TeamRepo.thy ===== *)
theory TeamRepo
  imports Store
begin

text \<open>
  \<open>PgTeamRepo\<close> of \<open>internal/repository/team_repo.go\<close>, and the join
  \<open>JOIN teams t ON t.id = u.team_id\<close> the user repository uses to read team names.
\<close>

text \<open>The team name the join finds for a team id (\<open>teams.id\<close> is the key).\<close>

definition team_name_of :: "store \<Rightarrow> team_id \<Rightarrow> string option" where
  "team_name_of s t = map_option team_row_name (find (\<lambda>tm. team_row_id tm = t) (teams s))"

text \<open>
  \<open>Create\<close>: \<open>INSERT INTO teams (team_name) VALUES ($1) RETURNING id, team_name\<close>;
  the serial \<open>id\<close> is the next value of the sequence, a taken name is a unique
  violation, which the repository turns into \<open>ErrTeamExists\<close>.
\<close>

definition team_create :: "string \<Rightarrow> store \<Rightarrow> error + (team \<times> store)" where
  "team_create nm s =
     (if \<exists>t \<in> set (teams s). team_row_name t = nm then Inl ErrTeamExists
      else let t = \<lparr>team_row_id = team_seq s + 1, team_row_name = nm\<rparr>
           in Inr (t, s\<lparr>teams := teams s @ [t], team_seq := team_seq s + 1\<rparr>))"

text \<open>
  \<open>GetByName\<close> runs \<open>SELECT id, team_name FROM teams WHERE name = "$1"\<close>. In SQL
  double quotes delimit an identifier, so \<open>"$1"\<close> is a column reference and not the
  parameter; neither \<open>name\<close> nor \<open>$1\<close> is a column of teams. PostgreSQL rejects
  the statement with SQLSTATE 42703 (undefined column) whatever the argument, and
  the repository returns that error as it is.
\<close>

definition team_get_by_name :: "store \<Rightarrow> string \<Rightarrow> error + team" where
  "team_get_by_name s nm = Inl (ErrDb undefinedColumnErr)"

lemma team_name_of_append:
  "team_name_of (s\<lparr>teams := teams s @ [t], team_seq := q\<rparr>) x =
     (case team_name_of s x of
        None \<Rightarrow> (if team_row_id t = x then Some (team_row_name t) else None)
      | Some n \<Rightarrow> Some n)"
  by (simp add: team_name_of_def find_append_single split: option.splits)

end
