(* ===== verification/UserRepo.thy ===== *)
theory UserRepo
  imports TeamRepo
begin

text \<open>
  \<open>PgUserRepo\<close> of \<open>internal/repository/user_repo.go\<close>: reading a user with its
  team name, switching the activity flag, the pull requests a user reviews, the
  random candidate query of the assignment engine, and the upsert of team members.
  \<open>ListByTeam\<close> and \<open>GetReviewerStats\<close>, which the services call, have no
  PostgreSQL implementation in the sources; they are modelled from the
  specification at the end.
\<close>

section \<open>Users joined with their team\<close>

definition user_of_row :: "user_row \<Rightarrow> string \<Rightarrow> user" where
  "user_of_row r n =
     \<lparr>user_id = row_user_id r, username = row_username r, user_team_id = row_team_id r,
      user_team_name = n, is_active = row_is_active r\<rparr>"

text \<open>The rows of \<open>users u JOIN teams t ON t.id = u.team_id\<close>, in table order.\<close>

definition joined_users :: "store \<Rightarrow> user list" where
  "joined_users s =
     concat (map (\<lambda>r. case team_name_of s (row_team_id r) of
                          None \<Rightarrow> [] | Some n \<Rightarrow> [user_of_row r n]) (users s))"

definition find_user_row :: "store \<Rightarrow> uid \<Rightarrow> user_row option" where
  "find_user_row s x = find (\<lambda>u. row_user_id u = x) (users s)"

text \<open>\<open>GetByID\<close>: no joined row is \<open>ErrUserNotFound\<close>.\<close>

definition get_by_id :: "store \<Rightarrow> uid \<Rightarrow> error + user" where
  "get_by_id s x =
     (case find_user_row s x of
        None \<Rightarrow> Inl ErrUserNotFound
      | Some r \<Rightarrow>
          (case team_name_of s (row_team_id r) of
             None \<Rightarrow> Inl ErrUserNotFound
           | Some n \<Rightarrow> Inr (user_of_row r n)))"

text \<open>
  \<open>SetActive\<close>: \<open>UPDATE users u SET is_active = $1 FROM teams t WHERE u.user_id = $2
  AND u.team_id = t.id RETURNING \<dots>\<close>; no row is \<open>ErrUserNotFound\<close>.
\<close>

definition set_active :: "uid \<Rightarrow> bool \<Rightarrow> store \<Rightarrow> error + (user \<times> store)" where
  "set_active x b s =
     (case find_user_row s x of
        None \<Rightarrow> Inl ErrUserNotFound
      | Some r \<Rightarrow>
          (case team_name_of s (row_team_id r) of
             None \<Rightarrow> Inl ErrUserNotFound
           | Some n \<Rightarrow>
               Inr (user_of_row (r\<lparr>row_is_active := b\<rparr>) n,
                    s\<lparr>users := map (\<lambda>u. if row_user_id u = x then u\<lparr>row_is_active := b\<rparr> else u)
                                  (users s)\<rparr>)))"

section \<open>The pull requests a user reviews\<close>

text \<open>
  \<open>GetReviewPrs\<close>: the reviewer rows of the user joined with their pull request and
  its status, \<open>ORDER BY pr.created_at DESC\<close>. The query does not look the user up.
\<close>

definition short_of :: "store \<Rightarrow> pid \<Rightarrow> (timestamp \<times> pull_request_short) list" where
  "short_of s p =
     (case prs s p of
        None \<Rightarrow> []
      | Some r \<Rightarrow>
          (case map_of pr_statuses (pr_row_status r) of
             None \<Rightarrow> []
           | Some nm \<Rightarrow>
               [(pr_row_created r,
                 \<lparr>short_id = pr_row_id r, short_name = pr_row_name r,
                  short_author = pr_row_author r, short_status_name = nm\<rparr>)]))"

definition get_review_prs :: "store \<Rightarrow> uid \<Rightarrow> pull_request_short list" where
  "get_review_prs s x =
     map snd (rev (sort_key fst
       (concat (map (\<lambda>(p, r). short_of s p) (filter (\<lambda>(p, r). r = x) (pr_reviewers s))))))"

section \<open>Candidate selection\<close>

text \<open>
  \<open>FindActiveInTeamExcept\<close>: the joined users of team \<open>t\<close> that are active and are
  not \<open>ex\<close>, \<open>ORDER BY random() LIMIT n\<close>, with \<open>k\<close> the random key of each row.
\<close>

definition eligible :: "store \<Rightarrow> team_id \<Rightarrow> uid \<Rightarrow> user list" where
  "eligible s t ex =
     filter (\<lambda>u. user_team_id u = t \<and> is_active u \<and> user_id u \<noteq> ex) (joined_users s)"

definition find_active_in_team_except ::
  "(uid \<Rightarrow> nat) \<Rightarrow> store \<Rightarrow> team_id \<Rightarrow> uid \<Rightarrow> nat \<Rightarrow> user list" where
  "find_active_in_team_except k s t ex n = take n (sort_key (\<lambda>u. k (user_id u)) (eligible s t ex))"

section \<open>Upserting team members\<close>

text \<open>
  \<open>UpsertTeamMembers\<close>: per member, \<open>INSERT \<dots> ON CONFLICT (user_id) DO UPDATE SET
  username, team_id, is_active\<close>: an existing user is overwritten, team included.
\<close>

definition upsert_user_row :: "user_row \<Rightarrow> user_row list \<Rightarrow> user_row list" where
  "upsert_user_row r rows =
     (if \<exists>u \<in> set rows. row_user_id u = row_user_id r
      then map (\<lambda>u. if row_user_id u = row_user_id r then r else u) rows
      else rows @ [r])"

definition member_row :: "team_id \<Rightarrow> user \<Rightarrow> user_row" where
  "member_row t m =
     \<lparr>row_user_id = user_id m, row_username = username m, row_team_id = t,
      row_is_active = is_active m\<rparr>"

definition upsert_team_members :: "team_id \<Rightarrow> user list \<Rightarrow> store \<Rightarrow> store" where
  "upsert_team_members t ms s =
     s\<lparr>users := fold (\<lambda>m rows. upsert_user_row (member_row t m) rows) ms (users s)\<rparr>"

section \<open>Operations the services call that the repository lacks\<close>

text \<open>\<open>ListByTeam\<close>: the joined users of a team, in table order.\<close>

definition list_by_team :: "store \<Rightarrow> team_id \<Rightarrow> user list" where
  "list_by_team s t = filter (\<lambda>u. user_team_id u = t) (joined_users s)"

text \<open>
  \<open>GetReviewerStats\<close>: one row per user with at least one reviewer row, counting the
  pull requests the user currently reviews (specification, section 4.4).
\<close>

definition get_reviewer_stats :: "store \<Rightarrow> reviewer_stat_row list" where
  "get_reviewer_stats s =
     filter (\<lambda>r. 0 < stat_count r)
       (map (\<lambda>u. \<lparr>stat_user_id = row_user_id u, stat_username = row_username u,
                  stat_count = count_list (map snd (pr_reviewers s)) (row_user_id u)\<rparr>)
            (users s))"

section \<open>Lemmas\<close>

lemma find_user_row_Some:
  "find_user_row s x = Some r \<Longrightarrow> r \<in> set (users s) \<and> row_user_id r = x"
  by (auto simp: find_user_row_def find_Some_iff)

lemma get_by_id_Inr:
  "get_by_id s x = Inr u \<Longrightarrow>
   user_id u = x \<and> (\<exists>r \<in> set (users s). row_user_id r = x \<and> row_team_id r = user_team_id u
                                          \<and> row_is_active r = is_active u)"
  by (auto simp: get_by_id_def user_of_row_def dest!: find_user_row_Some
           split: option.splits)

lemma get_by_id_row:
  "get_by_id s x = Inr u \<Longrightarrow>
   \<exists>r. find_user_row s x = Some r \<and> row_team_id r = user_team_id u \<and> row_is_active r = is_active u"
  by (auto simp: get_by_id_def user_of_row_def split: option.splits)

lemma set_joined_users:
  "u \<in> set (joined_users s) \<longleftrightarrow>
   (\<exists>r \<in> set (users s). \<exists>n. team_name_of s (row_team_id r) = Some n \<and> u = user_of_row r n)"
  by (force simp: joined_users_def split: option.splits)

lemma set_eligible:
  "u \<in> set (eligible s t ex) \<longleftrightarrow>
   u \<in> set (joined_users s) \<and> user_team_id u = t \<and> is_active u \<and> user_id u \<noteq> ex"
  by (auto simp: eligible_def)

lemma find_active_subset:
  "set (find_active_in_team_except k s t ex n) \<subseteq> set (eligible s t ex)"
  by (simp add: find_active_in_team_except_def set_take_sort_key_subset)

lemma find_active_member:
  "u \<in> set (find_active_in_team_except k s t ex n) \<Longrightarrow>
   user_team_id u = t \<and> is_active u \<and> user_id u \<noteq> ex \<and> u \<in> set (joined_users s)"
  using find_active_subset by (fastforce simp: set_eligible)

lemma length_find_active:
  "length (find_active_in_team_except k s t ex n) = min n (length (eligible s t ex))"
  by (simp add: find_active_in_team_except_def length_take_sort_key)

end
