(* ===== verification/StoreInvariant.thy ===== *)
theory StoreInvariant
  imports PrRepo UserRepo
begin

text \<open>
  The well-formedness of the store that every handler keeps: the keys the schema
  declares (team ids, user ids, reviewer rows) are unique, the team sequence is
  ahead of every team id, every reviewer row belongs to an existing pull request
  with at most two reviewers, and a pull request is either open and unmerged or
  merged with a merge time. The lemmas after it are the facts about candidate
  selection that the engine proofs share.
\<close>

definition pr_rows_ok :: "store \<Rightarrow> bool" where
  "pr_rows_ok s \<longleftrightarrow>
     (\<forall>p r. prs s p = Some r \<longrightarrow> pr_row_id r = p \<and>
        (pr_row_status r = StatusOpen \<and> pr_row_merged r = None \<or>
         pr_row_status r = StatusMerged \<and> pr_row_merged r \<noteq> None))"

definition rows_ok :: "store \<Rightarrow> bool" where
  "rows_ok s \<longleftrightarrow>
     distinct (pr_reviewers s) \<and>
     (\<forall>x \<in> set (pr_reviewers s). prs s (fst x) \<noteq> None \<and> length (reviewers_of s (fst x)) \<le> 2)"

definition wf_store :: "store \<Rightarrow> bool" where
  "wf_store s \<longleftrightarrow>
     distinct (map team_row_id (teams s)) \<and> (\<forall>t \<in> set (teams s). team_row_id t \<le> team_seq s) \<and>
     distinct (map row_user_id (users s)) \<and> rows_ok s \<and> pr_rows_ok s"

lemma wf_empty_store: "wf_store empty_store"
  by (simp add: wf_store_def rows_ok_def pr_rows_ok_def empty_store_def)

section \<open>Consequences of the invariant\<close>

lemma wf_reviewers_distinct: "wf_store s \<Longrightarrow> distinct (reviewers_of s p)"
  by (simp add: wf_store_def rows_ok_def distinct_reviewers_of)

lemma wf_reviewers_le_2: "wf_store s \<Longrightarrow> length (reviewers_of s p) \<le> 2"
proof (cases "reviewers_of s p = []")
  case False
  then obtain r where "(p, r) \<in> set (pr_reviewers s)"
    by (metis last_in_set set_reviewers_of mem_Collect_eq)
  moreover assume "wf_store s"
  ultimately show ?thesis by (fastforce simp: wf_store_def rows_ok_def)
qed simp

lemma wf_no_orphan_rows:
  "wf_store s \<Longrightarrow> prs s p = None \<Longrightarrow> reviewers_of s p = []"
  by (force simp: wf_store_def rows_ok_def reviewers_of_def filter_empty_conv)

lemma wf_pr_row:
  "wf_store s \<Longrightarrow> prs s p = Some r \<Longrightarrow> pr_row_id r = p \<and>
     (pr_row_status r = StatusOpen \<and> pr_row_merged r = None \<or>
      pr_row_status r = StatusMerged \<and> pr_row_merged r \<noteq> None)"
  by (simp add: wf_store_def pr_rows_ok_def)

lemma distinct_joined_user_ids:
  "distinct (map row_user_id (users s)) \<Longrightarrow> distinct (map user_id (joined_users s))"
proof -
  have "distinct (map row_user_id rs) \<Longrightarrow>
        distinct (map user_id (concat (map (\<lambda>r. case f r of None \<Rightarrow> [] | Some n \<Rightarrow> [user_of_row r n]) rs)))
        \<and> set (map user_id (concat (map (\<lambda>r. case f r of None \<Rightarrow> [] | Some n \<Rightarrow> [user_of_row r n]) rs)))
            \<subseteq> set (map row_user_id rs)" for rs :: "user_row list" and f
    by (induction rs) (auto simp: user_of_row_def split: option.splits)
  then show "distinct (map row_user_id (users s)) \<Longrightarrow> distinct (map user_id (joined_users s))"
    by (simp add: joined_users_def)
qed

lemma distinct_candidate_ids:
  "wf_store s \<Longrightarrow> distinct (map user_id (find_active_in_team_except k s t ex n))"
proof -
  assume "wf_store s"
  then have "distinct (map user_id (joined_users s))"
    by (simp add: wf_store_def distinct_joined_user_ids)
  then have "distinct (map user_id (eligible s t ex))"
    by (simp add: eligible_def distinct_map_filter)
  then show ?thesis
    unfolding find_active_in_team_except_def
    by (metis distinct_map distinct_take_sort_key inj_on_subset set_take_sort_key_subset)
qed

lemma joined_user_row:
  "wf_store s \<Longrightarrow> u \<in> set (joined_users s) \<Longrightarrow>
   \<exists>r. find_user_row s (user_id u) = Some r \<and> row_team_id r = user_team_id u
       \<and> row_is_active r = is_active u"
proof -
  assume wf: "wf_store s" and u: "u \<in> set (joined_users s)"
  then obtain r n where r: "r \<in> set (users s)" "u = user_of_row r n"
    by (auto simp: set_joined_users)
  from wf have "distinct (map row_user_id (users s))" by (simp add: wf_store_def)
  with r have "find_user_row s (row_user_id r) = Some r"
    by (simp add: find_user_row_def find_distinct_key)
  with r show ?thesis by (simp add: user_of_row_def)
qed

section \<open>Each write keeps the invariant\<close>

lemma rows_okI:
  "distinct (pr_reviewers s) \<Longrightarrow> (\<forall>x \<in> set (pr_reviewers s). prs s (fst x) \<noteq> None) \<Longrightarrow>
   (\<forall>p. length (reviewers_of s p) \<le> 2) \<Longrightarrow> rows_ok s"
  by (simp add: rows_ok_def)

lemma wf_storeI:
  "distinct (map team_row_id (teams s)) \<Longrightarrow> (\<forall>t \<in> set (teams s). team_row_id t \<le> team_seq s) \<Longrightarrow>
   distinct (map row_user_id (users s)) \<Longrightarrow> rows_ok s \<Longrightarrow> pr_rows_ok s \<Longrightarrow> wf_store s"
  by (simp add: wf_store_def)

lemma wf_rows_refer: "wf_store s \<Longrightarrow> x \<in> set (pr_reviewers s) \<Longrightarrow> prs s (fst x) \<noteq> None"
  by (simp add: wf_store_def rows_ok_def)

lemma wf_replace_reviewer:
  assumes wf: "wf_store s" and rr: "replace_reviewer p old new s = Inr s'"
  shows "wf_store s'"
proof -
  from replace_reviewer_Inr [OF rr] have old: "(p, old) \<in> set (pr_reviewers s)"
    and d: "distinct (replace_all (p, old) (p, new) (pr_reviewers s))"
    and s': "s' = s\<lparr>pr_reviewers := replace_all (p, old) (p, new) (pr_reviewers s)\<rparr>" by auto
  have "\<forall>x \<in> set (pr_reviewers s'). prs s' (fst x) \<noteq> None"
    using wf old s' by (auto simp: set_replace_all dest: wf_rows_refer)
  moreover have "\<forall>q. length (reviewers_of s' q) \<le> 2"
    using wf s' by (simp add: reviewers_of_replace_all wf_reviewers_le_2)
  ultimately have "rows_ok s'" using d s' by (simp add: rows_okI)
  with wf s' show ?thesis by (simp add: wf_store_def pr_rows_ok_def)
qed

lemma map_id_upsert_user_row:
  "map row_user_id (upsert_user_row r rows) =
     (if \<exists>u \<in> set rows. row_user_id u = row_user_id r then map row_user_id rows
      else map row_user_id rows @ [row_user_id r])"
  by (auto simp: upsert_user_row_def comp_def intro: map_cong)

lemma distinct_upsert_user_row:
  "distinct (map row_user_id rows) \<Longrightarrow> distinct (map row_user_id (upsert_user_row r rows))"
  by (auto simp: map_id_upsert_user_row image_iff)

lemma distinct_fold_upsert:
  "distinct (map row_user_id rows) \<Longrightarrow>
   distinct (map row_user_id (fold (\<lambda>m rows. upsert_user_row (f m) rows) ms rows))"
  by (induction ms arbitrary: rows) (auto simp: distinct_upsert_user_row)

lemma wf_team_create_upsert:
  assumes wf: "wf_store s" and tc: "team_create nm s = Inr (t, s1)"
  shows "wf_store (upsert_team_members (team_row_id t) ms s1)"
proof -
  from tc have t: "t = \<lparr>team_row_id = team_seq s + 1, team_row_name = nm\<rparr>"
    and s1: "s1 = s\<lparr>teams := teams s @ [t], team_seq := team_seq s + 1\<rparr>"
    by (auto simp: team_create_def Let_def split: if_splits)
  have "\<forall>x \<in> set (teams s). team_row_id x \<le> team_seq s" using wf by (simp add: wf_store_def)
  then have fresh: "team_row_id t \<notin> set (map team_row_id (teams s))" using t by auto
  show ?thesis
    using wf s1 fresh t
    by (auto simp: wf_store_def upsert_team_members_def distinct_fold_upsert rows_ok_def
                   pr_rows_ok_def reviewers_of_def)
qed

lemma wf_set_active:
  assumes wf: "wf_store s" and sa: "set_active x b s = Inr (u, s')"
  shows "wf_store s'"
proof -
  from sa have s': "s' = s\<lparr>users := map (\<lambda>u. if row_user_id u = x then u\<lparr>row_is_active := b\<rparr> else u) (users s)\<rparr>"
    by (auto simp: set_active_def split: option.splits)
  have eq: "row_user_id \<circ> (\<lambda>u. if row_user_id u = x then u\<lparr>row_is_active := b\<rparr> else u) = row_user_id"
    by (rule ext) simp
  from wf s' show ?thesis by (simp add: wf_store_def rows_ok_def pr_rows_ok_def reviewers_of_def eq)
qed

section \<open>Looking users up after a write\<close>

lemma find_user_row_set_active:
  assumes "set_active x b s = Inr (u, s')"
  shows "find_user_row s' y =
           map_option (\<lambda>u. if row_user_id u = x then u\<lparr>row_is_active := b\<rparr> else u) (find_user_row s y)"
  using assms
  by (auto simp: set_active_def find_user_row_def find_map_key split: option.splits)

lemma find_upsert_other:
  "row_user_id r \<noteq> y \<Longrightarrow>
   find (\<lambda>u. row_user_id u = y) (upsert_user_row r rows) = find (\<lambda>u. row_user_id u = y) rows"
  by (cases "find (\<lambda>u. row_user_id u = y) rows")
     (auto simp: upsert_user_row_def find_map_key find_append_single dest: find_Some_iff [THEN iffD1])

lemma find_fold_upsert_other:
  "y \<notin> row_user_id ` f ` set ms \<Longrightarrow>
   find (\<lambda>u. row_user_id u = y) (fold (\<lambda>m rows. upsert_user_row (f m) rows) ms rows) =
   find (\<lambda>u. row_user_id u = y) rows"
  by (induction ms arbitrary: rows) (auto simp: find_upsert_other)

lemma find_upsert_self:
  "find (\<lambda>u. row_user_id u = row_user_id r) (upsert_user_row r rows) = Some r"
proof (cases "find (\<lambda>u. row_user_id u = row_user_id r) rows")
  case None
  then have "\<not> (\<exists>u \<in> set rows. row_user_id u = row_user_id r)" by (simp add: find_None_iff)
  then show ?thesis using None by (simp add: upsert_user_row_def find_append_single)
next
  case (Some u)
  then have u: "u \<in> set rows" "row_user_id u = row_user_id r"
    by (auto simp: find_Some_iff nth_mem)
  have "find (\<lambda>u. row_user_id u = row_user_id r) (map (\<lambda>u. if row_user_id u = row_user_id r then r else u) rows)
        = map_option (\<lambda>u. if row_user_id u = row_user_id r then r else u)
            (find (\<lambda>u. row_user_id u = row_user_id r) rows)"
    by (rule find_map_key) simp
  then show ?thesis using Some u by (auto simp: upsert_user_row_def)
qed

lemma find_fold_upsert_last:
  "y \<in> row_user_id ` f ` set ms \<Longrightarrow>
   find (\<lambda>u. row_user_id u = y) (fold (\<lambda>m rows. upsert_user_row (f m) rows) ms rows) =
   Some (f (last (filter (\<lambda>m. row_user_id (f m) = y) ms)))"
proof (induction ms arbitrary: rows)
  case (Cons m ms)
  show ?case
  proof (cases "y \<in> row_user_id ` f ` set ms")
    case True
    then have "filter (\<lambda>m. row_user_id (f m) = y) ms \<noteq> []" by (auto simp: filter_empty_conv)
    then show ?thesis using Cons.IH [OF True] by simp
  next
    case False
    then have y: "row_user_id (f m) = y" using Cons.prems by auto
    have "filter (\<lambda>m. row_user_id (f m) = y) ms = []" using False by (auto simp: filter_empty_conv)
    then show ?thesis
      using False y find_upsert_self [of "f m" rows] by (simp add: find_fold_upsert_other)
  qed
qed simp

end
