(* ===== verification/Scenarios.thy ===== *)
theory Scenarios
  imports StoreInvariant
begin

text \<open>
  Concrete stores from the scenarios of the specification (section 8), on which the
  witnesses of the engine's theorems evaluate the handlers: team \<open>backend\<close> with
  the author \<open>u1\<close>, the active \<open>u2\<close>, \<open>u3\<close>, \<open>u4\<close> and the inactive \<open>u5\<close>.
\<close>

definition backend_team :: team where
  "backend_team = \<lparr>team_row_id = 1, team_row_name = ''backend''\<rparr>"

definition member :: "uid \<Rightarrow> bool \<Rightarrow> user_row" where
  "member x b = \<lparr>row_user_id = x, row_username = x, row_team_id = 1, row_is_active = b\<rparr>"

definition backend_store :: store where
  "backend_store =
     \<lparr>teams = [backend_team], team_seq = 1,
      users = [member ''u1'' True, member ''u2'' True, member ''u3'' True,
               member ''u4'' True, member ''u5'' False],
      prs = Map.empty, pr_reviewers = []\<rparr>"

text \<open>The open pull request \<open>pr-1\<close> of \<open>u1\<close>, created at time 7.\<close>

definition open_row :: pr_row where
  "open_row = \<lparr>pr_row_id = ''pr-1'', pr_row_name = ''x'', pr_row_author = ''u1'',
               pr_row_status = StatusOpen, pr_row_created = 7, pr_row_merged = None,
               pr_row_need_more = False\<rparr>"

text \<open>\<open>backend_store\<close> after \<open>pr-1\<close> was created with reviewers \<open>u2\<close> and \<open>u3\<close>.\<close>

definition reviewed_store :: store where
  "reviewed_store =
     backend_store\<lparr>prs := [''pr-1'' \<mapsto> open_row],
                   pr_reviewers := [(''pr-1'', ''u2''), (''pr-1'', ''u3'')]\<rparr>"

text \<open>The same pull request merged at time 9.\<close>

definition merged_store :: store where
  "merged_store =
     reviewed_store\<lparr>prs := [''pr-1'' \<mapsto> open_row\<lparr>pr_row_status := StatusMerged,
                                                   pr_row_merged := Some 9\<rparr>]\<rparr>"

text \<open>A team of one: \<open>u1\<close> alone, reviewer of its own pull request \<open>pr-solo\<close>.\<close>

definition solo_store :: store where
  "solo_store =
     \<lparr>teams = [backend_team], team_seq = 1, users = [member ''u1'' True],
      prs = [''pr-solo'' \<mapsto> open_row\<lparr>pr_row_id := ''pr-solo''\<rparr>],
      pr_reviewers = [(''pr-solo'', ''u1'')]\<rparr>"

lemmas scenario_defs =
  backend_team_def member_def backend_store_def open_row_def reviewed_store_def
  merged_store_def solo_store_def

lemma wf_backend_store: "wf_store backend_store"
  by (simp add: wf_store_def rows_ok_def pr_rows_ok_def scenario_defs)

lemma wf_reviewed_store: "wf_store reviewed_store"
  by (simp add: wf_store_def rows_ok_def pr_rows_ok_def reviewers_of_def scenario_defs)

lemma wf_merged_store: "wf_store merged_store"
  by (simp add: wf_store_def rows_ok_def pr_rows_ok_def reviewers_of_def scenario_defs)

lemma wf_solo_store: "wf_store solo_store"
  by (simp add: wf_store_def rows_ok_def pr_rows_ok_def reviewers_of_def scenario_defs)

end
