(* ===== verification/PrService.thy ===== *)
theory PrService
  imports Scenarios
begin

text \<open>
  The review assignment engine, \<open>PRService\<close> of \<open>internal/service/pr_service.go\<close>:
  creating a pull request with up to two random reviewers from the author's team,
  the idempotent merge, and the replacement of one reviewer by a random active
  teammate of the replaced one. Each handler takes the store and returns its
  response or error with the store it leaves; the random draws come from an
  \<open>rng\<close>, the clock from \<open>now\<close>.
\<close>

section \<open>Requests and responses\<close>

text \<open>\<open>dto.CreatePrRequest\<close> and \<open>dto.ReassignPrRequest\<close>.\<close>

record create_pr_request =
  req_pr_id :: pid
  req_pr_name :: string
  req_author_id :: uid

record reassign_pr_request =
  req_reassign_pr :: pid
  req_old_user :: uid

text \<open>\<open>dto.PullRequest\<close>; \<open>CreatedAt\<close> is a pointer, always set by \<open>PrToDTO\<close>.\<close>

record pr_dto =
  dto_pr_id :: pid
  dto_pr_name :: string
  dto_author :: uid
  dto_status :: string
  dto_reviewers :: "uid list"
  dto_created_at :: "timestamp option"
  dto_merged_at :: "timestamp option"

text \<open>\<open>PrToDTO\<close>: the status id read as \<open>OPEN\<close>, \<open>MERGED\<close> or \<open>UNKNOWN\<close>.\<close>

definition status_dto :: "int \<Rightarrow> string" where
  "status_dto i =
     (if i = StatusOpen then ''OPEN'' else if i = StatusMerged then ''MERGED'' else ''UNKNOWN'')"

definition pr_to_dto :: "pull_request \<Rightarrow> uid list \<Rightarrow> pr_dto" where
  "pr_to_dto pr rs =
     \<lparr>dto_pr_id = pr_id pr, dto_pr_name = pr_name pr, dto_author = pr_author pr,
      dto_status = status_dto (pr_status_id pr), dto_reviewers = rs,
      dto_created_at = Some (pr_created_at pr), dto_merged_at = pr_merged_at pr\<rparr>"

text \<open>The closing read of every handler: \<open>GetWithReviewers\<close> turned into a response.\<close>

definition reread :: "pid \<Rightarrow> store \<Rightarrow> pr_dto outcome" where
  "reread p s =
     (case get_with_reviewers s p of
        Inl e \<Rightarrow> (Inl e, s)
      | Inr (pr, rs) \<Rightarrow> (Inr (pr_to_dto pr rs), s))"

lemma snd_reread [simp]: "snd (reread p s) = s"
  by (simp add: reread_def split: sum.splits prod.splits)

section \<open>Create\<close>

text \<open>The statements \<open>Create\<close> runs inside \<open>WithinTx\<close>: insert the row, add the reviewers.\<close>

definition create_tx_body :: "pull_request \<Rightarrow> uid list \<Rightarrow> store \<Rightarrow> unit outcome" where
  "create_tx_body pr ids s =
     (case pr_insert pr s of
        Inl e \<Rightarrow> (Inl e, s)
      | Inr s1 \<Rightarrow> (Inr (), add_reviewers (pr_id pr) ids s1))"

text \<open>
  \<open>Create\<close>: an existing id returns \<open>repository.ErrTeamExists\<close> (sic); an unknown
  author the error of \<open>GetByID\<close>; otherwise up to two candidates are drawn from the
  author's team (active, not the author), the open pull request is inserted with them
  and read back.
\<close>

definition pr_create :: "rng \<Rightarrow> timestamp \<Rightarrow> create_pr_request \<Rightarrow> store \<Rightarrow> pr_dto outcome" where
  "pr_create g now req s =
     (if pr_exists s (req_pr_id req) then (Inl ErrTeamExists, s)
      else case get_by_id s (req_author_id req) of
        Inl e \<Rightarrow> (Inl e, s)
      | Inr author \<Rightarrow>
          (let candidates = find_active_in_team_except (order_key g) s
                              (user_team_id author) (user_id author) 2;
               reviewer_ids = map user_id candidates;
               pr = \<lparr>pr_id = req_pr_id req, pr_name = req_pr_name req,
                     pr_author = req_author_id req, pr_status_id = StatusOpen,
                     pr_status_name = [], pr_created_at = now, pr_merged_at = None\<rparr>
           in case within_tx (create_tx_body pr reviewer_ids) s of
                (Inl e, s') \<Rightarrow> (Inl e, s')
              | (Inr _, s') \<Rightarrow> reread (pr_id pr) s'))"

section \<open>Merge\<close>

text \<open>
  \<open>Merge\<close>: \<open>SetMerged\<close>, then the reviewers; the response carries the row that
  \<open>SetMerged\<close> returned.
\<close>

definition pr_merge :: "timestamp \<Rightarrow> pid \<Rightarrow> store \<Rightarrow> pr_dto outcome" where
  "pr_merge now p s =
     (case set_merged p now s of
        Inl e \<Rightarrow> (Inl e, s)
      | Inr (pr, s') \<Rightarrow>
          (case get_with_reviewers s' p of
             Inl e \<Rightarrow> (Inl e, s')
           | Inr (_, rs) \<Rightarrow> (Inr (pr_to_dto pr rs), s')))"

section \<open>Reassign\<close>

text \<open>
  The replacement pool of \<open>Reassign\<close>: the ids of up to 20 random active teammates of
  the old reviewer (not the old reviewer), without the current reviewers.
\<close>

definition reassign_pool :: "rng \<Rightarrow> store \<Rightarrow> user \<Rightarrow> uid list \<Rightarrow> uid list" where
  "reassign_pool g s old_user reviewers =
     filter (\<lambda>c. c \<notin> set reviewers)
       (map user_id (find_active_in_team_except (order_key g) s
                       (user_team_id old_user) (user_id old_user) 20))"

text \<open>
  \<open>Reassign\<close>: the checks in the code's order (pull request, not merged, old user
  assigned, old user readable, a candidate left), then \<open>possible[rand.Intn(n)]\<close>
  replaces the old reviewer and the pull request is read back with the new id.
\<close>

definition pr_reassign ::
  "rng \<Rightarrow> reassign_pr_request \<Rightarrow> store \<Rightarrow> (pr_dto \<times> uid) outcome" where
  "pr_reassign g req s =
     (let p = req_reassign_pr req; old = req_old_user req in
      case get_with_reviewers s p of
        Inl e \<Rightarrow> (Inl e, s)
      | Inr (pr, reviewers) \<Rightarrow>
          if pr_status_id pr = StatusMerged then (Inl ErrPRMerged, s)
          else if old \<notin> set reviewers then (Inl ErrReviewerNotSet, s)
          else case get_by_id s old of
            Inl e \<Rightarrow> (Inl e, s)
          | Inr old_user \<Rightarrow>
              (let possible = reassign_pool g s old_user reviewers in
               if possible = [] then (Inl ErrNoCandidate, s)
               else
                 let new = possible ! intn g (length possible) in
                 case replace_reviewer p old new s of
                   Inl e \<Rightarrow> (Inl e, s)
                 | Inr s' \<Rightarrow>
                     (case get_with_reviewers s' p of
                        Inl e \<Rightarrow> (Inl e, s')
                      | Inr (pr', rs') \<Rightarrow> (Inr (pr_to_dto pr' rs', new), s'))))"

section \<open>Evaluation\<close>

text \<open>The unfolding rules that evaluate the handlers on a concrete store.\<close>

declare
  pr_exists_def [store_simps] get_by_id_def [store_simps] find_user_row_def [store_simps]
  team_name_of_def [store_simps] user_of_row_def [store_simps]
  find_active_in_team_except_def [store_simps] eligible_def [store_simps]
  joined_users_def [store_simps] default_rng_def [store_simps] within_tx_eq [store_simps]
  pr_insert_def [store_simps] add_reviewers_def [store_simps]
  get_with_reviewers_def [store_simps] pr_statuses_def [store_simps]
  reviewers_of_def [store_simps] pr_of_row_def [store_simps] pr_to_dto_def [store_simps]
  status_dto_def [store_simps] set_merged_def [store_simps]
  replace_reviewer_def [store_simps] replace_all_def [store_simps]
  reassign_pool_def [store_simps] reread_def [store_simps] create_tx_body_def [store_simps]

text \<open>The request of the scenario: \<open>u1\<close> opens \<open>pr-1\<close>.\<close>

definition ex_create :: create_pr_request where
  "ex_create = \<lparr>req_pr_id = ''pr-1'', req_pr_name = ''x'', req_author_id = ''u1''\<rparr>"

definition ex_created_dto :: pr_dto where
  "ex_created_dto =
     \<lparr>dto_pr_id = ''pr-1'', dto_pr_name = ''x'', dto_author = ''u1'', dto_status = ''OPEN'',
      dto_reviewers = [''u2'', ''u3''], dto_created_at = Some 7, dto_merged_at = None\<rparr>"

lemma ex_create_run:
  "pr_create default_rng 7 ex_create backend_store = (Inr ex_created_dto, reviewed_store)"
  by (simp add: pr_create_def ex_create_def ex_created_dto_def store_simps scenario_defs Let_def)

text \<open>
  Reassigning \<open>u2\<close> on \<open>pr-1\<close>; \<open>last_rng\<close> makes \<open>rand.Intn(n)\<close> return
  \<open>n - 1\<close>.
\<close>

definition ex_reassign :: reassign_pr_request where
  "ex_reassign = \<lparr>req_reassign_pr = ''pr-1'', req_old_user = ''u2''\<rparr>"

definition last_rng :: rng where
  "last_rng = \<lparr>order_key = (\<lambda>_. 0), intn = (\<lambda>n. n - 1)\<rparr>"

lemma rng_ok_last_rng: "rng_ok last_rng"
  by (simp add: rng_ok_def last_rng_def)

lemma ex_reassign_run:
  "pr_reassign last_rng ex_reassign reviewed_store =
     (Inr (ex_created_dto\<lparr>dto_reviewers := [''u4'', ''u3'']\<rparr>, ''u4''),
      reviewed_store\<lparr>pr_reviewers := [(''pr-1'', ''u4''), (''pr-1'', ''u3'')]\<rparr>)"
  by (simp add: pr_reassign_def ex_reassign_def ex_created_dto_def last_rng_def store_simps
                scenario_defs Let_def)

definition ex_solo_reassign :: reassign_pr_request where
  "ex_solo_reassign = \<lparr>req_reassign_pr = ''pr-solo'', req_old_user = ''u1''\<rparr>"

lemma ex_solo_reassign_run:
  "pr_reassign default_rng ex_solo_reassign solo_store = (Inl ErrNoCandidate, solo_store)"
  by (simp add: pr_reassign_def ex_solo_reassign_def store_simps scenario_defs Let_def)

section \<open>Create: behaviour\<close>

lemma pr_create_existing:
  "pr_exists s (req_pr_id req) \<Longrightarrow> pr_create g now req s = (Inl ErrTeamExists, s)"
  by (simp add: pr_create_def)

lemma pr_create_author_error:
  "\<not> pr_exists s (req_pr_id req) \<Longrightarrow> get_by_id s (req_author_id req) = Inl e \<Longrightarrow>
   pr_create g now req s = (Inl e, s)"
  by (simp add: pr_create_def)

text \<open>The row \<open>Create\<close> inserts.\<close>

lemma pr_create_success:
  assumes "pr_create g now req s = (Inr d, s')"
  obtains author where "prs s (req_pr_id req) = None"
    and "get_by_id s (req_author_id req) = Inr author"
    and "s' = add_reviewers (req_pr_id req)
                (map user_id (find_active_in_team_except (order_key g) s (user_team_id author)
                                (user_id author) 2))
                (s\<lparr>prs := (prs s)(req_pr_id req \<mapsto>
                   \<lparr>pr_row_id = req_pr_id req, pr_row_name = req_pr_name req,
                    pr_row_author = req_author_id req, pr_row_status = StatusOpen,
                    pr_row_created = now, pr_row_merged = None, pr_row_need_more = False\<rparr>)\<rparr>)"
    and "reread (req_pr_id req) s' = (Inr d, s')"
proof -
  have ne: "\<not> pr_exists s (req_pr_id req)"
    using assms by (auto simp: pr_create_def)
  then obtain author where au: "get_by_id s (req_author_id req) = Inr author"
    using assms by (cases "get_by_id s (req_author_id req)") (auto simp: pr_create_def)
  define S where "S = add_reviewers (req_pr_id req)
                (map user_id (find_active_in_team_except (order_key g) s (user_team_id author)
                                (user_id author) 2))
                (s\<lparr>prs := (prs s)(req_pr_id req \<mapsto>
                   \<lparr>pr_row_id = req_pr_id req, pr_row_name = req_pr_name req,
                    pr_row_author = req_author_id req, pr_row_status = StatusOpen,
                    pr_row_created = now, pr_row_merged = None, pr_row_need_more = False\<rparr>)\<rparr>)"
  have none: "prs s (req_pr_id req) = None" using ne by (simp add: pr_exists_def)
  have "pr_create g now req s = reread (req_pr_id req) S"
    using ne au none
    by (simp add: pr_create_def within_tx_eq create_tx_body_def pr_insert_def S_def Let_def)
  with assms have r: "reread (req_pr_id req) S = (Inr d, s')" by simp
  then have "s' = S" by (metis snd_reread snd_conv)
  with r show ?thesis using that [OF none au] by (simp add: S_def)
qed

lemma pr_create_result:
  assumes wf: "wf_store s" and ok: "pr_create g now req s = (Inr d, s')"
  obtains author where "get_by_id s (req_author_id req) = Inr author"
    and "user_id author = req_author_id req"
    and "reviewers_of s' (req_pr_id req) =
           map user_id (find_active_in_team_except (order_key g) s (user_team_id author)
                          (req_author_id req) 2)"
    and "d = pr_to_dto
               \<lparr>pr_id = req_pr_id req, pr_name = req_pr_name req, pr_author = req_author_id req,
                pr_status_id = StatusOpen, pr_status_name = ''OPEN'', pr_created_at = now,
                pr_merged_at = None\<rparr>
               (reviewers_of s' (req_pr_id req))"
proof -
  obtain author where none: "prs s (req_pr_id req) = None"
    and au: "get_by_id s (req_author_id req) = Inr author"
    and s': "s' = add_reviewers (req_pr_id req)
                (map user_id (find_active_in_team_except (order_key g) s (user_team_id author)
                                (user_id author) 2))
                (s\<lparr>prs := (prs s)(req_pr_id req \<mapsto>
                   \<lparr>pr_row_id = req_pr_id req, pr_row_name = req_pr_name req,
                    pr_row_author = req_author_id req, pr_row_status = StatusOpen,
                    pr_row_created = now, pr_row_merged = None, pr_row_need_more = False\<rparr>)\<rparr>)"
    and rr: "reread (req_pr_id req) s' = (Inr d, s')"
    using ok by (rule pr_create_success)
  have uid: "user_id author = req_author_id req" using au by (simp add: get_by_id_Inr)
  have "reviewers_of s (req_pr_id req) = []" using wf none by (rule wf_no_orphan_rows)
  then have revs: "reviewers_of s' (req_pr_id req) =
           map user_id (find_active_in_team_except (order_key g) s (user_team_id author)
                          (req_author_id req) 2)"
    using s' uid by (simp add: reviewers_of_add_reviewers_fresh distinct_candidate_ids [OF wf])
  from rr s' have "d = pr_to_dto
               \<lparr>pr_id = req_pr_id req, pr_name = req_pr_name req, pr_author = req_author_id req,
                pr_status_id = StatusOpen, pr_status_name = ''OPEN'', pr_created_at = now,
                pr_merged_at = None\<rparr>
               (reviewers_of s' (req_pr_id req))"
    by (simp add: reread_def get_with_reviewers_def pr_statuses_def pr_of_row_def)
  with au uid revs show ?thesis by (rule that)
qed

text \<open>
  C1. A successful \<open>Create\<close> answers with the open, unmerged pull request it was asked
  for, created now, whose reviewers are exactly the candidates drawn from the author's
  team, and the store holds the same reviewers for it.
\<close>

theorem pr_create_response:
  assumes "wf_store s" and "pr_create g now req s = (Inr d, s')"
  shows "\<exists>author. get_by_id s (req_author_id req) = Inr author \<and>
           dto_reviewers d = map user_id (find_active_in_team_except (order_key g) s
                                            (user_team_id author) (req_author_id req) 2) \<and>
           reviewers_of s' (req_pr_id req) = dto_reviewers d \<and>
           dto_pr_id d = req_pr_id req \<and> dto_author d = req_author_id req \<and>
           dto_status d = ''OPEN'' \<and> dto_created_at d = Some now \<and> dto_merged_at d = None"
proof -
  obtain author where "get_by_id s (req_author_id req) = Inr author"
    and "reviewers_of s' (req_pr_id req) =
           map user_id (find_active_in_team_except (order_key g) s (user_team_id author)
                          (req_author_id req) 2)"
    and "d = pr_to_dto
               \<lparr>pr_id = req_pr_id req, pr_name = req_pr_name req, pr_author = req_author_id req,
                pr_status_id = StatusOpen, pr_status_name = ''OPEN'', pr_created_at = now,
                pr_merged_at = None\<rparr>
               (reviewers_of s' (req_pr_id req))"
    using assms by (rule pr_create_result)
  then show ?thesis by (auto simp: pr_to_dto_def status_dto_def)
qed

theorem pr_create_response_witness:
  "wf_store backend_store \<and>
   pr_create default_rng 7 ex_create backend_store = (Inr ex_created_dto, reviewed_store) \<and>
   (\<exists>author. get_by_id backend_store (req_author_id ex_create) = Inr author \<and>
      dto_reviewers ex_created_dto =
        map user_id (find_active_in_team_except (order_key default_rng) backend_store
                       (user_team_id author) (req_author_id ex_create) 2) \<and>
      reviewers_of reviewed_store (req_pr_id ex_create) = dto_reviewers ex_created_dto \<and>
      dto_pr_id ex_created_dto = req_pr_id ex_create \<and> dto_author ex_created_dto = req_author_id ex_create \<and>
      dto_status ex_created_dto = ''OPEN'' \<and> dto_created_at ex_created_dto = Some 7 \<and>
      dto_merged_at ex_created_dto = None)"
  using pr_create_response [OF wf_backend_store ex_create_run] wf_backend_store ex_create_run
  by blast

text \<open>
  C2. The reviewers \<open>Create\<close> assigns are pairwise distinct, never the author, each an
  active member of the author's team, and there are as many as the team allows up to
  two: \<open>min 2\<close> of the number of eligible teammates.
\<close>

theorem pr_create_reviewer_rules:
  assumes "wf_store s" and "pr_create g now req s = (Inr d, s')"
  shows "distinct (dto_reviewers d) \<and> req_author_id req \<notin> set (dto_reviewers d) \<and>
         (\<exists>ar. find_user_row s (req_author_id req) = Some ar \<and>
            (\<forall>r \<in> set (dto_reviewers d). \<exists>rr. find_user_row s r = Some rr \<and>
                 row_is_active rr \<and> row_team_id rr = row_team_id ar) \<and>
            length (dto_reviewers d) =
              min 2 (length (eligible s (row_team_id ar) (req_author_id req))))"
proof -
  obtain author where au: "get_by_id s (req_author_id req) = Inr author"
    and "reviewers_of s' (req_pr_id req) =
           map user_id (find_active_in_team_except (order_key g) s (user_team_id author)
                          (req_author_id req) 2)"
    and "d = pr_to_dto
               \<lparr>pr_id = req_pr_id req, pr_name = req_pr_name req, pr_author = req_author_id req,
                pr_status_id = StatusOpen, pr_status_name = ''OPEN'', pr_created_at = now,
                pr_merged_at = None\<rparr>
               (reviewers_of s' (req_pr_id req))"
    using assms by (rule pr_create_result)
  then have d: "dto_reviewers d = map user_id (find_active_in_team_except (order_key g) s
                                   (user_team_id author) (req_author_id req) 2)"
    by (simp add: pr_to_dto_def)
  obtain ar where ar: "find_user_row s (req_author_id req) = Some ar"
    "row_team_id ar = user_team_id author"
    using get_by_id_row [OF au] by blast
  have "\<forall>r \<in> set (dto_reviewers d). \<exists>rr. find_user_row s r = Some rr \<and>
           row_is_active rr \<and> row_team_id rr = row_team_id ar"
    using d ar find_active_member joined_user_row [OF assms(1)] by fastforce
  moreover have "req_author_id req \<notin> set (dto_reviewers d)"
    using d find_active_member by fastforce
  moreover have "distinct (dto_reviewers d)"
    using d distinct_candidate_ids [OF assms(1)] by simp
  moreover have "length (dto_reviewers d) =
                   min 2 (length (eligible s (row_team_id ar) (req_author_id req)))"
    using d ar by (simp add: length_find_active)
  ultimately show ?thesis using ar by blast
qed

theorem pr_create_reviewer_rules_witness:
  "wf_store backend_store \<and>
   pr_create default_rng 7 ex_create backend_store = (Inr ex_created_dto, reviewed_store) \<and>
   distinct (dto_reviewers ex_created_dto) \<and> req_author_id ex_create \<notin> set (dto_reviewers ex_created_dto) \<and>
   (\<exists>ar. find_user_row backend_store (req_author_id ex_create) = Some ar \<and>
      (\<forall>r \<in> set (dto_reviewers ex_created_dto). \<exists>rr. find_user_row backend_store r = Some rr \<and>
           row_is_active rr \<and> row_team_id rr = row_team_id ar) \<and>
      length (dto_reviewers ex_created_dto) =
        min 2 (length (eligible backend_store (row_team_id ar) (req_author_id ex_create))))"
  using pr_create_reviewer_rules [OF wf_backend_store ex_create_run] wf_backend_store ex_create_run
  by blast

section \<open>Reassign: behaviour\<close>

text \<open>The path a successful \<open>Reassign\<close> takes through the handler.\<close>

lemma pr_reassign_Inr:
  assumes g: "rng_ok g" and ok: "pr_reassign g req s = (Inr (d, new), s')"
  obtains pr old_user where
    "get_with_reviewers s (req_reassign_pr req) = Inr (pr, reviewers_of s (req_reassign_pr req))"
    and "pr_status_id pr \<noteq> StatusMerged"
    and "req_old_user req \<in> set (reviewers_of s (req_reassign_pr req))"
    and "get_by_id s (req_old_user req) = Inr old_user"
    and "new \<in> set (reassign_pool g s old_user (reviewers_of s (req_reassign_pr req)))"
    and "replace_reviewer (req_reassign_pr req) (req_old_user req) new s = Inr s'"
    and "d = pr_to_dto pr (reviewers_of s' (req_reassign_pr req))"
proof -
  let ?p = "req_reassign_pr req" and ?old = "req_old_user req"
  obtain pr rs where gw: "get_with_reviewers s ?p = Inr (pr, rs)"
    using ok by (cases "get_with_reviewers s ?p") (auto simp: pr_reassign_def Let_def)
  have rs: "rs = reviewers_of s ?p" using gw by (simp add: get_with_reviewers_Inr)
  have st: "pr_status_id pr \<noteq> StatusMerged" and inr: "?old \<in> set rs"
    using ok gw by (auto simp: pr_reassign_def Let_def split: if_splits)
  obtain ou where ou: "get_by_id s ?old = Inr ou"
    using ok gw st inr by (cases "get_by_id s ?old") (auto simp: pr_reassign_def Let_def)
  define pool where "pool = reassign_pool g s ou rs"
  have ne: "pool \<noteq> []"
    using ok gw st inr ou by (auto simp: pr_reassign_def pool_def Let_def)
  then have idx: "intn g (length pool) < length pool"
    using g by (simp add: rng_ok_def)
  obtain s1 where rr: "replace_reviewer ?p ?old (pool ! intn g (length pool)) s = Inr s1"
    using ok gw st inr ou ne
    by (cases "replace_reviewer ?p ?old (pool ! intn g (length pool)) s")
       (auto simp: pr_reassign_def pool_def Let_def)
  have eq: "pr_reassign g req s =
      (Inr (pr_to_dto pr (reviewers_of s1 ?p), pool ! intn g (length pool)), s1)"
    using gw st inr ou ne rr replace_reviewer_Inr [OF rr]
    by (auto simp: pr_reassign_def pool_def Let_def)
  with ok have "new = pool ! intn g (length pool) \<and> s' = s1 \<and>
    d = pr_to_dto pr (reviewers_of s1 ?p)" by auto
  moreover have "pool ! intn g (length pool) \<in> set pool" using idx by simp
  ultimately show ?thesis
    using that [of pr ou] gw rs st inr ou rr pool_def by simp
qed

lemma reassign_pool_member:
  assumes "wf_store s" and "c \<in> set (reassign_pool g s ou rs)"
  shows "c \<notin> set rs \<and> c \<noteq> user_id ou \<and>
         (\<exists>r. find_user_row s c = Some r \<and> row_is_active r \<and> row_team_id r = user_team_id ou)"
proof -
  from assms(2) obtain u where u: "u \<in> set (find_active_in_team_except (order_key g) s
                                   (user_team_id ou) (user_id ou) 20)"
    and c: "c = user_id u" "c \<notin> set rs"
    by (auto simp: reassign_pool_def)
  from u have "user_team_id u = user_team_id ou \<and> is_active u \<and> user_id u \<noteq> user_id ou
               \<and> u \<in> set (joined_users s)"
    by (rule find_active_member)
  with joined_user_row [OF assms(1)] c show ?thesis by fastforce
qed

text \<open>
  C3. A successful \<open>Reassign\<close> replaces the old reviewer in place by an active member of
  the old reviewer's team who was not yet a reviewer of the pull request; the response
  carries the stored reviewer list, and no other pull request or table changes.
\<close>

theorem pr_reassign_replaces:
  assumes "wf_store s" and "rng_ok g" and "pr_reassign g req s = (Inr (d, new), s')"
  shows "new \<notin> set (reviewers_of s (req_reassign_pr req)) \<and>
         reviewers_of s' (req_reassign_pr req) =
           replace_all (req_old_user req) new (reviewers_of s (req_reassign_pr req)) \<and>
         dto_reviewers d = reviewers_of s' (req_reassign_pr req) \<and>
         (\<exists>ro rn. find_user_row s (req_old_user req) = Some ro \<and> find_user_row s new = Some rn \<and>
                  row_is_active rn \<and> row_team_id rn = row_team_id ro) \<and>
         (\<forall>q. q \<noteq> req_reassign_pr req \<longrightarrow> reviewers_of s' q = reviewers_of s q) \<and>
         prs s' = prs s \<and> users s' = users s \<and> teams s' = teams s"
proof -
  let ?p = "req_reassign_pr req" and ?old = "req_old_user req"
  obtain pr ou where ou: "get_by_id s ?old = Inr ou"
    and pool: "new \<in> set (reassign_pool g s ou (reviewers_of s ?p))"
    and rr: "replace_reviewer ?p ?old new s = Inr s'"
    and d: "d = pr_to_dto pr (reviewers_of s' ?p)"
    using assms(2,3) by (rule pr_reassign_Inr)
  have s': "s' = s\<lparr>pr_reviewers := replace_all (?p, ?old) (?p, new) (pr_reviewers s)\<rparr>"
    using replace_reviewer_Inr [OF rr] by simp
  obtain ro where ro: "find_user_row s ?old = Some ro" "row_team_id ro = user_team_id ou"
    using get_by_id_row [OF ou] by blast
  from reassign_pool_member [OF assms(1) pool] ro have
    "new \<notin> set (reviewers_of s ?p)"
    "\<exists>rn. find_user_row s new = Some rn \<and> row_is_active rn \<and> row_team_id rn = row_team_id ro"
    by auto
  with ro s' d show ?thesis
    by (auto simp: reviewers_of_replace_all pr_to_dto_def)
qed

theorem pr_reassign_replaces_witness:
  "wf_store reviewed_store \<and> rng_ok last_rng \<and>
   pr_reassign last_rng ex_reassign reviewed_store =
     (Inr (ex_created_dto\<lparr>dto_reviewers := [''u4'', ''u3'']\<rparr>, ''u4''),
      reviewed_store\<lparr>pr_reviewers := [(''pr-1'', ''u4''), (''pr-1'', ''u3'')]\<rparr>) \<and>
   ''u4'' \<notin> set (reviewers_of reviewed_store ''pr-1'') \<and>
   reviewers_of (reviewed_store\<lparr>pr_reviewers := [(''pr-1'', ''u4''), (''pr-1'', ''u3'')]\<rparr>) ''pr-1'' =
     replace_all ''u2'' ''u4'' (reviewers_of reviewed_store ''pr-1'')"
  using pr_reassign_replaces [OF wf_reviewed_store rng_ok_last_rng ex_reassign_run]
        wf_reviewed_store rng_ok_last_rng ex_reassign_run
  by (simp add: ex_reassign_def)

section \<open>Reassign: errors\<close>

text \<open>
  C4. \<open>Reassign\<close> checks in the order of the specification: an unknown pull request
  is \<open>ErrPRNotFound\<close>, a merged one \<open>ErrPRMerged\<close> whatever the old reviewer, an
  open one the old user does not review \<open>ErrReviewerNotSet\<close>; none of them writes.
\<close>

theorem pr_reassign_guards:
  "(prs s (req_reassign_pr req) = None \<longrightarrow> pr_reassign g req s = (Inl ErrPRNotFound, s)) \<and>
   (prs s (req_reassign_pr req) = Some r \<longrightarrow> pr_row_status r = StatusMerged \<longrightarrow>
      pr_reassign g req s = (Inl ErrPRMerged, s)) \<and>
   (prs s (req_reassign_pr req) = Some r \<longrightarrow> pr_row_status r = StatusOpen \<longrightarrow>
      req_old_user req \<notin> set (reviewers_of s (req_reassign_pr req)) \<longrightarrow>
      pr_reassign g req s = (Inl ErrReviewerNotSet, s))"
  by (simp add: pr_reassign_def get_with_reviewers_def pr_statuses_def pr_of_row_def Let_def)

theorem pr_reassign_guards_witness:
  "(prs merged_store (req_reassign_pr ex_reassign) = Some (open_row\<lparr>pr_row_status := StatusMerged, pr_row_merged := Some 9\<rparr>) \<and>
    pr_row_status (open_row\<lparr>pr_row_status := StatusMerged, pr_row_merged := Some 9\<rparr>) = StatusMerged \<and>
    pr_reassign default_rng ex_reassign merged_store = (Inl ErrPRMerged, merged_store)) \<and>
   (prs reviewed_store ''nope'' = None \<and>
    pr_reassign default_rng \<lparr>req_reassign_pr = ''nope'', req_old_user = ''u2''\<rparr> reviewed_store =
      (Inl ErrPRNotFound, reviewed_store)) \<and>
   (prs reviewed_store ''pr-1'' = Some open_row \<and> pr_row_status open_row = StatusOpen \<and>
    ''u4'' \<notin> set (reviewers_of reviewed_store ''pr-1'') \<and>
    pr_reassign default_rng \<lparr>req_reassign_pr = ''pr-1'', req_old_user = ''u4''\<rparr> reviewed_store =
      (Inl ErrReviewerNotSet, reviewed_store))"
proof -
  note G1 = pr_reassign_guards [where s = merged_store and g = default_rng and req = ex_reassign
                 and r = "open_row\<lparr>pr_row_status := StatusMerged, pr_row_merged := Some 9\<rparr>"]
  note G2 = pr_reassign_guards [where s = reviewed_store and g = default_rng
                 and req = "\<lparr>req_reassign_pr = ''nope'', req_old_user = ''u2''\<rparr>" and r = open_row]
  note G3 = pr_reassign_guards [where s = reviewed_store and g = default_rng
                 and req = "\<lparr>req_reassign_pr = ''pr-1'', req_old_user = ''u4''\<rparr>" and r = open_row]
  have h1: "prs merged_store (req_reassign_pr ex_reassign) =
              Some (open_row\<lparr>pr_row_status := StatusMerged, pr_row_merged := Some 9\<rparr>)"
    by (simp add: ex_reassign_def scenario_defs)
  have h2: "prs reviewed_store ''nope'' = None" by (simp add: scenario_defs)
  have h3: "prs reviewed_store ''pr-1'' = Some open_row"
    and h4: "''u4'' \<notin> set (reviewers_of reviewed_store ''pr-1'')"
    by (simp_all add: scenario_defs reviewers_of_def)
  show ?thesis
    using G1 G2 G3 h1 h2 h3 h4 by (simp add: open_row_def)
qed

text \<open>
  C5. Among the checks that pass, \<open>Reassign\<close> answers \<open>ErrNoCandidate\<close> exactly when
  every active teammate of the old reviewer (other than the old reviewer) already
  reviews the pull request. The query's limit of 20 candidates never hides one: at
  most two reviewers can be filtered out.
\<close>

lemma reassign_pool_Nil_iff:
  assumes wf: "wf_store s" and ou: "get_by_id s old = Inr ou"
  shows "(reassign_pool g s ou (reviewers_of s p) = []) =
         (set (map user_id (eligible s (user_team_id ou) old)) \<subseteq> set (reviewers_of s p))"
proof -
  let ?rs = "reviewers_of s p"
  let ?E = "eligible s (user_team_id ou) old"
  let ?C = "find_active_in_team_except (order_key g) s (user_team_id ou) old 20"
  have uid: "user_id ou = old" using ou by (simp add: get_by_id_Inr)
  have pool: "reassign_pool g s ou ?rs = filter (\<lambda>c. c \<notin> set ?rs) (map user_id ?C)"
    by (simp add: reassign_pool_def uid)
  have sub: "set ?C \<subseteq> set ?E" by (rule find_active_subset)
  show ?thesis
  proof
    assume "reassign_pool g s ou ?rs = []"
    then have cin: "set (map user_id ?C) \<subseteq> set ?rs"
      by (auto simp: pool filter_empty_conv)
    have "length ?C = card (set (map user_id ?C))"
      using distinct_candidate_ids [OF wf] by (metis distinct_card length_map)
    also have "\<dots> \<le> card (set ?rs)" using cin by (simp add: card_mono)
    also have "\<dots> \<le> length ?rs" by (rule card_length)
    also have "\<dots> \<le> 2" using wf by (rule wf_reviewers_le_2)
    finally have "length ?C < 20" by simp
    then have "?C = sort_key (\<lambda>u. order_key g (user_id u)) ?E"
      by (simp add: find_active_in_team_except_def length_sort)
    then have "set ?C = set ?E" by simp
    with cin show "set (map user_id ?E) \<subseteq> set ?rs" by simp
  next
    assume "set (map user_id ?E) \<subseteq> set ?rs"
    with sub show "reassign_pool g s ou ?rs = []"
      by (auto simp: pool filter_empty_conv)
  qed
qed

theorem pr_reassign_no_candidate:
  assumes "wf_store s" and "prs s (req_reassign_pr req) = Some r"
    and "pr_row_status r = StatusOpen"
    and "req_old_user req \<in> set (reviewers_of s (req_reassign_pr req))"
    and "get_by_id s (req_old_user req) = Inr ou"
  shows "(pr_reassign g req s = (Inl ErrNoCandidate, s)) =
         (set (map user_id (eligible s (user_team_id ou) (req_old_user req)))
            \<subseteq> set (reviewers_of s (req_reassign_pr req)))"
proof -
  have gw: "get_with_reviewers s (req_reassign_pr req) =
              Inr (pr_of_row r ''OPEN'', reviewers_of s (req_reassign_pr req))"
    using assms(2,3) by (simp add: get_with_reviewers_def pr_statuses_def)
  have "(pr_reassign g req s = (Inl ErrNoCandidate, s)) =
        (reassign_pool g s ou (reviewers_of s (req_reassign_pr req)) = [])"
    using gw assms(3,4,5)
    by (auto simp: pr_reassign_def pr_of_row_def Let_def split: sum.splits
             dest: replace_reviewer_Inl)
  also have "\<dots> = (set (map user_id (eligible s (user_team_id ou) (req_old_user req)))
                    \<subseteq> set (reviewers_of s (req_reassign_pr req)))"
    using assms(1,5) by (rule reassign_pool_Nil_iff)
  finally show ?thesis .
qed

theorem pr_reassign_no_candidate_witness:
  "wf_store solo_store \<and>
   prs solo_store ''pr-solo'' = Some (open_row\<lparr>pr_row_id := ''pr-solo''\<rparr>) \<and>
   pr_row_status (open_row\<lparr>pr_row_id := ''pr-solo''\<rparr>) = StatusOpen \<and>
   ''u1'' \<in> set (reviewers_of solo_store ''pr-solo'') \<and>
   get_by_id solo_store ''u1'' = Inr (user_of_row (member ''u1'' True) ''backend'') \<and>
   pr_reassign default_rng \<lparr>req_reassign_pr = ''pr-solo'', req_old_user = ''u1''\<rparr> solo_store =
     (Inl ErrNoCandidate, solo_store)"
proof -
  have h1: "prs solo_store (req_reassign_pr \<lparr>req_reassign_pr = ''pr-solo'', req_old_user = ''u1''\<rparr>)
              = Some (open_row\<lparr>pr_row_id := ''pr-solo''\<rparr>)"
    and h2: "pr_row_status (open_row\<lparr>pr_row_id := ''pr-solo''\<rparr>) = StatusOpen"
    and h3: "req_old_user \<lparr>req_reassign_pr = ''pr-solo'', req_old_user = ''u1''\<rparr> \<in>
               set (reviewers_of solo_store (req_reassign_pr \<lparr>req_reassign_pr = ''pr-solo'', req_old_user = ''u1''\<rparr>))"
    and h4: "get_by_id solo_store (req_old_user \<lparr>req_reassign_pr = ''pr-solo'', req_old_user = ''u1''\<rparr>)
               = Inr (user_of_row (member ''u1'' True) ''backend'')"
    and h5: "set (map user_id (eligible solo_store (user_team_id (user_of_row (member ''u1'' True) ''backend'')) ''u1''))
               \<subseteq> set (reviewers_of solo_store ''pr-solo'')"
    by (simp_all add: scenario_defs store_simps)
  from pr_reassign_no_candidate [OF wf_solo_store h1 h2 h3 h4, where g = default_rng] h5
  have "pr_reassign default_rng \<lparr>req_reassign_pr = ''pr-solo'', req_old_user = ''u1''\<rparr> solo_store =
          (Inl ErrNoCandidate, solo_store)" by simp
  with wf_solo_store h1 h2 h3 h4 show ?thesis by simp
qed

text \<open>The errors of \<open>Reassign\<close> on a well-formed store.\<close>

lemma pr_reassign_Inl_cases:
  assumes "wf_store s" and "rng_ok g" and "pr_reassign g req s = (Inl e, s')"
  shows "s' = s \<and> e \<in> {ErrPRNotFound, ErrPRMerged, ErrReviewerNotSet, ErrUserNotFound, ErrNoCandidate}"
proof -
  let ?p = "req_reassign_pr req" and ?old = "req_old_user req"
  show ?thesis
  proof (cases "get_with_reviewers s ?p")
    case (Inl e')
    then show ?thesis using assms(3)
      by (auto simp: pr_reassign_def get_with_reviewers_def Let_def split: option.splits)
  next
    case (Inr x)
    then obtain pr rs where gw: "get_with_reviewers s ?p = Inr (pr, rs)" by (cases x) auto
    then have rs: "rs = reviewers_of s ?p" by (simp add: get_with_reviewers_Inr)
    show ?thesis
    proof (cases "pr_status_id pr = StatusMerged \<or> ?old \<notin> set rs")
      case True
      then show ?thesis using assms(3) gw by (auto simp: pr_reassign_def Let_def split: if_splits)
    next
      case False
      show ?thesis
      proof (cases "get_by_id s ?old")
        case (Inl e')
        then have "e' = ErrUserNotFound" by (auto simp: get_by_id_def split: option.splits)
        with Inl show ?thesis using assms(3) gw False by (auto simp: pr_reassign_def Let_def)
      next
        case (Inr ou)
        define pool where "pool = reassign_pool g s ou rs"
        show ?thesis
        proof (cases "pool = []")
          case True
          then show ?thesis using assms(3) gw False Inr by (auto simp: pr_reassign_def pool_def Let_def)
        next
          case ne: False
          let ?new = "pool ! intn g (length pool)"
          have "?new \<in> set pool" using ne assms(2) by (simp add: rng_ok_def)
          then have fresh: "?new \<notin> set rs"
            using reassign_pool_member [OF assms(1)] by (auto simp: pool_def)
          have rows: "distinct (pr_reviewers s)" using assms(1) by (simp add: wf_store_def rows_ok_def)
          have "(?p, ?new) \<notin> set (pr_reviewers s)" using fresh rs by (simp add: set_reviewers_of)
          with rows have "distinct (replace_all (?p, ?old) (?p, ?new) (pr_reviewers s))"
            by (rule distinct_replace_all)
          moreover have "(?p, ?old) \<in> set (pr_reviewers s)" using False rs by (simp add: set_reviewers_of)
          ultimately have "replace_reviewer ?p ?old ?new s =
                             Inr (s\<lparr>pr_reviewers := replace_all (?p, ?old) (?p, ?new) (pr_reviewers s)\<rparr>)"
            by (simp add: replace_reviewer_def)
          then have "\<exists>v. pr_reassign g req s = (Inr v, s\<lparr>pr_reviewers := replace_all (?p, ?old) (?p, ?new) (pr_reviewers s)\<rparr>)"
            using gw False Inr ne by (auto simp: pr_reassign_def pool_def Let_def)
          with assms(3) show ?thesis by auto
        qed
      qed
    qed
  qed
qed

text \<open>
  C6. On a well-formed store, every error of \<open>Reassign\<close> is one of the five domain
  errors and leaves the store as it was: the reviewer update never violates the key
  \<open>(pull_request_id, reviewer_id)\<close>, since the new reviewer is drawn outside the
  current reviewers, and the closing read never fails.
\<close>

theorem pr_reassign_error_atomic:
  assumes "wf_store s" and "rng_ok g" and "pr_reassign g req s = (Inl e, s')"
  shows "s' = s \<and> e \<in> {ErrPRNotFound, ErrPRMerged, ErrReviewerNotSet, ErrUserNotFound, ErrNoCandidate}"
  using assms by (rule pr_reassign_Inl_cases)

theorem pr_reassign_error_atomic_witness:
  "wf_store solo_store \<and> rng_ok default_rng \<and>
   pr_reassign default_rng ex_solo_reassign solo_store = (Inl ErrNoCandidate, solo_store) \<and>
   ErrNoCandidate \<in> {ErrPRNotFound, ErrPRMerged, ErrReviewerNotSet, ErrUserNotFound, ErrNoCandidate}"
  using pr_reassign_error_atomic [OF wf_solo_store rng_ok_default_rng ex_solo_reassign_run]
        wf_solo_store ex_solo_reassign_run
  by simp

section \<open>Merge: behaviour\<close>

text \<open>The row \<open>SetMerged\<close> leaves: merged, with the first merge time kept.\<close>

definition merged_row :: "timestamp \<Rightarrow> pr_row \<Rightarrow> pr_row" where
  "merged_row now r =
     r\<lparr>pr_row_status := StatusMerged,
       pr_row_merged := (case pr_row_merged r of None \<Rightarrow> Some now | Some t \<Rightarrow> Some t)\<rparr>"

lemma pr_merge_Some:
  "prs s p = Some r \<Longrightarrow>
   pr_merge now p s =
     (Inr (pr_to_dto (pr_of_row (merged_row now r) ''MERGED'') (reviewers_of s p)),
      s\<lparr>prs := (prs s)(p \<mapsto> merged_row now r)\<rparr>)"
  by (simp add: pr_merge_def set_merged_def merged_row_def get_with_reviewers_def pr_statuses_def Let_def)

lemma merged_row_idem [simp]: "merged_row t2 (merged_row t1 r) = merged_row t1 r"
  by (simp add: merged_row_def split: option.splits)

text \<open>
  C7. \<open>Merge\<close> of an unknown pull request is \<open>ErrPRNotFound\<close> and writes nothing;
  of a known one it sets the status to merged, keeps an earlier merge time or sets the
  current one, leaves the reviewers alone, and answers \<open>MERGED\<close> with that time.
\<close>

theorem pr_merge_effect:
  "(prs s p = None \<longrightarrow> pr_merge now p s = (Inl ErrPRNotFound, s)) \<and>
   (prs s p = Some r \<longrightarrow>
      (\<exists>d. pr_merge now p s =
             (Inr d, s\<lparr>prs := (prs s)(p \<mapsto> r\<lparr>pr_row_status := StatusMerged,
                 pr_row_merged := Some (case pr_row_merged r of None \<Rightarrow> now | Some t \<Rightarrow> t)\<rparr>)\<rparr>) \<and>
           dto_status d = ''MERGED'' \<and>
           dto_merged_at d = Some (case pr_row_merged r of None \<Rightarrow> now | Some t \<Rightarrow> t) \<and>
           dto_reviewers d = reviewers_of s p))"
proof -
  have "prs s p = Some r \<Longrightarrow> merged_row now r =
          r\<lparr>pr_row_status := StatusMerged,
            pr_row_merged := Some (case pr_row_merged r of None \<Rightarrow> now | Some t \<Rightarrow> t)\<rparr>"
    by (simp add: merged_row_def split: option.splits)
  moreover have "prs s p = None \<Longrightarrow> pr_merge now p s = (Inl ErrPRNotFound, s)"
    by (simp add: pr_merge_def set_merged_def)
  ultimately show ?thesis
    by (auto simp: pr_merge_Some pr_to_dto_def pr_of_row_def status_dto_def split: option.splits)
qed

theorem pr_merge_effect_witness:
  "(prs reviewed_store ''pr-1'' = Some open_row \<and>
    pr_merge 9 ''pr-1'' reviewed_store = (Inr (ex_created_dto\<lparr>dto_status := ''MERGED'', dto_merged_at := Some 9\<rparr>), merged_store) \<and>
    dto_reviewers (ex_created_dto\<lparr>dto_status := ''MERGED'', dto_merged_at := Some 9\<rparr>) = reviewers_of reviewed_store ''pr-1'') \<and>
   (prs reviewed_store ''pr-2'' = None \<and> pr_merge 9 ''pr-2'' reviewed_store = (Inl ErrPRNotFound, reviewed_store))"
proof -
  have h1: "prs reviewed_store ''pr-1'' = Some open_row" and h2: "prs reviewed_store ''pr-2'' = None"
    by (simp_all add: scenario_defs)
  have m: "reviewed_store\<lparr>prs := (prs reviewed_store)(''pr-1'' \<mapsto> open_row\<lparr>pr_row_status := StatusMerged,
             pr_row_merged := Some (case pr_row_merged open_row of None \<Rightarrow> 9 | Some t \<Rightarrow> t)\<rparr>)\<rparr> = merged_store"
    by (simp add: scenario_defs)
  from pr_merge_effect [where s = reviewed_store and p = "''pr-1''" and now = 9 and r = open_row] h1 m
  obtain d where d: "pr_merge 9 ''pr-1'' reviewed_store = (Inr d, merged_store)"
    "dto_status d = ''MERGED''" "dto_merged_at d = Some 9" "dto_reviewers d = reviewers_of reviewed_store ''pr-1''"
    by (auto simp: open_row_def)
  have "d = ex_created_dto\<lparr>dto_status := ''MERGED'', dto_merged_at := Some 9\<rparr>"
    using d(1) h1 by (simp add: pr_merge_Some merged_row_def ex_created_dto_def pr_to_dto_def
                                pr_of_row_def status_dto_def reviewers_of_def scenario_defs)
  moreover have "pr_merge 9 ''pr-2'' reviewed_store = (Inl ErrPRNotFound, reviewed_store)"
    using pr_merge_effect [where s = reviewed_store and p = "''pr-2''" and now = 9] h2 by blast
  ultimately show ?thesis using d h1 h2 by simp
qed

text \<open>
  C8. \<open>Merge\<close> is idempotent: once a merge has succeeded, merging again, at any later
  time, succeeds with the very same response (the original merge time included) and
  leaves the store unchanged.
\<close>

theorem pr_merge_idempotent:
  assumes "pr_merge t1 p s = (Inr d, s1)"
  shows "pr_merge t2 p s1 = (Inr d, s1)"
proof -
  obtain r where r: "prs s p = Some r"
    using assms by (cases "prs s p") (auto simp: pr_merge_def set_merged_def)
  then have s1: "s1 = s\<lparr>prs := (prs s)(p \<mapsto> merged_row t1 r)\<rparr>"
    and d: "d = pr_to_dto (pr_of_row (merged_row t1 r) ''MERGED'') (reviewers_of s p)"
    using assms by (simp_all add: pr_merge_Some)
  have "prs s1 p = Some (merged_row t1 r)" using s1 by simp
  then have "pr_merge t2 p s1 =
               (Inr (pr_to_dto (pr_of_row (merged_row t1 r) ''MERGED'') (reviewers_of s1 p)),
                s1\<lparr>prs := (prs s1)(p \<mapsto> merged_row t1 r)\<rparr>)"
    by (simp add: pr_merge_Some)
  also have "s1\<lparr>prs := (prs s1)(p \<mapsto> merged_row t1 r)\<rparr> = s1" using s1 by simp
  also have "reviewers_of s1 p = reviewers_of s p" using s1 by simp
  finally show ?thesis using d by simp
qed

theorem pr_merge_idempotent_witness:
  "pr_merge 9 ''pr-1'' reviewed_store = (Inr (ex_created_dto\<lparr>dto_status := ''MERGED'', dto_merged_at := Some 9\<rparr>), merged_store) \<and>
   pr_merge 12 ''pr-1'' merged_store = (Inr (ex_created_dto\<lparr>dto_status := ''MERGED'', dto_merged_at := Some 9\<rparr>), merged_store)"
proof -
  have h: "pr_merge 9 ''pr-1'' reviewed_store = (Inr (ex_created_dto\<lparr>dto_status := ''MERGED'', dto_merged_at := Some 9\<rparr>), merged_store)"
    by (simp add: pr_merge_Some merged_row_def ex_created_dto_def pr_to_dto_def pr_of_row_def
                  status_dto_def reviewers_of_def scenario_defs)
  show ?thesis using h pr_merge_idempotent [OF h, of 12] by simp
qed

end
