(* ===== verification/DirectoryService.thy ===== *)
theory DirectoryService
  imports Scenarios
begin

text \<open>
  The team and user directory: \<open>TeamService\<close> of
  \<open>internal/service/team_service.go\<close> (creating a team with its members in one
  \<open>WithinTx\<close>, reading a team) and \<open>UserService\<close> of
  \<open>internal/service/user_service.go\<close> (the activity flag, the pull requests a user
  reviews, the reviewer statistics).
\<close>

section \<open>Teams\<close>

text \<open>\<open>dto.TeamMember\<close>, \<open>dto.TeamAddRequest\<close> and \<open>dto.Team\<close>.\<close>

record team_member =
  tm_user_id :: uid
  tm_username :: string
  tm_is_active :: bool

record team_add_request =
  ta_team_name :: string
  ta_members :: "team_member list"

record team_dto =
  td_team_name :: string
  td_members :: "team_member list"

text \<open>The \<open>repository.User\<close> built for each member of the request.\<close>

definition member_user :: "team \<Rightarrow> team_member \<Rightarrow> user" where
  "member_user t m =
     \<lparr>user_id = tm_user_id m, username = tm_username m, user_team_id = team_row_id t,
      user_team_name = [], is_active = tm_is_active m\<rparr>"

definition team_add_tx_body :: "team_add_request \<Rightarrow> store \<Rightarrow> team outcome" where
  "team_add_tx_body req s =
     (case team_create (ta_team_name req) s of
        Inl e \<Rightarrow> (Inl e, s)
      | Inr (t, s1) \<Rightarrow>
          (Inr t, upsert_team_members (team_row_id t) (map (member_user t) (ta_members req)) s1))"

text \<open>\<open>TeamAdd\<close>: the response echoes the request's members.\<close>

definition team_add :: "team_add_request \<Rightarrow> store \<Rightarrow> team_dto outcome" where
  "team_add req s =
     (case within_tx (team_add_tx_body req) s of
        (Inl e, s') \<Rightarrow> (Inl e, s')
      | (Inr t, s') \<Rightarrow> (Inr \<lparr>td_team_name = team_row_name t, td_members = ta_members req\<rparr>, s'))"

text \<open>\<open>TeamGet\<close>: the team by name, then its members.\<close>

definition team_get :: "store \<Rightarrow> string \<Rightarrow> error + team_dto" where
  "team_get s nm =
     (case team_get_by_name s nm of
        Inl e \<Rightarrow> Inl e
      | Inr t \<Rightarrow>
          Inr \<lparr>td_team_name = team_row_name t,
               td_members = map (\<lambda>u. \<lparr>tm_user_id = user_id u, tm_username = username u,
                                      tm_is_active = is_active u\<rparr>)
                              (list_by_team s (team_row_id t))\<rparr>)"

section \<open>Users\<close>

text \<open>\<open>dto.User\<close>.\<close>

record user_dto =
  ud_user_id :: uid
  ud_username :: string
  ud_team_name :: string
  ud_is_active :: bool

text \<open>
  \<open>SetIsActive\<close> calls \<open>Users.SetIsActive\<close>; the PostgreSQL repository implements
  that statement under the name \<open>SetActive\<close>.
\<close>

definition set_is_active :: "uid \<Rightarrow> bool \<Rightarrow> store \<Rightarrow> user_dto outcome" where
  "set_is_active x b s =
     (case set_active x b s of
        Inl e \<Rightarrow> (Inl e, s)
      | Inr (u, s') \<Rightarrow>
          (Inr \<lparr>ud_user_id = user_id u, ud_username = username u,
                ud_team_name = user_team_name u, ud_is_active = is_active u\<rparr>, s'))"

text \<open>\<open>dto.PullRequestShort\<close> and \<open>dto.UserGetReviewResponse\<close>.\<close>

record pr_short_dto =
  sd_pr_id :: pid
  sd_pr_name :: string
  sd_author :: uid
  sd_status :: string

record user_review_dto =
  ur_user_id :: uid
  ur_prs :: "pr_short_dto list"

text \<open>The status switch of \<open>GetReviewPRs\<close>; its default keeps the name as it is.\<close>

definition review_status :: "string \<Rightarrow> string" where
  "review_status nm = (if nm = ''OPEN'' then ''OPEN'' else if nm = ''MERGED'' then ''MERGED'' else nm)"

definition get_review_prs_svc :: "store \<Rightarrow> uid \<Rightarrow> error + user_review_dto" where
  "get_review_prs_svc s x =
     Inr \<lparr>ur_user_id = x,
          ur_prs = map (\<lambda>p. \<lparr>sd_pr_id = short_id p, sd_pr_name = short_name p,
                             sd_author = short_author p,
                             sd_status = review_status (short_status_name p)\<rparr>)
                     (get_review_prs s x)\<rparr>"

text \<open>\<open>dto.ReviewerStat\<close> and \<open>GetReviewerStats\<close>.\<close>

record reviewer_stat =
  rs_username :: string
  rs_reviews_count :: nat

definition get_reviewer_stats_svc :: "store \<Rightarrow> reviewer_stat list" where
  "get_reviewer_stats_svc s =
     map (\<lambda>r. \<lparr>rs_username = stat_username r, rs_reviews_count = stat_count r\<rparr>)
         (get_reviewer_stats s)"

text \<open>The rows behind the answer of \<open>GetReviewPrs\<close>, before the \<open>ORDER BY\<close>.\<close>

definition review_entries :: "store \<Rightarrow> uid \<Rightarrow> (timestamp \<times> pull_request_short) list" where
  "review_entries s x = concat (map (\<lambda>(p, r). short_of s p) (filter (\<lambda>(p, r). r = x) (pr_reviewers s)))"

text \<open>Scenario requests: a new team \<open>frontend\<close> with the new user \<open>u6\<close>.\<close>

definition ex_front :: team_add_request where
  "ex_front = \<lparr>ta_team_name = ''frontend'',
               ta_members = [\<lparr>tm_user_id = ''u6'', tm_username = ''u6'', tm_is_active = True\<rparr>]\<rparr>"

definition front_store :: store where
  "front_store =
     backend_store\<lparr>teams := [backend_team, \<lparr>team_row_id = 2, team_row_name = ''frontend''\<rparr>],
                   team_seq := 2,
                   users := users backend_store @
                            [\<lparr>row_user_id = ''u6'', row_username = ''u6'', row_team_id = 2,
                              row_is_active = True\<rparr>]\<rparr>"

section \<open>Properties of the directory\<close>

lemma short_of_wf:
  assumes "wf_store s" and "prs s p = Some r"
  shows "short_of s p = [(pr_row_created r, \<lparr>short_id = p, short_name = pr_row_name r,
            short_author = pr_row_author r, short_status_name = the (map_of pr_statuses (pr_row_status r))\<rparr>)]
         \<and> map_of pr_statuses (pr_row_status r) \<noteq> None"
  using wf_pr_row [OF assms] assms(2) by (auto simp: short_of_def pr_statuses_def)

lemma get_review_prs_entries: "get_review_prs s x = map snd (rev (sort_key fst (review_entries s x)))"
  by (simp add: get_review_prs_def review_entries_def)

lemma review_entries_ids:
  assumes "wf_store s"
  shows "map (short_id \<circ> snd) (review_entries s x) = map fst (filter (\<lambda>(p, r). r = x) (pr_reviewers s))"
proof -
  have gen: "\<forall>y \<in> set rs. prs s (fst y) \<noteq> None \<Longrightarrow>
        map (short_id \<circ> snd) (concat (map (\<lambda>(p, r). short_of s p) rs)) = map fst rs" for rs
    by (induction rs) (auto simp: short_of_wf [OF assms])
  have pre: "\<forall>y \<in> set (filter (\<lambda>(p, r). r = x) (pr_reviewers s)). prs s (fst y) \<noteq> None"
    using wf_rows_refer [OF assms] by auto
  show ?thesis unfolding review_entries_def by (rule gen [OF pre])
qed

lemma review_entries_row:
  assumes "wf_store s" and "e \<in> set (review_entries s x)"
  shows "\<exists>r. prs s (short_id (snd e)) = Some r \<and> fst e = pr_row_created r \<and>
             short_name (snd e) = pr_row_name r \<and> short_author (snd e) = pr_row_author r \<and>
             map_of pr_statuses (pr_row_status r) = Some (short_status_name (snd e))"
proof -
  obtain p where "(p, x) \<in> set (pr_reviewers s)" and e: "e \<in> set (short_of s p)"
    using assms(2) by (auto simp: review_entries_def)
  then obtain r where r: "prs s p = Some r" using wf_rows_refer [OF assms(1)] by fastforce
  then show ?thesis using e short_of_wf [OF assms(1) r] by auto
qed

lemma team_add_Inl:
  "\<exists>t \<in> set (teams s). team_row_name t = ta_team_name req \<Longrightarrow> team_add req s = (Inl ErrTeamExists, s)"
  by (simp add: team_add_def within_tx_eq team_add_tx_body_def team_create_def)

lemma team_add_Inr:
  assumes "\<forall>t \<in> set (teams s). team_row_name t \<noteq> ta_team_name req"
  shows "team_add req s =
           (Inr \<lparr>td_team_name = ta_team_name req, td_members = ta_members req\<rparr>,
            upsert_team_members (team_seq s + 1)
              (map (member_user \<lparr>team_row_id = team_seq s + 1, team_row_name = ta_team_name req\<rparr>)
                   (ta_members req))
              (s\<lparr>teams := teams s @ [\<lparr>team_row_id = team_seq s + 1, team_row_name = ta_team_name req\<rparr>],
                 team_seq := team_seq s + 1\<rparr>))"
  using assms by (auto simp: team_add_def within_tx_eq team_add_tx_body_def team_create_def Let_def)

lemma team_add_front: "team_add ex_front backend_store = (Inr \<lparr>td_team_name = ''frontend'', td_members = ta_members ex_front\<rparr>, front_store)"
  by (simp add: team_add_def within_tx_eq team_add_tx_body_def team_create_def upsert_team_members_def
                upsert_user_row_def member_row_def member_user_def ex_front_def front_store_def
                scenario_defs Let_def)

lemma upsert_members_ids:
  "row_user_id ` member_row tid ` set (map (member_user t) ms) = tm_user_id ` set ms"
  by (force simp: member_row_def member_user_def)

lemma users_upsert_team_members:
  "users (upsert_team_members tid ms s) = fold (\<lambda>m rows. upsert_user_row (member_row tid m) rows) ms (users s)"
  by (simp add: upsert_team_members_def)

lemma find_user_row_upsert_member:
  assumes m: "m \<in> set ms"
  shows "find_user_row (upsert_team_members tid (map (member_user t) ms) s) (tm_user_id m) =
           (let m' = last (filter (\<lambda>k. tm_user_id k = tm_user_id m) ms) in
            Some \<lparr>row_user_id = tm_user_id m, row_username = tm_username m', row_team_id = tid,
                  row_is_active = tm_is_active m'\<rparr>)"
proof -
  let ?L = "filter (\<lambda>k. tm_user_id k = tm_user_id m) ms" and ?ms = "map (member_user t) ms"
  have "tm_user_id m \<in> row_user_id ` member_row tid ` set ?ms"
    using m by (simp only: upsert_members_ids) simp
  then have "find_user_row (upsert_team_members tid ?ms s) (tm_user_id m) =
               Some (member_row tid (last (filter (\<lambda>k. row_user_id (member_row tid k) = tm_user_id m) ?ms)))"
    unfolding find_user_row_def users_upsert_team_members by (rule find_fold_upsert_last)
  moreover have "filter (\<lambda>k. row_user_id (member_row tid k) = tm_user_id m) ?ms = map (member_user t) ?L"
    by (simp add: filter_map comp_def member_row_def member_user_def)
  moreover have "?L \<noteq> []" using m by (auto simp: filter_empty_conv)
  moreover have "tm_user_id (last ?L) = tm_user_id m"
    using \<open>?L \<noteq> []\<close> last_in_set [of ?L] by auto
  ultimately show ?thesis by (simp add: last_map member_row_def member_user_def Let_def)
qed

lemma find_user_row_upsert_other:
  "x \<notin> tm_user_id ` set ms \<Longrightarrow>
   find_user_row (upsert_team_members tid (map (member_user t) ms) s) x = find_user_row s x"
  unfolding find_user_row_def users_upsert_team_members
  by (rule find_fold_upsert_other) (simp only: upsert_members_ids simp_thms)

text \<open>
  C24. \<open>TeamAdd\<close> of a new team name creates the team with the next id of the
  sequence and puts every member in it, with the name and activity flag of the last
  entry for that id in the request (the upsert overwrites earlier ones); users not
  named keep their rows, and pull requests and reviewers are untouched.
\<close>

theorem team_add_effect:
  assumes wf: "wf_store s" and nm: "\<forall>t \<in> set (teams s). team_row_name t \<noteq> ta_team_name req"
    and run: "team_add req s = (res, s')"
  shows "res = Inr \<lparr>td_team_name = ta_team_name req, td_members = ta_members req\<rparr> \<and>
         team_name_of s' (team_seq s + 1) = Some (ta_team_name req) \<and>
         (\<forall>m \<in> set (ta_members req).
            let m' = last (filter (\<lambda>k. tm_user_id k = tm_user_id m) (ta_members req)) in
            find_user_row s' (tm_user_id m) =
              Some \<lparr>row_user_id = tm_user_id m, row_username = tm_username m',
                    row_team_id = team_seq s + 1, row_is_active = tm_is_active m'\<rparr>) \<and>
         (\<forall>x. x \<notin> tm_user_id ` set (ta_members req) \<longrightarrow> find_user_row s' x = find_user_row s x) \<and>
         prs s' = prs s \<and> pr_reviewers s' = pr_reviewers s"
proof -
  let ?t = "\<lparr>team_row_id = team_seq s + 1, team_row_name = ta_team_name req\<rparr>"
  let ?s1 = "s\<lparr>teams := teams s @ [?t], team_seq := team_seq s + 1\<rparr>"
  have res: "res = Inr \<lparr>td_team_name = ta_team_name req, td_members = ta_members req\<rparr>"
    and s': "s' = upsert_team_members (team_seq s + 1) (map (member_user ?t) (ta_members req)) ?s1"
    using run team_add_Inr [OF nm] by simp_all
  have "find (\<lambda>tm. team_row_id tm = team_seq s + 1) (teams s) = None"
    using wf by (fastforce simp: wf_store_def find_None_iff)
  then have tn: "team_name_of s' (team_seq s + 1) = Some (ta_team_name req)"
    by (simp add: s' team_name_of_def upsert_team_members_def find_append_single)
  have s1: "find_user_row ?s1 x = find_user_row s x" for x by (simp add: find_user_row_def)
  have "prs s' = prs s \<and> pr_reviewers s' = pr_reviewers s" by (simp add: s' upsert_team_members_def)
  then show ?thesis
    using res tn find_user_row_upsert_member find_user_row_upsert_other
    by (simp add: s' s1)
qed

theorem team_add_effect_witness:
  "wf_store backend_store \<and> teams backend_store = [backend_team] \<and>
   team_row_name backend_team \<noteq> ta_team_name ex_front \<and>
   team_name_of front_store 2 = Some ''frontend'' \<and>
   find_user_row front_store ''u6'' =
     Some \<lparr>row_user_id = ''u6'', row_username = ''u6'', row_team_id = 2, row_is_active = True\<rparr> \<and>
   find_user_row front_store ''u2'' = find_user_row backend_store ''u2''"
proof -
  have nm: "\<forall>t \<in> set (teams backend_store). team_row_name t \<noteq> ta_team_name ex_front"
    by (simp add: ex_front_def scenario_defs)
  have seq: "team_seq backend_store + 1 = 2" by (simp add: scenario_defs)
  show ?thesis
    using team_add_effect [OF wf_backend_store nm team_add_front] wf_backend_store
    by (simp add: seq ex_front_def scenario_defs)
qed

text \<open>
  C25. \<open>SetIsActive\<close> of an unknown user is \<open>ErrUserNotFound\<close> and writes nothing; of
  a known user it sets exactly that user's flag and answers with the user and team
  name. Other users, pull requests and reviewer assignments are untouched: turning a
  reviewer inactive does not remove the reviewer's assignments.
\<close>

theorem set_is_active_effect:
  "(find_user_row s x = None \<longrightarrow> set_is_active x b s = (Inl ErrUserNotFound, s)) \<and>
   (find_user_row s x = Some r \<longrightarrow> team_name_of s (row_team_id r) = Some n \<longrightarrow>
     (\<exists>s'. set_is_active x b s =
              (Inr \<lparr>ud_user_id = x, ud_username = row_username r, ud_team_name = n, ud_is_active = b\<rparr>, s') \<and>
           find_user_row s' x = Some (r\<lparr>row_is_active := b\<rparr>) \<and>
           (\<forall>y. y \<noteq> x \<longrightarrow> find_user_row s' y = find_user_row s y) \<and>
           prs s' = prs s \<and> pr_reviewers s' = pr_reviewers s \<and> teams s' = teams s))"
proof (intro conjI impI)
  assume "find_user_row s x = None"
  then show "set_is_active x b s = (Inl ErrUserNotFound, s)"
    by (simp add: set_is_active_def set_active_def)
next
  assume r: "find_user_row s x = Some r" and n: "team_name_of s (row_team_id r) = Some n"
  let ?g = "\<lambda>u. if row_user_id u = x then u\<lparr>row_is_active := b\<rparr> else u"
  let ?s' = "s\<lparr>users := map ?g (users s)\<rparr>"
  have sa: "set_active x b s = Inr (user_of_row (r\<lparr>row_is_active := b\<rparr>) n, ?s')"
    using r n by (simp add: set_active_def)
  have rx: "row_user_id r = x" using find_user_row_Some [OF r] by simp
  have fx: "find_user_row ?s' x = Some (r\<lparr>row_is_active := b\<rparr>)"
    using find_user_row_set_active [OF sa, of x] r rx by simp
  have fy: "find_user_row ?s' y = find_user_row s y" if "y \<noteq> x" for y
  proof (cases "find_user_row s y")
    case None
    then show ?thesis using find_user_row_set_active [OF sa, of y] by simp
  next
    case (Some u)
    then have "row_user_id u = y" using find_user_row_Some by blast
    then show ?thesis using Some that find_user_row_set_active [OF sa, of y] by simp
  qed
  have sv: "set_is_active x b s =
              (Inr \<lparr>ud_user_id = x, ud_username = row_username r, ud_team_name = n, ud_is_active = b\<rparr>, ?s')"
    using sa rx by (simp add: set_is_active_def user_of_row_def)
  show "\<exists>s'. set_is_active x b s =
              (Inr \<lparr>ud_user_id = x, ud_username = row_username r, ud_team_name = n, ud_is_active = b\<rparr>, s') \<and>
           find_user_row s' x = Some (r\<lparr>row_is_active := b\<rparr>) \<and>
           (\<forall>y. y \<noteq> x \<longrightarrow> find_user_row s' y = find_user_row s y) \<and>
           prs s' = prs s \<and> pr_reviewers s' = pr_reviewers s \<and> teams s' = teams s"
    by (rule exI [of _ ?s']) (simp add: sv fx fy)
qed

theorem set_is_active_effect_witness:
  "find_user_row backend_store ''zz'' = None \<and>
   set_is_active ''zz'' True backend_store = (Inl ErrUserNotFound, backend_store) \<and>
   find_user_row backend_store ''u5'' = Some (member ''u5'' False) \<and>
   team_name_of backend_store (row_team_id (member ''u5'' False)) = Some ''backend'' \<and>
   (\<exists>s'. set_is_active ''u5'' True backend_store =
          (Inr \<lparr>ud_user_id = ''u5'', ud_username = ''u5'', ud_team_name = ''backend'', ud_is_active = True\<rparr>, s') \<and>
        find_user_row s' ''u5'' = Some (member ''u5'' True) \<and>
        pr_reviewers s' = pr_reviewers backend_store)"
proof -
  have h: "find_user_row backend_store ''zz'' = None"
    "find_user_row backend_store ''u5'' = Some (member ''u5'' False)"
    "team_name_of backend_store (row_team_id (member ''u5'' False)) = Some ''backend''"
    by (simp_all add: find_user_row_def team_name_of_def scenario_defs)
  have "row_username (member ''u5'' False) = ''u5''"
    "(member ''u5'' False)\<lparr>row_is_active := True\<rparr> = member ''u5'' True"
    by (simp_all add: member_def)
  then show ?thesis
    using set_is_active_effect [of backend_store "''zz''" True "member ''u5'' False" "''backend''"]
          set_is_active_effect [of backend_store "''u5''" True "member ''u5'' False" "''backend''"] h
    by auto
qed

text \<open>
  C26. \<open>GetReviewPrs\<close> on a well-formed store lists each pull request the user
  reviews exactly once and no other, newest first (\<open>ORDER BY created_at DESC\<close>), each
  with the name, author and status name of its row.
\<close>

theorem get_review_prs_lists_reviews:
  assumes "wf_store s"
  shows "distinct (map short_id (get_review_prs s x)) \<and>
         set (map short_id (get_review_prs s x)) = {p. x \<in> set (reviewers_of s p)} \<and>
         sorted_wrt (\<lambda>a b. pr_row_created (the (prs s (short_id b))) \<le> pr_row_created (the (prs s (short_id a))))
           (get_review_prs s x) \<and>
         (\<forall>q \<in> set (get_review_prs s x). \<exists>r. prs s (short_id q) = Some r \<and>
            short_name q = pr_row_name r \<and> short_author q = pr_row_author r \<and>
            map_of pr_statuses (pr_row_status r) = Some (short_status_name q))"
proof -
  let ?E = "review_entries s x"
  have ids: "map (short_id \<circ> snd) ?E = map fst (filter (\<lambda>(p, r). r = x) (pr_reviewers s))"
    by (rule review_entries_ids [OF assms])
  have "distinct (filter (\<lambda>(p, r). r = x) (pr_reviewers s))"
    using assms by (simp add: wf_store_def rows_ok_def)
  then have "distinct (map fst (filter (\<lambda>(p, r). r = x) (pr_reviewers s)))"
    by (auto simp: distinct_map inj_on_def)
  then have d: "distinct (map (short_id \<circ> snd) ?E)" by (simp only: ids)
  have st: "set (map (short_id \<circ> snd) ?E) = {p. x \<in> set (reviewers_of s p)}"
    by (simp only: ids) (force simp: set_reviewers_of)
  have srt: "sorted (map fst (sort_key fst ?E))" by (rule sorted_sort_key)
  have cr: "\<forall>e \<in> set (sort_key fst ?E). fst e = pr_row_created (the (prs s (short_id (snd e))))"
    using review_entries_row [OF assms] by fastforce
  have sw: "sorted_wrt (\<lambda>a b. fst a \<le> fst b) (sort_key fst ?E)"
    using srt by (simp add: sorted_wrt_map)
  have "sorted_wrt (\<lambda>a b. pr_row_created (the (prs s (short_id (snd a)))) \<le>
                              pr_row_created (the (prs s (short_id (snd b))))) (sort_key fst ?E)"
    by (rule sorted_wrt_mono_rel [OF _ sw]) (use cr in auto)
  then have so: "sorted_wrt (\<lambda>a b. pr_row_created (the (prs s (short_id b))) \<le> pr_row_created (the (prs s (short_id a))))
           (get_review_prs s x)"
    by (simp add: get_review_prs_entries sorted_wrt_map sorted_wrt_rev)
  have rw: "\<forall>q \<in> set (get_review_prs s x). \<exists>r. prs s (short_id q) = Some r \<and>
            short_name q = pr_row_name r \<and> short_author q = pr_row_author r \<and>
            map_of pr_statuses (pr_row_status r) = Some (short_status_name q)"
    using review_entries_row [OF assms, where x = x] by (fastforce simp: get_review_prs_entries)
  show ?thesis
    using d st so rw
    by (simp add: get_review_prs_entries rev_map [symmetric] distinct_map_sort_key image_comp)
qed

theorem get_review_prs_lists_reviews_witness:
  "wf_store reviewed_store \<and>
   map short_id (get_review_prs reviewed_store ''u2'') = [''pr-1''] \<and>
   {p. ''u2'' \<in> set (reviewers_of reviewed_store p)} = {''pr-1''}"
proof -
  have "map short_id (get_review_prs reviewed_store ''u2'') = [''pr-1'']"
    by (simp add: get_review_prs_def short_of_def pr_statuses_def scenario_defs)
  then show ?thesis
    using get_review_prs_lists_reviews [OF wf_reviewed_store, of "''u2''"] wf_reviewed_store
    by simp
qed

end
