(* ===== verification/System.thy ===== *)
theory System
  imports PrService DirectoryService
begin

text \<open>
  The whole service as a state machine over the store. Each HTTP request that writes
  is an event; its handler is run with its own random draws and clock, and the store it
  leaves is the next state (the response is dropped). \<open>reachable\<close> is the set of
  stores the service can produce from an empty database by a sequence of requests,
  each with a random generator that keeps the contract of \<open>rand.Intn\<close>.
\<close>

section \<open>Events and steps\<close>

datatype event =
    EvTeamAdd team_add_request
  | EvSetIsActive uid bool
  | EvCreate rng timestamp create_pr_request
  | EvMerge timestamp pid
  | EvReassign rng reassign_pr_request

fun step :: "event \<Rightarrow> store \<Rightarrow> store" where
  "step (EvTeamAdd req) s = snd (team_add req s)"
| "step (EvSetIsActive x b) s = snd (set_is_active x b s)"
| "step (EvCreate g now req) s = snd (pr_create g now req s)"
| "step (EvMerge now p) s = snd (pr_merge now p s)"
| "step (EvReassign g req) s = snd (pr_reassign g req s)"

fun event_ok :: "event \<Rightarrow> bool" where
  "event_ok (EvCreate g now req) = rng_ok g"
| "event_ok (EvReassign g req) = rng_ok g"
| "event_ok _ = True"

inductive reachable :: "store \<Rightarrow> bool" where
  reach_empty: "reachable empty_store"
| reach_step: "reachable s \<Longrightarrow> event_ok ev \<Longrightarrow> reachable (step ev s)"

text \<open>Running a list of events from a store.\<close>

fun run :: "event list \<Rightarrow> store \<Rightarrow> store" where
  "run [] s = s"
| "run (ev # evs) s = run evs (step ev s)"

lemma reachable_run:
  "reachable s \<Longrightarrow> list_all event_ok evs \<Longrightarrow> reachable (run evs s)"
  by (induction evs arbitrary: s) (auto intro: reach_step)

section \<open>What each handler leaves\<close>

lemma team_add_store:
  "snd (team_add req s) =
     (case team_create (ta_team_name req) s of
        Inl _ \<Rightarrow> s
      | Inr (t, s1) \<Rightarrow> upsert_team_members (team_row_id t) (map (member_user t) (ta_members req)) s1)"
  by (simp add: team_add_def within_tx_eq team_add_tx_body_def split: sum.splits prod.splits)

lemma set_is_active_store:
  "snd (set_is_active x b s) = (case set_active x b s of Inl _ \<Rightarrow> s | Inr (_, s') \<Rightarrow> s')"
  by (simp add: set_is_active_def split: sum.splits prod.splits)

lemma pr_create_store:
  "snd (pr_create g now req s) =
     (if pr_exists s (req_pr_id req) then s
      else case get_by_id s (req_author_id req) of
        Inl _ \<Rightarrow> s
      | Inr author \<Rightarrow>
          add_reviewers (req_pr_id req)
            (map user_id (find_active_in_team_except (order_key g) s (user_team_id author)
                            (user_id author) 2))
            (s\<lparr>prs := (prs s)(req_pr_id req \<mapsto>
               \<lparr>pr_row_id = req_pr_id req, pr_row_name = req_pr_name req,
                pr_row_author = req_author_id req, pr_row_status = StatusOpen,
                pr_row_created = now, pr_row_merged = None, pr_row_need_more = False\<rparr>)\<rparr>))"
  by (simp add: pr_create_def within_tx_eq create_tx_body_def pr_insert_def pr_exists_def Let_def
           split: sum.splits)

lemma pr_merge_store:
  "snd (pr_merge now p s) = (case prs s p of None \<Rightarrow> s | Some r \<Rightarrow> s\<lparr>prs := (prs s)(p \<mapsto> merged_row now r)\<rparr>)"
  by (simp add: pr_merge_Some split: option.splits) (simp add: pr_merge_def set_merged_def)

lemma pr_reassign_store:
  "snd (pr_reassign g req s) = s \<or>
   (\<exists>new. req_old_user req \<in> set (reviewers_of s (req_reassign_pr req)) \<and>
          replace_reviewer (req_reassign_pr req) (req_old_user req) new s = Inr (snd (pr_reassign g req s)))"
  by (auto simp: pr_reassign_def Let_def get_with_reviewers_def
           split: sum.splits option.splits if_splits prod.splits)

section \<open>The store invariant holds in every reachable state\<close>

lemma wf_create_state:
  assumes wf: "wf_store s" and none: "prs s p = None" and d: "distinct ids" and l: "length ids \<le> 2"
    and row: "pr_row_id r = p" "pr_row_status r = StatusOpen" "pr_row_merged r = None"
  shows "wf_store (add_reviewers p ids (s\<lparr>prs := (prs s)(p \<mapsto> r)\<rparr>))"
proof -
  let ?s1 = "s\<lparr>prs := (prs s)(p \<mapsto> r)\<rparr>"
  let ?s2 = "add_reviewers p ids ?s1"
  have empty: "reviewers_of ?s1 p = []" using wf_no_orphan_rows [OF wf none] by simp
  have revs: "reviewers_of ?s2 q = (if q = p then ids else reviewers_of s q)" for q
    using empty d by (simp add: reviewers_of_add_reviewers_fresh reviewers_of_add_reviewers_other)
  have dist: "distinct (pr_reviewers ?s2)"
    using wf by (simp add: add_reviewers_def wf_store_def rows_ok_def distinct_add_reviewer_rows)
  have refer: "\<forall>x \<in> set (pr_reviewers ?s2). prs ?s2 (fst x) \<noteq> None"
    using wf by (auto simp: add_reviewers_def set_add_reviewer_rows dest: wf_rows_refer)
  have len: "\<forall>q. length (reviewers_of ?s2 q) \<le> 2"
    using l wf by (simp add: revs wf_reviewers_le_2)
  have "pr_rows_ok ?s2"
    using wf row by (simp add: pr_rows_ok_def wf_store_def)
  with wf dist refer len show ?thesis
    by (simp add: wf_store_def rows_okI)
qed

lemma wf_merge_state:
  assumes wf: "wf_store s" and r: "prs s p = Some r"
  shows "wf_store (s\<lparr>prs := (prs s)(p \<mapsto> merged_row now r)\<rparr>)"
proof -
  have "pr_row_id r = p" using wf_pr_row [OF wf r] by simp
  then have "pr_rows_ok (s\<lparr>prs := (prs s)(p \<mapsto> merged_row now r)\<rparr>)"
    using wf by (auto simp: pr_rows_ok_def wf_store_def merged_row_def split: option.splits)
  moreover have "rows_ok (s\<lparr>prs := (prs s)(p \<mapsto> merged_row now r)\<rparr>)"
    using wf r by (auto simp: rows_ok_def wf_store_def reviewers_of_def)
  ultimately show ?thesis using wf by (simp add: wf_store_def)
qed

lemma step_wf: "wf_store s \<Longrightarrow> event_ok ev \<Longrightarrow> wf_store (step ev s)"
proof (induction ev)
  case (EvTeamAdd req)
  then show ?case
    by (auto simp: team_add_store split: sum.splits intro: wf_team_create_upsert)
next
  case (EvSetIsActive x b)
  then show ?case
    by (auto simp: set_is_active_store split: sum.splits intro: wf_set_active)
next
  case (EvCreate g now req)
  then show ?case
    by (auto simp: pr_create_store pr_exists_def length_find_active distinct_candidate_ids
             split: sum.splits intro!: wf_create_state)
next
  case (EvMerge now p)
  then show ?case
    by (auto simp: pr_merge_store split: option.splits intro: wf_merge_state)
next
  case (EvReassign g req)
  then show ?case
    using pr_reassign_store [of g req s] by (auto intro: wf_replace_reviewer)
qed

lemma reachable_wf: "reachable s \<Longrightarrow> wf_store s"
  by (induction rule: reachable.induct) (auto simp: wf_empty_store step_wf)

section \<open>Frame facts of the steps\<close>

lemma team_add_frame:
  "prs (snd (team_add req s)) = prs s \<and> pr_reviewers (snd (team_add req s)) = pr_reviewers s"
  by (auto simp: team_add_store team_create_def upsert_team_members_def Let_def
           split: sum.splits if_splits)

lemma set_is_active_frame:
  "prs (snd (set_is_active x b s)) = prs s \<and> pr_reviewers (snd (set_is_active x b s)) = pr_reviewers s"
  by (auto simp: set_is_active_store set_active_def split: sum.splits option.splits)

lemma reviewers_of_same_rows:
  "pr_reviewers s' = pr_reviewers s \<Longrightarrow> reviewers_of s' p = reviewers_of s p"
  by (simp add: reviewers_of_def)

lemma pr_create_other:
  assumes "prs s p \<noteq> None"
  shows "prs (snd (pr_create g now req s)) p = prs s p \<and>
         reviewers_of (snd (pr_create g now req s)) p = reviewers_of s p"
proof (cases "pr_exists s (req_pr_id req)")
  case False
  then have "req_pr_id req \<noteq> p" using assms by (auto simp: pr_exists_def)
  with False show ?thesis
    by (auto simp: pr_create_store reviewers_of_add_reviewers_other split: sum.splits)
qed (simp add: pr_create_store)

lemma pr_reassign_reviewers:
  "reviewers_of (snd (pr_reassign g req s)) p = reviewers_of s p \<or>
   (p = req_reassign_pr req \<and> req_old_user req \<in> set (reviewers_of s p) \<and>
    (\<exists>new. reviewers_of (snd (pr_reassign g req s)) p = replace_all (req_old_user req) new (reviewers_of s p)))"
  using pr_reassign_store [of g req s]
  by (auto dest!: replace_reviewer_Inr simp: reviewers_of_replace_all split: if_splits)

lemma prs_pr_reassign [simp]: "prs (snd (pr_reassign g req s)) = prs s"
  using pr_reassign_store [of g req s] by (auto dest!: replace_reviewer_Inr)

lemma pr_reassign_merged:
  "prs s (req_reassign_pr req) = Some r \<Longrightarrow> pr_row_status r = StatusMerged \<Longrightarrow>
   pr_reassign g req s = (Inl ErrPRMerged, s)"
  by (simp add: pr_reassign_def get_with_reviewers_def pr_statuses_def pr_of_row_def Let_def)

section \<open>Reachable scenario stores\<close>

text \<open>\<open>/team/add\<close> of team \<open>backend\<close> with \<open>u1\<close> to \<open>u4\<close> active and \<open>u5\<close> inactive.\<close>

definition ex_team_add :: team_add_request where
  "ex_team_add =
     \<lparr>ta_team_name = ''backend'',
      ta_members = map (\<lambda>(x, b). \<lparr>tm_user_id = x, tm_username = x, tm_is_active = b\<rparr>)
                     [(''u1'', True), (''u2'', True), (''u3'', True), (''u4'', True), (''u5'', False)]\<rparr>"

lemma step_team_add_empty: "step (EvTeamAdd ex_team_add) empty_store = backend_store"
  by (simp add: team_add_store team_create_def upsert_team_members_def upsert_user_row_def
                member_row_def member_user_def ex_team_add_def empty_store_def scenario_defs Let_def)

lemma reachable_backend_store: "reachable backend_store"
proof -
  have "reachable (step (EvTeamAdd ex_team_add) empty_store)"
    by (rule reach_step [OF reach_empty]) simp
  then show ?thesis by (simp only: step_team_add_empty)
qed

lemma reachable_reviewed_store: "reachable reviewed_store"
  using reach_step [OF reachable_backend_store, of "EvCreate default_rng 7 ex_create"]
  by (simp add: ex_create_run)

lemma reachable_merged_store: "reachable merged_store"
proof -
  have "step (EvMerge 9 ''pr-1'') reviewed_store = merged_store"
    by (simp add: pr_merge_store merged_row_def scenario_defs)
  then show ?thesis using reach_step [OF reachable_reviewed_store, of "EvMerge 9 ''pr-1''"] by simp
qed

section \<open>Properties of reachable states\<close>

text \<open>
  C9. In every reachable store, the reviewers of a pull request are pairwise distinct
  and at most two, a store without the pull request holds no reviewer for it, and a
  pull request is open without merge time or merged with one.
\<close>

theorem reachable_reviewer_invariant:
  assumes "reachable s"
  shows "distinct (reviewers_of s p) \<and> length (reviewers_of s p) \<le> 2 \<and>
         (prs s p = None \<longrightarrow> reviewers_of s p = []) \<and>
         (prs s p = Some r \<longrightarrow> pr_row_id r = p \<and>
            (pr_row_status r = StatusOpen \<and> pr_row_merged r = None \<or>
             pr_row_status r = StatusMerged \<and> pr_row_merged r \<noteq> None))"
proof -
  have wf: "wf_store s" using assms by (rule reachable_wf)
  then show ?thesis
    using wf_pr_row [OF wf, of p r]
    by (simp add: wf_reviewers_distinct wf_reviewers_le_2 wf_no_orphan_rows)
qed

theorem reachable_reviewer_invariant_witness:
  "reachable reviewed_store \<and> distinct (reviewers_of reviewed_store ''pr-1'') \<and>
   length (reviewers_of reviewed_store ''pr-1'') \<le> 2 \<and>
   reviewers_of reviewed_store ''pr-9'' = [] \<and>
   prs reviewed_store ''pr-1'' = Some open_row \<and> pr_row_id open_row = ''pr-1'' \<and>
   pr_row_status open_row = StatusOpen \<and> pr_row_merged open_row = None"
proof -
  have h: "prs reviewed_store ''pr-1'' = Some open_row" "prs reviewed_store ''pr-9'' = None"
    by (simp_all add: scenario_defs)
  show ?thesis
    using reachable_reviewer_invariant [OF reachable_reviewed_store, of "''pr-1''" open_row]
          reachable_reviewer_invariant [OF reachable_reviewed_store, of "''pr-9''" open_row]
          reachable_reviewed_store h
    by (simp add: open_row_def)
qed

text \<open>
  C10. The size of a pull request's reviewer set is fixed when it is created: no later
  request of any kind changes it.
\<close>

theorem step_keeps_reviewer_count:
  assumes "reachable s" and "event_ok ev" and "prs s p \<noteq> None"
  shows "length (reviewers_of (step ev s) p) = length (reviewers_of s p)"
proof (cases ev)
  case (EvTeamAdd req)
  then show ?thesis using reviewers_of_same_rows [OF team_add_frame [THEN conjunct2]] by simp
next
  case (EvSetIsActive x b)
  then show ?thesis using reviewers_of_same_rows [OF set_is_active_frame [THEN conjunct2]] by simp
next
  case (EvCreate g now req)
  then show ?thesis using pr_create_other [OF assms(3)] by simp
next
  case (EvMerge now q)
  then show ?thesis by (simp add: pr_merge_store split: option.splits)
next
  case (EvReassign g req)
  then show ?thesis using pr_reassign_reviewers [of g req s p] by auto
qed

theorem step_keeps_reviewer_count_witness:
  "reachable reviewed_store \<and> event_ok (EvReassign last_rng ex_reassign) \<and>
   prs reviewed_store ''pr-1'' \<noteq> None \<and>
   length (reviewers_of (step (EvReassign last_rng ex_reassign) reviewed_store) ''pr-1'') =
   length (reviewers_of reviewed_store ''pr-1'')"
proof -
  have h: "event_ok (EvReassign last_rng ex_reassign)" "prs reviewed_store ''pr-1'' \<noteq> None"
    by (simp_all add: rng_ok_last_rng scenario_defs)
  show ?thesis
    using step_keeps_reviewer_count [OF reachable_reviewed_store h] reachable_reviewed_store h by simp
qed

text \<open>
  C11. A merged pull request is frozen: after any request it is still merged, its merge
  time is the one it had, and its reviewers are the ones it had.
\<close>

theorem step_keeps_merged_frozen:
  assumes "reachable s" and "event_ok ev" and "prs s p = Some r" and "pr_row_status r = StatusMerged"
  shows "\<exists>r'. prs (step ev s) p = Some r' \<and> pr_row_status r' = StatusMerged \<and>
              pr_row_merged r' = pr_row_merged r \<and> reviewers_of (step ev s) p = reviewers_of s p"
proof -
  have wf: "wf_store s" using assms(1) by (rule reachable_wf)
  then obtain t where t: "pr_row_merged r = Some t"
    using wf_pr_row [OF wf assms(3)] assms(4) by auto
  show ?thesis
  proof (cases ev)
    case (EvTeamAdd req)
    then show ?thesis
      using team_add_frame [of req s] reviewers_of_same_rows [OF team_add_frame [THEN conjunct2]] assms(3,4)
      by simp
  next
    case (EvSetIsActive x b)
    then show ?thesis
      using set_is_active_frame [of x b s] reviewers_of_same_rows [OF set_is_active_frame [THEN conjunct2]]
            assms(3,4)
      by simp
  next
    case (EvCreate g now req)
    then show ?thesis using pr_create_other [of s p g now req] assms(3,4) by simp
  next
    case (EvMerge now q)
    then show ?thesis using assms(3,4) t
      by (auto simp: pr_merge_store merged_row_def split: option.splits)
  next
    case (EvReassign g req)
    show ?thesis
    proof (cases "req_reassign_pr req = p")
      case True
      then have "pr_reassign g req s = (Inl ErrPRMerged, s)"
        using assms(3,4) by (simp add: pr_reassign_merged)
      with EvReassign assms(3,4) show ?thesis by simp
    next
      case False
      with EvReassign assms(3,4) show ?thesis using pr_reassign_reviewers [of g req s p] by auto
    qed
  qed
qed

theorem step_keeps_merged_frozen_witness:
  "reachable merged_store \<and> event_ok (EvReassign last_rng ex_reassign) \<and>
   prs merged_store ''pr-1'' = Some (open_row\<lparr>pr_row_status := StatusMerged, pr_row_merged := Some 9\<rparr>) \<and>
   (\<exists>r'. prs (step (EvReassign last_rng ex_reassign) merged_store) ''pr-1'' = Some r' \<and>
      pr_row_status r' = StatusMerged \<and> pr_row_merged r' = Some 9 \<and>
      reviewers_of (step (EvReassign last_rng ex_reassign) merged_store) ''pr-1'' =
        reviewers_of merged_store ''pr-1'')"
proof -
  have h: "event_ok (EvReassign last_rng ex_reassign)"
    "prs merged_store ''pr-1'' = Some (open_row\<lparr>pr_row_status := StatusMerged, pr_row_merged := Some 9\<rparr>)"
    "pr_row_status (open_row\<lparr>pr_row_status := StatusMerged, pr_row_merged := Some 9\<rparr>) = StatusMerged"
    by (simp_all add: rng_ok_last_rng scenario_defs)
  show ?thesis
    using step_keeps_merged_frozen [OF reachable_merged_store h] reachable_merged_store h by simp
qed

section \<open>The author can become a reviewer\<close>

text \<open>
  C12. The specification's exclusion invariant (the author is never a reviewer of the
  own pull request) does not hold: \<open>Reassign\<close> draws from the old reviewer's active
  teammates without excluding the author. In the specification's own scenario, after
  \<open>u1\<close> opened \<open>pr-1\<close> with reviewers \<open>u2\<close> and \<open>u3\<close>, reassigning \<open>u2\<close> can make
  \<open>u1\<close> a reviewer of \<open>pr-1\<close>, in a store the service reaches.
\<close>

definition author_reviewed_store :: store where
  "author_reviewed_store = step (EvReassign default_rng ex_reassign) reviewed_store"

theorem reassign_makes_author_reviewer:
  "reachable author_reviewed_store \<and>
   prs author_reviewed_store ''pr-1'' = Some open_row \<and>
   pr_row_author open_row \<in> set (reviewers_of author_reviewed_store ''pr-1'') \<and>
   snd (pr_reassign default_rng ex_reassign reviewed_store) = author_reviewed_store \<and>
   fst (pr_reassign default_rng ex_reassign reviewed_store) =
     Inr (ex_created_dto\<lparr>dto_reviewers := [''u1'', ''u3'']\<rparr>, ''u1'')"
proof -
  have run: "pr_reassign default_rng ex_reassign reviewed_store =
     (Inr (ex_created_dto\<lparr>dto_reviewers := [''u1'', ''u3'']\<rparr>, ''u1''),
      reviewed_store\<lparr>pr_reviewers := [(''pr-1'', ''u1''), (''pr-1'', ''u3'')]\<rparr>)"
    by (simp add: pr_reassign_def ex_reassign_def ex_created_dto_def store_simps scenario_defs Let_def)
  have reach: "reachable author_reviewed_store"
    unfolding author_reviewed_store_def
    by (rule reach_step [OF reachable_reviewed_store]) (simp add: rng_ok_default_rng)
  have eq: "author_reviewed_store =
              reviewed_store\<lparr>pr_reviewers := [(''pr-1'', ''u1''), (''pr-1'', ''u3'')]\<rparr>"
    by (simp add: author_reviewed_store_def run)
  have "prs author_reviewed_store ''pr-1'' = Some open_row"
    by (simp add: eq scenario_defs)
  moreover have "pr_row_author open_row \<in> set (reviewers_of author_reviewed_store ''pr-1'')"
    by (simp add: eq reviewers_of_def open_row_def)
  moreover have "snd (pr_reassign default_rng ex_reassign reviewed_store) = author_reviewed_store"
    by (simp add: run eq)
  ultimately show ?thesis using reach run by simp
qed

end
