(* ===== verification/TeamScope.thy ===== *)
theory TeamScope
  imports System
begin

text \<open>
  Team scoping (specification, section 8): every reviewer of a pull request is in the
  team of its author. \<open>Create\<close> draws from the author's team and \<open>Reassign\<close> from the
  replaced reviewer's team, so each engine step keeps the property. \<open>/team/add\<close> is an
  upsert on \<open>users\<close> (\<open>ON CONFLICT (user_id) DO UPDATE SET team_id = \<dots>\<close>): a request
  that names a user who already exists moves that user to the new team, and then the
  property fails. The invariant is proved for the stores reached by requests that
  move nobody, and the failure is exhibited on a store the service reaches.
\<close>

section \<open>Team scoping of a store\<close>

definition same_team :: "store \<Rightarrow> uid \<Rightarrow> uid \<Rightarrow> bool" where
  "same_team s a y =
     (case (find_user_row s a, find_user_row s y) of
        (Some ra, Some ry) \<Rightarrow> row_team_id ra = row_team_id ry
      | _ \<Rightarrow> False)"

definition scoped_row :: "store \<Rightarrow> pid \<times> uid \<Rightarrow> bool" where
  "scoped_row s x = (case prs s (fst x) of None \<Rightarrow> False | Some r \<Rightarrow> same_team s (pr_row_author r) (snd x))"

definition team_scoped :: "store \<Rightarrow> bool" where
  "team_scoped s \<longleftrightarrow> list_all (scoped_row s) (pr_reviewers s)"

text \<open>
  A request moves nobody when it is not \<open>/team/add\<close>, or when none of the members it
  names exists yet.
\<close>

fun moves_nobody :: "event \<Rightarrow> store \<Rightarrow> bool" where
  "moves_nobody (EvTeamAdd req) s = list_all (\<lambda>m. find_user_row s (tm_user_id m) = None) (ta_members req)"
| "moves_nobody _ s = True"

inductive stable_reachable :: "store \<Rightarrow> bool" where
  stable_empty: "stable_reachable empty_store"
| stable_step: "stable_reachable s \<Longrightarrow> event_ok ev \<Longrightarrow> moves_nobody ev s \<Longrightarrow> stable_reachable (step ev s)"

text \<open>\<open>/team/add\<close> of a new team \<open>frontend\<close> that names \<open>u2\<close>, a reviewer of \<open>pr-1\<close>.\<close>

definition ex_move :: team_add_request where
  "ex_move = \<lparr>ta_team_name = ''frontend'',
              ta_members = [\<lparr>tm_user_id = ''u2'', tm_username = ''u2'', tm_is_active = True\<rparr>]\<rparr>"

definition moved_store :: store where
  "moved_store = step (EvTeamAdd ex_move) reviewed_store"

section \<open>Transport of team scoping\<close>

lemma same_team_iff:
  "same_team s a y \<longleftrightarrow> (\<exists>ra ry. find_user_row s a = Some ra \<and> find_user_row s y = Some ry \<and>
                                row_team_id ra = row_team_id ry)"
  by (simp add: same_team_def split: option.splits)

lemma scoped_row_iff:
  "scoped_row s x \<longleftrightarrow> (\<exists>r. prs s (fst x) = Some r \<and> same_team s (pr_row_author r) (snd x))"
  by (simp add: scoped_row_def split: option.splits)

lemma same_team_mono:
  assumes "same_team s a y"
    and "\<And>z r. find_user_row s z = Some r \<Longrightarrow> \<exists>r'. find_user_row s' z = Some r' \<and> row_team_id r' = row_team_id r"
  shows "same_team s' a y"
  using assms(1) assms(2) [of a] assms(2) [of y]
  by (auto simp: same_team_def split: option.splits)

lemma team_scoped_frame:
  assumes sc: "team_scoped s" and rows: "pr_reviewers s' = pr_reviewers s"
    and pr: "\<And>p r. prs s p = Some r \<Longrightarrow> \<exists>r'. prs s' p = Some r' \<and> pr_row_author r' = pr_row_author r"
    and us: "\<And>z r. find_user_row s z = Some r \<Longrightarrow> \<exists>r'. find_user_row s' z = Some r' \<and> row_team_id r' = row_team_id r"
  shows "team_scoped s'"
proof -
  have "scoped_row s' x" if "scoped_row s x" for x
    using that pr [of "fst x"] same_team_mono [OF _ us]
    by (fastforce simp: scoped_row_def split: option.splits)
  with sc rows show ?thesis by (simp add: team_scoped_def list_all_iff)
qed

lemma team_scoped_rows:
  assumes "\<And>x. x \<in> set (pr_reviewers s) \<Longrightarrow> scoped_row s x"
  shows "team_scoped s"
  using assms by (simp add: team_scoped_def list_all_iff)

lemma team_scoped_row: "team_scoped s \<Longrightarrow> x \<in> set (pr_reviewers s) \<Longrightarrow> scoped_row s x"
  by (simp add: team_scoped_def list_all_iff)

lemma stable_reachable_reachable: "stable_reachable s \<Longrightarrow> reachable s"
  by (induction rule: stable_reachable.induct) (auto intro: reachable.intros)

section \<open>Each step keeps team scoping\<close>

lemma scoped_team_add:
  assumes sc: "team_scoped s" and mv: "moves_nobody (EvTeamAdd req) s"
  shows "team_scoped (step (EvTeamAdd req) s)"
proof (cases "team_create (ta_team_name req) s")
  case (Inl e)
  then show ?thesis using sc by (simp add: team_add_store)
next
  case (Inr ts)
  then obtain t s1 where tc: "team_create (ta_team_name req) s = Inr (t, s1)" by (cases ts) auto
  then have s1: "s1 = s\<lparr>teams := teams s @ [t], team_seq := team_seq s + 1\<rparr>"
    by (auto simp: team_create_def Let_def split: if_splits)
  let ?s' = "upsert_team_members (team_row_id t) (map (member_user t) (ta_members req)) s1"
  have us: "find_user_row ?s' z = find_user_row s z" if "find_user_row s z = Some r" for z r
  proof -
    have "z \<notin> tm_user_id ` set (ta_members req)" using mv that by (auto simp: list_all_iff)
    then have "z \<notin> row_user_id ` member_row (team_row_id t) ` set (map (member_user t) (ta_members req))"
      by (auto simp: member_row_def member_user_def)
    then show ?thesis
      by (simp add: find_user_row_def upsert_team_members_def s1 find_fold_upsert_other)
  qed
  have "team_scoped ?s'"
  proof (rule team_scoped_frame [OF sc])
    show "pr_reviewers ?s' = pr_reviewers s" by (simp add: upsert_team_members_def s1)
  next
    fix p r assume "prs s p = Some r"
    then show "\<exists>r'. prs ?s' p = Some r' \<and> pr_row_author r' = pr_row_author r"
      by (simp add: upsert_team_members_def s1)
  next
    fix z r assume "find_user_row s z = Some r"
    then show "\<exists>r'. find_user_row ?s' z = Some r' \<and> row_team_id r' = row_team_id r"
      using us by simp
  qed
  then show ?thesis using tc by (simp add: team_add_store)
qed

lemma scoped_set_is_active:
  assumes sc: "team_scoped s"
  shows "team_scoped (step (EvSetIsActive x b) s)"
proof (cases "set_active x b s")
  case (Inr us)
  then obtain u s' where sa: "set_active x b s = Inr (u, s')" by (cases us) auto
  then have fr: "prs s' = prs s" "pr_reviewers s' = pr_reviewers s"
    by (auto simp: set_active_def split: option.splits)
  have "team_scoped s'"
  proof (rule team_scoped_frame [OF sc fr(2)])
    fix p r assume "prs s p = Some r"
    then show "\<exists>r'. prs s' p = Some r' \<and> pr_row_author r' = pr_row_author r" by (simp add: fr)
  next
    fix z r assume "find_user_row s z = Some r"
    then show "\<exists>r'. find_user_row s' z = Some r' \<and> row_team_id r' = row_team_id r"
      by (simp add: find_user_row_set_active [OF sa])
  qed
  then show ?thesis using sa by (simp add: set_is_active_store)
qed (simp add: set_is_active_store sc)

lemma scoped_merge:
  assumes sc: "team_scoped s"
  shows "team_scoped (step (EvMerge now p) s)"
proof (cases "prs s p")
  case (Some r0)
  let ?s' = "s\<lparr>prs := (prs s)(p \<mapsto> merged_row now r0)\<rparr>"
  have "team_scoped ?s'"
  proof (rule team_scoped_frame [OF sc])
    fix q r assume "prs s q = Some r"
    then show "\<exists>r'. prs ?s' q = Some r' \<and> pr_row_author r' = pr_row_author r"
      using Some by (cases "q = p") (simp_all add: merged_row_def)
  qed (simp_all add: find_user_row_def)
  then show ?thesis using Some by (simp add: pr_merge_store)
qed (simp add: pr_merge_store sc)

lemma same_team_new_rows [simp]:
  "same_team (s\<lparr>pr_reviewers := rs\<rparr>) = same_team s"
  by (simp add: same_team_def find_user_row_def fun_eq_iff)

lemma scoped_row_new_rows [simp]:
  "scoped_row (s\<lparr>pr_reviewers := rs\<rparr>) x = scoped_row s x"
  by (simp add: scoped_row_def split: option.splits)

lemma set_rows_add_reviewers:
  "set (pr_reviewers (add_reviewers p ids s)) = set (pr_reviewers s) \<union> Pair p ` set ids"
  by (simp add: add_reviewers_def set_add_reviewer_rows)

lemma scoped_create:
  assumes wf: "wf_store s" and sc: "team_scoped s"
  shows "team_scoped (step (EvCreate g now req) s)"
proof (cases "pr_exists s (req_pr_id req)")
  case False
  show ?thesis
  proof (cases "get_by_id s (req_author_id req)")
    case (Inr author)
    let ?p = "req_pr_id req"
    let ?ids = "map user_id (find_active_in_team_except (order_key g) s (user_team_id author)
                               (user_id author) 2)"
    define r where "r = \<lparr>pr_row_id = ?p, pr_row_name = req_pr_name req,
                pr_row_author = req_author_id req, pr_row_status = StatusOpen,
                pr_row_created = now, pr_row_merged = None, pr_row_need_more = False\<rparr>"
    let ?s1 = "s\<lparr>prs := (prs s)(?p \<mapsto> r)\<rparr>"
    have st: "step (EvCreate g now req) s = add_reviewers ?p ?ids ?s1"
      using False Inr by (simp add: pr_create_store r_def)
    have none: "prs s ?p = None" using False by (simp add: pr_exists_def)
    obtain ra where ra: "find_user_row s (req_author_id req) = Some ra"
      "row_team_id ra = user_team_id author"
      using get_by_id_row [OF Inr] by auto
    have fu: "find_user_row (add_reviewers ?p ids ?s1) z = find_user_row s z" for ids z
      by (simp add: find_user_row_def)
    have "scoped_row (add_reviewers ?p ?ids ?s1) x" if x: "x \<in> set (pr_reviewers (add_reviewers ?p ?ids ?s1))" for x
    proof (cases "x \<in> set (pr_reviewers s)")
      case True
      then have "fst x \<noteq> ?p" using wf_rows_refer [OF wf True] none by auto
      then show ?thesis
        using team_scoped_row [OF sc True] by (simp add: scoped_row_iff same_team_iff fu)
    next
      case False
      then obtain u where u: "u \<in> set (find_active_in_team_except (order_key g) s
                              (user_team_id author) (user_id author) 2)" and xu: "x = (?p, user_id u)"
        using x by (auto simp: set_rows_add_reviewers)
      from find_active_member [OF u] joined_user_row [OF wf]
      obtain rv where "find_user_row s (user_id u) = Some rv" "row_team_id rv = user_team_id author"
        by fastforce
      moreover have "pr_row_author r = req_author_id req" by (simp add: r_def)
      ultimately show ?thesis using ra xu by (simp add: scoped_row_iff same_team_iff fu)
    qed
    then show ?thesis unfolding st by (rule team_scoped_rows)
  qed (simp add: pr_create_store False sc)
qed (simp add: pr_create_store sc)

lemma scoped_reassign:
  assumes wf: "wf_store s" and sc: "team_scoped s" and g: "rng_ok g"
  shows "team_scoped (step (EvReassign g req) s)"
proof (cases "fst (pr_reassign g req s)")
  case (Inl e)
  then have "pr_reassign g req s = (Inl e, snd (pr_reassign g req s))" by (metis prod.collapse)
  then show ?thesis using pr_reassign_Inl_cases [OF wf g] sc by (metis step.simps(5))
next
  case (Inr dn)
  then obtain d new where ok: "pr_reassign g req s = (Inr (d, new), snd (pr_reassign g req s))"
    by (metis prod.collapse)
  let ?p = "req_reassign_pr req" and ?old = "req_old_user req"
  obtain pr old_user where old: "?old \<in> set (reviewers_of s ?p)"
    and ou: "get_by_id s ?old = Inr old_user"
    and pool: "new \<in> set (reassign_pool g s old_user (reviewers_of s ?p))"
    and rr: "replace_reviewer ?p ?old new s = Inr (snd (pr_reassign g req s))"
    by (rule pr_reassign_Inr [OF g ok])
  have row: "(?p, ?old) \<in> set (pr_reviewers s)" using old by (simp add: set_reviewers_of)
  obtain ro where ro: "find_user_row s ?old = Some ro" "row_team_id ro = user_team_id old_user"
    using get_by_id_row [OF ou] by auto
  obtain rn where rn: "find_user_row s new = Some rn" "row_team_id rn = user_team_id old_user"
    using reassign_pool_member [OF wf pool] by auto
  have "scoped_row s (?p, new)"
    using team_scoped_row [OF sc row] ro rn by (auto simp: scoped_row_iff same_team_iff)
  then have "\<forall>x \<in> set (replace_all (?p, ?old) (?p, new) (pr_reviewers s)). scoped_row s x"
    using team_scoped_row [OF sc] row by (simp add: set_replace_all)
  then show ?thesis
    using replace_reviewer_Inr [OF rr] by (auto intro!: team_scoped_rows)
qed

lemma scoped_step:
  assumes "wf_store s" and "team_scoped s" and "event_ok ev" and "moves_nobody ev s"
  shows "team_scoped (step ev s)"
proof (cases ev)
  case (EvTeamAdd req)
  then show ?thesis using assms scoped_team_add [of s req] by simp
next
  case (EvSetIsActive x b)
  then show ?thesis using assms scoped_set_is_active [of s x b] by simp
next
  case (EvCreate g now req)
  then show ?thesis using assms scoped_create [of s g now req] by simp
next
  case (EvMerge now p)
  then show ?thesis using assms scoped_merge [of s now p] by simp
next
  case (EvReassign g req)
  then show ?thesis using assms scoped_reassign [of s g req] by simp
qed

section \<open>Reachable scenario stores\<close>

lemma team_scoped_empty: "team_scoped empty_store"
  by (simp add: team_scoped_def empty_store_def)

lemma stable_reachable_backend_store: "stable_reachable backend_store"
proof -
  have "moves_nobody (EvTeamAdd ex_team_add) empty_store"
    by (simp add: ex_team_add_def empty_store_def find_user_row_def)
  then have "stable_reachable (step (EvTeamAdd ex_team_add) empty_store)"
    using stable_step [OF stable_empty] by (simp only: event_ok.simps)
  then show ?thesis by (simp only: step_team_add_empty)
qed

lemma stable_reachable_reviewed_store: "stable_reachable reviewed_store"
  using stable_step [OF stable_reachable_backend_store, of "EvCreate default_rng 7 ex_create"]
  by (simp add: ex_create_run)

lemma moved_store_eq:
  "moved_store =
     reviewed_store\<lparr>teams := [backend_team, \<lparr>team_row_id = 2, team_row_name = ''frontend''\<rparr>],
                    team_seq := 2,
                    users := [member ''u1'' True, \<lparr>row_user_id = ''u2'', row_username = ''u2'',
                                                   row_team_id = 2, row_is_active = True\<rparr>,
                              member ''u3'' True, member ''u4'' True, member ''u5'' False]\<rparr>"
  by (simp add: moved_store_def team_add_store team_create_def upsert_team_members_def
                upsert_user_row_def member_row_def member_user_def ex_move_def scenario_defs Let_def)

lemma reachable_moved_store: "reachable moved_store"
  unfolding moved_store_def by (rule reach_step [OF reachable_reviewed_store]) simp

section \<open>Team scoping holds until a user is moved\<close>

text \<open>
  C18. In every store reached from the empty database by requests that move no
  existing user to another team, every reviewer row of a pull request names a user in
  the same team as the pull request's author.
\<close>

theorem stable_reachable_team_scoped:
  assumes "stable_reachable s"
  shows "TeamScope.team_scoped s"
  using assms
proof (induction rule: stable_reachable.induct)
  case stable_empty
  then show ?case by (rule team_scoped_empty)
next
  case (stable_step s ev)
  then show ?case
    using scoped_step reachable_wf stable_reachable_reachable by blast
qed

theorem stable_reachable_team_scoped_witness:
  "stable_reachable reviewed_store \<and> team_scoped reviewed_store"
  using stable_reachable_team_scoped [OF stable_reachable_reviewed_store]
        stable_reachable_reviewed_store
  by simp

text \<open>
  C19. \<open>/team/add\<close> breaks team scoping: after \<open>pr-1\<close> of \<open>u1\<close> got the reviewers
  \<open>u2\<close> and \<open>u3\<close> in team \<open>backend\<close>, adding a team \<open>frontend\<close> that names \<open>u2\<close>
  moves \<open>u2\<close> into it, and the reachable store then has a reviewer of \<open>pr-1\<close> outside
  the author's team.
\<close>

theorem team_add_breaks_team_scoping:
  "reachable TeamScope.moved_store \<and>
   (''pr-1'', ''u2'') \<in> set (pr_reviewers moved_store) \<and>
   prs moved_store ''pr-1'' = Some open_row \<and>
   map_option row_team_id (find_user_row moved_store (pr_row_author open_row)) = Some 1 \<and>
   map_option row_team_id (find_user_row moved_store ''u2'') = Some 2 \<and>
   \<not> team_scoped moved_store"
proof -
  have "\<not> scoped_row moved_store (''pr-1'', ''u2'')"
    by (simp add: moved_store_eq scoped_row_def same_team_def find_user_row_def scenario_defs)
  then have "\<not> team_scoped moved_store"
    by (auto simp: team_scoped_def moved_store_eq scenario_defs)
  then show ?thesis
    using reachable_moved_store
    by (simp add: moved_store_eq find_user_row_def scenario_defs)
qed

end
