(* ===== verification/Http.thy ===== *)
theory Http
  imports System
begin

text \<open>
  The HTTP boundary of \<open>internal/httpapi\<close> and \<open>internal/validation\<close>: each handler
  validates its decoded request, calls its service, and maps the service's error to a
  status code and an error code string of \<open>models/dto/error.go\<close>. JSON decoding and
  encoding are not modelled: a handler takes the decoded request and returns a
  \<open>reply\<close>, the status with either the response value or the error body.
\<close>

section \<open>Replies and error bodies\<close>

datatype 'a reply = Ok nat 'a | Err nat string string

text \<open>\<open>Error()\<close> of each error value of \<open>types.go\<close>.\<close>

fun error_message :: "error \<Rightarrow> string" where
  "error_message ErrTeamExists = ''team_name already exists''"
| "error_message ErrTeamNotFound = ''resource not found''"
| "error_message ErrUserNotFound = ''resource not found''"
| "error_message ErrPRNotFound = ''resource not found''"
| "error_message ErrNoCandidate = ''no active candidate in team''"
| "error_message ErrReviewerNotSet = ''reviewer is not assigned to this PR''"
| "error_message ErrPRMerged = ''cannot reassign on merged PR''"
| "error_message ErrPRExists = ''PR id already exists''"
| "error_message (ErrDb c) = ''ERROR (SQLSTATE '' @ c @ '')''"

text \<open>
  The messages \<open>internalError\<close> and \<open>rscNotFound\<close> the handlers send are not defined
  in the sources; the model gives them the text their names suggest.
\<close>

definition internal_error :: string where "internal_error = ''internal error''"
definition rsc_not_found :: string where "rsc_not_found = ''resource not found''"

section \<open>Validation\<close>

definition blank :: "string \<Rightarrow> bool" where
  "blank s \<longleftrightarrow> trim_space s = []"

text \<open>\<open>ValidateCreatePR\<close>, \<open>ValidateMergePR\<close>, \<open>ValidateReassignPR\<close>: the first blank field.\<close>

definition validate_create_pr :: "create_pr_request \<Rightarrow> string option" where
  "validate_create_pr req =
     (if blank (req_pr_id req) then Some ''pull_request_id is required''
      else if blank (req_pr_name req) then Some ''pull_request_name is required''
      else if blank (req_author_id req) then Some ''author_id is required''
      else None)"

definition validate_merge_pr :: "pid \<Rightarrow> string option" where
  "validate_merge_pr p = (if blank p then Some ''pull_request_id is required'' else None)"

definition validate_reassign_pr :: "reassign_pr_request \<Rightarrow> string option" where
  "validate_reassign_pr req =
     (if blank (req_reassign_pr req) then Some ''pull_request_id is required''
      else if blank (req_old_user req) then Some ''old_user_id is required''
      else None)"

text \<open>\<open>ValidateUserSetActive\<close> and \<open>ValidateUserID\<close>.\<close>

definition validate_user_id :: "uid \<Rightarrow> string option" where
  "validate_user_id x = (if blank x then Some ''user_id is required'' else None)"

section \<open>Pull request handlers\<close>

text \<open>\<open>PrCreate\<close>: 400 on validation, 409 \<open>PR_EXISTS\<close>, 404 for unknown user or team, else 500.\<close>

definition create_error_reply :: "error \<Rightarrow> 'a reply" where
  "create_error_reply e =
     (if e = ErrPRExists then Err 409 ''PR_EXISTS'' (error_message e)
      else if e = ErrUserNotFound \<or> e = ErrTeamNotFound then Err 404 ''NOT_FOUND'' (error_message e)
      else Err 500 ''NOT_FOUND'' internal_error)"

definition handle_pr_create ::
  "rng \<Rightarrow> timestamp \<Rightarrow> create_pr_request \<Rightarrow> store \<Rightarrow> pr_dto reply \<times> store" where
  "handle_pr_create g now req s =
     (case validate_create_pr req of
        Some msg \<Rightarrow> (Err 400 ''NOT_FOUND'' msg, s)
      | None \<Rightarrow>
          (case pr_create g now req s of
             (Inl e, s') \<Rightarrow> (create_error_reply e, s')
           | (Inr d, s') \<Rightarrow> (Ok 201 d, s')))"

text \<open>\<open>MergePR\<close>: 404 for an unknown pull request, else 500.\<close>

definition handle_pr_merge :: "timestamp \<Rightarrow> pid \<Rightarrow> store \<Rightarrow> pr_dto reply \<times> store" where
  "handle_pr_merge now p s =
     (case validate_merge_pr p of
        Some msg \<Rightarrow> (Err 400 ''NOT_FOUND'' msg, s)
      | None \<Rightarrow>
          (case pr_merge now p s of
             (Inl e, s') \<Rightarrow>
               (if e = ErrPRNotFound then Err 404 ''NOT_FOUND'' (error_message e)
                else Err 500 ''NOT_FOUND'' internal_error, s')
           | (Inr d, s') \<Rightarrow> (Ok 200 d, s')))"

text \<open>\<open>PrReassign\<close>: 404, 409 \<open>PR_MERGED\<close>, 409 \<open>NOT_ASSIGNED\<close>, 409 \<open>NO_CANDIDATE\<close>, else 500.\<close>

definition reassign_error_reply :: "error \<Rightarrow> 'a reply" where
  "reassign_error_reply e =
     (if e = ErrPRNotFound \<or> e = ErrUserNotFound then Err 404 ''NOT_FOUND'' (error_message e)
      else if e = ErrPRMerged then Err 409 ''PR_MERGED'' (error_message e)
      else if e = ErrReviewerNotSet then Err 409 ''NOT_ASSIGNED'' (error_message e)
      else if e = ErrNoCandidate then Err 409 ''NO_CANDIDATE'' (error_message e)
      else Err 500 ''NOT_FOUND'' internal_error)"

definition handle_pr_reassign ::
  "rng \<Rightarrow> reassign_pr_request \<Rightarrow> store \<Rightarrow> (pr_dto \<times> uid) reply \<times> store" where
  "handle_pr_reassign g req s =
     (case validate_reassign_pr req of
        Some msg \<Rightarrow> (Err 400 ''NOT_FOUND'' msg, s)
      | None \<Rightarrow>
          (case pr_reassign g req s of
             (Inl e, s') \<Rightarrow> (reassign_error_reply e, s')
           | (Inr r, s') \<Rightarrow> (Ok 200 r, s')))"

section \<open>Team and user handlers\<close>

text \<open>\<open>ValidateTeamAdd\<close>: a team name, at least one member, ids and names of members.\<close>

fun validate_members :: "nat \<Rightarrow> team_member list \<Rightarrow> string option" where
  "validate_members i [] = None"
| "validate_members i (m # ms) =
     (if blank (tm_user_id m) then Some (''members['' @ decimal i @ ''].user_id is required'')
      else if blank (tm_username m) then Some (''members['' @ decimal i @ ''].username is required'')
      else validate_members (Suc i) ms)"

definition validate_team_add :: "team_add_request \<Rightarrow> string option" where
  "validate_team_add req =
     (if blank (ta_team_name req) then Some ''team_name is required''
      else if ta_members req = [] then Some ''team must have at least one member''
      else validate_members 0 (ta_members req))"

text \<open>\<open>TeamAdd\<close>: 400 on validation, 400 \<open>TEAM_EXISTS\<close>, else 500; 201 on success.\<close>

definition handle_team_add :: "team_add_request \<Rightarrow> store \<Rightarrow> team_dto reply \<times> store" where
  "handle_team_add req s =
     (case validate_team_add req of
        Some msg \<Rightarrow> (Err 400 ''NOT_FOUND'' msg, s)
      | None \<Rightarrow>
          (case team_add req s of
             (Inl e, s') \<Rightarrow>
               (if e = ErrTeamExists then Err 400 ''TEAM_EXISTS'' (error_message e)
                else Err 500 ''NOT_FOUND'' internal_error, s')
           | (Inr d, s') \<Rightarrow> (Ok 201 d, s')))"

text \<open>\<open>TeamGet\<close>: 400 for an empty name, 404 \<open>ErrTeamNotFound\<close>, else 500.\<close>

definition handle_team_get :: "store \<Rightarrow> string \<Rightarrow> team_dto reply" where
  "handle_team_get s nm =
     (if nm = [] then Err 400 ''NOT_FOUND'' rsc_not_found
      else case team_get s nm of
        Inl e \<Rightarrow>
          (if e = ErrTeamNotFound then Err 404 ''NOT_FOUND'' (error_message e)
           else Err 500 ''NOT_FOUND'' internal_error)
      | Inr d \<Rightarrow> Ok 200 d)"

text \<open>
  \<open>requireAdmin\<close>: the header must start with \<open>Bearer \<close>, and what follows,
  trimmed, must be the admin token.
\<close>

definition bearer :: string where "bearer = ''Bearer ''"

definition require_admin :: "string \<Rightarrow> string \<Rightarrow> bool" where
  "require_admin admin auth \<longleftrightarrow>
     auth \<noteq> [] \<and> take (length bearer) auth = bearer \<and>
     trim_space (drop (length bearer) auth) = admin"

text \<open>\<open>UserSetActive\<close>: 401 before anything else, then validation, 404, 500.\<close>

definition handle_user_set_active ::
  "string \<Rightarrow> string \<Rightarrow> uid \<Rightarrow> bool \<Rightarrow> store \<Rightarrow> user_dto reply \<times> store" where
  "handle_user_set_active admin auth x b s =
     (if \<not> require_admin admin auth then (Err 401 ''NOT_FOUND'' rsc_not_found, s)
      else case validate_user_id x of
        Some msg \<Rightarrow> (Err 400 ''NOT_FOUND'' msg, s)
      | None \<Rightarrow>
          (case set_is_active x b s of
             (Inl e, s') \<Rightarrow>
               (if e = ErrUserNotFound then Err 404 ''NOT_FOUND'' (error_message e)
                else Err 500 ''NOT_FOUND'' internal_error, s')
           | (Inr d, s') \<Rightarrow> (Ok 200 d, s')))"

text \<open>\<open>UserGetReview\<close>: 400 for an empty id, 404 \<open>ErrUserNotFound\<close>, else 500.\<close>

definition handle_user_get_review :: "store \<Rightarrow> uid \<Rightarrow> user_review_dto reply" where
  "handle_user_get_review s x =
     (if x = [] then Err 400 ''NOT_FOUND'' rsc_not_found
      else case get_review_prs_svc s x of
        Inl e \<Rightarrow>
          (if e = ErrUserNotFound then Err 404 ''NOT_FOUND'' (error_message e)
           else Err 500 ''NOT_FOUND'' internal_error)
      | Inr d \<Rightarrow> Ok 200 d)"

text \<open>\<open>StatsReviewerAssignments\<close>: the statistics, 200.\<close>

definition handle_stats :: "store \<Rightarrow> reviewer_stat list reply" where
  "handle_stats s = Ok 200 (get_reviewer_stats_svc s)"

section \<open>Properties of the HTTP boundary\<close>

text \<open>
  C13. Creating a pull request whose id is taken answers 500 with the generic internal
  error and writes nothing: the service returns \<open>ErrTeamExists\<close>, which the handler
  does not recognise (it looks for \<open>ErrPRExists\<close>, answered 409 \<open>PR_EXISTS\<close>).
\<close>

theorem http_create_duplicate_500:
  assumes "validate_create_pr req = None" and "pr_exists s (req_pr_id req)"
  shows "handle_pr_create g now req s = (Err 500 ''NOT_FOUND'' internal_error, s)"
  using assms by (simp add: handle_pr_create_def pr_create_existing create_error_reply_def)

theorem http_create_duplicate_500_witness:
  "validate_create_pr ex_create = None \<and> pr_exists reviewed_store (req_pr_id ex_create) \<and>
   handle_pr_create default_rng 8 ex_create reviewed_store = (Err 500 ''NOT_FOUND'' internal_error, reviewed_store)"
proof -
  have h: "validate_create_pr ex_create = None" "pr_exists reviewed_store (req_pr_id ex_create)"
    by (simp_all add: validate_create_pr_def blank_def trim_space_def is_space_def ex_create_def
                      pr_exists_def scenario_defs)
  show ?thesis using http_create_duplicate_500 [OF h] h by simp
qed

text \<open>
  C14. On a well-formed store, a valid \<open>/pullRequest/reassign\<close> request is answered
  200, 404 or 409 and never 500; every reply but 200 leaves the store unchanged.
\<close>

theorem http_reassign_no_500:
  assumes "wf_store s" and "rng_ok g" and "validate_reassign_pr req = None"
  shows "(\<exists>r. fst (handle_pr_reassign g req s) = Ok 200 r) \<or>
         (\<exists>c m. (fst (handle_pr_reassign g req s) = Err 404 c m \<or>
                 fst (handle_pr_reassign g req s) = Err 409 c m) \<and>
                snd (handle_pr_reassign g req s) = s)"
proof (cases "pr_reassign g req s")
  case (Pair res s')
  show ?thesis
  proof (cases res)
    case (Inl e)
    with Pair have "s' = s \<and> e \<in> {ErrPRNotFound, ErrPRMerged, ErrReviewerNotSet, ErrUserNotFound, ErrNoCandidate}"
      using pr_reassign_Inl_cases [OF assms(1,2)] by simp
    with Pair Inl assms(3) show ?thesis
      by (auto simp: handle_pr_reassign_def reassign_error_reply_def)
  next
    case (Inr r)
    with Pair assms(3) show ?thesis by (simp add: handle_pr_reassign_def)
  qed
qed

theorem http_reassign_no_500_witness:
  "wf_store solo_store \<and> rng_ok default_rng \<and> validate_reassign_pr ex_solo_reassign = None \<and>
   handle_pr_reassign default_rng ex_solo_reassign solo_store =
     (Err 409 ''NO_CANDIDATE'' ''no active candidate in team'', solo_store)"
proof -
  have v: "validate_reassign_pr ex_solo_reassign = None"
    by (simp add: validate_reassign_pr_def blank_def trim_space_def is_space_def ex_solo_reassign_def)
  have "handle_pr_reassign default_rng ex_solo_reassign solo_store =
          (Err 409 ''NO_CANDIDATE'' ''no active candidate in team'', solo_store)"
    using v ex_solo_reassign_run by (simp add: handle_pr_reassign_def reassign_error_reply_def)
  then show ?thesis
    using http_reassign_no_500 [OF wf_solo_store rng_ok_default_rng v] wf_solo_store v by simp
qed

text \<open>
  C15. The two read endpoints with a not-found case never report it as the
  specification does: \<open>/team/get\<close> never succeeds (for a non-empty name the
  repository's query fails in PostgreSQL and the handler answers 500, whatever the
  store holds), and \<open>/users/getReview\<close> never answers 404, whatever the store and the
  user id (the repository does not look the user up, so the handler's not-found
  branch is dead).
\<close>

theorem http_read_endpoints_fail:
  "handle_team_get s nm =
     (if nm = [] then Err 400 ''NOT_FOUND'' rsc_not_found else Err 500 ''NOT_FOUND'' internal_error) \<and>
   handle_user_get_review s x \<noteq> Err 404 c m"
  by (simp add: handle_team_get_def team_get_def team_get_by_name_def handle_user_get_review_def
                get_review_prs_svc_def)

text \<open>An unknown user is answered 200 with an empty list.\<close>

lemma get_review_unknown_user:
  "handle_user_get_review backend_store ''ghost'' = Ok 200 \<lparr>ur_user_id = ''ghost'', ur_prs = []\<rparr>"
  by (simp add: handle_user_get_review_def get_review_prs_svc_def get_review_prs_def scenario_defs)


end
