(* ===== verification/Concurrency.thy ===== *)
theory Concurrency
  imports Http
begin

text \<open>
  \<open>Reassign\<close> (\<open>pr_service.go\<close>) runs its reads (\<open>GetWithReviewers\<close>, \<open>GetByID\<close>,
  \<open>FindActiveInTeamExcept\<close>) and its write (\<open>ReplaceReviewer\<close>, then the re-read) as
  separate autocommitted statements, outside any transaction. Other requests can run
  between the reads and the write. The handler is split here at that point into a
  read phase, which decides the replacement, and a write phase, which applies it to
  whatever store it then finds. The stores reached when other requests run inside that
  gap are characterised by \<open>creachable\<close>.
\<close>

section \<open>Reassign split at the write\<close>

definition reassign_read :: "rng \<Rightarrow> reassign_pr_request \<Rightarrow> store \<Rightarrow> error + (pid \<times> uid \<times> uid)" where
  "reassign_read g req s =
     (let p = req_reassign_pr req; old = req_old_user req in
      case get_with_reviewers s p of
        Inl e \<Rightarrow> Inl e
      | Inr (pr, reviewers) \<Rightarrow>
          if pr_status_id pr = StatusMerged then Inl ErrPRMerged
          else if old \<notin> set reviewers then Inl ErrReviewerNotSet
          else case get_by_id s old of
            Inl e \<Rightarrow> Inl e
          | Inr old_user \<Rightarrow>
              (let possible = reassign_pool g s old_user reviewers in
               if possible = [] then Inl ErrNoCandidate
               else Inr (p, old, possible ! intn g (length possible))))"

fun reassign_write :: "pid \<times> uid \<times> uid \<Rightarrow> store \<Rightarrow> (pr_dto \<times> uid) outcome" where
  "reassign_write (p, old, new) s =
     (case replace_reviewer p old new s of
        Inl e \<Rightarrow> (Inl e, s)
      | Inr s' \<Rightarrow>
          (case get_with_reviewers s' p of
             Inl e \<Rightarrow> (Inl e, s')
           | Inr (pr', rs') \<Rightarrow> (Inr (pr_to_dto pr' rs', new), s')))"

text \<open>The requests \<open>evs\<close> run between the read phase and the write phase.\<close>

definition reassign_interleaved ::
  "rng \<Rightarrow> reassign_pr_request \<Rightarrow> event list \<Rightarrow> store \<Rightarrow> (pr_dto \<times> uid) outcome" where
  "reassign_interleaved g req evs s =
     (case reassign_read g req s of
        Inl e \<Rightarrow> (Inl e, run evs s)
      | Inr plan \<Rightarrow> reassign_write plan (run evs s))"

inductive creachable :: "store \<Rightarrow> bool" where
  creach_empty: "creachable empty_store"
| creach_step: "creachable s \<Longrightarrow> event_ok ev \<Longrightarrow> creachable (step ev s)"
| creach_race: "creachable s \<Longrightarrow> rng_ok g \<Longrightarrow> list_all event_ok evs \<Longrightarrow>
                creachable (snd (reassign_interleaved g req evs s))"

text \<open>A second request of the scenario: reassign \<open>u3\<close> on \<open>pr-1\<close>.\<close>

definition ex_reassign_u3 :: reassign_pr_request where
  "ex_reassign_u3 = \<lparr>req_reassign_pr = ''pr-1'', req_old_user = ''u3''\<rparr>"

section \<open>Facts of the split\<close>

lemma reassign_split:
  "pr_reassign g req s =
     (case reassign_read g req s of Inl e \<Rightarrow> (Inl e, s) | Inr plan \<Rightarrow> reassign_write plan s)"
  by (simp add: pr_reassign_def reassign_read_def Let_def
           split: sum.splits prod.splits if_splits)

lemma run_wf: "wf_store s \<Longrightarrow> list_all event_ok evs \<Longrightarrow> wf_store (run evs s)"
  by (induction evs arbitrary: s) (auto simp: step_wf)

lemma reassign_write_wf: "wf_store s \<Longrightarrow> wf_store (snd (reassign_write plan s))"
  by (cases plan)
     (auto simp: wf_replace_reviewer split: sum.splits prod.splits)

lemma creachable_reachable: "reachable s \<Longrightarrow> creachable s"
  by (induction rule: reachable.induct) (auto intro: creachable.intros)

section \<open>Scenario runs\<close>

lemma read_ex_reassign: "reassign_read last_rng ex_reassign reviewed_store = Inr (''pr-1'', ''u2'', ''u4'')"
  by (simp add: reassign_read_def ex_reassign_def last_rng_def store_simps scenario_defs Let_def)

lemma read_ex_reassign_u3: "reassign_read last_rng ex_reassign_u3 reviewed_store = Inr (''pr-1'', ''u3'', ''u4'')"
  by (simp add: reassign_read_def ex_reassign_u3_def last_rng_def store_simps scenario_defs Let_def)

lemma step_merge_reviewed: "step (EvMerge 9 ''pr-1'') reviewed_store = merged_store"
  by (simp add: pr_merge_store merged_row_def scenario_defs)

lemma write_after_merge:
  "reassign_write (''pr-1'', ''u2'', ''u4'') merged_store =
     (Inr (ex_created_dto\<lparr>dto_status := ''MERGED'', dto_reviewers := [''u4'', ''u3''],
                          dto_merged_at := Some 9\<rparr>, ''u4''),
      merged_store\<lparr>pr_reviewers := [(''pr-1'', ''u4''), (''pr-1'', ''u3'')]\<rparr>)"
  by (simp add: ex_created_dto_def store_simps scenario_defs Let_def)

lemma write_after_reassign:
  "reassign_write (''pr-1'', ''u3'', ''u4'')
     (reviewed_store\<lparr>pr_reviewers := [(''pr-1'', ''u4''), (''pr-1'', ''u3'')]\<rparr>) =
   (Inl (ErrDb uniqueViolationErr),
    reviewed_store\<lparr>pr_reviewers := [(''pr-1'', ''u4''), (''pr-1'', ''u3'')]\<rparr>)"
  by (simp add: replace_reviewer_def replace_all_def)

lemma merge_race_run:
  "reassign_interleaved last_rng ex_reassign [EvMerge 9 ''pr-1''] reviewed_store =
     (Inr (ex_created_dto\<lparr>dto_status := ''MERGED'', dto_reviewers := [''u4'', ''u3''],
                          dto_merged_at := Some 9\<rparr>, ''u4''),
      merged_store\<lparr>pr_reviewers := [(''pr-1'', ''u4''), (''pr-1'', ''u3'')]\<rparr>)"
proof -
  have run: "run [EvMerge 9 ''pr-1''] reviewed_store = merged_store"
    by (simp only: run.simps step_merge_reviewed)
  show ?thesis
    unfolding reassign_interleaved_def read_ex_reassign run sum.case by (rule write_after_merge)
qed

lemma creachable_merge_race:
  "creachable (merged_store\<lparr>pr_reviewers := [(''pr-1'', ''u4''), (''pr-1'', ''u3'')]\<rparr>)"
proof -
  have "creachable (snd (reassign_interleaved last_rng ex_reassign [EvMerge 9 ''pr-1''] reviewed_store))"
    by (rule creach_race [OF creachable_reachable [OF reachable_reviewed_store] rng_ok_last_rng]) simp
  then show ?thesis by (simp only: merge_race_run snd_conv)
qed

section \<open>Properties of the interleavings\<close>

text \<open>
  The split is faithful: when no request runs between the read phase and the write
  phase, the interleaved \<open>Reassign\<close> is the sequential handler.
\<close>

lemma reassign_interleaved_sequential:
  "reassign_interleaved g req [] s = pr_reassign g req s"
  by (simp add: reassign_interleaved_def reassign_split split: sum.splits)

text \<open>
  C21. Interleaving does not break the store's keys: in every store reached when any
  requests run inside the gaps of \<open>Reassign\<close>, a pull request's reviewers are still
  distinct and at most two, and a missing pull request has none. The unique key of
  \<open>pull_request_reviewers\<close> and the \<open>WHERE\<close> clause of \<open>ReplaceReviewer\<close> are what
  keep them.
\<close>

theorem creachable_reviewer_keys:
  assumes "creachable s"
  shows "distinct (reviewers_of s p) \<and> length (reviewers_of s p) \<le> 2 \<and>
         (prs s p = None \<longrightarrow> reviewers_of s p = [])"
proof -
  have "wf_store s"
    using assms
  proof (induction rule: creachable.induct)
    case (creach_race s g evs req)
    then have "wf_store (run evs s)" by (simp add: run_wf)
    then show ?case
      by (auto simp: reassign_interleaved_def reassign_write_wf split: sum.splits)
  qed (auto simp: wf_empty_store step_wf)
  then show ?thesis by (simp add: wf_reviewers_distinct wf_reviewers_le_2 wf_no_orphan_rows)
qed

theorem creachable_reviewer_keys_witness:
  "creachable (merged_store\<lparr>pr_reviewers := [(''pr-1'', ''u4''), (''pr-1'', ''u3'')]\<rparr>) \<and>
   distinct (reviewers_of (merged_store\<lparr>pr_reviewers := [(''pr-1'', ''u4''), (''pr-1'', ''u3'')]\<rparr>) ''pr-1'') \<and>
   length (reviewers_of (merged_store\<lparr>pr_reviewers := [(''pr-1'', ''u4''), (''pr-1'', ''u3'')]\<rparr>) ''pr-1'') \<le> 2 \<and>
   reviewers_of (merged_store\<lparr>pr_reviewers := [(''pr-1'', ''u4''), (''pr-1'', ''u3'')]\<rparr>) ''pr-2'' = []"
proof -
  have "prs (merged_store\<lparr>pr_reviewers := [(''pr-1'', ''u4''), (''pr-1'', ''u3'')]\<rparr>) ''pr-2'' = None"
    by (simp add: scenario_defs)
  then show ?thesis
    using creachable_reviewer_keys [OF creachable_merge_race, of "''pr-1''"]
          creachable_reviewer_keys [OF creachable_merge_race, of "''pr-2''"] creachable_merge_race
    by simp
qed

text \<open>
  A \<open>Merge\<close> that runs while \<open>Reassign\<close> is between its reads and its write does
  not stop the write: in the specification's scenario, reassigning \<open>u2\<close> on
  \<open>pr-1\<close> while \<open>pr-1\<close> is merged answers success and changes the reviewers of
  the merged pull request, which the sequential service never does.
\<close>

lemma merge_during_reassign:
  "creachable (snd (reassign_interleaved last_rng ex_reassign [EvMerge 9 ''pr-1''] reviewed_store)) \<and>
   reassign_interleaved last_rng ex_reassign [EvMerge 9 ''pr-1''] reviewed_store =
     (Inr (ex_created_dto\<lparr>dto_status := ''MERGED'', dto_reviewers := [''u4'', ''u3''],
                          dto_merged_at := Some 9\<rparr>, ''u4''),
      merged_store\<lparr>pr_reviewers := [(''pr-1'', ''u4''), (''pr-1'', ''u3'')]\<rparr>) \<and>
   reviewers_of merged_store ''pr-1'' = [''u2'', ''u3''] \<and>
   pr_row_status (the (prs merged_store ''pr-1'')) = StatusMerged"
proof -
  have m: "reviewers_of merged_store ''pr-1'' = [''u2'', ''u3''] \<and>
           pr_row_status (the (prs merged_store ''pr-1'')) = StatusMerged"
    by (simp add: reviewers_of_def scenario_defs)
  show ?thesis using creachable_merge_race merge_race_run m by simp
qed

text \<open>
  C23. Two \<open>Reassign\<close> requests on the same pull request can collide: reassigning
  \<open>u3\<close> on \<open>pr-1\<close> alone succeeds, but if the reassignment of \<open>u2\<close> completes
  between its reads and its write, both picked \<open>u4\<close>, the \<open>UPDATE\<close> violates the
  unique key of \<open>pull_request_reviewers\<close>, and the request is answered 500.
\<close>

theorem concurrent_reassigns_collide:
  "fst (pr_reassign last_rng ex_reassign_u3 reviewed_store) = Inr (ex_created_dto\<lparr>dto_reviewers := [''u2'', ''u4'']\<rparr>, ''u4'') \<and>
   reassign_interleaved last_rng ex_reassign_u3 [EvReassign last_rng ex_reassign] reviewed_store =
     (Inl (ErrDb uniqueViolationErr),
      reviewed_store\<lparr>pr_reviewers := [(''pr-1'', ''u4''), (''pr-1'', ''u3'')]\<rparr>) \<and>
   (reassign_error_reply (ErrDb uniqueViolationErr) :: (pr_dto \<times> uid) reply) = Err 500 ''NOT_FOUND'' internal_error"
proof -
  have run: "run [EvReassign last_rng ex_reassign] reviewed_store =
               reviewed_store\<lparr>pr_reviewers := [(''pr-1'', ''u4''), (''pr-1'', ''u3'')]\<rparr>"
    by (simp only: run.simps step.simps ex_reassign_run snd_conv)
  have seq: "fst (pr_reassign last_rng ex_reassign_u3 reviewed_store) =
               Inr (ex_created_dto\<lparr>dto_reviewers := [''u2'', ''u4'']\<rparr>, ''u4'')"
    unfolding reassign_split read_ex_reassign_u3
    by (simp add: ex_created_dto_def store_simps scenario_defs replace_reviewer_def replace_all_def)
  have eq: "reassign_interleaved last_rng ex_reassign_u3 [EvReassign last_rng ex_reassign] reviewed_store =
     (Inl (ErrDb uniqueViolationErr),
      reviewed_store\<lparr>pr_reviewers := [(''pr-1'', ''u4''), (''pr-1'', ''u3'')]\<rparr>)"
    unfolding reassign_interleaved_def read_ex_reassign_u3 run sum.case by (rule write_after_reassign)
  show ?thesis
    using seq eq by (simp add: reassign_error_reply_def)
qed

end
