(* ===== verification/Interleaving.thy ===== *)
theory Interleaving
  imports Concurrency
begin

text \<open>
  The requests of the service at the granularity of SQL statements. \<open>net/http\<close>
  serves every request in its own goroutine, and every repository method runs its
  statements on the pool (\<open>currentDB\<close> of \<open>tx.go\<close> is never called), so each
  statement autocommits and the statements of concurrent requests interleave, also
  inside \<open>WithinTx\<close>. A request in flight is a thread: the \<open>event\<close> it serves and a
  program counter \<open>pc\<close> that holds the locals the remaining statements need.
  \<open>stmt\<close> runs the next statement of a thread; \<open>run_sched\<close> runs a set of threads to
  completion under any scheduler.
\<close>

section \<open>Statements\<close>

text \<open>The answer a request returns to its handler.\<close>

datatype answer =
    APr "error + pr_dto"
  | AReassign "error + pr_dto \<times> uid"
  | ATeam "error + team_dto"
  | AUser "error + user_dto"

text \<open>
  The program counter: the statement a thread runs next, with the values it has
  read so far. \<open>Ret\<close> is a thread that has returned.
\<close>

datatype pc =
    Begin
  | CrAuthor
  | CrFind user
  | CrInsert pull_request "uid list"
  | CrAdd pid "uid list"
  | CrRow pid
  | CrRevs pid pull_request
  | MgRow pull_request
  | MgRevs pull_request
  | RaRevs pull_request
  | RaOld "uid list"
  | RaFind user "uid list"
  | RaReplace uid
  | RaRow uid
  | RaRevs2 pull_request uid
  | TaUpsert team "team_member list"
  | Ret answer

type_synonym thread = "event \<times> pc"

text \<open>
  The first statement of \<open>GetWithReviewers\<close>: the pull request joined with its
  status (\<open>qPR\<close>); the second, \<open>qRev\<close>, is \<open>reviewers_of\<close>.
\<close>

definition gwr_row :: "store \<Rightarrow> pid \<Rightarrow> error + pull_request" where
  "gwr_row s p =
     (case prs s p of
        None \<Rightarrow> Inl ErrPRNotFound
      | Some r \<Rightarrow>
          (case map_of pr_statuses (pr_row_status r) of
             None \<Rightarrow> Inl ErrPRNotFound
           | Some nm \<Rightarrow> Inr (pr_of_row r nm)))"

text \<open>The row \<open>Create\<close> builds after \<open>FindActiveInTeamExcept\<close>.\<close>

definition new_pr :: "timestamp \<Rightarrow> create_pr_request \<Rightarrow> pull_request" where
  "new_pr now req =
     \<lparr>pr_id = req_pr_id req, pr_name = req_pr_name req, pr_author = req_author_id req,
      pr_status_id = StatusOpen, pr_status_name = [], pr_created_at = now, pr_merged_at = None\<rparr>"

text \<open>The answer of \<open>TeamAdd\<close> once its statements succeeded.\<close>

definition team_answer :: "team_add_request \<Rightarrow> team \<Rightarrow> answer" where
  "team_answer req t = ATeam (Inr \<lparr>td_team_name = team_row_name t, td_members = ta_members req\<rparr>)"

text \<open>
  One statement of a thread. \<open>Create\<close>: \<open>Exists\<close>, \<open>GetByID\<close>,
  \<open>FindActiveInTeamExcept\<close>, \<open>Insert\<close>, one \<open>INSERT \<dots> ON CONFLICT DO NOTHING\<close>
  per reviewer (none for an empty list), \<open>qPR\<close>, \<open>qRev\<close>. \<open>Merge\<close>: \<open>SetMerged\<close>
  (its status lookup reads \<open>pr_statuses\<close>, which no request writes), \<open>qPR\<close>,
  \<open>qRev\<close>. \<open>Reassign\<close>: \<open>qPR\<close>, \<open>qRev\<close> and the checks, \<open>GetByID\<close>,
  \<open>FindActiveInTeamExcept\<close> and the choice, \<open>ReplaceReviewer\<close>, \<open>qPR\<close>, \<open>qRev\<close>.
  \<open>TeamAdd\<close>: the team insert, then one upsert per member. \<open>SetIsActive\<close>: its
  \<open>UPDATE \<dots> RETURNING\<close>.
\<close>

fun create_stmt :: "rng \<Rightarrow> timestamp \<Rightarrow> create_pr_request \<Rightarrow> pc \<Rightarrow> store \<Rightarrow> pc \<times> store" where
  "create_stmt g now req Begin s =
     (if pr_exists s (req_pr_id req) then Ret (APr (Inl ErrTeamExists)) else CrAuthor, s)"
| "create_stmt g now req CrAuthor s =
     (case get_by_id s (req_author_id req) of
        Inl e \<Rightarrow> Ret (APr (Inl e))
      | Inr a \<Rightarrow> CrFind a, s)"
| "create_stmt g now req (CrFind a) s =
     (CrInsert (new_pr now req)
        (map user_id (find_active_in_team_except (order_key g) s (user_team_id a) (user_id a) 2)), s)"
| "create_stmt g now req (CrInsert pr ids) s =
     (case pr_insert pr s of
        Inl e \<Rightarrow> (Ret (APr (Inl e)), s)
      | Inr s1 \<Rightarrow> (if ids = [] then CrRow (pr_id pr) else CrAdd (pr_id pr) ids, s1))"
| "create_stmt g now req (CrAdd p (i # is)) s =
     (if is = [] then CrRow p else CrAdd p is, add_reviewers p [i] s)"
| "create_stmt g now req (CrRow p) s =
     (case gwr_row s p of
        Inl e \<Rightarrow> Ret (APr (Inl e))
      | Inr pr \<Rightarrow> CrRevs p pr, s)"
| "create_stmt g now req (CrRevs p pr) s =
     (Ret (APr (Inr (pr_to_dto pr (reviewers_of s p)))), s)"
| "create_stmt g now req pc s = (pc, s)"

fun merge_stmt :: "timestamp \<Rightarrow> pid \<Rightarrow> pc \<Rightarrow> store \<Rightarrow> pc \<times> store" where
  "merge_stmt now p Begin s =
     (case set_merged p now s of
        Inl e \<Rightarrow> (Ret (APr (Inl e)), s)
      | Inr (pr, s') \<Rightarrow> (MgRow pr, s'))"
| "merge_stmt now p (MgRow pr) s =
     (case gwr_row s p of
        Inl e \<Rightarrow> Ret (APr (Inl e))
      | Inr _ \<Rightarrow> MgRevs pr, s)"
| "merge_stmt now p (MgRevs pr) s =
     (Ret (APr (Inr (pr_to_dto pr (reviewers_of s p)))), s)"
| "merge_stmt now p pc s = (pc, s)"

fun reassign_stmt :: "rng \<Rightarrow> reassign_pr_request \<Rightarrow> pc \<Rightarrow> store \<Rightarrow> pc \<times> store" where
  "reassign_stmt g req Begin s =
     (case gwr_row s (req_reassign_pr req) of
        Inl e \<Rightarrow> Ret (AReassign (Inl e))
      | Inr pr \<Rightarrow> RaRevs pr, s)"
| "reassign_stmt g req (RaRevs pr) s =
     (let rs = reviewers_of s (req_reassign_pr req) in
      if pr_status_id pr = StatusMerged then Ret (AReassign (Inl ErrPRMerged))
      else if req_old_user req \<notin> set rs then Ret (AReassign (Inl ErrReviewerNotSet))
      else RaOld rs, s)"
| "reassign_stmt g req (RaOld rs) s =
     (case get_by_id s (req_old_user req) of
        Inl e \<Rightarrow> Ret (AReassign (Inl e))
      | Inr u \<Rightarrow> RaFind u rs, s)"
| "reassign_stmt g req (RaFind u rs) s =
     (let possible = reassign_pool g s u rs in
      if possible = [] then Ret (AReassign (Inl ErrNoCandidate))
      else RaReplace (possible ! intn g (length possible)), s)"
| "reassign_stmt g req (RaReplace new) s =
     (case replace_reviewer (req_reassign_pr req) (req_old_user req) new s of
        Inl e \<Rightarrow> (Ret (AReassign (Inl e)), s)
      | Inr s' \<Rightarrow> (RaRow new, s'))"
| "reassign_stmt g req (RaRow new) s =
     (case gwr_row s (req_reassign_pr req) of
        Inl e \<Rightarrow> Ret (AReassign (Inl e))
      | Inr pr \<Rightarrow> RaRevs2 pr new, s)"
| "reassign_stmt g req (RaRevs2 pr new) s =
     (Ret (AReassign (Inr (pr_to_dto pr (reviewers_of s (req_reassign_pr req)), new))), s)"
| "reassign_stmt g req pc s = (pc, s)"

fun team_add_stmt :: "team_add_request \<Rightarrow> pc \<Rightarrow> store \<Rightarrow> pc \<times> store" where
  "team_add_stmt req Begin s =
     (case team_create (ta_team_name req) s of
        Inl e \<Rightarrow> (Ret (ATeam (Inl e)), s)
      | Inr (t, s1) \<Rightarrow>
          (if ta_members req = [] then Ret (team_answer req t) else TaUpsert t (ta_members req), s1))"
| "team_add_stmt req (TaUpsert t (m # ms)) s =
     (if ms = [] then Ret (team_answer req t) else TaUpsert t ms,
      s\<lparr>users := upsert_user_row (member_row (team_row_id t) (member_user t m)) (users s)\<rparr>)"
| "team_add_stmt req pc s = (pc, s)"

fun set_active_stmt :: "uid \<Rightarrow> bool \<Rightarrow> pc \<Rightarrow> store \<Rightarrow> pc \<times> store" where
  "set_active_stmt x b Begin s = (case set_is_active x b s of (r, s') \<Rightarrow> (Ret (AUser r), s'))"
| "set_active_stmt x b pc s = (pc, s)"

primrec stmt :: "event \<Rightarrow> pc \<Rightarrow> store \<Rightarrow> pc \<times> store" where
  "stmt (EvCreate g now req) = create_stmt g now req"
| "stmt (EvMerge now p) = merge_stmt now p"
| "stmt (EvReassign g req) = reassign_stmt g req"
| "stmt (EvTeamAdd req) = team_add_stmt req"
| "stmt (EvSetIsActive x b) = set_active_stmt x b"

text \<open>A thread that has returned.\<close>

fun finished :: "pc \<Rightarrow> bool" where
  "finished (Ret a) = True"
| "finished pc = False"

text \<open>
  The statements a thread still runs at most: \<open>Create\<close> eight (with two
  reviewers), \<open>Merge\<close> three, \<open>Reassign\<close> seven, \<open>TeamAdd\<close> one plus one per
  member, \<open>SetIsActive\<close> one. A program counter that is not one of its event's
  (or an empty loop) has none.
\<close>

fun create_left :: "pc \<Rightarrow> nat" where
  "create_left Begin = 8"
| "create_left CrAuthor = 7"
| "create_left (CrFind a) = 6"
| "create_left (CrInsert pr ids) = 3 + length ids"
| "create_left (CrAdd p ids) = (if ids = [] then 0 else 2 + length ids)"
| "create_left (CrRow p) = 2"
| "create_left (CrRevs p pr) = 1"
| "create_left pc = 0"

fun merge_left :: "pc \<Rightarrow> nat" where
  "merge_left Begin = 3"
| "merge_left (MgRow pr) = 2"
| "merge_left (MgRevs pr) = 1"
| "merge_left pc = 0"

fun reassign_left :: "pc \<Rightarrow> nat" where
  "reassign_left Begin = 7"
| "reassign_left (RaRevs pr) = 6"
| "reassign_left (RaOld rs) = 5"
| "reassign_left (RaFind u rs) = 4"
| "reassign_left (RaReplace new) = 3"
| "reassign_left (RaRow new) = 2"
| "reassign_left (RaRevs2 pr new) = 1"
| "reassign_left pc = 0"

fun team_add_left :: "team_add_request \<Rightarrow> pc \<Rightarrow> nat" where
  "team_add_left req Begin = 1 + length (ta_members req)"
| "team_add_left req (TaUpsert t ms) = length ms"
| "team_add_left req pc = 0"

primrec remaining :: "event \<Rightarrow> pc \<Rightarrow> nat" where
  "remaining (EvCreate g now req) = create_left"
| "remaining (EvMerge now p) = merge_left"
| "remaining (EvReassign g req) = reassign_left"
| "remaining (EvTeamAdd req) = team_add_left req"
| "remaining (EvSetIsActive x b) = (\<lambda>pc. if pc = Begin then 1 else 0)"

section \<open>Scheduling\<close>

text \<open>The indices of the threads that have a statement left.\<close>

definition running :: "thread list \<Rightarrow> nat list" where
  "running ts = filter (\<lambda>i. 0 < remaining (fst (ts ! i)) (snd (ts ! i))) [0..<length ts]"

text \<open>Run the next statement of thread \<open>i\<close>.\<close>

definition step_thread :: "nat \<Rightarrow> thread list \<Rightarrow> store \<Rightarrow> thread list \<times> store" where
  "step_thread i ts s =
     (case stmt (fst (ts ! i)) (snd (ts ! i)) s of
        (pc', s') \<Rightarrow> (ts[i := (fst (ts ! i), pc')], s'))"

text \<open>The statements all threads still run at most.\<close>

definition work :: "thread list \<Rightarrow> nat" where
  "work ts = sum_list (map (\<lambda>t. remaining (fst t) (snd t)) ts)"

lemma create_left_stmt:
  "0 < create_left pc \<Longrightarrow> create_left (fst (create_stmt g now req pc s)) < create_left pc"
  by (induction g now req pc s rule: create_stmt.induct)
     (auto simp: length_find_active split: sum.split)

lemma merge_left_stmt: "0 < merge_left pc \<Longrightarrow> merge_left (fst (merge_stmt now p pc s)) < merge_left pc"
  by (induction now p pc s rule: merge_stmt.induct) (auto split: sum.split prod.split)

lemma reassign_left_stmt:
  "0 < reassign_left pc \<Longrightarrow> reassign_left (fst (reassign_stmt g req pc s)) < reassign_left pc"
  by (induction g req pc s rule: reassign_stmt.induct) (auto simp: Let_def split: sum.split)

lemma team_add_left_stmt:
  "0 < team_add_left req pc \<Longrightarrow> team_add_left req (fst (team_add_stmt req pc s)) < team_add_left req pc"
  by (induction req pc s rule: team_add_stmt.induct) (auto split: sum.split prod.split)

lemma remaining_stmt:
  "0 < remaining ev pc \<Longrightarrow> remaining ev (fst (stmt ev pc s)) < remaining ev pc"
  by (cases ev)
     (auto simp: create_left_stmt merge_left_stmt reassign_left_stmt team_add_left_stmt
           split: prod.split if_splits)

lemma work_step_thread:
  assumes "i \<in> set (running ts)"
  shows "work (fst (step_thread i ts s)) < work ts"
proof -
  obtain ev pc where t: "ts ! i = (ev, pc)" by fastforce
  from assms have i: "i < length ts" and pos: "0 < remaining ev pc"
    by (auto simp: running_def t)
  let ?f = "\<lambda>t. remaining (fst t) (snd t)"
  have "work (fst (step_thread i ts s)) = sum_list ((map ?f ts)[i := remaining ev (fst (stmt ev pc s))])"
    by (simp add: step_thread_def work_def t map_update split: prod.split)
  also have "\<dots> = work ts + remaining ev (fst (stmt ev pc s)) - remaining ev pc"
    using i by (simp add: sum_list_update work_def t)
  also have "\<dots> < work ts"
  proof -
    have "remaining ev pc \<le> work ts"
      using i by (metis (no_types, lifting) elem_le_sum_list fst_conv length_map nth_map snd_conv t work_def)
    then show ?thesis using remaining_stmt [OF pos, of s] by linarith
  qed
  finally show ?thesis .
qed

text \<open>
  The scheduler: at its \<open>k\<close>-th choice it runs a statement of the thread
  \<open>ch k\<close> (modulo the number of threads with a statement left), until no thread has
  one. Any finite interleaving of the statements is the run of some \<open>ch\<close>. The
  result carries the indices of the threads in the order their statements ran.
\<close>

function run_sched ::
  "(nat \<Rightarrow> nat) \<Rightarrow> nat \<Rightarrow> thread list \<Rightarrow> store \<Rightarrow> thread list \<times> store \<times> nat list" where
  "run_sched ch k ts s =
     (if running ts = [] then (ts, s, [])
      else let i = running ts ! (ch k mod length (running ts));
               r = run_sched ch (Suc k) (fst (step_thread i ts s)) (snd (step_thread i ts s))
           in (fst r, fst (snd r), i # snd (snd r)))"
  by pat_completeness auto

termination
proof (relation "measure (\<lambda>(ch, k, ts, s). work ts)")
  fix ch :: "nat \<Rightarrow> nat" and k :: nat and ts s i
  assume "running ts \<noteq> []" and "i = running ts ! (ch k mod length (running ts))"
  then have "i \<in> set (running ts)" by simp
  then show "((ch, Suc k, fst (step_thread i ts s), snd (step_thread i ts s)), ch, k, ts, s)
               \<in> measure (\<lambda>(ch, k, ts, s). work ts)"
    using work_step_thread [of i ts s] by (simp add: case_prod_beta)
qed simp

declare run_sched.simps [simp del]

text \<open>An explicit schedule: the thread indices in order (a returned thread skips).\<close>

fun run_schedule :: "nat list \<Rightarrow> thread list \<Rightarrow> store \<Rightarrow> thread list \<times> store" where
  "run_schedule [] ts s = (ts, s)"
| "run_schedule (i # is) ts s =
     (if i < length ts \<and> 0 < remaining (fst (ts ! i)) (snd (ts ! i))
      then run_schedule is (fst (step_thread i ts s)) (snd (step_thread i ts s))
      else run_schedule is ts s)"

text \<open>The threads of requests that have not started.\<close>

definition start :: "event list \<Rightarrow> thread list" where
  "start evs = map (\<lambda>ev. (ev, Begin)) evs"

text \<open>
  What the statements still to run of a thread need of the store: the row
  \<open>Create\<close> is about to insert is open and unmerged with at most two reviewers,
  and a \<open>Create\<close> inside its \<open>AddReviewers\<close> loop has its pull request, with room
  for the reviewers it has still to insert.
\<close>

fun pc_ok :: "store \<Rightarrow> pc \<Rightarrow> bool" where
  "pc_ok s (CrInsert pr ids) \<longleftrightarrow>
     pr_status_id pr = StatusOpen \<and> pr_merged_at pr = None \<and> length ids \<le> 2"
| "pc_ok s (CrAdd p ids) \<longleftrightarrow> prs s p \<noteq> None \<and> length (reviewers_of s p) + length ids \<le> 2"
| "pc_ok s pc \<longleftrightarrow> True"

text \<open>
  A configuration of threads and store that the invariant covers: the store is
  well-formed, every thread's next statements find what they need, and no two
  threads are inside the \<open>AddReviewers\<close> loop of the same pull request.
\<close>

definition cfg_ok :: "thread list \<Rightarrow> store \<Rightarrow> bool" where
  "cfg_ok ts s \<longleftrightarrow>
     wf_store s \<and> (\<forall>t \<in> set ts. pc_ok s (snd t)) \<and>
     (\<forall>j < length ts. \<forall>k < length ts. \<forall>p a b.
        snd (ts ! j) = CrAdd p a \<longrightarrow> snd (ts ! k) = CrAdd p b \<longrightarrow> j = k)"

text \<open>The answer the sequential handler gives on a store.\<close>

primrec answer_of :: "event \<Rightarrow> store \<Rightarrow> answer" where
  "answer_of (EvCreate g now req) s = APr (fst (pr_create g now req s))"
| "answer_of (EvMerge now p) s = APr (fst (pr_merge now p s))"
| "answer_of (EvReassign g req) s = AReassign (fst (pr_reassign g req s))"
| "answer_of (EvTeamAdd req) s = ATeam (fst (team_add req s))"
| "answer_of (EvSetIsActive x b) s = AUser (fst (set_is_active x b s))"

text \<open>One thread run alone until it has no statement left.\<close>

function solo :: "event \<Rightarrow> pc \<Rightarrow> store \<Rightarrow> pc \<times> store" where
  "solo ev pc s =
     (if remaining ev pc = 0 then (pc, s) else solo ev (fst (stmt ev pc s)) (snd (stmt ev pc s)))"
  by pat_completeness auto

termination
  by (relation "measure (\<lambda>(ev, pc, s). remaining ev pc)") (simp_all add: remaining_stmt case_prod_beta)

declare solo.simps [simp del]

text \<open>
  Random sources of the scenario runs: \<open>u3_rng\<close> orders \<open>u3\<close> first and takes the
  first candidate.
\<close>

definition u3_rng :: rng where
  "u3_rng = \<lparr>order_key = (\<lambda>x. if x = ''u3'' then 0 else 1), intn = (\<lambda>_. 0)\<rparr>"

section \<open>Facts of a run\<close>

lemma run_sched_unfold:
  "run_sched ch k ts s =
     (if running ts = [] then (ts, s, [])
      else let i = running ts ! (ch k mod length (running ts));
               r = run_sched ch (Suc k) (fst (step_thread i ts s)) (snd (step_thread i ts s))
           in (fst r, fst (snd r), i # snd (snd r)))"
  by (rule run_sched.simps)

lemma running_nth_in: "running ts \<noteq> [] \<Longrightarrow> running ts ! (n mod length (running ts)) \<in> set (running ts)"
  by simp

lemma running_lt: "i \<in> set (running ts) \<Longrightarrow> i < length ts"
  by (simp add: running_def)

text \<open>An invariant of single statements is an invariant of every run.\<close>

lemma run_sched_inv:
  assumes "P ts s"
    and step: "\<And>i ts s. i \<in> set (running ts) \<Longrightarrow> P ts s \<Longrightarrow> P (fst (step_thread i ts s)) (snd (step_thread i ts s))"
  shows "P (fst (run_sched ch k ts s)) (fst (snd (run_sched ch k ts s)))"
  using assms(1)
proof (induction ch k ts s rule: run_sched.induct)
  case (1 ch k ts s)
  show ?case
  proof (cases "running ts = []")
    case True
    with 1 show ?thesis by (simp add: run_sched_unfold)
  next
    case False
    let ?i = "running ts ! (ch k mod length (running ts))"
    have "P (fst (step_thread ?i ts s)) (snd (step_thread ?i ts s))"
      using step [OF running_nth_in [OF False] 1(2)] .
    with 1(1) [OF False refl] False show ?thesis
      by (simp add: run_sched_unfold [of ch k ts s] Let_def)
  qed
qed

lemma run_sched_done: "running (fst (run_sched ch k ts s)) = []"
proof (induction ch k ts s rule: run_sched.induct)
  case (1 ch k ts s)
  then show ?case by (cases "running ts = []") (simp_all add: run_sched_unfold [of ch k ts s] Let_def)
qed

lemma run_sched_trace: "length (snd (snd (run_sched ch k ts s))) \<le> work ts"
proof (induction ch k ts s rule: run_sched.induct)
  case (1 ch k ts s)
  show ?case
  proof (cases "running ts = []")
    case False
    let ?i = "running ts ! (ch k mod length (running ts))"
    have "work (fst (step_thread ?i ts s)) < work ts"
      by (rule work_step_thread [OF running_nth_in [OF False]])
    with 1 [OF False refl] False show ?thesis
      by (simp add: run_sched_unfold [of ch k ts s] Let_def)
  qed (simp add: run_sched_unfold [of ch k ts s])
qed

lemma map_fst_step_thread: "i < length ts \<Longrightarrow> map fst (fst (step_thread i ts s)) = map fst ts"
  by (simp add: step_thread_def map_update list_update_same_conv split: prod.split)

lemma run_sched_events: "map fst (fst (run_sched ch k ts s)) = map fst ts"
  using run_sched_inv [where P = "\<lambda>ts' s'. map fst ts' = map fst ts" and ts = ts]
  by (simp add: map_fst_step_thread running_lt)

text \<open>A thread is live when it has returned or has a statement left.\<close>

definition live :: "thread list \<Rightarrow> bool" where
  "live ts \<longleftrightarrow> (\<forall>t \<in> set ts. finished (snd t) \<or> 0 < remaining (fst t) (snd t))"

lemma create_live:
  "0 < create_left pc \<Longrightarrow> finished (fst (create_stmt g now req pc s)) \<or> 0 < create_left (fst (create_stmt g now req pc s))"
  by (induction g now req pc s rule: create_stmt.induct) (auto split: sum.split)

lemma merge_live:
  "0 < merge_left pc \<Longrightarrow> finished (fst (merge_stmt now p pc s)) \<or> 0 < merge_left (fst (merge_stmt now p pc s))"
  by (induction now p pc s rule: merge_stmt.induct) (auto split: sum.split prod.split)

lemma reassign_live:
  "0 < reassign_left pc \<Longrightarrow>
   finished (fst (reassign_stmt g req pc s)) \<or> 0 < reassign_left (fst (reassign_stmt g req pc s))"
  by (induction g req pc s rule: reassign_stmt.induct) (auto simp: Let_def split: sum.split)

lemma team_add_live:
  "0 < team_add_left req pc \<Longrightarrow>
   finished (fst (team_add_stmt req pc s)) \<or> 0 < team_add_left req (fst (team_add_stmt req pc s))"
  by (induction req pc s rule: team_add_stmt.induct) (auto split: sum.split prod.split)

lemma stmt_live:
  "0 < remaining ev pc \<Longrightarrow> finished (fst (stmt ev pc s)) \<or> 0 < remaining ev (fst (stmt ev pc s))"
  by (cases ev) (auto simp: create_live merge_live reassign_live team_add_live split: prod.split if_splits)

lemma live_step_thread: "i \<in> set (running ts) \<Longrightarrow> live ts \<Longrightarrow> live (fst (step_thread i ts s))"
proof -
  assume i: "i \<in> set (running ts)" and l: "live ts"
  obtain ev pc where t: "ts ! i = (ev, pc)" by fastforce
  from i have lt: "i < length ts" and pos: "0 < remaining ev pc" by (auto simp: running_def t)
  have "fst (step_thread i ts s) = ts[i := (ev, fst (stmt ev pc s))]"
    by (simp add: step_thread_def t split: prod.split)
  with l stmt_live [OF pos, of s] show ?thesis
    by (auto simp: live_def dest!: subsetD [OF set_update_subset_insert])
qed

lemma live_start: "live (start evs)"
proof -
  have "0 < remaining ev Begin" for ev by (cases ev) simp_all
  then show ?thesis by (simp add: live_def start_def)
qed

lemma live_done: "live ts \<Longrightarrow> running ts = [] \<Longrightarrow> list_all (\<lambda>t. finished (snd t)) ts"
proof (unfold list_all_iff, intro ballI)
  fix t assume l: "live ts" and r: "running ts = []" and t: "t \<in> set ts"
  then obtain i where i: "i < length ts" "ts ! i = t" by (auto simp: in_set_conv_nth)
  with r have "remaining (fst t) (snd t) = 0" by (auto simp: running_def filter_empty_conv)
  with l t show "finished (snd t)" by (auto simp: live_def)
qed

lemma work_start:
  "work (start evs) = sum_list (map (\<lambda>ev. remaining ev Begin) evs)"
  by (simp add: work_def start_def comp_def)

section \<open>The store invariant under interleaving\<close>

lemma set_merged_Inr:
  "set_merged p now s = Inr (pr, s') \<Longrightarrow> \<exists>r. prs s p = Some r \<and> s' = s\<lparr>prs := (prs s)(p \<mapsto> merged_row now r)\<rparr>"
  by (auto simp: set_merged_def merged_row_def Let_def split: option.splits)

lemma pr_insert_Inr:
  "pr_insert pr s = Inr s' \<Longrightarrow> prs s (pr_id pr) = None \<and> prs s' (pr_id pr) \<noteq> None \<and>
     pr_reviewers s' = pr_reviewers s \<and> (\<forall>q. reviewers_of s' q = reviewers_of s q) \<and>
     (\<forall>q. prs s q \<noteq> None \<longrightarrow> prs s' q \<noteq> None)"
  by (auto simp: pr_insert_def reviewers_of_def split: if_splits)

lemma wf_pr_insert:
  assumes wf: "wf_store s" and pr: "pr_status_id pr = StatusOpen" "pr_merged_at pr = None"
    and ins: "pr_insert pr s = Inr s'"
  shows "wf_store s'"
proof -
  from ins have s': "s' = s\<lparr>prs := (prs s)(pr_id pr \<mapsto>
        \<lparr>pr_row_id = pr_id pr, pr_row_name = pr_name pr, pr_row_author = pr_author pr,
         pr_row_status = pr_status_id pr, pr_row_created = pr_created_at pr,
         pr_row_merged = pr_merged_at pr, pr_row_need_more = False\<rparr>)\<rparr>"
    by (simp add: pr_insert_def split: if_splits)
  have "rows_ok s'" using wf by (auto simp: s' wf_store_def rows_ok_def)
  moreover have "pr_rows_ok s'" using wf pr by (auto simp: s' wf_store_def pr_rows_ok_def)
  ultimately show ?thesis using wf by (simp add: s' wf_store_def)
qed

lemma length_reviewers_of_add_one:
  "length (reviewers_of (add_reviewers p [i] s) q) \<le> Suc (length (reviewers_of s q))"
  by (simp add: add_reviewers_def reviewers_of_def)

lemma wf_add_one:
  assumes wf: "wf_store s" and p: "prs s p \<noteq> None" and l: "length (reviewers_of s p) < 2"
  shows "wf_store (add_reviewers p [i] s)"
proof -
  let ?s = "add_reviewers p [i] s"
  have "distinct (pr_reviewers ?s)"
    using wf distinct_add_reviewer_rows [of "pr_reviewers s" p "[i]"]
    by (simp add: add_reviewers_def wf_store_def rows_ok_def)
  moreover have "\<forall>x \<in> set (pr_reviewers ?s). prs ?s (fst x) \<noteq> None"
    using wf p by (auto simp: add_reviewers_def set_add_reviewer_rows dest: wf_rows_refer)
  moreover have "length (reviewers_of ?s q) \<le> 2" for q
  proof (cases "q = p")
    case True
    with l length_reviewers_of_add_one [of p i s p] show ?thesis by simp
  next
    case False
    with wf show ?thesis by (simp add: reviewers_of_add_reviewers_other wf_reviewers_le_2)
  qed
  moreover have "pr_rows_ok ?s" using wf by (simp add: add_reviewers_def wf_store_def pr_rows_ok_def)
  ultimately show ?thesis using wf by (simp add: wf_store_def rows_okI add_reviewers_def)
qed

lemma wf_upsert_one: "wf_store s \<Longrightarrow> wf_store (s\<lparr>users := upsert_user_row r (users s)\<rparr>)"
  by (simp add: wf_store_def rows_ok_def pr_rows_ok_def reviewers_of_def distinct_upsert_user_row)

lemma wf_team_create: "wf_store s \<Longrightarrow> team_create nm s = Inr (t, s1) \<Longrightarrow> wf_store s1"
  using wf_team_create_upsert [of s nm t s1 "[]"] by (simp add: upsert_team_members_def)

lemma wf_set_is_active: "wf_store s \<Longrightarrow> wf_store (snd (set_is_active x b s))"
  by (auto simp: set_is_active_def split: sum.split prod.split intro: wf_set_active)

lemma create_stmt_wf:
  "wf_store s \<Longrightarrow> pc_ok s pc \<Longrightarrow> wf_store (snd (create_stmt g now req pc s))"
  by (induction g now req pc s rule: create_stmt.induct)
     (auto intro: wf_pr_insert wf_add_one split: sum.split)

lemma merge_stmt_wf: "wf_store s \<Longrightarrow> wf_store (snd (merge_stmt now p pc s))"
  by (induction now p pc s rule: merge_stmt.induct)
     (auto dest!: set_merged_Inr intro: wf_merge_state split: sum.split prod.split)

lemma reassign_stmt_wf: "wf_store s \<Longrightarrow> wf_store (snd (reassign_stmt g req pc s))"
  by (induction g req pc s rule: reassign_stmt.induct)
     (auto simp: Let_def intro: wf_replace_reviewer split: sum.split)

lemma team_add_stmt_wf: "wf_store s \<Longrightarrow> wf_store (snd (team_add_stmt req pc s))"
  by (induction req pc s rule: team_add_stmt.induct)
     (auto intro: wf_team_create wf_upsert_one split: sum.split prod.split)

lemma set_active_stmt_wf: "wf_store s \<Longrightarrow> wf_store (snd (set_active_stmt x b pc s))"
  using wf_set_is_active [of s x b] by (cases pc) (auto split: prod.split)

lemma stmt_wf: "wf_store s \<Longrightarrow> pc_ok s pc \<Longrightarrow> wf_store (snd (stmt ev pc s))"
  by (cases ev)
     (simp_all add: create_stmt_wf merge_stmt_wf reassign_stmt_wf team_add_stmt_wf set_active_stmt_wf)

lemma length_reviewers_of_replace:
  "replace_reviewer p old new s = Inr s' \<Longrightarrow> length (reviewers_of s' q) = length (reviewers_of s q)"
  by (auto dest!: replace_reviewer_Inr simp: reviewers_of_replace_all length_replace_all)

text \<open>Pull requests are never deleted, and only a thread's own \<open>AddReviewers\<close> loop adds
  reviewers to a pull request.\<close>

lemma create_stmt_prs:
  "prs s q \<noteq> None \<Longrightarrow> prs (snd (create_stmt g now req pc s)) q \<noteq> None"
  by (induction g now req pc s rule: create_stmt.induct)
     (auto dest!: pr_insert_Inr simp: add_reviewers_def split: sum.split)

lemma create_stmt_reviewers:
  "(\<forall>a. pc \<noteq> CrAdd q a) \<Longrightarrow>
   length (reviewers_of (snd (create_stmt g now req pc s)) q) \<le> length (reviewers_of s q)"
  by (induction g now req pc s rule: create_stmt.induct)
     (auto dest!: pr_insert_Inr simp: reviewers_of_def add_reviewers_def split: sum.split)

lemma merge_stmt_frame:
  "prs s q \<noteq> None \<Longrightarrow> prs (snd (merge_stmt now p pc s)) q \<noteq> None"
  "length (reviewers_of (snd (merge_stmt now p pc s)) q) \<le> length (reviewers_of s q)"
  by (induction now p pc s rule: merge_stmt.induct)
     (auto dest!: set_merged_Inr split: sum.split prod.split)

lemma reassign_stmt_prs:
  "prs s q \<noteq> None \<Longrightarrow> prs (snd (reassign_stmt g req pc s)) q \<noteq> None"
  by (induction g req pc s rule: reassign_stmt.induct)
     (auto simp: Let_def dest!: replace_reviewer_Inr split: sum.split)

lemma reassign_stmt_reviewers:
  "length (reviewers_of (snd (reassign_stmt g req pc s)) q) \<le> length (reviewers_of s q)"
  by (induction g req pc s rule: reassign_stmt.induct)
     (auto simp: Let_def split: sum.split intro: eq_imp_le length_reviewers_of_replace)

lemma team_add_stmt_frame:
  "prs (snd (team_add_stmt req pc s)) = prs s"
  "reviewers_of (snd (team_add_stmt req pc s)) q = reviewers_of s q"
  by (induction req pc s rule: team_add_stmt.induct)
     (auto simp: team_create_def reviewers_of_def Let_def split: sum.split prod.split if_splits)

lemma set_active_stmt_frame:
  "prs (snd (set_active_stmt x b pc s)) = prs s"
  "reviewers_of (snd (set_active_stmt x b pc s)) q = reviewers_of s q"
  by (cases pc; auto simp: set_is_active_def set_active_def reviewers_of_def Let_def
                     split: sum.split prod.split option.split)+

lemma stmt_frame:
  "prs s q \<noteq> None \<Longrightarrow> prs (snd (stmt ev pc s)) q \<noteq> None"
  "(\<forall>a. pc \<noteq> CrAdd q a) \<Longrightarrow> length (reviewers_of (snd (stmt ev pc s)) q) \<le> length (reviewers_of s q)"
  by (cases ev; simp add: create_stmt_prs create_stmt_reviewers merge_stmt_frame reassign_stmt_prs
                          reassign_stmt_reviewers team_add_stmt_frame set_active_stmt_frame)+

lemma add_one_room:
  "length (reviewers_of s p) + Suc n \<le> 2 \<Longrightarrow> length (reviewers_of (add_reviewers p [i] s) p) + n \<le> 2"
  using length_reviewers_of_add_one [of p i s p] by linarith

lemma create_stmt_pc_ok:
  "wf_store s \<Longrightarrow> pc_ok s pc \<Longrightarrow>
   pc_ok (snd (create_stmt g now req pc s)) (fst (create_stmt g now req pc s))"
  by (induction g now req pc s rule: create_stmt.induct)
     (auto dest!: pr_insert_Inr simp: new_pr_def length_find_active wf_no_orphan_rows
           intro: add_one_room split: sum.split if_splits)

lemma merge_stmt_pc_ok:
  "pc_ok s pc \<Longrightarrow> pc_ok (snd (merge_stmt now p pc s)) (fst (merge_stmt now p pc s))"
  by (induction now p pc s rule: merge_stmt.induct) (auto split: sum.split prod.split)

lemma reassign_stmt_pc_ok:
  "pc_ok s pc \<Longrightarrow> pc_ok (snd (reassign_stmt g rq pc s)) (fst (reassign_stmt g rq pc s))"
  by (induction g rq pc s rule: reassign_stmt.induct) (auto simp: Let_def split: sum.split)

lemma team_add_stmt_pc_ok:
  "pc_ok s pc \<Longrightarrow> pc_ok (snd (team_add_stmt tq pc s)) (fst (team_add_stmt tq pc s))"
  by (induction tq pc s rule: team_add_stmt.induct) (auto split: sum.split prod.split)

lemma set_active_stmt_pc_ok:
  "pc_ok s pc \<Longrightarrow> pc_ok (snd (set_active_stmt x b pc s)) (fst (set_active_stmt x b pc s))"
  by (cases pc) (auto split: prod.split)

lemma stmt_pc_ok: "wf_store s \<Longrightarrow> pc_ok s pc \<Longrightarrow> pc_ok (snd (stmt ev pc s)) (fst (stmt ev pc s))"
  by (cases ev) (simp_all add: create_stmt_pc_ok merge_stmt_pc_ok reassign_stmt_pc_ok team_add_stmt_pc_ok
                              set_active_stmt_pc_ok)

lemma create_stmt_adding:
  "fst (create_stmt g now rq pc s) = CrAdd p a \<Longrightarrow> (\<exists>a'. pc = CrAdd p a') \<or> prs s p = None"
  by (induction g now rq pc s rule: create_stmt.induct) (auto dest!: pr_insert_Inr split: sum.splits if_splits)

lemma merge_stmt_adding:
  "fst (merge_stmt now q pc s) = CrAdd p a \<Longrightarrow> (\<exists>a'. pc = CrAdd p a') \<or> prs s p = None"
  by (induction now q pc s rule: merge_stmt.induct) (auto split: sum.splits prod.splits)

lemma reassign_stmt_adding:
  "fst (reassign_stmt g rr pc s) = CrAdd p a \<Longrightarrow> (\<exists>a'. pc = CrAdd p a') \<or> prs s p = None"
  by (induction g rr pc s rule: reassign_stmt.induct) (auto simp: Let_def split: sum.splits if_splits)

lemma team_add_stmt_adding:
  "fst (team_add_stmt tq pc s) = CrAdd p a \<Longrightarrow> (\<exists>a'. pc = CrAdd p a') \<or> prs s p = None"
  by (induction tq pc s rule: team_add_stmt.induct) (auto split: sum.splits prod.splits if_splits)

lemma set_active_stmt_adding:
  "fst (set_active_stmt x b pc s) = CrAdd p a \<Longrightarrow> (\<exists>a'. pc = CrAdd p a') \<or> prs s p = None"
  by (cases pc) (auto split: prod.splits)

lemma stmt_adding:
  "fst (stmt ev pc s) = CrAdd p a \<Longrightarrow> (\<exists>a'. pc = CrAdd p a') \<or> prs s p = None"
  by (cases ev) (simp_all add: create_stmt_adding merge_stmt_adding reassign_stmt_adding
                              team_add_stmt_adding set_active_stmt_adding)

lemma pc_ok_frame:
  "pc_ok s pcj \<Longrightarrow> (\<forall>q a b. pcj = CrAdd q a \<longrightarrow> pc \<noteq> CrAdd q b) \<Longrightarrow> pc_ok (snd (stmt ev pc s)) pcj"
proof (cases pcj)
  case (CrAdd q a)
  assume ok: "pc_ok s pcj" and other: "\<forall>q a b. pcj = CrAdd q a \<longrightarrow> pc \<noteq> CrAdd q b"
  with CrAdd have "\<forall>b. pc \<noteq> CrAdd q b" by simp
  from stmt_frame(2) [OF this, of ev s] stmt_frame(1) [of s q ev pc] ok CrAdd show ?thesis by auto
qed simp_all

lemma cfg_step:
  assumes i: "i \<in> set (running ts)" and cfg: "cfg_ok ts s"
  shows "cfg_ok (fst (step_thread i ts s)) (snd (step_thread i ts s))"
proof -
  obtain ev pc where t: "ts ! i = (ev, pc)" by fastforce
  obtain pc' s' where st: "stmt ev pc s = (pc', s')" by fastforce
  have lt: "i < length ts" using i by (simp add: running_def)
  have step: "step_thread i ts s = (ts[i := (ev, pc')], s')" by (simp add: step_thread_def t st)
  from cfg have wf: "wf_store s" and oks: "\<forall>t \<in> set ts. pc_ok s (snd t)"
    and uniq: "\<forall>j < length ts. \<forall>k < length ts. \<forall>p a b.
                 snd (ts ! j) = CrAdd p a \<longrightarrow> snd (ts ! k) = CrAdd p b \<longrightarrow> j = k"
    by (simp_all add: cfg_ok_def)
  have ok_i: "pc_ok s pc" using oks nth_mem [OF lt] by (auto simp: t)
  have wf': "wf_store s'" using stmt_wf [OF wf ok_i, of ev] by (simp add: st)
  have ok': "pc_ok s' pc'" using stmt_pc_ok [OF wf ok_i, of ev] by (simp add: st)
  have ok_j: "pc_ok s' (snd (ts ! j))" if j: "j < length ts" "j \<noteq> i" for j
  proof -
    have "\<forall>q a b. snd (ts ! j) = CrAdd q a \<longrightarrow> pc \<noteq> CrAdd q b"
      using uniq j lt t by fastforce
    then show ?thesis using pc_ok_frame [of s "snd (ts ! j)" pc ev] oks nth_mem [OF j(1)] st by auto
  qed
  have new_add: "\<forall>k < length ts. k \<noteq> i \<longrightarrow> (\<forall>b. snd (ts ! k) \<noteq> CrAdd p b)" if "pc' = CrAdd p a" for p a
  proof -
    from stmt_adding [of ev pc s p a] that st
    have "(\<exists>a'. pc = CrAdd p a') \<or> prs s p = None" by simp
    then show ?thesis
    proof
      assume "\<exists>a'. pc = CrAdd p a'"
      then show ?thesis using uniq lt t by fastforce
    next
      assume none: "prs s p = None"
      show ?thesis
      proof (intro allI impI notI)
        fix k b assume k: "k < length ts" "k \<noteq> i" and add: "snd (ts ! k) = CrAdd p b"
        have "pc_ok s (snd (ts ! k))" using oks nth_mem [OF k(1)] by auto
        with add none show False by simp
      qed
    qed
  qed
  have "\<forall>t \<in> set (ts[i := (ev, pc')]). pc_ok s' (snd t)"
  proof
    fix t assume "t \<in> set (ts[i := (ev, pc')])"
    then obtain j where j: "j < length ts" "t = ts[i := (ev, pc')] ! j" by (auto simp: in_set_conv_nth)
    then show "pc_ok s' (snd t)" using ok' ok_j by (cases "j = i") auto
  qed
  moreover have "\<forall>j < length ts. \<forall>k < length ts. \<forall>p a b.
      snd (ts[i := (ev, pc')] ! j) = CrAdd p a \<longrightarrow> snd (ts[i := (ev, pc')] ! k) = CrAdd p b \<longrightarrow> j = k"
    using uniq new_add by (auto simp: nth_list_update lt)
  ultimately show ?thesis by (simp add: cfg_ok_def step wf')
qed

lemma cfg_start: "wf_store s \<Longrightarrow> cfg_ok (start evs) s"
  by (simp add: cfg_ok_def start_def)

section \<open>A request run alone\<close>

lemma solo_step: "0 < remaining ev pc \<Longrightarrow> solo ev pc s = solo ev (fst (stmt ev pc s)) (snd (stmt ev pc s))"
  by (simp add: solo.simps [of ev pc s])

lemma solo_ret: "solo ev (Ret a) s = (Ret a, s)"
  by (cases ev) (simp_all add: solo.simps)

lemma running_single: "running [(ev, pc)] = (if 0 < remaining ev pc then [0] else [])"
  by (simp add: running_def)

lemma run_sched_single:
  "(fst (run_sched ch k [(ev, pc)] s), fst (snd (run_sched ch k [(ev, pc)] s))) =
   (case solo ev pc s of (pc', s') \<Rightarrow> ([(ev, pc')], s'))"
proof (induction ev pc s arbitrary: k rule: solo.induct)
  case (1 ev pc s)
  show ?case
  proof (cases "remaining ev pc = 0")
    case True
    then show ?thesis by (simp add: run_sched_unfold [of ch k] running_single solo.simps [of ev pc s])
  next
    case False
    have st: "step_thread 0 [(ev, pc)] s = ([(ev, fst (stmt ev pc s))], snd (stmt ev pc s))"
      by (simp add: step_thread_def split: prod.split)
    from False 1 [OF False, of "Suc k"] show ?thesis
      by (simp add: run_sched_unfold [of ch k] running_single st Let_def solo.simps [of ev pc s])
  qed
qed

lemma get_with_reviewers_row:
  "get_with_reviewers s p = (case gwr_row s p of Inl e \<Rightarrow> Inl e | Inr pr \<Rightarrow> Inr (pr, reviewers_of s p))"
  by (simp add: get_with_reviewers_def gwr_row_def split: option.split)

lemma add_reviewers_cons:
  "add_reviewers p is (add_reviewers p [i] s) = add_reviewers p (i # is) s"
  by (cases "is = []") (simp_all add: add_reviewers_def)

lemma solo_create_add:
  "ids \<noteq> [] \<Longrightarrow> solo (EvCreate g now req) (CrAdd p ids) s = solo (EvCreate g now req) (CrRow p) (add_reviewers p ids s)"
proof (induction ids arbitrary: s)
  case (Cons i js)
  show ?case
  proof (cases "js = []")
    case True
    then show ?thesis by (simp add: solo_step [of _ "CrAdd p [i]"])
  next
    case False
    with Cons.IH [of "add_reviewers p [i] s"] show ?thesis
      by (simp add: solo_step [of _ "CrAdd p (i # js)"] add_reviewers_cons)
  qed
qed simp

lemma solo_team_upsert:
  "ms \<noteq> [] \<Longrightarrow> solo (EvTeamAdd req) (TaUpsert t ms) s =
     (Ret (team_answer req t), upsert_team_members (team_row_id t) (map (member_user t) ms) s)"
proof (induction ms arbitrary: s)
  case (Cons m ms)
  show ?case
  proof (cases "ms = []")
    case True
    then show ?thesis by (simp add: solo_step [of _ "TaUpsert t [m]"] solo_ret upsert_team_members_def)
  next
    case False
    with Cons.IH show ?thesis
      by (simp add: solo_step [of _ "TaUpsert t (m # ms)"] upsert_team_members_def)
  qed
qed simp

lemma solo_create_row:
  "solo (EvCreate g now req) (CrRow p) s = (Ret (APr (fst (reread p s))), s)"
proof (cases "gwr_row s p")
  case (Inl e)
  then show ?thesis by (simp add: solo_step [of _ "CrRow p"] solo_ret reread_def get_with_reviewers_row)
next
  case (Inr pr)
  then show ?thesis
    by (simp add: solo_step [of _ "CrRow p"] solo_step [of _ "CrRevs p pr"] solo_ret reread_def
                  get_with_reviewers_row)
qed

lemma solo_create_insert:
  "solo (EvCreate g now req) (CrInsert pr ids) s =
     (case pr_insert pr s of
        Inl e \<Rightarrow> (Ret (APr (Inl e)), s)
      | Inr s1 \<Rightarrow> (Ret (APr (fst (reread (pr_id pr) (add_reviewers (pr_id pr) ids s1)))),
                   add_reviewers (pr_id pr) ids s1))"
proof (cases "pr_insert pr s")
  case (Inl e)
  then show ?thesis by (simp add: solo_step [of _ "CrInsert pr ids"] solo_ret)
next
  case (Inr s1)
  show ?thesis
  proof (cases "ids = []")
    case True
    with Inr show ?thesis
      by (simp add: solo_step [of _ "CrInsert pr []"] solo_create_row add_reviewers_def)
  next
    case False
    with Inr show ?thesis
      by (simp add: solo_step [of _ "CrInsert pr ids"] solo_create_row solo_create_add)
  qed
qed

lemma solo_create:
  "solo (EvCreate g now req) Begin s = (Ret (APr (fst (pr_create g now req s))), snd (pr_create g now req s))"
proof (cases "pr_exists s (req_pr_id req)")
  case True
  then show ?thesis by (simp add: solo_step [of _ Begin] solo_ret pr_create_def)
next
  case False
  show ?thesis
  proof (cases "get_by_id s (req_author_id req)")
    case (Inl e)
    with False show ?thesis
      by (simp add: solo_step [of _ Begin] solo_step [of _ CrAuthor] solo_ret pr_create_def)
  next
    case (Inr a)
    with False show ?thesis
      by (simp add: solo_step [of _ Begin] solo_step [of _ CrAuthor] solo_step [of _ "CrFind a"]
                    solo_create_insert pr_create_def within_tx_eq create_tx_body_def new_pr_def Let_def
               split: sum.split)
  qed
qed

lemma solo_merge:
  "solo (EvMerge now p) Begin s = (Ret (APr (fst (pr_merge now p s))), snd (pr_merge now p s))"
proof (cases "set_merged p now s")
  case (Inl e)
  then show ?thesis by (simp add: solo_step [of _ Begin] solo_ret pr_merge_def)
next
  case (Inr r)
  obtain pr s' where r: "r = (pr, s')" by fastforce
  show ?thesis
  proof (cases "gwr_row s' p")
    case (Inl e)
    with Inr r show ?thesis
      by (simp add: solo_step [of _ Begin] solo_step [of _ "MgRow pr"] solo_ret pr_merge_def
                    get_with_reviewers_row)
  next
    case (Inr pr')
    with \<open>set_merged p now s = Inr r\<close> r show ?thesis
      by (simp add: solo_step [of _ Begin] solo_step [of _ "MgRow pr"] solo_step [of _ "MgRevs pr"]
                    solo_ret pr_merge_def get_with_reviewers_row)
  qed
qed

lemma solo_reassign_row:
  "solo (EvReassign g req) (RaRow new) s =
     (Ret (AReassign (case get_with_reviewers s (req_reassign_pr req) of
                        Inl e \<Rightarrow> Inl e
                      | Inr (pr', rs') \<Rightarrow> Inr (pr_to_dto pr' rs', new))), s)"
proof (cases "gwr_row s (req_reassign_pr req)")
  case (Inl e)
  then show ?thesis by (simp add: solo_step [of _ "RaRow new"] solo_ret get_with_reviewers_row)
next
  case (Inr pr)
  then show ?thesis
    by (simp add: solo_step [of _ "RaRow new"] solo_step [of _ "RaRevs2 pr new"] solo_ret
                  get_with_reviewers_row)
qed

lemma solo_reassign_replace:
  "solo (EvReassign g req) (RaReplace new) s =
     (case replace_reviewer (req_reassign_pr req) (req_old_user req) new s of
        Inl e \<Rightarrow> (Ret (AReassign (Inl e)), s)
      | Inr s' \<Rightarrow> solo (EvReassign g req) (RaRow new) s')"
  by (cases "replace_reviewer (req_reassign_pr req) (req_old_user req) new s")
     (simp_all add: solo_step [of _ "RaReplace new"] solo_ret)

lemma solo_reassign_find:
  "solo (EvReassign g req) (RaFind u rs) s =
     (let possible = reassign_pool g s u rs in
      if possible = [] then (Ret (AReassign (Inl ErrNoCandidate)), s)
      else solo (EvReassign g req) (RaReplace (possible ! intn g (length possible))) s)"
  by (simp add: solo_step [of _ "RaFind u rs"] solo_ret Let_def)

lemma solo_reassign:
  "solo (EvReassign g req) Begin s = (Ret (AReassign (fst (pr_reassign g req s))), snd (pr_reassign g req s))"
proof (cases "gwr_row s (req_reassign_pr req)")
  case (Inl e)
  then show ?thesis by (simp add: solo_step [of _ Begin] solo_ret pr_reassign_def get_with_reviewers_row)
next
  case (Inr pr)
  let ?rs = "reviewers_of s (req_reassign_pr req)"
  have first: "solo (EvReassign g req) Begin s = solo (EvReassign g req) (RaRevs pr) s"
    using Inr by (simp add: solo_step [of _ Begin])
  show ?thesis
  proof (cases "pr_status_id pr = StatusMerged \<or> req_old_user req \<notin> set ?rs")
    case True
    with Inr show ?thesis
      by (auto simp: first solo_step [of _ "RaRevs pr"] solo_ret pr_reassign_def get_with_reviewers_row Let_def)
  next
    case False
    then have rev: "solo (EvReassign g req) (RaRevs pr) s = solo (EvReassign g req) (RaOld ?rs) s"
      by (simp add: solo_step [of _ "RaRevs pr"])
    show ?thesis
    proof (cases "get_by_id s (req_old_user req)")
      case (Inl e)
      with Inr False show ?thesis
        by (simp add: first rev solo_step [of _ "RaOld ?rs"] solo_ret pr_reassign_def get_with_reviewers_row)
    next
      case (Inr u)
      with \<open>gwr_row s (req_reassign_pr req) = Inr pr\<close> False show ?thesis
        by (simp add: first rev solo_step [of _ "RaOld ?rs"] solo_reassign_find solo_reassign_replace
                      solo_reassign_row pr_reassign_def get_with_reviewers_row Let_def
                 split: sum.split)
    qed
  qed
qed

lemma solo_team_add:
  "solo (EvTeamAdd req) Begin s = (Ret (ATeam (fst (team_add req s))), snd (team_add req s))"
proof (cases "team_create (ta_team_name req) s")
  case (Inl e)
  then show ?thesis by (simp add: solo_step [of _ Begin] solo_ret team_add_def team_add_tx_body_def within_tx_eq)
next
  case (Inr r)
  obtain t s1 where r: "r = (t, s1)" by fastforce
  show ?thesis
  proof (cases "ta_members req = []")
    case True
    with Inr r show ?thesis
      by (simp add: solo_step [of _ Begin] solo_ret team_add_def team_add_tx_body_def within_tx_eq
                    team_answer_def upsert_team_members_def)
  next
    case False
    with Inr r show ?thesis
      by (simp add: solo_step [of _ Begin] solo_team_upsert team_add_def team_add_tx_body_def within_tx_eq
                    team_answer_def)
  qed
qed

lemma solo_set_active:
  "solo (EvSetIsActive x b) Begin s = (Ret (AUser (fst (set_is_active x b s))), snd (set_is_active x b s))"
  by (simp add: solo_step [of _ Begin] solo_ret split: prod.split)

lemma solo_handler: "solo ev Begin s = (Ret (answer_of ev s), step ev s)"
  by (cases ev) (simp_all add: solo_create solo_merge solo_reassign solo_team_add solo_set_active)

section \<open>Scenario runs\<close>

lemmas interleaving_eval =
  start_def step_thread_def gwr_row_def new_pr_def reassign_pool_def u3_rng_def
  ex_create_def ex_reassign_def ex_created_dto_def pr_insert_def add_reviewers_def set_merged_def
  replace_reviewer_def replace_all_def pr_to_dto_def status_dto_def pr_of_row_def

lemma lost_reviewer_run:
  "run_schedule [0, 0, 0, 0, 0, 1, 1, 1, 1, 1, 1, 1, 0, 0, 0]
     (start [EvCreate default_rng 7 ex_create, EvReassign u3_rng ex_reassign]) backend_store =
   ([(EvCreate default_rng 7 ex_create, Ret (APr (Inr (ex_created_dto\<lparr>dto_reviewers := [''u3'']\<rparr>)))),
     (EvReassign u3_rng ex_reassign,
      Ret (AReassign (Inr (ex_created_dto\<lparr>dto_reviewers := [''u3'']\<rparr>, ''u3''))))],
    reviewed_store\<lparr>pr_reviewers := [(''pr-1'', ''u3'')]\<rparr>)"
  by (simp add: interleaving_eval store_simps scenario_defs Let_def)

lemma merge_inside_create_run:
  "run_schedule [0, 0, 0, 0, 1, 1, 1, 0, 0, 0, 0]
     (start [EvCreate default_rng 7 ex_create, EvMerge 9 ''pr-1'']) backend_store =
   ([(EvCreate default_rng 7 ex_create,
      Ret (APr (Inr (ex_created_dto\<lparr>dto_status := ''MERGED'', dto_merged_at := Some 9\<rparr>)))),
     (EvMerge 9 ''pr-1'',
      Ret (APr (Inr (ex_created_dto\<lparr>dto_status := ''MERGED'', dto_reviewers := [],
                                    dto_merged_at := Some 9\<rparr>))))],
    merged_store)"
  by (simp add: interleaving_eval store_simps scenario_defs Let_def)

section \<open>Properties of the interleavings\<close>

text \<open>
  C16. Every interleaving of the statements of any set of requests terminates:
  whatever the scheduler chooses, the run ends with every request answered, after at
  most eight statements per \<open>Create\<close>, three per \<open>Merge\<close>, seven per \<open>Reassign\<close>,
  one plus one per member per \<open>TeamAdd\<close> and one per \<open>SetIsActive\<close>; and the keys
  of the store hold: a run from a well-formed store ends in a well-formed one, every
  pull request with at most two distinct reviewers.
\<close>

theorem interleaving_terminates:
  assumes wf: "wf_store s"
  shows "map fst (fst (run_sched ch 0 (start evs) s)) = evs \<and>
         list_all (\<lambda>t. finished (snd t)) (fst (run_sched ch 0 (start evs) s)) \<and>
         length (snd (snd (run_sched ch 0 (start evs) s))) \<le> sum_list (map (\<lambda>ev. remaining ev Begin) evs) \<and>
         wf_store (fst (snd (run_sched ch 0 (start evs) s)))"
proof (intro conjI)
  show "map fst (fst (run_sched ch 0 (start evs) s)) = evs"
    by (simp add: run_sched_events start_def comp_def)
  have "live (fst (run_sched ch 0 (start evs) s))"
    using run_sched_inv [where P = "\<lambda>ts s. live ts", OF live_start] live_step_thread by blast
  then show "list_all (\<lambda>t. finished (snd t)) (fst (run_sched ch 0 (start evs) s))"
    using live_done run_sched_done by blast
  show "length (snd (snd (run_sched ch 0 (start evs) s))) \<le> sum_list (map (\<lambda>ev. remaining ev Begin) evs)"
    using run_sched_trace [of ch 0 "start evs" s] by (simp add: work_start)
  have "cfg_ok (fst (run_sched ch 0 (start evs) s)) (fst (snd (run_sched ch 0 (start evs) s)))"
    using run_sched_inv [where P = cfg_ok, OF cfg_start [OF wf]] cfg_step by blast
  then show "wf_store (fst (snd (run_sched ch 0 (start evs) s)))" by (simp add: cfg_ok_def)
qed

theorem interleaving_terminates_witness:
  "wf_store backend_store \<and>
   map fst (fst (run_sched (\<lambda>_. 0) 0 (start [EvCreate default_rng 7 ex_create, EvMerge 9 ''pr-1'']) backend_store)) =
     [EvCreate default_rng 7 ex_create, EvMerge 9 ''pr-1''] \<and>
   list_all (\<lambda>t. finished (snd t))
     (fst (run_sched (\<lambda>_. 0) 0 (start [EvCreate default_rng 7 ex_create, EvMerge 9 ''pr-1'']) backend_store)) \<and>
   length (snd (snd (run_sched (\<lambda>_. 0) 0 (start [EvCreate default_rng 7 ex_create, EvMerge 9 ''pr-1''])
     backend_store))) \<le> 11 \<and>
   wf_store (fst (snd (run_sched (\<lambda>_. 0) 0 (start [EvCreate default_rng 7 ex_create, EvMerge 9 ''pr-1''])
     backend_store)))"
  using interleaving_terminates [OF wf_backend_store, of "\<lambda>_. 0" "[EvCreate default_rng 7 ex_create, EvMerge 9 ''pr-1'']"]
        wf_backend_store
  by simp


text \<open>
  C22. A \<open>Merge\<close> that lands inside another request changes a merged pull request's
  reviewers. Between the reads and the \<open>UPDATE\<close> of \<open>Reassign\<close> it does not stop the
  write: reassigning \<open>u2\<close> on \<open>pr-1\<close> answers success and replaces a reviewer of
  the merged pull request. Between the \<open>Insert\<close> of \<open>Create\<close> and its reviewer
  inserts it answers \<open>pr-1\<close> merged with no reviewers, and \<open>Create\<close> then adds
  \<open>u2\<close> and \<open>u3\<close> to the merged pull request and answers it merged with them. The
  specification has Merge never touch the reviewer set and the reviewers of a merged
  pull request frozen.
\<close>

theorem merge_during_writes:
  "(creachable (snd (reassign_interleaved last_rng ex_reassign [EvMerge 9 ''pr-1''] reviewed_store)) \<and>
    reassign_interleaved last_rng ex_reassign [EvMerge 9 ''pr-1''] reviewed_store =
      (Inr (ex_created_dto\<lparr>dto_status := ''MERGED'', dto_reviewers := [''u4'', ''u3''],
                           dto_merged_at := Some 9\<rparr>, ''u4''),
       merged_store\<lparr>pr_reviewers := [(''pr-1'', ''u4''), (''pr-1'', ''u3'')]\<rparr>) \<and>
    reviewers_of merged_store ''pr-1'' = [''u2'', ''u3''] \<and>
    pr_row_status (the (prs merged_store ''pr-1'')) = StatusMerged) \<and>
   run_schedule [0, 0, 0, 0, 1, 1, 1, 0, 0, 0, 0]
     (start [EvCreate default_rng 7 ex_create, EvMerge 9 ''pr-1'']) backend_store =
   ([(EvCreate default_rng 7 ex_create,
      Ret (APr (Inr (ex_created_dto\<lparr>dto_status := ''MERGED'', dto_merged_at := Some 9\<rparr>)))),
     (EvMerge 9 ''pr-1'',
      Ret (APr (Inr (ex_created_dto\<lparr>dto_status := ''MERGED'', dto_reviewers := [],
                                    dto_merged_at := Some 9\<rparr>))))],
    merged_store)"
  by (rule conjI [OF merge_during_reassign merge_inside_create_run])

text \<open>
  C36. A \<open>Reassign\<close> that lands inside the reviewer inserts of \<open>Create\<close> loses a
  reviewer. Alone, \<open>Create\<close> of \<open>pr-1\<close> assigns \<open>u2\<close> and \<open>u3\<close>. If, after \<open>u2\<close>
  is inserted, a \<open>Reassign\<close> of \<open>u2\<close> picks \<open>u3\<close>, the later insert of \<open>u3\<close> is
  skipped by \<open>ON CONFLICT DO NOTHING\<close>: both requests succeed and \<open>pr-1\<close> keeps one
  reviewer, against the specification's invariant that the size fixed at creation is
  kept.
\<close>

theorem reassign_during_create_loses_reviewer:
  "fst (pr_create default_rng 7 ex_create backend_store) = Inr ex_created_dto \<and>
   dto_reviewers ex_created_dto = [''u2'', ''u3''] \<and>
   run_schedule [0, 0, 0, 0, 0, 1, 1, 1, 1, 1, 1, 1, 0, 0, 0]
     (start [EvCreate default_rng 7 ex_create, EvReassign u3_rng ex_reassign]) backend_store =
   ([(EvCreate default_rng 7 ex_create, Ret (APr (Inr (ex_created_dto\<lparr>dto_reviewers := [''u3'']\<rparr>)))),
     (EvReassign u3_rng ex_reassign,
      Ret (AReassign (Inr (ex_created_dto\<lparr>dto_reviewers := [''u3'']\<rparr>, ''u3''))))],
    reviewed_store\<lparr>pr_reviewers := [(''pr-1'', ''u3'')]\<rparr>) \<and>
   reviewers_of (reviewed_store\<lparr>pr_reviewers := [(''pr-1'', ''u3'')]\<rparr>) ''pr-1'' = [''u3'']"
  using ex_create_run lost_reviewer_run by (simp add: ex_created_dto_def reviewers_of_def)

end
