(* ===== verification/Assignment.thy ===== *)
theory Assignment
  imports System
begin

text \<open>
  An abstract specification of review assignment, after sections 2 to 4 of the
  specification, and the proof that the service refines it. The abstract state
  forgets rows, ids and timestamps. It keeps, for every user, the team and the
  activity flag that \<open>GetByID\<close> reads, and for every pull request its author,
  whether it is merged, and the set of its reviewers. The abstract steps are
  nondeterministic:
  \<^item> \<open>Create\<close> may choose any set of eligible teammates of the author that has the
    size the rules fix;
  \<^item> \<open>Reassign\<close> may choose any active teammate of the replaced reviewer who is not
    yet a reviewer;
  \<^item> the directory requests change users and leave pull requests alone.
  The random draws of the code are one resolution of this nondeterminism.
\<close>

section \<open>The abstract state and its steps\<close>

record apr =
  a_author :: uid
  a_merged :: bool
  a_reviewers :: "uid set"

record astate =
  a_users :: "uid \<Rightarrow> (team_id \<times> bool) option"
  a_prs :: "pid \<Rightarrow> apr option"

definition a_eligible :: "astate \<Rightarrow> team_id \<Rightarrow> uid \<Rightarrow> uid set" where
  "a_eligible A t ex = {x. a_users A x = Some (t, True) \<and> x \<noteq> ex}"

inductive astep :: "astate \<Rightarrow> astate \<Rightarrow> bool" where
  a_directory: "a_prs A' = a_prs A \<Longrightarrow> astep A A'"
| a_create: "a_prs A p = None \<Longrightarrow> a_users A au = Some (t, b) \<Longrightarrow>
             R \<subseteq> a_eligible A t au \<Longrightarrow> card R = min 2 (card (a_eligible A t au)) \<Longrightarrow>
             astep A (A\<lparr>a_prs := (a_prs A)(p \<mapsto> \<lparr>a_author = au, a_merged = False, a_reviewers = R\<rparr>)\<rparr>)"
| a_merge: "a_prs A p = Some a \<Longrightarrow>
            astep A (A\<lparr>a_prs := (a_prs A)(p \<mapsto> a\<lparr>a_merged := True\<rparr>)\<rparr>)"
| a_reassign: "a_prs A p = Some a \<Longrightarrow> \<not> a_merged a \<Longrightarrow> old \<in> a_reviewers a \<Longrightarrow>
               a_users A old = Some (t, b) \<Longrightarrow> a_users A new = Some (t, True) \<Longrightarrow>
               new \<notin> a_reviewers a \<Longrightarrow>
               astep A (A\<lparr>a_prs := (a_prs A)(p \<mapsto> a\<lparr>a_reviewers := insert new (a_reviewers a - {old})\<rparr>)\<rparr>)"

definition a_empty :: astate where
  "a_empty = \<lparr>a_users = (\<lambda>_. None), a_prs = (\<lambda>_. None)\<rparr>"

inductive areachable :: "astate \<Rightarrow> bool" where
  areach_empty: "areachable a_empty"
| areach_step: "areachable A \<Longrightarrow> astep A A' \<Longrightarrow> areachable A'"

section \<open>The abstraction of a store\<close>

definition abs_user :: "store \<Rightarrow> uid \<Rightarrow> (team_id \<times> bool) option" where
  "abs_user s x = (case get_by_id s x of Inl _ \<Rightarrow> None | Inr u \<Rightarrow> Some (user_team_id u, is_active u))"

definition abs_pr :: "store \<Rightarrow> pid \<Rightarrow> apr option" where
  "abs_pr s p =
     map_option (\<lambda>r. \<lparr>a_author = pr_row_author r, a_merged = (pr_row_status r = StatusMerged),
                       a_reviewers = set (reviewers_of s p)\<rparr>) (prs s p)"

definition abs_store :: "store \<Rightarrow> astate" where
  "abs_store s = \<lparr>a_users = abs_user s, a_prs = abs_pr s\<rparr>"

section \<open>Facts of the abstraction\<close>

lemma abs_user_cong:
  assumes "users s' = users s" and "teams s' = teams s"
  shows "abs_user s' = abs_user s"
proof -
  have tn: "team_name_of s' = team_name_of s" using assms(2) by (simp add: team_name_of_def fun_eq_iff)
  have g: "get_by_id s' = get_by_id s"
    unfolding get_by_id_def find_user_row_def assms(1) tn by (rule refl)
  show ?thesis unfolding abs_user_def g by (rule refl)
qed

lemma abs_pr_cong:
  "prs s' = prs s \<Longrightarrow> pr_reviewers s' = pr_reviewers s \<Longrightarrow> abs_pr s' = abs_pr s"
  by (simp add: abs_pr_def reviewers_of_def fun_eq_iff)

lemma abs_store_empty: "abs_store empty_store = a_empty"
  by (simp add: abs_store_def a_empty_def abs_user_def abs_pr_def get_by_id_def find_user_row_def
                empty_store_def fun_eq_iff)

lemma joined_iff_get_by_id:
  assumes wf: "wf_store s"
  shows "u \<in> set (joined_users s) \<longleftrightarrow> get_by_id s (user_id u) = Inr u"
proof
  assume "u \<in> set (joined_users s)"
  then obtain r n where r: "r \<in> set (users s)" "team_name_of s (row_team_id r) = Some n"
    and u: "u = user_of_row r n"
    by (auto simp: set_joined_users)
  have "find_user_row s (row_user_id r) = Some r"
    using wf r by (simp add: wf_store_def find_user_row_def find_distinct_key)
  then show "get_by_id s (user_id u) = Inr u"
    using r u by (simp add: get_by_id_def user_of_row_def)
next
  assume g: "get_by_id s (user_id u) = Inr u"
  then obtain r n where "find_user_row s (user_id u) = Some r" "team_name_of s (row_team_id r) = Some n"
    and u: "u = user_of_row r n"
    by (auto simp: get_by_id_def split: option.splits)
  then show "u \<in> set (joined_users s)"
    by (auto simp: set_joined_users dest!: find_user_row_Some)
qed

lemma eligible_ids_abs:
  assumes wf: "wf_store s"
  shows "set (map user_id (eligible s t ex)) = a_eligible (abs_store s) t ex"
proof -
  have "x \<in> user_id ` set (eligible s t ex) \<longleftrightarrow> abs_user s x = Some (t, True) \<and> x \<noteq> ex" for x
  proof
    assume "x \<in> user_id ` set (eligible s t ex)"
    then obtain u where "u \<in> set (joined_users s)" "user_team_id u = t" "is_active u" "x = user_id u" "x \<noteq> ex"
      by (auto simp: set_eligible)
    then show "abs_user s x = Some (t, True) \<and> x \<noteq> ex"
      using joined_iff_get_by_id [OF wf] by (simp add: abs_user_def)
  next
    assume a: "abs_user s x = Some (t, True) \<and> x \<noteq> ex"
    then obtain u where g: "get_by_id s x = Inr u" "user_team_id u = t" "is_active u"
      by (auto simp: abs_user_def split: sum.splits)
    moreover have "user_id u = x" using get_by_id_Inr [OF g(1)] by simp
    ultimately show "x \<in> user_id ` set (eligible s t ex)"
      using a joined_iff_get_by_id [OF wf, of u] by (force simp: set_eligible)
  qed
  then show ?thesis by (auto simp: a_eligible_def abs_store_def)
qed

section \<open>Each request is an abstract step\<close>

lemma astep_same_prs:
  assumes "prs s' = prs s" and "pr_reviewers s' = pr_reviewers s"
  shows "astep (abs_store s) (abs_store s')"
  by (rule a_directory) (simp add: abs_store_def abs_pr_cong [OF assms])

lemma sim_merge: "astep (abs_store s) (abs_store (step (EvMerge now p) s))"
proof (cases "prs s p")
  case (Some r)
  let ?s' = "s\<lparr>prs := (prs s)(p \<mapsto> merged_row now r)\<rparr>"
  let ?a = "\<lparr>a_author = pr_row_author r, a_merged = (pr_row_status r = StatusMerged),
             a_reviewers = set (reviewers_of s p)\<rparr>"
  have pa: "a_prs (abs_store s) p = Some ?a" using Some by (simp add: abs_store_def abs_pr_def)
  have us: "abs_user ?s' = abs_user s" by (rule abs_user_cong) simp_all
  have ps: "abs_pr ?s' = (abs_pr s)(p \<mapsto> ?a\<lparr>a_merged := True\<rparr>)"
    by (rule ext) (simp add: abs_pr_def merged_row_def reviewers_of_def)
  have "abs_store ?s' = (abs_store s)\<lparr>a_prs := (a_prs (abs_store s))(p \<mapsto> ?a\<lparr>a_merged := True\<rparr>)\<rparr>"
    by (simp add: abs_store_def us ps)
  then show ?thesis using Some a_merge [OF pa] by (simp add: pr_merge_store)
qed (simp add: pr_merge_store a_directory)

lemma sim_create:
  assumes wf: "wf_store s"
  shows "astep (abs_store s) (abs_store (step (EvCreate g now req) s))"
proof (cases "\<not> pr_exists s (req_pr_id req) \<and> (\<exists>au. get_by_id s (req_author_id req) = Inr au)")
  case True
  then obtain au where ne: "\<not> pr_exists s (req_pr_id req)" and au: "get_by_id s (req_author_id req) = Inr au"
    by blast
  let ?p = "req_pr_id req" and ?t = "user_team_id au" and ?x = "req_author_id req"
  have ida: "user_id au = ?x" using get_by_id_Inr [OF au] by simp
  let ?ids = "map user_id (find_active_in_team_except (order_key g) s ?t ?x 2)"
  define r where "r = \<lparr>pr_row_id = ?p, pr_row_name = req_pr_name req,
                pr_row_author = ?x, pr_row_status = StatusOpen,
                pr_row_created = now, pr_row_merged = None, pr_row_need_more = False\<rparr>"
  define s' where "s' = add_reviewers ?p ?ids (s\<lparr>prs := (prs s)(?p \<mapsto> r)\<rparr>)"
  let ?A = "abs_store s"
  have st: "step (EvCreate g now req) s = s'"
    using ne au ida by (simp add: pr_create_store r_def s'_def)
  have none: "prs s ?p = None" using ne by (simp add: pr_exists_def)
  have ua: "a_users ?A ?x = Some (?t, is_active au)"
    using au by (simp add: abs_store_def abs_user_def)
  have pn: "a_prs ?A ?p = None" using none by (simp add: abs_store_def abs_pr_def)
  have elig: "set (map user_id (eligible s ?t ?x)) = a_eligible ?A ?t ?x"
    by (rule eligible_ids_abs [OF wf])
  have sub: "set ?ids \<subseteq> a_eligible ?A ?t ?x"
  proof -
    have "set ?ids \<subseteq> set (map user_id (eligible s ?t ?x))"
      using find_active_subset [of "order_key g" s ?t ?x 2] by (simp add: image_mono)
    then show ?thesis by (simp only: elig)
  qed
  have d1: "distinct ?ids" using distinct_candidate_ids [OF wf] .
  have d2: "distinct (map user_id (eligible s ?t ?x))"
    using wf by (simp add: eligible_def wf_store_def distinct_joined_user_ids distinct_map_filter)
  have card: "card (set ?ids) = min 2 (card (a_eligible ?A ?t ?x))"
  proof -
    have "card (set ?ids) = length ?ids" by (rule distinct_card [OF d1])
    also have "\<dots> = min 2 (length (map user_id (eligible s ?t ?x)))" by (simp add: length_find_active)
    also have "length (map user_id (eligible s ?t ?x)) = card (set (map user_id (eligible s ?t ?x)))"
      by (rule distinct_card [OF d2, symmetric])
    finally show ?thesis by (simp only: elig)
  qed
  have revs: "reviewers_of s' q = (if q = ?p then ?ids else reviewers_of s q)" for q
    unfolding s'_def
    using wf_no_orphan_rows [OF wf none] d1
    by (simp add: reviewers_of_add_reviewers_fresh reviewers_of_add_reviewers_other)
  have us: "abs_user s' = abs_user s" by (rule abs_user_cong) (simp_all add: s'_def)
  have ps: "abs_pr s' = (abs_pr s)(?p \<mapsto> \<lparr>a_author = ?x, a_merged = False, a_reviewers = set ?ids\<rparr>)"
  proof (rule ext)
    fix q
    have "prs s' q = (if q = ?p then Some r else prs s q)" by (simp add: s'_def)
    then show "abs_pr s' q = ((abs_pr s)(?p \<mapsto> \<lparr>a_author = ?x, a_merged = False, a_reviewers = set ?ids\<rparr>)) q"
      by (simp add: abs_pr_def revs r_def)
  qed
  have "abs_store s' = ?A\<lparr>a_prs := (a_prs ?A)(?p \<mapsto> \<lparr>a_author = ?x, a_merged = False, a_reviewers = set ?ids\<rparr>)\<rparr>"
    by (simp add: abs_store_def us ps)
  then show ?thesis
    unfolding st using a_create [OF pn ua sub card] by simp
next
  case False
  then have "step (EvCreate g now req) s = s" by (auto simp: pr_create_store split: sum.splits)
  then show ?thesis by (simp only:) (rule a_directory, rule refl)
qed

lemma pool_abs_user:
  assumes wf: "wf_store s" and c: "c \<in> set (reassign_pool g s ou rs)"
  shows "abs_user s c = Some (user_team_id ou, True) \<and> c \<notin> set rs"
proof -
  obtain u where u: "u \<in> set (find_active_in_team_except (order_key g) s (user_team_id ou) (user_id ou) 20)"
    and cu: "c = user_id u" "c \<notin> set rs"
    using c by (auto simp: reassign_pool_def)
  from find_active_member [OF u] have "u \<in> set (joined_users s)" "user_team_id u = user_team_id ou" "is_active u"
    by simp_all
  then show ?thesis using joined_iff_get_by_id [OF wf] cu by (simp add: abs_user_def)
qed

lemma sim_reassign:
  assumes wf: "wf_store s" and g: "rng_ok g"
  shows "astep (abs_store s) (abs_store (step (EvReassign g req) s))"
proof (cases "fst (pr_reassign g req s)")
  case (Inl e)
  then have "pr_reassign g req s = (Inl e, snd (pr_reassign g req s))" by (metis prod.collapse)
  then have "snd (pr_reassign g req s) = s" using pr_reassign_Inl_cases [OF wf g] by blast
  then have "step (EvReassign g req) s = s" by simp
  then show ?thesis by (simp only:) (rule a_directory, rule refl)
next
  case (Inr dn)
  then obtain d new where ok: "pr_reassign g req s = (Inr (d, new), snd (pr_reassign g req s))"
    by (metis prod.collapse)
  let ?p = "req_reassign_pr req" and ?old = "req_old_user req" and ?s' = "snd (pr_reassign g req s)"
  let ?A = "abs_store s"
  obtain pr ou where gw: "get_with_reviewers s ?p = Inr (pr, reviewers_of s ?p)"
    and nm: "pr_status_id pr \<noteq> StatusMerged"
    and old: "?old \<in> set (reviewers_of s ?p)"
    and ou: "get_by_id s ?old = Inr ou"
    and pool: "new \<in> set (reassign_pool g s ou (reviewers_of s ?p))"
    and rr: "replace_reviewer ?p ?old new s = Inr ?s'"
    by (rule pr_reassign_Inr [OF g ok])
  obtain r n where r: "prs s ?p = Some r" and prr: "pr = pr_of_row r n"
    using get_with_reviewers_Inr [OF gw] by blast
  let ?a = "\<lparr>a_author = pr_row_author r, a_merged = (pr_row_status r = StatusMerged),
             a_reviewers = set (reviewers_of s ?p)\<rparr>"
  have pa: "a_prs ?A ?p = Some ?a" using r by (simp add: abs_store_def abs_pr_def)
  have nmr: "\<not> a_merged ?a" using nm prr by (simp add: pr_of_row_def)
  have ro: "?old \<in> a_reviewers ?a" using old by simp
  have uo: "a_users ?A ?old = Some (user_team_id ou, is_active ou)"
    using ou by (simp add: abs_store_def abs_user_def)
  have un: "a_users ?A new = Some (user_team_id ou, True)" and nn: "new \<notin> a_reviewers ?a"
    using pool_abs_user [OF wf pool] by (simp_all add: abs_store_def)
  have s': "?s' = s\<lparr>pr_reviewers := replace_all (?p, ?old) (?p, new) (pr_reviewers s)\<rparr>"
    using replace_reviewer_Inr [OF rr] by simp
  have us: "abs_user ?s' = abs_user s" by (rule abs_user_cong) (simp_all add: s')
  have ps: "abs_pr ?s' = (abs_pr s)(?p \<mapsto> ?a\<lparr>a_reviewers := insert new (a_reviewers ?a - {?old})\<rparr>)"
  proof (rule ext)
    fix q
    show "abs_pr ?s' q = ((abs_pr s)(?p \<mapsto> ?a\<lparr>a_reviewers := insert new (a_reviewers ?a - {?old})\<rparr>)) q"
      using r old by (simp add: s' abs_pr_def reviewers_of_replace_all set_replace_all)
  qed
  have "abs_store ?s' = ?A\<lparr>a_prs := (a_prs ?A)(?p \<mapsto> ?a\<lparr>a_reviewers := insert new (a_reviewers ?a - {?old})\<rparr>)\<rparr>"
    by (simp add: abs_store_def us ps)
  moreover have "step (EvReassign g req) s = ?s'" by simp
  ultimately show ?thesis
    using a_reassign [OF pa nmr ro uo un nn] by (simp only:)
qed

lemma sim_step:
  assumes wf: "wf_store s" and ok: "event_ok ev"
  shows "astep (abs_store s) (abs_store (step ev s))"
proof (cases ev)
  case (EvTeamAdd req)
  then show ?thesis using team_add_frame [of req s] astep_same_prs by simp
next
  case (EvSetIsActive x b)
  then show ?thesis using set_is_active_frame [of x b s] astep_same_prs by simp
next
  case (EvCreate g now req)
  then show ?thesis using sim_create [OF wf] by simp
next
  case (EvMerge now p)
  then show ?thesis using sim_merge by simp
next
  case (EvReassign g req)
  then show ?thesis using sim_reassign [OF wf] ok by simp
qed

section \<open>Every abstract choice of Reassign is a possible draw\<close>

lemma hd_sort_key_unique_min:
  assumes x: "x \<in> set xs" and lt: "\<And>y. y \<in> set xs \<Longrightarrow> y \<noteq> x \<Longrightarrow> f x < f y"
  shows "\<exists>ys. sort_key f xs = x # ys"
proof -
  obtain h t where ht: "sort_key f xs = h # t"
    using x set_sort [of f xs] by (cases "sort_key f xs") auto
  have "sorted (map f (h # t))" using sorted_sort_key [of f xs] by (simp only: ht)
  then have le: "\<forall>y \<in> set t. f h \<le> f y" by simp
  have h: "h \<in> set xs" using set_sort [of f xs] ht by (metis list.set_intros(1))
  have "h = x"
  proof (rule ccontr)
    assume "h \<noteq> x"
    then have "x \<in> set t" using x set_sort [of f xs] ht by (metis set_ConsD)
    then have "f h \<le> f x" using le by blast
    moreover have "f x < f h" using lt [OF h] \<open>h \<noteq> x\<close> by simp
    ultimately show False by simp
  qed
  then show ?thesis using ht by blast
qed

definition pick_rng :: "uid \<Rightarrow> rng" where
  "pick_rng c = \<lparr>order_key = (\<lambda>x. if x = c then 0 else 1), intn = (\<lambda>_. 0)\<rparr>"

lemma rng_ok_pick_rng: "rng_ok (pick_rng c)"
  by (simp add: rng_ok_def pick_rng_def)

lemma pool_pick_rng:
  assumes wf: "wf_store s" and ou: "get_by_id s old = Inr ou"
    and tc: "abs_user s c = Some (user_team_id ou, True)" and nc: "c \<notin> set rs" and old: "old \<in> set rs"
  shows "\<exists>cs. reassign_pool (pick_rng c) s ou rs = c # cs"
proof -
  let ?t = "user_team_id ou" and ?E = "eligible s (user_team_id ou) old"
  let ?k = "\<lambda>u. order_key (pick_rng c) (user_id u)"
  have uid: "user_id ou = old" using get_by_id_Inr [OF ou] by simp
  obtain u0 where g0: "get_by_id s c = Inr u0" "user_team_id u0 = ?t" "is_active u0"
    using tc by (auto simp: abs_user_def split: sum.splits)
  have c0: "user_id u0 = c" using get_by_id_Inr [OF g0(1)] by simp
  have "u0 \<in> set (joined_users s)" using joined_iff_get_by_id [OF wf] g0(1) c0 by simp
  then have u0E: "u0 \<in> set ?E" using g0 c0 nc old by (auto simp: set_eligible)
  have dj: "distinct (map user_id (joined_users s))"
    using wf by (simp add: wf_store_def distinct_joined_user_ids)
  have lt: "?k u0 < ?k y" if "y \<in> set ?E" "y \<noteq> u0" for y
  proof -
    have "y \<in> set (joined_users s)" "u0 \<in> set (joined_users s)"
      using that(1) u0E by (simp_all add: set_eligible)
    then have "user_id y \<noteq> c" using that(2) c0 dj by (auto simp: distinct_map inj_on_def)
    then show ?thesis using c0 by (simp add: pick_rng_def)
  qed
  obtain ys where "sort_key ?k ?E = u0 # ys" using hd_sort_key_unique_min [where f = ?k, OF u0E lt] by blast
  then show ?thesis
    using c0 nc by (simp add: reassign_pool_def find_active_in_team_except_def uid)
qed

text \<open>
  C31. Every choice the abstract specification allows for \<open>Reassign\<close> is one the
  service can make: for an open pull request, a reviewer \<open>old\<close> of it and any active
  teammate \<open>c\<close> of \<open>old\<close> who is not yet a reviewer, some outcome of the random draws
  (\<open>ORDER BY random()\<close> and \<open>rand.Intn\<close>) makes \<open>Reassign\<close> replace \<open>old\<close> by
  \<open>c\<close>. No candidate is starved by the \<open>LIMIT 20\<close> or by the draw.
\<close>

theorem reassign_reaches_every_candidate:
  assumes wf: "wf_store s" and r: "prs s p = Some r" and op: "pr_row_status r = StatusOpen"
    and old: "old \<in> set (reviewers_of s p)" and to: "abs_user s old = Some (t, b)"
    and tc: "abs_user s c = Some (t, True)" and nc: "c \<notin> set (reviewers_of s p)"
  shows "\<exists>g. rng_ok g \<and>
           (\<exists>d s'. pr_reassign g \<lparr>req_reassign_pr = p, req_old_user = old\<rparr> s = (Inr (d, c), s') \<and>
                  reviewers_of s' p = replace_all old c (reviewers_of s p))"
proof -
  obtain ou where ou: "get_by_id s old = Inr ou" and t: "user_team_id ou = t"
    using to by (auto simp: abs_user_def split: sum.splits)
  obtain cs where pool: "reassign_pool (pick_rng c) s ou (reviewers_of s p) = c # cs"
    using pool_pick_rng [OF wf ou _ nc old] tc t by blast
  let ?s' = "s\<lparr>pr_reviewers := replace_all (p, old) (p, c) (pr_reviewers s)\<rparr>"
  have row: "(p, old) \<in> set (pr_reviewers s)" using old by (simp add: set_reviewers_of)
  have "(p, c) \<notin> set (pr_reviewers s)" using nc by (simp add: set_reviewers_of)
  then have "distinct (replace_all (p, old) (p, c) (pr_reviewers s))"
    using wf by (simp add: distinct_replace_all wf_store_def rows_ok_def)
  then have rr: "replace_reviewer p old c s = Inr ?s'" using row by (simp add: replace_reviewer_def)
  have "pr_reassign (pick_rng c) \<lparr>req_reassign_pr = p, req_old_user = old\<rparr> s =
          (Inr (pr_to_dto (pr_of_row r ''OPEN'') (reviewers_of ?s' p), c), ?s')"
    using r op old ou pool rr
    by (simp add: pr_reassign_def get_with_reviewers_def pr_statuses_def pr_of_row_def Let_def pick_rng_def)
  moreover have "reviewers_of ?s' p = replace_all old c (reviewers_of s p)"
    by (simp add: reviewers_of_replace_all)
  ultimately show ?thesis using rng_ok_pick_rng by blast
qed

theorem reassign_reaches_every_candidate_witness:
  "wf_store reviewed_store \<and> prs reviewed_store ''pr-1'' = Some open_row \<and>
   pr_row_status open_row = StatusOpen \<and> ''u2'' \<in> set (reviewers_of reviewed_store ''pr-1'') \<and>
   abs_user reviewed_store ''u2'' = Some (1, True) \<and> abs_user reviewed_store ''u4'' = Some (1, True) \<and>
   ''u4'' \<notin> set (reviewers_of reviewed_store ''pr-1'') \<and>
   (\<exists>g. rng_ok g \<and>
      (\<exists>d s'. pr_reassign g \<lparr>req_reassign_pr = ''pr-1'', req_old_user = ''u2''\<rparr> reviewed_store =
                (Inr (d, ''u4''), s') \<and> reviewers_of s' ''pr-1'' = [''u4'', ''u3'']))"
proof -
  have h: "prs reviewed_store ''pr-1'' = Some open_row" "pr_row_status open_row = StatusOpen"
    "''u2'' \<in> set (reviewers_of reviewed_store ''pr-1'')"
    "abs_user reviewed_store ''u2'' = Some (1, True)" "abs_user reviewed_store ''u4'' = Some (1, True)"
    "''u4'' \<notin> set (reviewers_of reviewed_store ''pr-1'')"
    "reviewers_of reviewed_store ''pr-1'' = [''u2'', ''u3'']"
    by (simp_all add: abs_user_def get_by_id_def find_user_row_def team_name_of_def reviewers_of_def
                      user_of_row_def scenario_defs)
  show ?thesis
    using reassign_reaches_every_candidate [OF wf_reviewed_store h(1,2,3,4,5,6)] wf_reviewed_store h
    by (simp add: replace_all_def)
qed

section \<open>The service refines the abstract specification\<close>

text \<open>
  C27. The service refines the abstract specification of review assignment: the
  abstraction of every store the service reaches is reachable in the abstract
  specification, and from such a store every request moves the abstraction by one
  abstract step (or leaves it as it is). So each reviewer set chosen by \<open>Create\<close> is
  a set of active teammates of the author of the size \<open>min 2\<close> of their number, and
  each \<open>Reassign\<close> replaces a reviewer of an open pull request by an active
  teammate who was not yet a reviewer.
\<close>

theorem reachable_refines:
  assumes "reachable s"
  shows "areachable (abs_store s) \<and>
         (\<forall>ev. event_ok ev \<longrightarrow> astep (abs_store s) (abs_store (step ev s)))"
proof -
  have "areachable (abs_store s)"
    using assms
  proof (induction rule: reachable.induct)
    case reach_empty
    then show ?case by (simp add: abs_store_empty areach_empty)
  next
    case (reach_step s ev)
    then show ?case using sim_step [OF reachable_wf] areach_step by blast
  qed
  then show ?thesis using sim_step [OF reachable_wf [OF assms]] by blast
qed

theorem reachable_refines_witness:
  "reachable reviewed_store \<and> event_ok (EvReassign last_rng ex_reassign) \<and>
   areachable (abs_store reviewed_store) \<and>
   astep (abs_store reviewed_store) (abs_store (step (EvReassign last_rng ex_reassign) reviewed_store))"
proof -
  note R = reachable_refines [OF reachable_reviewed_store]
  have ok: "event_ok (EvReassign last_rng ex_reassign)" by (simp add: rng_ok_last_rng)
  show ?thesis using R ok reachable_reviewed_store by blast
qed

end
