(* ===== verification/Responses.thy ===== *)
theory Responses
  imports System
begin

text \<open>
  The shape of the answers of the assignment engine, as \<open>dto/pull_request.go\<close>
  declares it, and the round trips of the repositories: what a write stores is what
  the next read returns.
\<close>

section \<open>The response type\<close>

text \<open>\<open>dto.PullRequestStatus\<close> and its two constants.\<close>

definition pr_status_names :: "string list" where
  "pr_status_names = [''OPEN'', ''MERGED'']"

text \<open>
  A response conforms to \<open>dto.PullRequest\<close> as the specification describes it: a status
  of \<open>PullRequestStatus\<close>, a creation time, a merge time exactly when merged, and a
  list of at most two distinct reviewers.
\<close>

definition dto_conforms :: "pr_dto \<Rightarrow> bool" where
  "dto_conforms d \<longleftrightarrow>
     dto_status d \<in> set pr_status_names \<and> dto_created_at d \<noteq> None \<and>
     (dto_status d = ''MERGED'' \<longleftrightarrow> dto_merged_at d \<noteq> None) \<and>
     distinct (dto_reviewers d) \<and> length (dto_reviewers d) \<le> 2"

section \<open>Scenario values\<close>

text \<open>The pull request \<open>pr-1\<close> of the scenarios as \<open>Create\<close> passes it to \<open>Insert\<close>.\<close>

definition ex_pr :: pull_request where
  "ex_pr = \<lparr>pr_id = ''pr-1'', pr_name = ''x'', pr_author = ''u1'', pr_status_id = StatusOpen,
            pr_status_name = [], pr_created_at = 7, pr_merged_at = None\<rparr>"

text \<open>User \<open>u5\<close> of team \<open>backend\<close>, active.\<close>

definition ex_u5 :: user where
  "ex_u5 = \<lparr>user_id = ''u5'', username = ''u5'', user_team_id = 1, user_team_name = ''backend'',
            is_active = True\<rparr>"

section \<open>Facts of the response type\<close>

lemma row_dto_conforms:
  assumes wf: "wf_store s" and r: "prs s p = Some r"
  shows "dto_conforms (pr_to_dto (pr_of_row r nm) (reviewers_of s p))"
proof -
  have "pr_row_status r = StatusOpen \<and> pr_row_merged r = None \<or>
        pr_row_status r = StatusMerged \<and> pr_row_merged r \<noteq> None"
    using wf_pr_row [OF wf r] by simp
  then show ?thesis
    using wf_reviewers_distinct [OF wf] wf_reviewers_le_2 [OF wf]
    by (auto simp: dto_conforms_def pr_to_dto_def pr_of_row_def status_dto_def pr_status_names_def)
qed

lemma reread_conforms:
  assumes wf: "wf_store s" and gw: "get_with_reviewers s p = Inr (pr, rs)"
  shows "dto_conforms (pr_to_dto pr rs)"
  using get_with_reviewers_Inr [OF gw] row_dto_conforms [OF wf] by auto

lemma reread_conforms_Inr:
  assumes wf: "wf_store s" and rr: "reread p s = (Inr d, s')"
  shows "dto_conforms d"
proof -
  obtain pr rs where "get_with_reviewers s p = Inr (pr, rs)" and "d = pr_to_dto pr rs"
    using rr by (auto simp: reread_def split: sum.splits)
  then show ?thesis using reread_conforms [OF wf] by simp
qed

text \<open>
  C28. Every successful answer of the assignment engine on a well-formed store is
  of the response type: its status is \<open>OPEN\<close> or \<open>MERGED\<close> (never the \<open>UNKNOWN\<close>
  of \<open>PrToDTO\<close>'s default branch), it carries a creation time, it carries a merge
  time exactly when it is merged, and it lists at most two distinct reviewers.
\<close>

theorem responses_conform:
  assumes wf: "wf_store s" and g: "rng_ok g"
  shows "(pr_create g now req s = (Inr d, s') \<longrightarrow> dto_conforms d) \<and>
         (pr_merge now p s = (Inr d, s') \<longrightarrow> dto_conforms d) \<and>
         (pr_reassign g rq s = (Inr (d, n), s') \<longrightarrow> dto_conforms d)"
proof (intro conjI impI)
  assume ok: "pr_create g now req s = (Inr d, s')"
  have "wf_store s'" using step_wf [OF wf, of "EvCreate g now req"] ok g by simp
  moreover obtain author where "reread (req_pr_id req) s' = (Inr d, s')"
    using ok by (rule pr_create_success)
  ultimately show "dto_conforms d" by (rule reread_conforms_Inr)
next
  assume ok: "pr_merge now p s = (Inr d, s')"
  obtain r where r: "prs s p = Some r"
    using ok by (cases "prs s p") (auto simp: pr_merge_def set_merged_def)
  have s': "s' = s\<lparr>prs := (prs s)(p \<mapsto> merged_row now r)\<rparr>"
    and d: "d = pr_to_dto (pr_of_row (merged_row now r) ''MERGED'') (reviewers_of s p)"
    using ok pr_merge_Some [OF r, of now] by simp_all
  have "wf_store s'" using step_wf [OF wf, of "EvMerge now p"] ok by simp
  moreover have "prs s' p = Some (merged_row now r)" by (simp add: s')
  moreover have "reviewers_of s' p = reviewers_of s p" by (simp add: s')
  ultimately show "dto_conforms d" using row_dto_conforms d by metis
next
  assume ok: "pr_reassign g rq s = (Inr (d, n), s')"
  obtain pr where gw: "get_with_reviewers s (req_reassign_pr rq) = Inr (pr, reviewers_of s (req_reassign_pr rq))"
    and d: "d = pr_to_dto pr (reviewers_of s' (req_reassign_pr rq))"
    by (rule pr_reassign_Inr [OF g ok]) blast+
  obtain r nm where r: "prs s (req_reassign_pr rq) = Some r" and pr: "pr = pr_of_row r nm"
    using get_with_reviewers_Inr [OF gw] by blast
  have "wf_store s'" using step_wf [OF wf, of "EvReassign g rq"] ok g by simp
  moreover have "prs s' (req_reassign_pr rq) = Some r"
    using r prs_pr_reassign [of g rq s] ok by simp
  ultimately show "dto_conforms d" using row_dto_conforms d pr by metis
qed

theorem responses_conform_witness:
  "wf_store backend_store \<and> rng_ok default_rng \<and>
   pr_create default_rng 7 ex_create backend_store = (Inr ex_created_dto, reviewed_store) \<and>
   dto_conforms ex_created_dto \<and>
   wf_store reviewed_store \<and> rng_ok last_rng \<and>
   pr_reassign last_rng ex_reassign reviewed_store =
     (Inr (ex_created_dto\<lparr>dto_reviewers := [''u4'', ''u3'']\<rparr>, ''u4''),
      reviewed_store\<lparr>pr_reviewers := [(''pr-1'', ''u4''), (''pr-1'', ''u3'')]\<rparr>) \<and>
   dto_conforms (ex_created_dto\<lparr>dto_reviewers := [''u4'', ''u3'']\<rparr>)"
proof -
  note C = responses_conform [OF wf_backend_store rng_ok_default_rng,
             where now = 7 and req = ex_create and d = ex_created_dto and s' = reviewed_store]
  note R = responses_conform [OF wf_reviewed_store rng_ok_last_rng,
             where d = "ex_created_dto\<lparr>dto_reviewers := [''u4'', ''u3'']\<rparr>"
               and s' = "reviewed_store\<lparr>pr_reviewers := [(''pr-1'', ''u4''), (''pr-1'', ''u3'')]\<rparr>"
               and rq = ex_reassign and n = "''u4''"]
  show ?thesis
    using C R ex_create_run ex_reassign_run wf_backend_store wf_reviewed_store
          rng_ok_default_rng rng_ok_last_rng
    by blast
qed

section \<open>Round trips of the repositories\<close>



text \<open>
  C30. What \<open>SetActive\<close> returns, \<open>GetByID\<close> reads back: after the flag of a user is
  set, reading the user returns the very user the update returned, with that flag.
\<close>

theorem set_active_roundtrip:
  assumes sa: "set_active x b s = Inr (u, s')"
  shows "get_by_id s' x = Inr u \<and> user_id u = x \<and> is_active u = b"
proof -
  obtain r n where r: "find_user_row s x = Some r" and n: "team_name_of s (row_team_id r) = Some n"
    and u: "u = user_of_row (r\<lparr>row_is_active := b\<rparr>) n"
    using sa by (auto simp: set_active_def split: option.splits)
  have rx: "row_user_id r = x" using find_user_row_Some [OF r] by simp
  have "find_user_row s' x = Some (r\<lparr>row_is_active := b\<rparr>)"
    using find_user_row_set_active [OF sa, of x] r rx by simp
  moreover have "teams s' = teams s" using sa by (auto simp: set_active_def split: option.splits)
  then have "team_name_of s' = team_name_of s" by (simp add: team_name_of_def fun_eq_iff)
  ultimately show ?thesis using n u rx by (simp add: get_by_id_def user_of_row_def)
qed

theorem set_active_roundtrip_witness:
  "set_active ''u5'' True backend_store =
     Inr (ex_u5, backend_store\<lparr>users := [member ''u1'' True, member ''u2'' True, member ''u3'' True,
                                       member ''u4'' True, member ''u5'' True]\<rparr>) \<and>
   get_by_id (backend_store\<lparr>users := [member ''u1'' True, member ''u2'' True, member ''u3'' True,
                                     member ''u4'' True, member ''u5'' True]\<rparr>) ''u5'' = Inr ex_u5 \<and>
   is_active ex_u5"
proof -
  have sa: "set_active ''u5'' True backend_store =
     Inr (ex_u5, backend_store\<lparr>users := [member ''u1'' True, member ''u2'' True, member ''u3'' True,
                                       member ''u4'' True, member ''u5'' True]\<rparr>)"
    by (simp add: set_active_def find_user_row_def team_name_of_def user_of_row_def ex_u5_def
                  scenario_defs)
  show ?thesis using set_active_roundtrip [OF sa] sa by simp
qed

end
