(* ===== verification/Interfaces.thy ===== *)
theory Interfaces
  imports PrService DirectoryService
begin

text \<open>
  The interfaces the services are written against: \<open>repository.PrRepo\<close>,
  \<open>repository.UserRepo\<close>, \<open>repository.TeamRepo\<close> and \<open>repository.TxManager\<close>,
  each a record of operations over an abstract state \<open>'s\<close>; the structs
  \<open>PRService\<close>, \<open>TeamService\<close> and \<open>UserService\<close>; and every service method
  translated once more, now calling its repositories through these records as the Go
  code does. Instantiated with the PostgreSQL repositories that \<open>cmd/main.go\<close> wires
  together, the services are those of \<open>PrService\<close> and \<open>DirectoryService\<close>.
\<close>

section \<open>The interfaces\<close>

text \<open>
  \<open>PrRepo\<close>: each method reads the state or returns the state it leaves; an error is
  an \<open>Inl\<close>. The \<open>context.Context\<close> argument carries nothing the methods use.
\<close>

record 's pr_repo =
  exists_op :: "pid \<Rightarrow> 's \<Rightarrow> error + bool"
  insert_op :: "pull_request \<Rightarrow> 's \<Rightarrow> error + 's"
  add_reviewers_op :: "pid \<Rightarrow> uid list \<Rightarrow> 's \<Rightarrow> error + 's"
  get_with_reviewers_op :: "pid \<Rightarrow> 's \<Rightarrow> error + (pull_request \<times> uid list)"
  set_merged_op :: "pid \<Rightarrow> timestamp \<Rightarrow> 's \<Rightarrow> error + (pull_request \<times> 's)"
  replace_reviewer_op :: "pid \<Rightarrow> uid \<Rightarrow> uid \<Rightarrow> 's \<Rightarrow> error + 's"

text \<open>
  \<open>UserRepo\<close>. \<open>FindActiveInTeamExcept\<close> takes, besides team, excluded user and limit,
  the key \<open>k\<close> that orders the users it may return: both implementations leave the
  order to chance (\<open>ORDER BY random()\<close> in PostgreSQL, the iteration order of a Go
  map in the test double), and the model makes that choice an argument.
\<close>

record 's user_repo =
  get_by_id_op :: "uid \<Rightarrow> 's \<Rightarrow> error + user"
  set_active_op :: "uid \<Rightarrow> bool \<Rightarrow> 's \<Rightarrow> error + (user \<times> 's)"
  get_review_prs_op :: "uid \<Rightarrow> 's \<Rightarrow> error + pull_request_short list"
  find_active_op :: "(uid \<Rightarrow> nat) \<Rightarrow> team_id \<Rightarrow> uid \<Rightarrow> nat \<Rightarrow> 's \<Rightarrow> error + user list"
  upsert_members_op :: "team_id \<Rightarrow> user list \<Rightarrow> 's \<Rightarrow> error + 's"
  list_by_team_op :: "(uid \<Rightarrow> nat) \<Rightarrow> team_id \<Rightarrow> 's \<Rightarrow> error + user list"
  get_reviewer_stats_op :: "'s \<Rightarrow> error + reviewer_stat_row list"

text \<open>
  The last two fields are \<open>ListByTeam\<close> and \<open>GetReviewerStats\<close>, which
  \<open>TeamService\<close> and \<open>UserService\<close> call through \<open>UserRepo\<close> although the
  interface does not declare them; the record holds the interface as the services use
  it. \<open>ListByTeam\<close> also takes the order key: the test double scans a Go map.
\<close>

text \<open>\<open>TeamRepo\<close>: \<open>Create\<close> and \<open>GetByName\<close>.\<close>

record 's team_repo =
  create_team_op :: "string \<Rightarrow> 's \<Rightarrow> error + (team \<times> 's)"
  get_by_name_op :: "string \<Rightarrow> 's \<Rightarrow> error + team"

text \<open>
  \<open>TxManager\<close>: \<open>WithinTx\<close> runs a callback that may fail. In Go the callback returns
  only an error and hands its results to the caller through variables of the enclosing
  function (the team row of \<open>TeamAdd\<close>); here they are its result of type \<open>'a\<close>.
\<close>

record ('s, 'a) tx_manager =
  within_tx_op :: "('s \<Rightarrow> (error + 'a) \<times> 's) \<Rightarrow> 's \<Rightarrow> (error + 'a) \<times> 's"

text \<open>The \<open>PRService\<close>, \<open>TeamService\<close> and \<open>UserService\<close> structs: their dependencies.\<close>

record 's pr_service =
  svc_prs :: "'s pr_repo"
  svc_users :: "'s user_repo"
  svc_tx :: "('s, unit) tx_manager"

record 's team_service =
  ts_teams :: "'s team_repo"
  ts_users :: "'s user_repo"
  ts_tx :: "('s, team) tx_manager"

record 's user_service =
  us_users :: "'s user_repo"

section \<open>The service over the interfaces\<close>

text \<open>The callback \<open>Create\<close> passes to \<open>WithinTx\<close>: \<open>Insert\<close>, then \<open>AddReviewers\<close>.\<close>

definition svc_create_body ::
  "'s pr_service \<Rightarrow> pull_request \<Rightarrow> uid list \<Rightarrow> 's \<Rightarrow> (error + unit) \<times> 's" where
  "svc_create_body S pr ids s =
     (case insert_op (svc_prs S) pr s of
        Inl e \<Rightarrow> (Inl e, s)
      | Inr s1 \<Rightarrow>
          (case add_reviewers_op (svc_prs S) (pr_id pr) ids s1 of
             Inl e \<Rightarrow> (Inl e, s1)
           | Inr s2 \<Rightarrow> (Inr (), s2)))"

text \<open>\<open>PRService.Create\<close>, every call through the interfaces, every error returned.\<close>

definition svc_create ::
  "'s pr_service \<Rightarrow> rng \<Rightarrow> timestamp \<Rightarrow> create_pr_request \<Rightarrow> 's \<Rightarrow> (error + pr_dto) \<times> 's" where
  "svc_create S g now req s =
     (case exists_op (svc_prs S) (req_pr_id req) s of
        Inl e \<Rightarrow> (Inl e, s)
      | Inr ex \<Rightarrow>
          if ex then (Inl ErrTeamExists, s)
          else case get_by_id_op (svc_users S) (req_author_id req) s of
            Inl e \<Rightarrow> (Inl e, s)
          | Inr author \<Rightarrow>
              (case find_active_op (svc_users S) (order_key g) (user_team_id author)
                      (user_id author) 2 s of
                 Inl e \<Rightarrow> (Inl e, s)
               | Inr candidates \<Rightarrow>
                   (let reviewer_ids = map user_id candidates;
                        pr = \<lparr>pr_id = req_pr_id req, pr_name = req_pr_name req,
                              pr_author = req_author_id req, pr_status_id = StatusOpen,
                              pr_status_name = [], pr_created_at = now, pr_merged_at = None\<rparr>
                    in case within_tx_op (svc_tx S) (svc_create_body S pr reviewer_ids) s of
                         (Inl e, s') \<Rightarrow> (Inl e, s')
                       | (Inr _, s') \<Rightarrow>
                           (case get_with_reviewers_op (svc_prs S) (pr_id pr) s' of
                              Inl e \<Rightarrow> (Inl e, s')
                            | Inr (pr', rs) \<Rightarrow> (Inr (pr_to_dto pr' rs), s')))))"

text \<open>\<open>PRService.Merge\<close>.\<close>

definition svc_merge ::
  "'s pr_service \<Rightarrow> timestamp \<Rightarrow> pid \<Rightarrow> 's \<Rightarrow> (error + pr_dto) \<times> 's" where
  "svc_merge S now p s =
     (case set_merged_op (svc_prs S) p now s of
        Inl e \<Rightarrow> (Inl e, s)
      | Inr (pr, s') \<Rightarrow>
          (case get_with_reviewers_op (svc_prs S) p s' of
             Inl e \<Rightarrow> (Inl e, s')
           | Inr (_, rs) \<Rightarrow> (Inr (pr_to_dto pr rs), s')))"

text \<open>\<open>PRService.Reassign\<close>.\<close>

definition svc_reassign ::
  "'s pr_service \<Rightarrow> rng \<Rightarrow> reassign_pr_request \<Rightarrow> 's \<Rightarrow> (error + pr_dto \<times> uid) \<times> 's" where
  "svc_reassign S g req s =
     (let p = req_reassign_pr req; old = req_old_user req in
      case get_with_reviewers_op (svc_prs S) p s of
        Inl e \<Rightarrow> (Inl e, s)
      | Inr (pr, reviewers) \<Rightarrow>
          if pr_status_id pr = StatusMerged then (Inl ErrPRMerged, s)
          else if old \<notin> set reviewers then (Inl ErrReviewerNotSet, s)
          else case get_by_id_op (svc_users S) old s of
            Inl e \<Rightarrow> (Inl e, s)
          | Inr old_user \<Rightarrow>
              (case find_active_op (svc_users S) (order_key g) (user_team_id old_user)
                      (user_id old_user) 20 s of
                 Inl e \<Rightarrow> (Inl e, s)
               | Inr candidates \<Rightarrow>
                   (let possible = filter (\<lambda>c. c \<notin> set reviewers) (map user_id candidates) in
                    if possible = [] then (Inl ErrNoCandidate, s)
                    else
                      let new = possible ! intn g (length possible) in
                      case replace_reviewer_op (svc_prs S) p old new s of
                        Inl e \<Rightarrow> (Inl e, s)
                      | Inr s' \<Rightarrow>
                          (case get_with_reviewers_op (svc_prs S) p s' of
                             Inl e \<Rightarrow> (Inl e, s')
                           | Inr (pr', rs') \<Rightarrow> (Inr (pr_to_dto pr' rs', new), s')))))"

section \<open>The directory services over the interfaces\<close>

text \<open>The callback of \<open>TeamAdd\<close>: create the team, upsert its members; the team row is its result.\<close>

definition svc_team_add_body ::
  "'s team_service \<Rightarrow> team_add_request \<Rightarrow> 's \<Rightarrow> (error + team) \<times> 's" where
  "svc_team_add_body T req s =
     (case create_team_op (ts_teams T) (ta_team_name req) s of
        Inl e \<Rightarrow> (Inl e, s)
      | Inr (t, s1) \<Rightarrow>
          (case upsert_members_op (ts_users T) (team_row_id t) (map (member_user t) (ta_members req)) s1 of
             Inl e \<Rightarrow> (Inl e, s1)
           | Inr s2 \<Rightarrow> (Inr t, s2)))"

definition svc_team_add ::
  "'s team_service \<Rightarrow> team_add_request \<Rightarrow> 's \<Rightarrow> (error + team_dto) \<times> 's" where
  "svc_team_add T req s =
     (case within_tx_op (ts_tx T) (svc_team_add_body T req) s of
        (Inl e, s') \<Rightarrow> (Inl e, s')
      | (Inr t, s') \<Rightarrow> (Inr \<lparr>td_team_name = team_row_name t, td_members = ta_members req\<rparr>, s'))"

definition svc_team_get ::
  "'s team_service \<Rightarrow> (uid \<Rightarrow> nat) \<Rightarrow> string \<Rightarrow> 's \<Rightarrow> error + team_dto" where
  "svc_team_get T k nm s =
     (case get_by_name_op (ts_teams T) nm s of
        Inl e \<Rightarrow> Inl e
      | Inr t \<Rightarrow>
          (case list_by_team_op (ts_users T) k (team_row_id t) s of
             Inl e \<Rightarrow> Inl e
           | Inr us \<Rightarrow>
               Inr \<lparr>td_team_name = team_row_name t,
                    td_members = map (\<lambda>u. \<lparr>tm_user_id = user_id u, tm_username = username u,
                                           tm_is_active = is_active u\<rparr>) us\<rparr>))"

definition svc_set_is_active ::
  "'s user_service \<Rightarrow> uid \<Rightarrow> bool \<Rightarrow> 's \<Rightarrow> (error + user_dto) \<times> 's" where
  "svc_set_is_active U x b s =
     (case set_active_op (us_users U) x b s of
        Inl e \<Rightarrow> (Inl e, s)
      | Inr (u, s') \<Rightarrow>
          (Inr \<lparr>ud_user_id = user_id u, ud_username = username u,
                ud_team_name = user_team_name u, ud_is_active = is_active u\<rparr>, s'))"

definition svc_get_review_prs :: "'s user_service \<Rightarrow> uid \<Rightarrow> 's \<Rightarrow> error + user_review_dto" where
  "svc_get_review_prs U x s =
     (case get_review_prs_op (us_users U) x s of
        Inl e \<Rightarrow> Inl e
      | Inr ps \<Rightarrow>
          Inr \<lparr>ur_user_id = x,
               ur_prs = map (\<lambda>p. \<lparr>sd_pr_id = short_id p, sd_pr_name = short_name p,
                                  sd_author = short_author p,
                                  sd_status = review_status (short_status_name p)\<rparr>) ps\<rparr>)"

definition svc_get_reviewer_stats :: "'s user_service \<Rightarrow> 's \<Rightarrow> error + reviewer_stat list" where
  "svc_get_reviewer_stats U s =
     (case get_reviewer_stats_op (us_users U) s of
        Inl e \<Rightarrow> Inl e
      | Inr rows \<Rightarrow> Inr (map (\<lambda>r. \<lparr>rs_username = stat_username r, rs_reviews_count = stat_count r\<rparr>) rows))"

section \<open>The PostgreSQL implementations\<close>

text \<open>\<open>PgPrRepo\<close>, \<open>PgUserRepo\<close> and \<open>PgTxManager\<close>: the operations of the repository theories.\<close>

definition pg_pr_repo :: "store pr_repo" where
  "pg_pr_repo =
     \<lparr>exists_op = (\<lambda>p s. Inr (pr_exists s p)), insert_op = pr_insert,
      add_reviewers_op = (\<lambda>p ids s. Inr (add_reviewers p ids s)),
      get_with_reviewers_op = (\<lambda>p s. get_with_reviewers s p),
      set_merged_op = set_merged, replace_reviewer_op = replace_reviewer\<rparr>"

definition pg_user_repo :: "store user_repo" where
  "pg_user_repo =
     \<lparr>get_by_id_op = (\<lambda>x s. get_by_id s x), set_active_op = set_active,
      get_review_prs_op = (\<lambda>x s. Inr (get_review_prs s x)),
      find_active_op = (\<lambda>k t ex n s. Inr (find_active_in_team_except k s t ex n)),
      upsert_members_op = (\<lambda>t ms s. Inr (upsert_team_members t ms s)),
      list_by_team_op = (\<lambda>k t s. Inr (list_by_team s t)),
      get_reviewer_stats_op = (\<lambda>s. Inr (get_reviewer_stats s))\<rparr>"

definition pg_team_repo :: "store team_repo" where
  "pg_team_repo = \<lparr>create_team_op = team_create, get_by_name_op = (\<lambda>nm s. team_get_by_name s nm)\<rparr>"

definition pg_tx_manager :: "(store, 'a) tx_manager" where
  "pg_tx_manager = \<lparr>within_tx_op = within_tx\<rparr>"

text \<open>The services as \<open>cmd/main.go\<close> builds them from the PostgreSQL repositories.\<close>

definition pg_pr_service :: "store pr_service" where
  "pg_pr_service = \<lparr>svc_prs = pg_pr_repo, svc_users = pg_user_repo, svc_tx = pg_tx_manager\<rparr>"

definition pg_team_service :: "store team_service" where
  "pg_team_service = \<lparr>ts_teams = pg_team_repo, ts_users = pg_user_repo, ts_tx = pg_tx_manager\<rparr>"

definition pg_user_service :: "store user_service" where
  "pg_user_service = \<lparr>us_users = pg_user_repo\<rparr>"

text \<open>The methods of the wired service, one by one.\<close>

lemma pg_service_ops [simp]:
  "exists_op (svc_prs pg_pr_service) = (\<lambda>p s. Inr (pr_exists s p))"
  "insert_op (svc_prs pg_pr_service) = pr_insert"
  "add_reviewers_op (svc_prs pg_pr_service) = (\<lambda>p ids s. Inr (add_reviewers p ids s))"
  "get_with_reviewers_op (svc_prs pg_pr_service) = (\<lambda>p s. get_with_reviewers s p)"
  "set_merged_op (svc_prs pg_pr_service) = set_merged"
  "replace_reviewer_op (svc_prs pg_pr_service) = replace_reviewer"
  "get_by_id_op (svc_users pg_pr_service) = (\<lambda>x s. get_by_id s x)"
  "find_active_op (svc_users pg_pr_service) =
     (\<lambda>k t ex n s. Inr (find_active_in_team_except k s t ex n))"
  "within_tx_op (svc_tx pg_pr_service) = within_tx"
  by (simp_all add: pg_pr_service_def pg_pr_repo_def pg_user_repo_def pg_tx_manager_def)

lemma pg_directory_ops [simp]:
  "create_team_op (ts_teams pg_team_service) = team_create"
  "get_by_name_op (ts_teams pg_team_service) = (\<lambda>nm s. team_get_by_name s nm)"
  "upsert_members_op (ts_users pg_team_service) = (\<lambda>t ms s. Inr (upsert_team_members t ms s))"
  "list_by_team_op (ts_users pg_team_service) = (\<lambda>k t s. Inr (list_by_team s t))"
  "within_tx_op (ts_tx pg_team_service) = within_tx"
  "set_active_op (us_users pg_user_service) = set_active"
  "get_review_prs_op (us_users pg_user_service) = (\<lambda>x s. Inr (get_review_prs s x))"
  "get_reviewer_stats_op (us_users pg_user_service) = (\<lambda>s. Inr (get_reviewer_stats s))"
  by (simp_all add: pg_team_service_def pg_user_service_def pg_team_repo_def pg_user_repo_def
                    pg_tx_manager_def)

section \<open>The service over PostgreSQL is the engine\<close>

lemma svc_create_body_pg: "svc_create_body pg_pr_service = create_tx_body"
  unfolding svc_create_body_def create_tx_body_def pg_service_ops sum.case by (rule refl)

lemma svc_create_pg: "svc_create pg_pr_service g now req s = pr_create g now req s"
  unfolding svc_create_def pr_create_def pg_service_ops svc_create_body_pg reread_def sum.case
            Let_def
  by simp

lemma svc_merge_pg: "svc_merge pg_pr_service now p s = pr_merge now p s"
  unfolding svc_merge_def pr_merge_def pg_service_ops by simp

lemma svc_reassign_pg: "svc_reassign pg_pr_service g req s = pr_reassign g req s"
  unfolding svc_reassign_def pr_reassign_def pg_service_ops reassign_pool_def sum.case by simp

lemma svc_team_add_body_pg: "svc_team_add_body pg_team_service = team_add_tx_body"
  unfolding svc_team_add_body_def team_add_tx_body_def pg_directory_ops sum.case by (rule refl)

lemma svc_team_add_pg: "svc_team_add pg_team_service req s = team_add req s"
  unfolding svc_team_add_def team_add_def pg_directory_ops svc_team_add_body_pg by (rule refl)

lemma svc_team_get_pg: "svc_team_get pg_team_service k nm s = team_get s nm"
  unfolding svc_team_get_def team_get_def pg_directory_ops sum.case by (rule refl)

lemma svc_set_is_active_pg: "svc_set_is_active pg_user_service x b s = set_is_active x b s"
  unfolding svc_set_is_active_def set_is_active_def pg_directory_ops by (rule refl)

lemma svc_get_review_prs_pg: "svc_get_review_prs pg_user_service x s = get_review_prs_svc s x"
  unfolding svc_get_review_prs_def get_review_prs_svc_def pg_directory_ops sum.case by (rule refl)

lemma svc_get_reviewer_stats_pg:
  "svc_get_reviewer_stats pg_user_service s = Inr (get_reviewer_stats_svc s)"
  unfolding svc_get_reviewer_stats_def get_reviewer_stats_svc_def pg_directory_ops sum.case
  by (rule refl)


end
