(* ===== verification/TestDoubles.thy ===== *)
theory TestDoubles
  imports Interfaces "HOL-Library.AList"
begin

text \<open>
  The in-memory doubles of the unit tests under \<open>tests/\<close>:
  \<^item> \<open>MockPrRepo\<close> (\<open>tests/unittests/mock_pr_repo.go\<close>): two Go maps, from ids to
    pull requests and from ids to reviewer lists;
  \<^item> \<open>MockUserRepo\<close> (\<open>tests/unittests/mock_user_repo.go\<close>): a Go map from ids to
    users, scanned in Go's unspecified iteration order;
  \<^item> \<open>MockTxManager\<close> (\<open>tests/unit/mock_tx_manager.go\<close>): runs the callback.
  \<open>PRService\<close> over these doubles is \<open>svc_create mock_pr_service\<close> and so on. The
  theory shows that the doubles, wired as the tests wire them, answer every request
  as the PostgreSQL repositories do and keep the same tables.
\<close>

section \<open>The state of the doubles\<close>

text \<open>
  The maps of the doubles. A Go map is a partial function; the users map is an association
  list with distinct keys, whose order is the order a range loop may visit it in
  when the random iteration key ties.
\<close>

record mock_state =
  mock_prs :: "pid \<Rightarrow> pull_request option"
  mock_reviewers :: "pid \<Rightarrow> uid list option"
  mock_users :: "(uid \<times> user) list"
  mock_teams :: "string \<Rightarrow> team option"
  mock_next_id :: team_id
  mock_review_prs :: "uid \<Rightarrow> pull_request_short list option"
  mock_stats :: "reviewer_stat_row list"

text \<open>
  The last four fields belong to the doubles of \<open>tests/unit\<close>: \<open>TeamsByName\<close> and
  \<open>nextID\<close> of \<open>MockTeamRepo\<close>, \<open>ReviewPRs\<close> and \<open>StatsRows\<close> of its
  \<open>MockUserRepo\<close>. Each double reads and writes its own fields only.
\<close>

text \<open>\<open>NewMockPrRepo\<close>, \<open>NewMockUserRepo\<close> and \<open>NewMockTeamRepo\<close>: empty maps, \<open>nextID = 0\<close>.\<close>

definition mock_empty :: mock_state where
  "mock_empty =
     \<lparr>mock_prs = Map.empty, mock_reviewers = Map.empty, mock_users = [], mock_teams = Map.empty,
      mock_next_id = 0, mock_review_prs = Map.empty, mock_stats = []\<rparr>"

section \<open>MockPrRepo\<close>

definition mock_exists :: "pid \<Rightarrow> mock_state \<Rightarrow> error + bool" where
  "mock_exists p m = Inr (mock_prs m p \<noteq> None)"

text \<open>\<open>Insert\<close> overwrites an existing entry: no unique violation.\<close>

definition mock_insert :: "pull_request \<Rightarrow> mock_state \<Rightarrow> error + mock_state" where
  "mock_insert pr m = Inr (m\<lparr>mock_prs := (mock_prs m)(pr_id pr \<mapsto> pr)\<rparr>)"

text \<open>\<open>AddReviewers\<close>: an empty list returns at once; otherwise a copy replaces the entry.\<close>

definition mock_add_reviewers :: "pid \<Rightarrow> uid list \<Rightarrow> mock_state \<Rightarrow> error + mock_state" where
  "mock_add_reviewers p ids m =
     (if ids = [] then Inr m else Inr (m\<lparr>mock_reviewers := (mock_reviewers m)(p \<mapsto> ids)\<rparr>))"

text \<open>\<open>m.Reviewers[prID]\<close>: a missing key reads as the nil slice.\<close>

definition mock_revs :: "mock_state \<Rightarrow> pid \<Rightarrow> uid list" where
  "mock_revs m p = (case mock_reviewers m p of None \<Rightarrow> [] | Some rs \<Rightarrow> rs)"

definition mock_get_with_reviewers ::
  "pid \<Rightarrow> mock_state \<Rightarrow> error + (pull_request \<times> uid list)" where
  "mock_get_with_reviewers p m =
     (case mock_prs m p of
        None \<Rightarrow> Inl ErrPRNotFound
      | Some pr \<Rightarrow> Inr (pr, mock_revs m p))"

text \<open>\<open>SetMerged\<close>: the status set, \<open>MergedAt\<close> only when nil.\<close>

definition mock_set_merged ::
  "pid \<Rightarrow> timestamp \<Rightarrow> mock_state \<Rightarrow> error + (pull_request \<times> mock_state)" where
  "mock_set_merged p now m =
     (case mock_prs m p of
        None \<Rightarrow> Inl ErrPRNotFound
      | Some pr \<Rightarrow>
          (let pr' = pr\<lparr>pr_status_id := StatusMerged,
                        pr_merged_at := (case pr_merged_at pr of None \<Rightarrow> Some now
                                         | Some t \<Rightarrow> Some t)\<rparr>
           in Inr (pr', m\<lparr>mock_prs := (mock_prs m)(p \<mapsto> pr')\<rparr>)))"

text \<open>
  The loop of \<open>ReplaceReviewer\<close>: the first occurrence is replaced and the loop
  breaks; \<open>None\<close> is \<open>replaced = false\<close>.
\<close>

fun replace_first :: "'a \<Rightarrow> 'a \<Rightarrow> 'a list \<Rightarrow> 'a list option" where
  "replace_first a b [] = None"
| "replace_first a b (x # xs) =
     (if x = a then Some (b # xs) else map_option (Cons x) (replace_first a b xs))"

definition mock_replace_reviewer ::
  "pid \<Rightarrow> uid \<Rightarrow> uid \<Rightarrow> mock_state \<Rightarrow> error + mock_state" where
  "mock_replace_reviewer p old new m =
     (case mock_reviewers m p of
        None \<Rightarrow> Inl ErrReviewerNotSet
      | Some revs \<Rightarrow>
          (case replace_first old new revs of
             None \<Rightarrow> Inl ErrReviewerNotSet
           | Some revs' \<Rightarrow> Inr (m\<lparr>mock_reviewers := (mock_reviewers m)(p \<mapsto> revs')\<rparr>)))"

section \<open>MockUserRepo\<close>

definition mock_get_by_id :: "uid \<Rightarrow> mock_state \<Rightarrow> error + user" where
  "mock_get_by_id x m =
     (case map_of (mock_users m) x of None \<Rightarrow> Inl ErrUserNotFound | Some u \<Rightarrow> Inr u)"

definition mock_set_is_active :: "uid \<Rightarrow> bool \<Rightarrow> mock_state \<Rightarrow> error + (user \<times> mock_state)" where
  "mock_set_is_active x b m =
     (case map_of (mock_users m) x of
        None \<Rightarrow> Inl ErrUserNotFound
      | Some u \<Rightarrow> Inr (u\<lparr>is_active := b\<rparr>,
                      m\<lparr>mock_users := AList.update x (u\<lparr>is_active := b\<rparr>) (mock_users m)\<rparr>))"

text \<open>\<open>GetReviewPrs\<close> of the \<open>unittests\<close> double returns nil.\<close>

definition mock_get_review_prs :: "uid \<Rightarrow> mock_state \<Rightarrow> error + pull_request_short list" where
  "mock_get_review_prs x m = Inr []"

text \<open>
  \<open>for _, u := range m.Users\<close>: the values in the order of the iteration key
  \<open>k\<close>, ties in the order of the entries.
\<close>

definition mock_range :: "(uid \<Rightarrow> nat) \<Rightarrow> mock_state \<Rightarrow> user list" where
  "mock_range k m = sort_key (\<lambda>u. k (user_id u)) (map snd (mock_users m))"

text \<open>
  The loop of \<open>FindActiveInTeamExcept\<close>: skip other teams, inactive users and the
  excluded user; append; break when \<open>len(res) == limit\<close>.
\<close>

fun mock_find_loop :: "team_id \<Rightarrow> uid \<Rightarrow> nat \<Rightarrow> user list \<Rightarrow> user list \<Rightarrow> user list" where
  "mock_find_loop t ex n res [] = res"
| "mock_find_loop t ex n res (u # us) =
     (if user_team_id u \<noteq> t then mock_find_loop t ex n res us
      else if \<not> is_active u then mock_find_loop t ex n res us
      else if user_id u = ex then mock_find_loop t ex n res us
      else let res' = res @ [u] in
           if length res' = n then res' else mock_find_loop t ex n res' us)"

definition mock_find_active ::
  "(uid \<Rightarrow> nat) \<Rightarrow> team_id \<Rightarrow> uid \<Rightarrow> nat \<Rightarrow> mock_state \<Rightarrow> error + user list" where
  "mock_find_active k t ex n m = Inr (mock_find_loop t ex n [] (mock_range k m))"

text \<open>\<open>UpsertTeamMembers\<close>: each member, its team set, stored under its id.\<close>

definition mock_upsert_members :: "team_id \<Rightarrow> user list \<Rightarrow> mock_state \<Rightarrow> error + mock_state" where
  "mock_upsert_members t ms m =
     Inr (m\<lparr>mock_users := fold (\<lambda>u us. AList.update (user_id u) (u\<lparr>user_team_id := t\<rparr>) us)
                               ms (mock_users m)\<rparr>)"

text \<open>\<open>ListByTeam\<close>: the users of the team, in iteration order; \<open>GetReviewerStats\<close>: nil.\<close>

definition mock_list_by_team :: "(uid \<Rightarrow> nat) \<Rightarrow> team_id \<Rightarrow> mock_state \<Rightarrow> error + user list" where
  "mock_list_by_team k t m = Inr (filter (\<lambda>u. user_team_id u = t) (mock_range k m))"

definition mock_get_reviewer_stats :: "mock_state \<Rightarrow> error + reviewer_stat_row list" where
  "mock_get_reviewer_stats m = Inr []"

section \<open>MockTeamRepo and the MockUserRepo of tests/unit\<close>

text \<open>\<open>Create\<close>: a taken name is \<open>ErrTeamExists\<close>; otherwise the next id.\<close>

definition mock_team_create :: "string \<Rightarrow> mock_state \<Rightarrow> error + (team \<times> mock_state)" where
  "mock_team_create nm m =
     (case mock_teams m nm of
        Some t \<Rightarrow> Inl ErrTeamExists
      | None \<Rightarrow>
          (let t = \<lparr>team_row_id = mock_next_id m + 1, team_row_name = nm\<rparr>
           in Inr (t, m\<lparr>mock_next_id := mock_next_id m + 1,
                         mock_teams := (mock_teams m)(nm \<mapsto> t)\<rparr>)))"

definition mock_team_get_by_name :: "string \<Rightarrow> mock_state \<Rightarrow> error + team" where
  "mock_team_get_by_name nm m =
     (case mock_teams m nm of None \<Rightarrow> Inl ErrTeamNotFound | Some t \<Rightarrow> Inr t)"

text \<open>
  The \<open>MockUserRepo\<close> of \<open>tests/unit\<close> has the methods of the one above, but
  answers \<open>GetReviewPrs\<close> and \<open>GetReviewerStats\<close> from stored data.
\<close>

definition unit_get_review_prs :: "uid \<Rightarrow> mock_state \<Rightarrow> error + pull_request_short list" where
  "unit_get_review_prs x m = Inr (case mock_review_prs m x of None \<Rightarrow> [] | Some ps \<Rightarrow> ps)"

definition unit_get_reviewer_stats :: "mock_state \<Rightarrow> error + reviewer_stat_row list" where
  "unit_get_reviewer_stats m = Inr (mock_stats m)"

section \<open>MockTxManager and the wiring of the tests\<close>

definition mock_tx_manager :: "(mock_state, 'a) tx_manager" where
  "mock_tx_manager = \<lparr>within_tx_op = (\<lambda>fn m. fn m)\<rparr>"

definition mock_pr_repo :: "mock_state pr_repo" where
  "mock_pr_repo =
     \<lparr>exists_op = mock_exists, insert_op = mock_insert, add_reviewers_op = mock_add_reviewers,
      get_with_reviewers_op = mock_get_with_reviewers, set_merged_op = mock_set_merged,
      replace_reviewer_op = mock_replace_reviewer\<rparr>"

text \<open>
  The \<open>SetActive\<close> slot holds \<open>SetIsActive\<close>, the method the double has under
  another name.
\<close>

definition mock_user_repo :: "mock_state user_repo" where
  "mock_user_repo =
     \<lparr>get_by_id_op = mock_get_by_id, set_active_op = mock_set_is_active,
      get_review_prs_op = mock_get_review_prs, find_active_op = mock_find_active,
      upsert_members_op = mock_upsert_members, list_by_team_op = mock_list_by_team,
      get_reviewer_stats_op = mock_get_reviewer_stats\<rparr>"

definition unit_user_repo :: "mock_state user_repo" where
  "unit_user_repo =
     mock_user_repo\<lparr>get_review_prs_op := unit_get_review_prs,
                    get_reviewer_stats_op := unit_get_reviewer_stats\<rparr>"

definition mock_team_repo :: "mock_state team_repo" where
  "mock_team_repo = \<lparr>create_team_op = mock_team_create, get_by_name_op = mock_team_get_by_name\<rparr>"

text \<open>\<open>newTestPRService\<close>: the service over the three doubles.\<close>

definition mock_pr_service :: "mock_state pr_service" where
  "mock_pr_service = \<lparr>svc_prs = mock_pr_repo, svc_users = mock_user_repo, svc_tx = mock_tx_manager\<rparr>"

text \<open>\<open>newTestTeamService\<close> and \<open>newTestUserService\<close> of \<open>tests/unit\<close>.\<close>

definition mock_team_service :: "mock_state team_service" where
  "mock_team_service = \<lparr>ts_teams = mock_team_repo, ts_users = unit_user_repo, ts_tx = mock_tx_manager\<rparr>"

definition mock_user_service :: "mock_state user_service" where
  "mock_user_service = \<lparr>us_users = unit_user_repo\<rparr>"

section \<open>The doubles against the database\<close>

text \<open>
  A double state stands for a store when it holds the same pull requests (up to the
  status name, which the double never fills in), the same reviewer lists and the
  joined users of the store, keyed by id.
\<close>

definition strip_name :: "pull_request \<Rightarrow> pull_request" where
  "strip_name pr = pr\<lparr>pr_status_name := []\<rparr>"

definition mock_rel :: "store \<Rightarrow> mock_state \<Rightarrow> bool" where
  "mock_rel s m \<longleftrightarrow>
     map_option strip_name \<circ> mock_prs m = map_option (\<lambda>r. pr_of_row r []) \<circ> prs s \<and>
     mock_revs m = reviewers_of s \<and>
     mock_users m = map (\<lambda>u. (user_id u, u)) (joined_users s)"

definition mock_agrees :: "(error + 'a) \<times> store \<Rightarrow> (error + 'a) \<times> mock_state \<Rightarrow> bool" where
  "mock_agrees r r' \<longleftrightarrow> fst r' = fst r \<and> mock_rel (snd r) (snd r')"

section \<open>The scenario as the unit tests set it up\<close>

text \<open>
  The double holding what \<open>reviewed_store\<close> holds: users \<open>u1\<close> to \<open>u5\<close> of
  team 1 (\<open>u5\<close> inactive), and \<open>pr-1\<close> of \<open>u1\<close> with reviewers \<open>u2\<close>, \<open>u3\<close>.
\<close>

definition mock_member :: "uid \<Rightarrow> bool \<Rightarrow> uid \<times> user" where
  "mock_member x b =
     (x, \<lparr>user_id = x, username = x, user_team_id = 1, user_team_name = ''backend'', is_active = b\<rparr>)"

definition mock_reviewed :: mock_state where
  "mock_reviewed =
     \<lparr>mock_prs = [''pr-1'' \<mapsto> \<lparr>pr_id = ''pr-1'', pr_name = ''x'', pr_author = ''u1'',
                               pr_status_id = StatusOpen, pr_status_name = [],
                               pr_created_at = 7, pr_merged_at = None\<rparr>],
      mock_reviewers = [''pr-1'' \<mapsto> [''u2'', ''u3'']],
      mock_users = [mock_member ''u1'' True, mock_member ''u2'' True, mock_member ''u3'' True,
                    mock_member ''u4'' True, mock_member ''u5'' False],
      mock_teams = [''backend'' \<mapsto> backend_team], mock_next_id = 1,
      mock_review_prs = Map.empty, mock_stats = []\<rparr>"

section \<open>Lemmas\<close>

lemma mock_service_ops [simp]:
  "exists_op (svc_prs mock_pr_service) = mock_exists"
  "insert_op (svc_prs mock_pr_service) = mock_insert"
  "add_reviewers_op (svc_prs mock_pr_service) = mock_add_reviewers"
  "get_with_reviewers_op (svc_prs mock_pr_service) = mock_get_with_reviewers"
  "set_merged_op (svc_prs mock_pr_service) = mock_set_merged"
  "replace_reviewer_op (svc_prs mock_pr_service) = mock_replace_reviewer"
  "get_by_id_op (svc_users mock_pr_service) = mock_get_by_id"
  "find_active_op (svc_users mock_pr_service) = mock_find_active"
  "within_tx_op (svc_tx mock_pr_service) = (\<lambda>fn m. fn m)"
  by (simp_all add: mock_pr_service_def mock_pr_repo_def mock_user_repo_def mock_tx_manager_def)

subsection \<open>The loop of \<open>FindActiveInTeamExcept\<close>\<close>

lemma mock_find_loop_take:
  "length res < n \<Longrightarrow>
   mock_find_loop t ex n res us =
     res @ take (n - length res)
             (filter (\<lambda>u. user_team_id u = t \<and> is_active u \<and> user_id u \<noteq> ex) us)"
proof (induction us arbitrary: res)
  case (Cons u us)
  then show ?case
    by (auto simp: Let_def take_Cons')
qed simp

lemma mock_find_loop_unlimited:
  "mock_find_loop t ex 0 res us =
     res @ filter (\<lambda>u. user_team_id u = t \<and> is_active u \<and> user_id u \<noteq> ex) us"
  by (induction us arbitrary: res) (auto simp: Let_def)

subsection \<open>Reading the relation\<close>

lemma mock_rel_prs:
  "mock_rel s m \<Longrightarrow> map_option strip_name (mock_prs m p) = map_option (\<lambda>r. pr_of_row r []) (prs s p)"
  unfolding mock_rel_def by (metis comp_apply)

lemma mock_rel_revs: "mock_rel s m \<Longrightarrow> mock_revs m p = reviewers_of s p"
  by (simp add: mock_rel_def)

lemma mock_rel_users: "mock_rel s m \<Longrightarrow> mock_users m = map (\<lambda>u. (user_id u, u)) (joined_users s)"
  by (simp add: mock_rel_def)

lemma mock_rel_prs_None: "mock_rel s m \<Longrightarrow> (mock_prs m p = None) = (prs s p = None)"
  using mock_rel_prs [of s m p] by auto

lemma mock_rel_prs_Some:
  "mock_rel s m \<Longrightarrow> prs s p = Some r \<Longrightarrow> \<exists>pr. mock_prs m p = Some pr \<and> strip_name pr = pr_of_row r []"
  using mock_rel_prs [of s m p] by auto

lemma pr_to_dto_strip_name:
  "strip_name pr = pr_of_row r [] \<Longrightarrow> pr_to_dto pr rs = pr_to_dto (pr_of_row r nm) rs"
  by (cases pr) (auto simp: strip_name_def pr_of_row_def pr_to_dto_def)

lemma strip_name_status:
  "strip_name pr = pr_of_row r [] \<Longrightarrow> pr_status_id pr = pr_row_status r"
  by (cases pr) (auto simp: strip_name_def pr_of_row_def)

lemma joined_users_prs_update [simp]: "joined_users (s\<lparr>prs := f\<rparr>) = joined_users s"
  by (simp add: joined_users_def team_name_of_def)

lemma joined_users_rows_update [simp]: "joined_users (s\<lparr>pr_reviewers := rs\<rparr>) = joined_users s"
  by (simp add: joined_users_def team_name_of_def)

lemma joined_users_add_reviewers [simp]: "joined_users (add_reviewers p ids s) = joined_users s"
  by (simp add: add_reviewers_def)

subsection \<open>Users\<close>

lemma user_id_user_of_row: "user_id (user_of_row r n) = row_user_id r"
  by (simp add: user_of_row_def)

lemma map_of_key_None: "x \<notin> set (map f xs) \<Longrightarrow> map_of (map (\<lambda>u. (f u, u)) xs) x = None"
  by (induction xs) auto

lemma map_of_joined_rows:
  "distinct (map row_user_id rs) \<Longrightarrow>
   map_of (map (\<lambda>u. (user_id u, u))
     (concat (map (\<lambda>r. case f (row_team_id r) of None \<Rightarrow> [] | Some n \<Rightarrow> [user_of_row r n]) rs))) x =
   (case find (\<lambda>r. row_user_id r = x) rs of
      None \<Rightarrow> None | Some r \<Rightarrow> map_option (user_of_row r) (f (row_team_id r)))"
proof (induction rs)
  case (Cons r rs)
  define J where "J = concat (map (\<lambda>r. case f (row_team_id r) of None \<Rightarrow> [] | Some n \<Rightarrow> [user_of_row r n]) rs)"
  have sub: "set (map user_id (concat (map (\<lambda>r. case f (row_team_id r) of None \<Rightarrow> [] | Some n \<Rightarrow> [user_of_row r n]) rs)))
             \<subseteq> set (map row_user_id rs)" for rs
    by (induction rs) (auto simp: user_of_row_def split: option.splits)
  show ?case
  proof (cases "row_user_id r = x")
    case True
    with Cons.prems sub [of rs] have "x \<notin> set (map user_id J)" by (auto simp: J_def)
    then have "map_of (map (\<lambda>u. (user_id u, u)) J) x = None" by (rule map_of_key_None)
    with True show ?thesis by (simp add: J_def user_of_row_def split: option.split)
  next
    case False
    with Cons show ?thesis by (simp add: user_id_user_of_row split: option.split)
  qed
qed simp

lemma mock_get_by_id_rel:
  assumes wf: "wf_store s" and rel: "mock_rel s m"
  shows "mock_get_by_id x m = get_by_id s x"
proof -
  from wf have "distinct (map row_user_id (users s))" by (simp add: wf_store_def)
  then have "map_of (mock_users m) x =
               (case find_user_row s x of None \<Rightarrow> None
                | Some r \<Rightarrow> map_option (user_of_row r) (team_name_of s (row_team_id r)))"
    using rel by (simp add: mock_rel_users joined_users_def find_user_row_def map_of_joined_rows)
  then show ?thesis
    by (simp add: mock_get_by_id_def get_by_id_def split: option.splits)
qed

lemma mock_find_active_rel:
  assumes rel: "mock_rel s m" and n: "0 < n"
  shows "mock_find_active k t ex n m = Inr (find_active_in_team_except k s t ex n)"
proof -
  have "map snd (mock_users m) = joined_users s"
    using rel by (simp add: mock_rel_users comp_def)
  then show ?thesis
    using n by (simp add: mock_find_active_def mock_range_def mock_find_loop_take filter_sort
                          find_active_in_team_except_def eligible_def)
qed

subsection \<open>Pull requests\<close>

lemma mock_exists_rel: "mock_rel s m \<Longrightarrow> mock_exists p m = Inr (pr_exists s p)"
  by (simp add: mock_exists_def pr_exists_def mock_rel_prs_None)

lemma status_name_wf:
  "wf_store s \<Longrightarrow> prs s p = Some r \<Longrightarrow> \<exists>nm. map_of pr_statuses (pr_row_status r) = Some nm"
  by (auto simp: pr_statuses_def dest: wf_pr_row)

lemma mock_get_with_reviewers_None:
  "mock_rel s m \<Longrightarrow> prs s p = None \<Longrightarrow>
   mock_get_with_reviewers p m = Inl ErrPRNotFound \<and> get_with_reviewers s p = Inl ErrPRNotFound"
  using mock_rel_prs_None [of s m p]
  by (simp add: mock_get_with_reviewers_def get_with_reviewers_def)

lemma mock_get_with_reviewers_Some:
  assumes rel: "mock_rel s m" and r: "prs s p = Some r"
    and nm: "map_of pr_statuses (pr_row_status r) = Some nm"
  obtains pr where "strip_name pr = pr_of_row r []"
    and "mock_get_with_reviewers p m = Inr (pr, reviewers_of s p)"
    and "get_with_reviewers s p = Inr (pr_of_row r nm, reviewers_of s p)"
proof -
  obtain pr where pr: "mock_prs m p = Some pr" "strip_name pr = pr_of_row r []"
    using mock_rel_prs_Some [OF rel r] by blast
  show ?thesis
    by (rule that [OF pr(2)])
       (simp_all add: mock_get_with_reviewers_def get_with_reviewers_def pr r nm mock_rel_revs [OF rel])
qed

text \<open>The closing read of \<open>Create\<close> on both sides.\<close>

lemma mock_reread:
  assumes rel: "mock_rel s m" and r: "prs s p = Some r"
    and nm: "map_of pr_statuses (pr_row_status r) = Some nm"
  shows "mock_agrees (reread p s)
           (case mock_get_with_reviewers p m of
              Inl e \<Rightarrow> (Inl e, m) | Inr (pr', rs) \<Rightarrow> (Inr (pr_to_dto pr' rs), m))"
proof -
  obtain pr where "strip_name pr = pr_of_row r []"
    and "mock_get_with_reviewers p m = Inr (pr, reviewers_of s p)"
    and "get_with_reviewers s p = Inr (pr_of_row r nm, reviewers_of s p)"
    using mock_get_with_reviewers_Some [OF rel r nm] by blast
  with rel show ?thesis
    by (simp add: reread_def mock_agrees_def pr_to_dto_strip_name)
qed

subsection \<open>Writes\<close>

text \<open>The callback of \<open>Create\<close>: both sides insert the row and its reviewers.\<close>

lemma mock_create_body:
  assumes wf: "wf_store s" and rel: "mock_rel s m" and fresh: "prs s (pr_id pr) = None"
    and nm: "pr_status_name pr = []" and d: "distinct ids"
  shows "mock_agrees (create_tx_body pr ids s) (svc_create_body mock_pr_service pr ids m)"
proof -
  let ?p = "pr_id pr"
  let ?row = "\<lparr>pr_row_id = pr_id pr, pr_row_name = pr_name pr, pr_row_author = pr_author pr,
               pr_row_status = pr_status_id pr, pr_row_created = pr_created_at pr,
               pr_row_merged = pr_merged_at pr, pr_row_need_more = False\<rparr>"
  let ?s2 = "add_reviewers ?p ids (s\<lparr>prs := (prs s)(?p \<mapsto> ?row)\<rparr>)"
  let ?m1 = "m\<lparr>mock_prs := (mock_prs m)(?p \<mapsto> pr)\<rparr>"
  let ?m2 = "if ids = [] then ?m1 else ?m1\<lparr>mock_reviewers := (mock_reviewers ?m1)(?p \<mapsto> ids)\<rparr>"
  have pg: "create_tx_body pr ids s = (Inr (), ?s2)"
    using fresh by (simp add: create_tx_body_def pr_insert_def)
  have mk: "svc_create_body mock_pr_service pr ids m = (Inr (), ?m2)"
    by (simp add: svc_create_body_def mock_insert_def mock_add_reviewers_def)
  have row: "strip_name pr = pr_of_row ?row []"
    using nm by (cases pr) (simp add: strip_name_def pr_of_row_def)
  have "map_option strip_name \<circ> mock_prs ?m2 = map_option (\<lambda>r. pr_of_row r []) \<circ> prs ?s2"
    using row mock_rel_prs [OF rel] by (auto simp: fun_eq_iff)
  moreover have empty: "reviewers_of s ?p = []"
    using wf_no_orphan_rows [OF wf fresh] .
  have "mock_revs ?m2 q = reviewers_of ?s2 q" for q
    using mock_rel_revs [OF rel, of q] empty d
    by (auto simp: mock_revs_def reviewers_of_add_reviewers_fresh reviewers_of_add_reviewers_other)
  moreover have "mock_users ?m2 = map (\<lambda>u. (user_id u, u)) (joined_users ?s2)"
    using mock_rel_users [OF rel] by simp
  ultimately show ?thesis
    using pg mk by (simp add: mock_agrees_def mock_rel_def fun_eq_iff)
qed

lemma strip_name_merged:
  "strip_name pr = pr_of_row r [] \<Longrightarrow>
   strip_name (pr\<lparr>pr_status_id := StatusMerged,
                  pr_merged_at := (case pr_merged_at pr of None \<Rightarrow> Some now | Some t \<Rightarrow> Some t)\<rparr>) =
   pr_of_row (merged_row now r) []"
  by (cases pr) (simp add: strip_name_def pr_of_row_def merged_row_def)

lemma replace_first_distinct:
  "distinct xs \<Longrightarrow> a \<in> set xs \<Longrightarrow> replace_first a b xs = Some (replace_all a b xs)"
  by (induction xs) (auto simp: replace_all_def intro: map_idI [symmetric])

lemma replace_reviewer_fresh:
  assumes wf: "wf_store s" and old: "old \<in> set (reviewers_of s p)"
    and new: "new \<notin> set (reviewers_of s p)"
  shows "replace_reviewer p old new s =
           Inr (s\<lparr>pr_reviewers := replace_all (p, old) (p, new) (pr_reviewers s)\<rparr>)"
proof -
  have "distinct (pr_reviewers s)" using wf by (simp add: wf_store_def rows_ok_def)
  moreover have "(p, new) \<notin> set (pr_reviewers s)" using new by (simp add: set_reviewers_of)
  ultimately have "distinct (replace_all (p, old) (p, new) (pr_reviewers s))"
    by (rule distinct_replace_all)
  moreover have "(p, old) \<in> set (pr_reviewers s)" using old by (simp add: set_reviewers_of)
  ultimately show ?thesis by (simp add: replace_reviewer_def)
qed

lemma mock_replace_reviewer_rel:
  assumes wf: "wf_store s" and rel: "mock_rel s m" and old: "old \<in> set (reviewers_of s p)"
  shows "\<exists>m'. mock_replace_reviewer p old new m = Inr m' \<and>
              mock_rel (s\<lparr>pr_reviewers := replace_all (p, old) (p, new) (pr_reviewers s)\<rparr>) m'"
proof -
  have revs: "mock_revs m p = reviewers_of s p" by (rule mock_rel_revs [OF rel])
  with old obtain rs where rs: "mock_reviewers m p = Some rs" "rs = reviewers_of s p"
    by (cases "mock_reviewers m p") (auto simp: mock_revs_def)
  have "replace_first old new rs = Some (replace_all old new rs)"
    using rs old wf_reviewers_distinct [OF wf] by (simp add: replace_first_distinct)
  moreover have "mock_revs (m\<lparr>mock_reviewers := (mock_reviewers m)(p \<mapsto> replace_all old new rs)\<rparr>) q =
                 reviewers_of (s\<lparr>pr_reviewers := replace_all (p, old) (p, new) (pr_reviewers s)\<rparr>) q" for q
    using rs mock_rel_revs [OF rel, of q] by (simp add: mock_revs_def reviewers_of_replace_all)
  ultimately show ?thesis
    using rs rel by (simp add: mock_replace_reviewer_def mock_rel_def fun_eq_iff)
qed

subsection \<open>The three requests\<close>

lemma mock_create_sim:
  assumes wf: "wf_store s" and rel: "mock_rel s m"
  shows "mock_agrees (pr_create g now req s) (svc_create mock_pr_service g now req m)"
proof (cases "pr_exists s (req_pr_id req)")
  case True
  then show ?thesis
    using rel by (simp add: pr_create_def svc_create_def mock_exists_rel mock_agrees_def)
next
  case False
  note ex = mock_exists_rel [OF rel, of "req_pr_id req"]
  show ?thesis
  proof (cases "get_by_id s (req_author_id req)")
    case (Inl e)
    then show ?thesis
      using False rel ex
      by (simp add: pr_create_def svc_create_def mock_get_by_id_rel [OF wf rel] mock_agrees_def)
  next
    case (Inr author)
    define ids where "ids = map user_id (find_active_in_team_except (order_key g) s
                                           (user_team_id author) (user_id author) 2)"
    define pr where "pr = \<lparr>pr_id = req_pr_id req, pr_name = req_pr_name req,
                           pr_author = req_author_id req, pr_status_id = StatusOpen,
                           pr_status_name = [], pr_created_at = now, pr_merged_at = None\<rparr>"
    have fa: "mock_find_active (order_key g) (user_team_id author) (user_id author) 2 m =
                Inr (find_active_in_team_except (order_key g) s (user_team_id author) (user_id author) 2)"
      by (rule mock_find_active_rel [OF rel]) simp
    have fresh: "prs s (pr_id pr) = None" using False by (simp add: pr_def pr_exists_def)
    have d: "distinct ids" using distinct_candidate_ids [OF wf] by (simp add: ids_def)
    have body: "mock_agrees (create_tx_body pr ids s) (svc_create_body mock_pr_service pr ids m)"
      by (rule mock_create_body [OF wf rel fresh _ d]) (simp add: pr_def)
    define r where "r = \<lparr>pr_row_id = pr_id pr, pr_row_name = pr_name pr, pr_row_author = pr_author pr,
                          pr_row_status = pr_status_id pr, pr_row_created = pr_created_at pr,
                          pr_row_merged = pr_merged_at pr, pr_row_need_more = False\<rparr>"
    define s2 where "s2 = add_reviewers (pr_id pr) ids (s\<lparr>prs := (prs s)(pr_id pr \<mapsto> r)\<rparr>)"
    have pg: "create_tx_body pr ids s = (Inr (), s2)"
      using fresh by (simp add: create_tx_body_def pr_insert_def s2_def r_def)
    have r2: "prs s2 (pr_id pr) = Some r" by (simp add: s2_def)
    have st: "pr_row_status r = StatusOpen" by (simp add: r_def pr_def)
    define m2 where "m2 = snd (svc_create_body mock_pr_service pr ids m)"
    have mk: "svc_create_body mock_pr_service pr ids m = (Inr (), m2)" and rel2: "mock_rel s2 m2"
      using body pg by (simp_all add: mock_agrees_def m2_def prod_eq_iff)
    have lhs: "pr_create g now req s = reread (pr_id pr) s2"
      using False Inr pg [unfolded pr_def ids_def]
      by (simp add: pr_create_def within_tx_eq Let_def pr_def)
    have rhs: "svc_create mock_pr_service g now req m =
                 (case mock_get_with_reviewers (pr_id pr) m2 of
                    Inl e \<Rightarrow> (Inl e, m2) | Inr (pr', rs) \<Rightarrow> (Inr (pr_to_dto pr' rs), m2))"
      using ex False Inr fa mk [unfolded pr_def ids_def]
      by (simp add: svc_create_def mock_get_by_id_rel [OF wf rel] Let_def pr_def)
    show ?thesis
      unfolding lhs rhs by (rule mock_reread [OF rel2 r2]) (simp add: st pr_statuses_def)
  qed
qed

lemma mock_merge_sim:
  assumes rel: "mock_rel s m"
  shows "mock_agrees (pr_merge now p s) (svc_merge mock_pr_service now p m)"
proof (cases "prs s p")
  case None
  then show ?thesis
    using rel mock_rel_prs_None [OF rel, of p]
    by (simp add: pr_merge_def set_merged_def svc_merge_def mock_set_merged_def mock_agrees_def)
next
  case (Some r)
  obtain pr where pr: "mock_prs m p = Some pr" "strip_name pr = pr_of_row r []"
    using mock_rel_prs_Some [OF rel Some] by blast
  define pr' where "pr' = pr\<lparr>pr_status_id := StatusMerged,
                             pr_merged_at := (case pr_merged_at pr of None \<Rightarrow> Some now
                                              | Some t \<Rightarrow> Some t)\<rparr>"
  define m' where "m' = m\<lparr>mock_prs := (mock_prs m)(p \<mapsto> pr')\<rparr>"
  have mk: "svc_merge mock_pr_service now p m = (Inr (pr_to_dto pr' (mock_revs m p)), m')"
    by (simp add: svc_merge_def mock_set_merged_def mock_get_with_reviewers_def pr
                  pr'_def m'_def mock_revs_def Let_def)
  have strip: "strip_name pr' = pr_of_row (merged_row now r) []"
    using strip_name_merged [OF pr(2)] by (simp add: pr'_def)
  have rel': "mock_rel (s\<lparr>prs := (prs s)(p \<mapsto> merged_row now r)\<rparr>) m'"
    using rel strip mock_rel_prs [OF rel]
    by (auto simp: mock_rel_def m'_def fun_eq_iff mock_revs_def)
  show ?thesis
    using pr_merge_Some [OF Some] mk strip rel' mock_rel_revs [OF rel]
    by (simp add: mock_agrees_def pr_to_dto_strip_name)
qed

lemma mock_reassign_sim:
  assumes wf: "wf_store s" and rel: "mock_rel s m" and g: "rng_ok g"
  shows "mock_agrees (pr_reassign g req s) (svc_reassign mock_pr_service g req m)"
proof (cases "prs s (req_reassign_pr req)")
  case None
  then show ?thesis
    using mock_get_with_reviewers_None [OF rel None] rel
    by (simp add: pr_reassign_def svc_reassign_def mock_agrees_def)
next
  case (Some r)
  let ?p = "req_reassign_pr req" and ?old = "req_old_user req"
  let ?rs = "reviewers_of s ?p"
  obtain nm where nm: "map_of pr_statuses (pr_row_status r) = Some nm"
    using status_name_wf [OF wf Some] by blast
  obtain pr0 where strip: "strip_name pr0 = pr_of_row r []"
    and mg: "mock_get_with_reviewers ?p m = Inr (pr0, ?rs)"
    and pg: "get_with_reviewers s ?p = Inr (pr_of_row r nm, ?rs)"
    using mock_get_with_reviewers_Some [OF rel Some nm] by blast
  have st: "pr_status_id pr0 = pr_row_status r" by (rule strip_name_status [OF strip])
  note defs = pr_reassign_def svc_reassign_def mock_agrees_def mg pg st Let_def
  consider (merged) "pr_row_status r = StatusMerged"
    | (unset) "pr_row_status r \<noteq> StatusMerged" "?old \<notin> set ?rs"
    | (assigned) "pr_row_status r \<noteq> StatusMerged" "?old \<in> set ?rs"
    by blast
  then show ?thesis
  proof cases
    case merged
    then show ?thesis using rel by (simp add: defs pr_of_row_def)
  next
    case unset
    then show ?thesis using rel by (simp add: defs pr_of_row_def)
  next
    case assigned
    note defs' = defs assigned pr_of_row_def mock_get_by_id_rel [OF wf rel]
    show ?thesis
    proof (cases "get_by_id s ?old")
      case (Inl e)
      then show ?thesis using rel by (simp add: defs')
    next
      case (Inr ou)
      define P where "P = filter (\<lambda>c. c \<notin> set ?rs)
                            (map user_id (find_active_in_team_except (order_key g) s
                                            (user_team_id ou) (user_id ou) 20))"
      have fa: "mock_find_active (order_key g) (user_team_id ou) (user_id ou) 20 m =
                  Inr (find_active_in_team_except (order_key g) s (user_team_id ou) (user_id ou) 20)"
        by (rule mock_find_active_rel [OF rel]) simp
      note defs'' = defs' Inr fa reassign_pool_def P_def [symmetric]
      show ?thesis
      proof (cases "P = []")
        case True
        then show ?thesis using rel by (simp add: defs'')
      next
        case False
        define new where "new = P ! intn g (length P)"
        have "new \<in> set P" using False g by (simp add: new_def rng_ok_def)
        then have fresh: "new \<notin> set ?rs" by (simp add: P_def)
        define s' where "s' = s\<lparr>pr_reviewers := replace_all (?p, ?old) (?p, new) (pr_reviewers s)\<rparr>"
        have rr: "replace_reviewer ?p ?old new s = Inr s'"
          unfolding s'_def by (rule replace_reviewer_fresh [OF wf assigned(2) fresh])
        obtain m' where mr: "mock_replace_reviewer ?p ?old new m = Inr m'" and rel': "mock_rel s' m'"
          using mock_replace_reviewer_rel [OF wf rel assigned(2), of new] by (auto simp: s'_def)
        have r': "prs s' ?p = Some r" using Some by (simp add: s'_def)
        obtain pr1 where strip1: "strip_name pr1 = pr_of_row r []"
          and mg': "mock_get_with_reviewers ?p m' = Inr (pr1, reviewers_of s' ?p)"
          and pg': "get_with_reviewers s' ?p = Inr (pr_of_row r nm, reviewers_of s' ?p)"
          using mock_get_with_reviewers_Some [OF rel' r' nm] by blast
        show ?thesis
          using False rel' rr mr mg' pg' pr_to_dto_strip_name [OF strip1]
          by (simp add: defs'' new_def [symmetric])
      qed
    qed
  qed
qed

subsection \<open>The scenario\<close>

lemma mock_rel_reviewed: "mock_rel reviewed_store mock_reviewed"
  by (simp add: mock_rel_def mock_reviewed_def mock_member_def fun_eq_iff mock_revs_def
                strip_name_def store_simps scenario_defs)

section \<open>The doubles answer as PostgreSQL does\<close>

text \<open>
  C32. The unit tests' doubles stand in for the database faithfully: from a double
  that holds what a well-formed store holds, \<open>Create\<close>, \<open>Merge\<close> and \<open>Reassign\<close>
  over \<open>MockPrRepo\<close>, \<open>MockUserRepo\<close> and \<open>MockTxManager\<close> give the same response
  or error as over PostgreSQL, and leave a double that holds what the new store
  holds, when the map is visited in the order \<open>ORDER BY random()\<close> draws.
\<close>

theorem mock_service_simulates_postgres:
  assumes "wf_store s" and "mock_rel s m" and "rng_ok g"
  shows "mock_agrees (pr_create g now req s) (svc_create mock_pr_service g now req m) \<and>
         mock_agrees (pr_merge now p s) (svc_merge mock_pr_service now p m) \<and>
         mock_agrees (pr_reassign g rq s) (svc_reassign mock_pr_service g rq m)"
  using assms by (simp add: mock_create_sim mock_merge_sim mock_reassign_sim)

theorem mock_service_simulates_postgres_witness:
  "wf_store reviewed_store \<and> mock_rel reviewed_store mock_reviewed \<and> rng_ok last_rng \<and>
   mock_agrees (pr_create last_rng 9 ex_create reviewed_store)
               (svc_create mock_pr_service last_rng 9 ex_create mock_reviewed) \<and>
   mock_agrees (pr_merge 9 ''pr-1'' reviewed_store) (svc_merge mock_pr_service 9 ''pr-1'' mock_reviewed) \<and>
   mock_agrees (pr_reassign last_rng ex_reassign reviewed_store)
               (svc_reassign mock_pr_service last_rng ex_reassign mock_reviewed)"
  using mock_service_simulates_postgres
          [where s = reviewed_store and m = mock_reviewed and g = last_rng and now = 9
             and req = ex_create and p = "''pr-1''" and rq = ex_reassign]
  by (simp add: wf_reviewed_store mock_rel_reviewed rng_ok_last_rng)

section \<open>The candidate loop of the double\<close>

text \<open>
  C33. The loop of \<open>MockUserRepo.FindActiveInTeamExcept\<close>, which breaks as soon as
  it holds \<open>limit\<close> users, returns the first \<open>limit\<close> eligible users it visits, as
  \<open>LIMIT\<close> does; with \<open>limit = 0\<close> it never breaks and returns every eligible user,
  where \<open>LIMIT 0\<close> returns none.
\<close>

theorem mock_find_loop_limit:
  "mock_find_loop t ex n [] us =
     (if n = 0 then filter (\<lambda>u. user_team_id u = t \<and> is_active u \<and> user_id u \<noteq> ex) us
      else take n (filter (\<lambda>u. user_team_id u = t \<and> is_active u \<and> user_id u \<noteq> ex) us))"
  using mock_find_loop_take [of "[]" n t ex us] mock_find_loop_unlimited [of t ex "[]" us]
  by simp

end
