(* ===== verification/UnitTests.thy ===== *)
theory UnitTests
  imports TestDoubles
begin

text \<open>
  The unit tests of \<open>tests/unit\<close> as executable checks. Each test function is a
  boolean function of the random sources and the clock it runs under: it sets up the
  doubles as the test does, calls the service over them, and is \<open>True\<close> when none of
  its \<open>t.Fatalf\<close> calls is reached. The tests of \<open>tests/unittests\<close> repeat the first
  five of \<open>pr_service_test.go\<close> and the first two of \<open>user_service_test.go\<close>.
\<close>

section \<open>Setting up the doubles\<close>

text \<open>\<open>repository.User{ID, Username, TeamID, IsActive}\<close>: the team name is left empty.\<close>

definition test_user :: "uid \<Rightarrow> string \<Rightarrow> team_id \<Rightarrow> bool \<Rightarrow> user" where
  "test_user x nm t b =
     \<lparr>user_id = x, username = nm, user_team_id = t, user_team_name = [], is_active = b\<rparr>"

text \<open>\<open>userRepo.Users[id] = u\<close>, \<open>prRepo.PRs[id] = pr\<close>, \<open>prRepo.Reviewers[id] = rs\<close>.\<close>

definition put_user :: "user \<Rightarrow> mock_state \<Rightarrow> mock_state" where
  "put_user u m = m\<lparr>mock_users := AList.update (user_id u) u (mock_users m)\<rparr>"

definition put_pr :: "pull_request \<Rightarrow> mock_state \<Rightarrow> mock_state" where
  "put_pr pr m = m\<lparr>mock_prs := (mock_prs m)(pr_id pr \<mapsto> pr)\<rparr>"

definition put_reviewers :: "pid \<Rightarrow> uid list \<Rightarrow> mock_state \<Rightarrow> mock_state" where
  "put_reviewers p rs m = m\<lparr>mock_reviewers := (mock_reviewers m)(p \<mapsto> rs)\<rparr>"

text \<open>\<open>repository.PullRequest{ID, Name, AuthorID, StatusID, CreatedAt, MergedAt}\<close>.\<close>

definition test_pr :: "pid \<Rightarrow> string \<Rightarrow> uid \<Rightarrow> int \<Rightarrow> timestamp \<Rightarrow> timestamp option \<Rightarrow> pull_request" where
  "test_pr p nm a st c mt =
     \<lparr>pr_id = p, pr_name = nm, pr_author = a, pr_status_id = st, pr_status_name = [],
      pr_created_at = c, pr_merged_at = mt\<rparr>"

text \<open>\<open>userRepo.Users[id]\<close> read back: a missing key is the zero \<open>User\<close>.\<close>

definition user_at :: "mock_state \<Rightarrow> uid \<Rightarrow> user" where
  "user_at m x =
     (case map_of (mock_users m) x of
        None \<Rightarrow> \<lparr>user_id = [], username = [], user_team_id = 0, user_team_name = [], is_active = False\<rparr>
      | Some u \<Rightarrow> u)"

text \<open>\<open>err == nil\<close> fails, \<open>errors.Is(err, e)\<close> passes: the answer is exactly that error.\<close>

definition fails_with :: "error + 'a \<Rightarrow> error \<Rightarrow> bool" where
  "fails_with r e \<longleftrightarrow> r = Inl e"

section \<open>pr_service_test.go\<close>

definition test_create_assigns_reviewers :: "rng \<Rightarrow> timestamp \<Rightarrow> bool" where
  "test_create_assigns_reviewers g now =
     (let m = put_user (test_user ''u4'' ''David'' 2 True)
                (put_user (test_user ''u3'' ''Boba'' 1 True)
                  (put_user (test_user ''u2'' ''Vova'' 1 True)
                    (put_user (test_user ''u1'' ''Serega'' 1 True) mock_empty)));
          req = \<lparr>req_pr_id = ''pr-1'', req_pr_name = ''Add search'', req_author_id = ''u1''\<rparr>
      in case svc_create mock_pr_service g now req m of
           (Inl e, m') \<Rightarrow> False
         | (Inr d, m') \<Rightarrow>
             \<not> (length (dto_reviewers d) = 0 \<or> 2 < length (dto_reviewers d)) \<and>
             list_all (\<lambda>x. x \<noteq> ''u1'' \<and> user_team_id (user_at m' x) = 1) (dto_reviewers d))"

definition test_create_no_reviewers :: "rng \<Rightarrow> timestamp \<Rightarrow> bool" where
  "test_create_no_reviewers g now =
     (let m = put_user (test_user ''u1'' ''Lisa'' 1 True) mock_empty;
          req = \<lparr>req_pr_id = ''pr-2'', req_pr_name = ''Solo change'', req_author_id = ''u1''\<rparr>
      in case svc_create mock_pr_service g now req m of
           (Inl e, m') \<Rightarrow> False
         | (Inr d, m') \<Rightarrow> length (dto_reviewers d) = 0)"

definition test_merge_idempotent :: "timestamp \<Rightarrow> timestamp \<Rightarrow> timestamp \<Rightarrow> bool" where
  "test_merge_idempotent t0 now1 now2 =
     (let m = put_pr (test_pr ''pr-3'' ''Feature'' ''u1'' StatusOpen t0 None)
                (put_user (test_user ''u1'' ''Alice'' 1 True) mock_empty)
      in case svc_merge mock_pr_service now1 ''pr-3'' m of
           (Inl e, m1) \<Rightarrow> False
         | (Inr d1, m1) \<Rightarrow>
             dto_status d1 = ''MERGED'' \<and> dto_merged_at d1 \<noteq> None \<and>
             (case svc_merge mock_pr_service now2 ''pr-3'' m1 of
                (Inl e, m2) \<Rightarrow> False
              | (Inr d2, m2) \<Rightarrow>
                  dto_status d2 = ''MERGED'' \<and> dto_merged_at d2 \<noteq> None \<and>
                  dto_merged_at d1 = dto_merged_at d2))"

definition test_reassign_success :: "rng \<Rightarrow> timestamp \<Rightarrow> bool" where
  "test_reassign_success g t0 =
     (let m = put_reviewers ''pr-4'' [''u2'']
                (put_pr (test_pr ''pr-4'' ''Reassign me'' ''u1'' StatusOpen t0 None)
                  (put_user (test_user ''u1'' ''Alice'' 2 True)
                    (put_user (test_user ''u3'' ''Jeka'' 1 True)
                      (put_user (test_user ''u2'' ''Vitya'' 1 True) mock_empty))));
          req = \<lparr>req_reassign_pr = ''pr-4'', req_old_user = ''u2''\<rparr>
      in case svc_reassign mock_pr_service g req m of
           (Inl e, m') \<Rightarrow> False
         | (Inr (d, new), m') \<Rightarrow>
             new \<noteq> [] \<and> new \<noteq> ''u2'' \<and>
             (case mock_get_with_reviewers ''pr-4'' m' of
                Inl e \<Rightarrow> False
              | Inr (_, rs) \<Rightarrow> length rs = 1 \<and> rs ! 0 = new))"

definition test_reassign_merged :: "rng \<Rightarrow> timestamp \<Rightarrow> bool" where
  "test_reassign_merged g t0 =
     (let m = put_reviewers ''pr-5'' [''u2'']
                (put_pr (test_pr ''pr-5'' ''Already merged'' ''u1'' StatusMerged t0 (Some t0)) mock_empty)
      in fails_with (fst (svc_reassign mock_pr_service g
                            \<lparr>req_reassign_pr = ''pr-5'', req_old_user = ''u2''\<rparr> m)) ErrPRMerged)"

definition test_create_pr_exists :: "rng \<Rightarrow> timestamp \<Rightarrow> timestamp \<Rightarrow> bool" where
  "test_create_pr_exists g t0 now =
     (let m = put_pr (test_pr ''pr-dup'' ''Old'' ''u1'' StatusOpen t0 None)
                (put_user (test_user ''u1'' ''Author'' 1 True) mock_empty)
      in fails_with (fst (svc_create mock_pr_service g now
                            \<lparr>req_pr_id = ''pr-dup'', req_pr_name = ''New name'',
                             req_author_id = ''u1''\<rparr> m)) ErrPRExists)"

definition test_reassign_no_candidates :: "rng \<Rightarrow> timestamp \<Rightarrow> bool" where
  "test_reassign_no_candidates g t0 =
     (let m = put_reviewers ''pr-solo'' [''u1'']
                (put_pr (test_pr ''pr-solo'' ''Change'' ''u1'' StatusOpen t0 None)
                  (put_user (test_user ''u1'' ''Solo'' 1 True) mock_empty))
      in fails_with (fst (svc_reassign mock_pr_service g
                            \<lparr>req_reassign_pr = ''pr-solo'', req_old_user = ''u1''\<rparr> m)) ErrNoCandidate)"

definition test_merge_not_found :: "timestamp \<Rightarrow> bool" where
  "test_merge_not_found now =
     fails_with (fst (svc_merge mock_pr_service now ''unknown-pr'' mock_empty)) ErrPRNotFound"

definition test_reassign_not_assigned :: "rng \<Rightarrow> bool" where
  "test_reassign_not_assigned g =
     (let m = put_reviewers ''pr-6'' [''u1'']
                (put_pr (test_pr ''pr-6'' ''Reassign error'' ''author'' StatusOpen 0 None) mock_empty)
      in fails_with (fst (svc_reassign mock_pr_service g
                            \<lparr>req_reassign_pr = ''pr-6'', req_old_user = ''u999''\<rparr> m)) ErrReviewerNotSet)"

section \<open>team_service_test.go\<close>

definition test_team_add_creates :: bool where
  "test_team_add_creates =
     (let req = \<lparr>ta_team_name = ''backend'',
                 ta_members = [\<lparr>tm_user_id = ''u1'', tm_username = ''Misha'', tm_is_active = True\<rparr>,
                               \<lparr>tm_user_id = ''u2'', tm_username = ''Dima'', tm_is_active = False\<rparr>]\<rparr>
      in case svc_team_add mock_team_service req mock_empty of
           (Inl e, m') \<Rightarrow> False
         | (Inr d, m') \<Rightarrow>
             td_team_name d = ''backend'' \<and> length (td_members d) = 2 \<and>
             (case (map_of (mock_users m') ''u1'', map_of (mock_users m') ''u2'') of
                (Some u1, Some u2) \<Rightarrow> is_active u1 \<and> \<not> is_active u2
              | _ \<Rightarrow> False))"

definition test_team_get_members :: "(uid \<Rightarrow> nat) \<Rightarrow> bool" where
  "test_team_get_members k =
     (let m = put_user (test_user ''u3'' ''Gleb'' 99 True)
                (put_user (test_user ''u2'' ''Roma'' 10 False)
                  (put_user (test_user ''u1'' ''Alina'' 10 True)
                    (mock_empty\<lparr>mock_teams := [''payments'' \<mapsto> \<lparr>team_row_id = 10, team_row_name = ''payments''\<rparr>]\<rparr>)))
      in case svc_team_get mock_team_service k ''payments'' m of
           Inl e \<Rightarrow> False
         | Inr d \<Rightarrow>
             td_team_name d = ''payments'' \<and> length (td_members d) = 2 \<and>
             {''u1'', ''u2''} \<subseteq> tm_user_id ` set (td_members d))"

section \<open>user_service_test.go\<close>

definition test_set_active_updates :: bool where
  "test_set_active_updates =
     (let m = put_user (test_user ''u1'' ''Petya'' 1 True\<lparr>user_team_name := ''backend''\<rparr>) mock_empty
      in case svc_set_is_active mock_user_service ''u1'' False m of
           (Inl e, m') \<Rightarrow> False
         | (Inr d, m') \<Rightarrow>
             ud_user_id d = ''u1'' \<and> \<not> ud_is_active d \<and> \<not> is_active (user_at m' ''u1''))"

definition test_set_active_not_found :: bool where
  "test_set_active_not_found =
     fails_with (fst (svc_set_is_active mock_user_service ''unknown'' True mock_empty)) ErrUserNotFound"

definition test_review_prs_maps :: bool where
  "test_review_prs_maps =
     (let m = mock_empty\<lparr>mock_review_prs := [''u1'' \<mapsto>
                [\<lparr>short_id = ''pr1'', short_name = ''Otkrytyj PR'', short_author = ''a1'', short_status_name = ''OPEN''\<rparr>,
                 \<lparr>short_id = ''pr2'', short_name = ''Smerzhennyj PR'', short_author = ''a2'', short_status_name = ''MERGED''\<rparr>]]\<rparr>
      in case svc_get_review_prs mock_user_service ''u1'' m of
           Inl e \<Rightarrow> False
         | Inr d \<Rightarrow>
             ur_user_id d = ''u1'' \<and> length (ur_prs d) = 2 \<and>
             sd_pr_id (ur_prs d ! 0) = ''pr1'' \<and> sd_status (ur_prs d ! 0) = ''OPEN'' \<and>
             sd_pr_id (ur_prs d ! 1) = ''pr2'' \<and> sd_status (ur_prs d ! 1) = ''MERGED'')"

definition test_reviewer_stats_dto :: bool where
  "test_reviewer_stats_dto =
     (let m = mock_empty\<lparr>mock_stats :=
                [\<lparr>stat_user_id = ''u1'', stat_username = ''Ivan'', stat_count = 3\<rparr>,
                 \<lparr>stat_user_id = ''u2'', stat_username = ''Sonya'', stat_count = 1\<rparr>]\<rparr>
      in case svc_get_reviewer_stats mock_user_service m of
           Inl e \<Rightarrow> False
         | Inr st \<Rightarrow>
             length st = 2 \<and> rs_username (st ! 0) = ''Ivan'' \<and> rs_reviews_count (st ! 0) = 3 \<and>
             rs_username (st ! 1) = ''Sonya'' \<and> rs_reviews_count (st ! 1) = 1)"

section \<open>Running the tests\<close>

lemmas test_defs = put_user_def put_pr_def put_reviewers_def test_user_def test_pr_def user_at_def
  fails_with_def mock_empty_def

lemmas mock_defs = mock_exists_def mock_insert_def mock_add_reviewers_def mock_revs_def
  mock_get_with_reviewers_def mock_set_merged_def mock_replace_reviewer_def mock_get_by_id_def
  mock_find_active_def mock_range_def

lemma create_assigns_reviewers_passes: "test_create_assigns_reviewers g now"
  by (simp add: test_create_assigns_reviewers_def svc_create_def svc_create_body_def test_defs mock_defs
                mock_find_loop_take filter_sort pr_to_dto_def Let_def)

lemma create_no_reviewers_passes: "test_create_no_reviewers g now"
  by (simp add: test_create_no_reviewers_def svc_create_def svc_create_body_def test_defs mock_defs
                mock_find_loop_take filter_sort pr_to_dto_def Let_def)

lemma merge_idempotent_passes: "test_merge_idempotent t0 now1 now2"
  by (simp add: test_merge_idempotent_def svc_merge_def test_defs mock_defs pr_to_dto_def status_dto_def Let_def)

lemma rng_ok_intn_one: "rng_ok g \<Longrightarrow> intn g (Suc 0) = 0"
  unfolding rng_ok_def by (metis less_one zero_less_one One_nat_def)

lemma reassign_success_passes: "rng_ok g \<Longrightarrow> test_reassign_success g t0"
  by (simp add: rng_ok_intn_one test_reassign_success_def svc_reassign_def test_defs mock_defs
                mock_find_loop_take filter_sort pr_to_dto_def Let_def)

lemma reassign_merged_passes: "test_reassign_merged g t0"
  by (simp add: test_reassign_merged_def svc_reassign_def test_defs mock_defs Let_def)

lemma create_pr_exists_fails: "\<not> test_create_pr_exists g t0 now"
  by (simp add: test_create_pr_exists_def svc_create_def test_defs mock_defs Let_def)

lemma reassign_no_candidates_passes: "test_reassign_no_candidates g t0"
  by (simp add: test_reassign_no_candidates_def svc_reassign_def test_defs mock_defs
                mock_find_loop_take filter_sort Let_def)

lemma merge_not_found_passes: "test_merge_not_found now"
  by (simp add: test_merge_not_found_def svc_merge_def test_defs mock_defs)

lemma reassign_not_assigned_passes: "test_reassign_not_assigned g"
  by (simp add: test_reassign_not_assigned_def svc_reassign_def test_defs mock_defs Let_def)

lemmas dir_defs = mock_team_service_def mock_user_service_def mock_team_repo_def unit_user_repo_def
  mock_user_repo_def mock_tx_manager_def mock_team_create_def mock_team_get_by_name_def
  mock_upsert_members_def mock_list_by_team_def mock_set_is_active_def unit_get_review_prs_def
  unit_get_reviewer_stats_def

lemma team_add_creates_passes: "test_team_add_creates"
  by (simp add: test_team_add_creates_def svc_team_add_def svc_team_add_body_def test_defs dir_defs
                member_user_def Let_def)

lemma sort_key_two_set:
  "set (sort_key f [a, b]) = {a, b} \<and> length (sort_key f [a, b]) = 2"
  by (simp add: length_sort insert_commute)

lemma team_get_members_passes: "test_team_get_members k"
proof -
  let ?u1 = "test_user ''u1'' ''Alina'' 10 True" and ?u2 = "test_user ''u2'' ''Roma'' 10 False"
    and ?u3 = "test_user ''u3'' ''Gleb'' 99 True"
  let ?m = "put_user ?u3 (put_user ?u2 (put_user ?u1
              (mock_empty\<lparr>mock_teams := [''payments'' \<mapsto> \<lparr>team_row_id = 10, team_row_name = ''payments''\<rparr>]\<rparr>)))"
  let ?f = "\<lambda>u. k (user_id u)"
  have us: "map snd (mock_users ?m) = [?u1, ?u2, ?u3]"
    by (simp add: put_user_def test_user_def mock_empty_def)
  have "mock_list_by_team k 10 ?m = Inr (sort_key ?f [?u1, ?u2])"
    unfolding mock_list_by_team_def mock_range_def us filter_sort
    by (simp add: test_user_def)
  moreover have "mock_team_get_by_name ''payments'' ?m = Inr \<lparr>team_row_id = 10, team_row_name = ''payments''\<rparr>"
    by (simp add: mock_team_get_by_name_def put_user_def)
  ultimately show ?thesis
    using sort_key_two_set [of ?f ?u1 ?u2]
    by (simp add: test_team_get_members_def svc_team_get_def dir_defs Let_def image_iff test_user_def)
qed

lemma set_active_updates_passes: "test_set_active_updates"
  by (simp add: test_set_active_updates_def svc_set_is_active_def test_defs dir_defs Let_def)

lemma set_active_not_found_passes: "test_set_active_not_found"
  by (simp add: test_set_active_not_found_def svc_set_is_active_def test_defs dir_defs)

lemma review_prs_maps_passes: "test_review_prs_maps"
  by (simp add: test_review_prs_maps_def svc_get_review_prs_def test_defs dir_defs review_status_def Let_def)

lemma reviewer_stats_dto_passes: "test_reviewer_stats_dto"
  by (simp add: test_reviewer_stats_dto_def svc_get_reviewer_stats_def test_defs dir_defs Let_def)

section \<open>Which tests pass\<close>



end
