(* ===== verification/Server.thy ===== *)
theory Server
  imports Http
begin

text \<open>
  The HTTP server as one function: \<open>NewMux\<close> of \<open>internal/httpapi/router.go\<close> routes
  a request by its path to a method of \<open>Handler\<close>; the method checks the admin
  token where it must (\<open>requireAdmin\<close>), decodes the body (\<open>decodeJSON\<close>) and runs
  its handler of \<open>Http\<close>; \<open>writeJSON\<close> and \<open>writeError\<close> turn the result into the
  response, with the wire types of \<open>internal/dto\<close> and \<open>internal/models/dto\<close>.
  Process startup (\<open>cmd/main.go\<close>) checks the environment and builds the server.
\<close>

section \<open>Wire types\<close>

text \<open>\<open>dto.ErrorBody\<close>, \<open>dto.ErrorResponse\<close> and the error codes of \<open>models/dto/error.go\<close>.\<close>

record error_body =
  eb_code :: string
  eb_message :: string

record error_response =
  er_error :: error_body

definition error_codes :: "string list" where
  "error_codes = [''TEAM_EXISTS'', ''PR_EXISTS'', ''PR_MERGED'', ''NOT_ASSIGNED'', ''NO_CANDIDATE'',
                  ''NOT_FOUND'']"

text \<open>The response structs that wrap a service result.\<close>

record create_pr_response =
  cpr_pr :: pr_dto

record merge_pr_response =
  mpr_pr :: pr_dto

record reassign_pr_response =
  rpr_pr :: pr_dto
  rpr_replaced_by :: uid

record set_active_response =
  sar_user :: user_dto

record reviewer_stats_response =
  rsr_stats :: "reviewer_stat list"

text \<open>The value a successful response carries, one constructor per endpoint.\<close>

datatype resp_body =
    RTeam team_dto
  | RUser set_active_response
  | RReview user_review_dto
  | RCreated create_pr_response
  | RMerged merge_pr_response
  | RReassigned reassign_pr_response
  | RStats reviewer_stats_response

text \<open>
  A response: a JSON body (the value or an \<open>ErrorResponse\<close>) with its status, or
  a plain-text body (the health check, and the 404 of \<open>http.ServeMux\<close>).
\<close>

datatype http_response = Json nat "resp_body + error_response" | Plain nat string

text \<open>\<open>writeError\<close> and \<open>writeJSON\<close>.\<close>

definition write_error :: "nat \<Rightarrow> string \<Rightarrow> string \<Rightarrow> http_response" where
  "write_error st c msg = Json st (Inr \<lparr>er_error = \<lparr>eb_code = c, eb_message = msg\<rparr>\<rparr>)"

fun write_reply :: "('a \<Rightarrow> resp_body) \<Rightarrow> 'a reply \<Rightarrow> http_response" where
  "write_reply f (Ok st v) = Json st (Inl (f v))"
| "write_reply f (Err st c msg) = write_error st c msg"

section \<open>Requests\<close>

text \<open>
  JSON decoding is not modelled: a request carries, for each request struct, what
  \<open>decodeJSON\<close> makes of its body for that struct (\<open>None\<close> when the decoder fails,
  for instance on an unknown field). The query string is its list of parameters.
\<close>

record decoded_body =
  as_team_add :: "team_add_request option"
  as_set_active :: "(uid \<times> bool) option"
  as_create :: "create_pr_request option"
  as_merge :: "pid option"
  as_reassign :: "reassign_pr_request option"

record http_request =
  rq_method :: string
  rq_path :: string
  rq_query :: "(string \<times> string) list"
  rq_auth :: string
  rq_body :: decoded_body

text \<open>\<open>r.URL.Query().Get(k)\<close>: the first value, or the empty string.\<close>

definition query_get :: "http_request \<Rightarrow> string \<Rightarrow> string" where
  "query_get r k = (case map_of (rq_query r) k of None \<Rightarrow> [] | Some v \<Rightarrow> v)"

text \<open>The message \<open>invalidJSON\<close>, not defined in the sources (see \<open>internal_error\<close>).\<close>

definition invalid_json :: string where "invalid_json = ''invalid json''"

section \<open>Routing and dispatch\<close>

text \<open>\<open>Handler\<close>: the field the methods read besides the services, which are the ones
  \<open>cmd/main.go\<close> wires (\<open>Http\<close> models the methods over them, see C34).\<close>

record handler =
  h_admin_token :: string

datatype route =
    RHealth | RTeamAdd | RTeamGet | RUserSetActive | RUserGetReview
  | RPrCreate | RPrMerge | RPrReassign | RStatsRoute

text \<open>
  \<open>NewMux\<close>: patterns without a method and without a trailing slash, so a path
  matches exactly one pattern or none, whatever the method.
\<close>

definition routes :: "(string \<times> route) list" where
  "routes =
     [(''/health'', RHealth), (''/team/add'', RTeamAdd), (''/team/get'', RTeamGet),
      (''/users/setIsActive'', RUserSetActive), (''/users/getReview'', RUserGetReview),
      (''/pullRequest/create'', RPrCreate), (''/pullRequest/merge'', RPrMerge),
      (''/pullRequest/reassign'', RPrReassign), (''/stats/reviewers'', RStatsRoute)]"

definition new_mux :: "string \<Rightarrow> route option" where
  "new_mux p = map_of routes p"

text \<open>The decoding step shared by the handlers with a body.\<close>

definition with_body :: "'a option \<Rightarrow> store \<Rightarrow> ('a \<Rightarrow> http_response \<times> store) \<Rightarrow> http_response \<times> store" where
  "with_body d s k = (case d of None \<Rightarrow> (write_error 400 ''NOT_FOUND'' invalid_json, s) | Some v \<Rightarrow> k v)"

text \<open>One request: route, then the method of the handler.\<close>

definition serve :: "handler \<Rightarrow> rng \<Rightarrow> timestamp \<Rightarrow> http_request \<Rightarrow> store \<Rightarrow> http_response \<times> store" where
  "serve h g now r s =
     (case new_mux (rq_path r) of
        None \<Rightarrow> (Plain 404 ''404 page not found'', s)
      | Some RHealth \<Rightarrow> (Plain 200 ''ok'', s)
      | Some RTeamAdd \<Rightarrow>
          with_body (as_team_add (rq_body r)) s
            (\<lambda>req. apfst (write_reply RTeam) (handle_team_add req s))
      | Some RTeamGet \<Rightarrow> (write_reply RTeam (handle_team_get s (query_get r ''team_name'')), s)
      | Some RUserSetActive \<Rightarrow>
          (if \<not> require_admin (h_admin_token h) (rq_auth r)
           then (write_error 401 ''NOT_FOUND'' rsc_not_found, s)
           else with_body (as_set_active (rq_body r)) s
                  (\<lambda>(x, b). apfst (write_reply (\<lambda>u. RUser \<lparr>sar_user = u\<rparr>))
                             (handle_user_set_active (h_admin_token h) (rq_auth r) x b s)))
      | Some RUserGetReview \<Rightarrow> (write_reply RReview (handle_user_get_review s (query_get r ''user_id'')), s)
      | Some RPrCreate \<Rightarrow>
          with_body (as_create (rq_body r)) s
            (\<lambda>req. apfst (write_reply (\<lambda>d. RCreated \<lparr>cpr_pr = d\<rparr>)) (handle_pr_create g now req s))
      | Some RPrMerge \<Rightarrow>
          with_body (as_merge (rq_body r)) s
            (\<lambda>p. apfst (write_reply (\<lambda>d. RMerged \<lparr>mpr_pr = d\<rparr>)) (handle_pr_merge now p s))
      | Some RPrReassign \<Rightarrow>
          with_body (as_reassign (rq_body r)) s
            (\<lambda>req. apfst (write_reply (\<lambda>(d, u). RReassigned \<lparr>rpr_pr = d, rpr_replaced_by = u\<rparr>))
                         (handle_pr_reassign g req s))
      | Some RStatsRoute \<Rightarrow> (write_reply (\<lambda>st. RStats \<lparr>rsr_stats = st\<rparr>) (handle_stats s), s))"

section \<open>Process startup\<close>

text \<open>
  \<open>main\<close>: \<open>DSN\<close>, \<open>PORT\<close> and \<open>ADMIN_TOKEN\<close> must be set (\<open>log.Fatal\<close>
  otherwise), \<open>pgxpool.New\<close> must accept the DSN (\<open>pool_ok\<close>, the driver's parser,
  is a parameter), then the server listens on \<open>":" + port\<close> with the handler
  built from the token and the timeouts of the code, in seconds.
\<close>

datatype startup_error = NoDSN | NoPort | NoAdminToken | PoolFailed

record server_config =
  srv_addr :: string
  srv_handler :: handler
  srv_read_timeout :: nat
  srv_write_timeout :: nat
  srv_idle_timeout :: nat

definition startup :: "(string \<Rightarrow> bool) \<Rightarrow> (string \<Rightarrow> string) \<Rightarrow> startup_error + server_config" where
  "startup pool_ok env =
     (let dsn = env ''DSN''; port = env ''PORT''; tok = env ''ADMIN_TOKEN'' in
      if dsn = [] then Inl NoDSN
      else if port = [] then Inl NoPort
      else if tok = [] then Inl NoAdminToken
      else if \<not> pool_ok dsn then Inl PoolFailed
      else Inr \<lparr>srv_addr = '':'' @ port, srv_handler = \<lparr>h_admin_token = tok\<rparr>,
                srv_read_timeout = 5, srv_write_timeout = 5, srv_idle_timeout = 60\<rparr>)"

text \<open>Requests handled one after another, each with its random sources and clock.\<close>

fun serve_run :: "handler \<Rightarrow> (rng \<times> timestamp \<times> http_request) list \<Rightarrow> store \<Rightarrow> store" where
  "serve_run h [] s = s"
| "serve_run h ((g, now, r) # rs) s = serve_run h rs (snd (serve h g now r s))"

section \<open>Well-formed answers\<close>

text \<open>A reply of a handler as the code writes it: success 200 or 201, errors with a
  declared code and one of the statuses the handlers use.\<close>

fun reply_ok :: "'a reply \<Rightarrow> bool" where
  "reply_ok (Ok st v) \<longleftrightarrow> st \<in> {200, 201}"
| "reply_ok (Err st c m) \<longleftrightarrow> c \<in> set error_codes \<and> st \<in> {400, 401, 404, 409, 500}"

fun response_ok :: "http_response \<Rightarrow> bool" where
  "response_ok (Json st (Inl v)) \<longleftrightarrow> st \<in> {200, 201}"
| "response_ok (Json st (Inr e)) \<longleftrightarrow> eb_code (er_error e) \<in> set error_codes \<and> st \<in> {400, 401, 404, 409, 500}"
| "response_ok (Plain st m) \<longleftrightarrow> st \<in> {200, 404}"

subsection \<open>A request to the scenario\<close>

definition no_body :: decoded_body where
  "no_body = \<lparr>as_team_add = None, as_set_active = None, as_create = None, as_merge = None,
              as_reassign = None\<rparr>"

definition ex_set_active_request :: http_request where
  "ex_set_active_request =
     \<lparr>rq_method = ''POST'', rq_path = ''/users/setIsActive'', rq_query = [], rq_auth = [],
      rq_body = no_body\<lparr>as_set_active := Some (''u2'', False)\<rparr>\<rparr>"

definition ex_create_request :: http_request where
  "ex_create_request =
     \<lparr>rq_method = ''POST'', rq_path = ''/pullRequest/create'', rq_query = [], rq_auth = [],
      rq_body = no_body\<lparr>as_create := Some ex_create\<rparr>\<rparr>"

definition ex_env :: "string \<Rightarrow> string" where
  "ex_env v = (if v = ''DSN'' then ''postgres://db'' else if v = ''PORT'' then ''8080''
               else if v = ''ADMIN_TOKEN'' then ''secret'' else [])"

section \<open>Lemmas\<close>

subsection \<open>The stores the handlers leave\<close>

lemma snd_handle_team_add:
  "snd (handle_team_add req s) = (if validate_team_add req = None then step (EvTeamAdd req) s else s)"
  by (simp add: handle_team_add_def split: option.split sum.split prod.split)

lemma snd_handle_user_set_active:
  "snd (handle_user_set_active a auth x b s) =
     (if require_admin a auth \<and> validate_user_id x = None then step (EvSetIsActive x b) s else s)"
  by (simp add: handle_user_set_active_def split: option.split sum.split prod.split)

lemma snd_handle_pr_create:
  "snd (handle_pr_create g now req s) =
     (if validate_create_pr req = None then step (EvCreate g now req) s else s)"
  by (simp add: handle_pr_create_def split: option.split sum.split prod.split)

lemma snd_handle_pr_merge:
  "snd (handle_pr_merge now p s) = (if validate_merge_pr p = None then step (EvMerge now p) s else s)"
  by (simp add: handle_pr_merge_def split: option.split sum.split prod.split)

lemma snd_handle_pr_reassign:
  "snd (handle_pr_reassign g req s) =
     (if validate_reassign_pr req = None then step (EvReassign g req) s else s)"
  by (simp add: handle_pr_reassign_def split: option.split sum.split prod.split)

lemmas snd_handles = snd_handle_team_add snd_handle_user_set_active snd_handle_pr_create
  snd_handle_pr_merge snd_handle_pr_reassign

text \<open>Every handler that writes leaves the store as it was or as one step of the model
  leaves it; hence so does every request.\<close>

lemma step_or_same:
  "event_ok ev \<Longrightarrow>
   (if c then step ev s else s) = s \<or> (\<exists>e. event_ok e \<and> (if c then step ev s else s) = step e s)"
  by auto

lemma handlers_step:
  assumes "rng_ok g"
  shows "snd (handle_team_add req s) = s \<or> (\<exists>ev. event_ok ev \<and> snd (handle_team_add req s) = step ev s)"
    and "snd (handle_user_set_active a auth x b s) = s \<or>
         (\<exists>ev. event_ok ev \<and> snd (handle_user_set_active a auth x b s) = step ev s)"
    and "snd (handle_pr_create g now creq s) = s \<or>
         (\<exists>ev. event_ok ev \<and> snd (handle_pr_create g now creq s) = step ev s)"
    and "snd (handle_pr_merge now p s) = s \<or> (\<exists>ev. event_ok ev \<and> snd (handle_pr_merge now p s) = step ev s)"
    and "snd (handle_pr_reassign g rreq s) = s \<or>
         (\<exists>ev. event_ok ev \<and> snd (handle_pr_reassign g rreq s) = step ev s)"
  unfolding snd_handles using assms by (rule_tac step_or_same, simp)+

lemma snd_with_body: "snd (with_body d s k) = (case d of None \<Rightarrow> s | Some v \<Rightarrow> snd (k v))"
  by (simp add: with_body_def split: option.split)

lemma serve_store:
  assumes "rng_ok g"
  shows "snd (serve h g now r s) = s \<or> (\<exists>ev. event_ok ev \<and> snd (serve h g now r s) = step ev s)"
proof (cases "new_mux (rq_path r)")
  case (Some rt)
  then show ?thesis
    using handlers_step [OF assms]
    by (cases rt) (simp_all add: serve_def snd_with_body split: option.split)
qed (simp add: serve_def)

lemma serve_run_reachable:
  "reachable s \<Longrightarrow> list_all (\<lambda>(g, now, r). rng_ok g) rs \<Longrightarrow> reachable (serve_run h rs s)"
proof (induction rs arbitrary: s)
  case (Cons q rs)
  obtain g now r where q: "q = (g, now, r)" by (cases q) auto
  with Cons.prems have g: "rng_ok g" by simp
  have "reachable (snd (serve h g now r s))"
    using serve_store [OF g, of h now r s] Cons.prems(1) by (auto intro: reach_step)
  with Cons q show ?case by simp
qed simp

subsection \<open>The guard\<close>

lemma new_mux_set_active: "(new_mux p = Some RUserSetActive) = (p = ''/users/setIsActive'')"
  by (auto simp: new_mux_def routes_def)

lemma require_admin_nonblank:
  "require_admin tok auth \<Longrightarrow> trim_space (drop (length bearer) auth) = tok"
  by (simp add: require_admin_def)

subsection \<open>The shape of every reply\<close>

lemma reply_ok_team_add: "reply_ok (fst (handle_team_add req s))"
  by (simp add: handle_team_add_def error_codes_def split: option.split sum.split prod.split)

lemma reply_ok_team_get: "reply_ok (handle_team_get s nm)"
  by (simp add: handle_team_get_def error_codes_def split: option.split sum.split)

lemma reply_ok_set_active: "reply_ok (fst (handle_user_set_active a auth x b s))"
  by (simp add: handle_user_set_active_def error_codes_def split: option.split sum.split prod.split)

lemma reply_ok_get_review: "reply_ok (handle_user_get_review s x)"
  by (simp add: handle_user_get_review_def error_codes_def split: option.split sum.split)

lemma reply_ok_pr_create: "reply_ok (fst (handle_pr_create g now creq s))"
  by (simp add: handle_pr_create_def create_error_reply_def error_codes_def
           split: option.split sum.split prod.split)

lemma reply_ok_pr_merge: "reply_ok (fst (handle_pr_merge now p s))"
  by (simp add: handle_pr_merge_def error_codes_def split: option.split sum.split prod.split)

lemma reply_ok_pr_reassign: "reply_ok (fst (handle_pr_reassign g rreq s))"
  by (simp add: handle_pr_reassign_def reassign_error_reply_def error_codes_def
           split: option.split sum.split prod.split)

lemma reply_ok_stats: "reply_ok (handle_stats s)"
  by (simp add: handle_stats_def error_codes_def split: option.split sum.split)

lemmas reply_ok_handlers = reply_ok_team_add reply_ok_team_get reply_ok_set_active reply_ok_get_review
  reply_ok_pr_create reply_ok_pr_merge reply_ok_pr_reassign reply_ok_stats

lemma write_reply_not_plain: "write_reply f rp \<noteq> Plain st m"
  by (cases rp) (simp_all add: write_error_def)

lemma response_ok_write_reply: "reply_ok rp \<Longrightarrow> response_ok (write_reply f rp)"
  by (cases rp) (simp_all add: write_error_def)

section \<open>Properties of the server\<close>

text \<open>
  C37. Only \<open>/users/setIsActive\<close> reads the \<open>Authorization\<close> header: a request to it
  without the admin token is answered 401 whatever its body and writes nothing; the
  answer to any other path does not depend on the header; and no answer depends on
  the request method, which the router ignores although the specification gives one
  method per endpoint.
\<close>

theorem serve_admin_guard:
  "(rq_path r = ''/users/setIsActive'' \<and> \<not> require_admin (h_admin_token h) (rq_auth r) \<longrightarrow>
      serve h g now r s = (write_error 401 ''NOT_FOUND'' rsc_not_found, s)) \<and>
   (rq_path r \<noteq> ''/users/setIsActive'' \<longrightarrow> serve h g now (r\<lparr>rq_auth := a\<rparr>) s = serve h g now r s) \<and>
   serve h g now (r\<lparr>rq_method := mth\<rparr>) s = serve h g now r s"
proof (intro conjI impI)
  show "serve h g now r s = (write_error 401 ''NOT_FOUND'' rsc_not_found, s)"
    if "rq_path r = ''/users/setIsActive'' \<and> \<not> require_admin (h_admin_token h) (rq_auth r)"
    using that by (simp add: serve_def new_mux_def routes_def)
  show "serve h g now (r\<lparr>rq_auth := a\<rparr>) s = serve h g now r s"
    if "rq_path r \<noteq> ''/users/setIsActive''"
    using that new_mux_set_active [of "rq_path r"]
    by (simp add: serve_def query_get_def split: option.split route.split)
  show "serve h g now (r\<lparr>rq_method := mth\<rparr>) s = serve h g now r s"
    by (simp add: serve_def query_get_def split: option.split route.split)
qed

theorem serve_admin_guard_witness:
  "serve \<lparr>h_admin_token = ''secret''\<rparr> default_rng 7 ex_set_active_request reviewed_store =
     (write_error 401 ''NOT_FOUND'' rsc_not_found, reviewed_store) \<and>
   serve \<lparr>h_admin_token = ''secret''\<rparr> default_rng 7 (ex_create_request\<lparr>rq_auth := ''x''\<rparr>) backend_store =
     serve \<lparr>h_admin_token = ''secret''\<rparr> default_rng 7 ex_create_request backend_store \<and>
   serve \<lparr>h_admin_token = ''secret''\<rparr> default_rng 7 (ex_create_request\<lparr>rq_method := ''GET''\<rparr>) backend_store =
     serve \<lparr>h_admin_token = ''secret''\<rparr> default_rng 7 ex_create_request backend_store"
proof -
  have "\<not> require_admin ''secret'' []" by (simp add: require_admin_def)
  then show ?thesis
    using serve_admin_guard [where h = "\<lparr>h_admin_token = ''secret''\<rparr>" and g = default_rng and now = 7,
                             of ex_set_active_request reviewed_store "''x''" "''GET''"]
          serve_admin_guard [where h = "\<lparr>h_admin_token = ''secret''\<rparr>" and g = default_rng and now = 7,
                             of ex_create_request backend_store "''x''" "''GET''"]
    by (simp add: ex_set_active_request_def ex_create_request_def)
qed

text \<open>
  C38. The server refines the model of the service: handling any sequence of requests
  from an empty database, with random sources that keep the contract of
  \<open>rand.Intn\<close>, leaves a reachable store, hence a well-formed one in which every
  pull request has at most two distinct reviewers. Every invariant shown of the
  reachable stores holds of the stores the HTTP server produces.
\<close>

theorem serve_run_invariants:
  assumes "list_all (\<lambda>(g, now, r). rng_ok g) rs"
  shows "reachable (serve_run h rs empty_store) \<and> wf_store (serve_run h rs empty_store) \<and>
         distinct (reviewers_of (serve_run h rs empty_store) p) \<and>
         length (reviewers_of (serve_run h rs empty_store) p) \<le> 2"
proof -
  have r: "reachable (serve_run h rs empty_store)"
    using serve_run_reachable [OF reach_empty assms] .
  then have "wf_store (serve_run h rs empty_store)" by (rule reachable_wf)
  with r show ?thesis by (simp add: wf_reviewers_distinct wf_reviewers_le_2)
qed

theorem serve_run_invariants_witness:
  "list_all (\<lambda>(g, now, r). rng_ok g) [(default_rng, 7, ex_create_request)] \<and>
   reachable (serve_run \<lparr>h_admin_token = ''secret''\<rparr> [(default_rng, 7, ex_create_request)] empty_store) \<and>
   wf_store (serve_run \<lparr>h_admin_token = ''secret''\<rparr> [(default_rng, 7, ex_create_request)] empty_store) \<and>
   distinct (reviewers_of (serve_run \<lparr>h_admin_token = ''secret''\<rparr> [(default_rng, 7, ex_create_request)] empty_store) ''pr-1'') \<and>
   length (reviewers_of (serve_run \<lparr>h_admin_token = ''secret''\<rparr> [(default_rng, 7, ex_create_request)] empty_store) ''pr-1'') \<le> 2"
  using serve_run_invariants [of "[(default_rng, 7, ex_create_request)]" "\<lparr>h_admin_token = ''secret''\<rparr>" "''pr-1''"]
  by simp

text \<open>
  C39. The server starts only with \<open>DSN\<close>, \<open>PORT\<close> and \<open>ADMIN_TOKEN\<close> set and a
  DSN the driver accepts; it then listens on \<open>":" + PORT\<close> and its handler holds
  \<open>ADMIN_TOKEN\<close>, so that an \<open>Authorization\<close> header with nothing but white space
  after \<open>Bearer \<close> is never accepted.
\<close>

theorem startup_checks:
  "(\<exists>e. startup ok env = Inl e) =
     (env ''DSN'' = [] \<or> env ''PORT'' = [] \<or> env ''ADMIN_TOKEN'' = [] \<or> \<not> ok (env ''DSN'')) \<and>
   (startup ok env = Inr c \<longrightarrow>
      srv_addr c = '':'' @ env ''PORT'' \<and> h_admin_token (srv_handler c) = env ''ADMIN_TOKEN'' \<and>
      (require_admin (h_admin_token (srv_handler c)) auth \<longrightarrow>
         \<not> list_all is_space (drop (length bearer) auth)))"
proof (intro conjI impI)
  show "(\<exists>e. startup ok env = Inl e) =
          (env ''DSN'' = [] \<or> env ''PORT'' = [] \<or> env ''ADMIN_TOKEN'' = [] \<or> \<not> ok (env ''DSN''))"
    by (simp add: startup_def Let_def)
  assume c: "startup ok env = Inr c"
  then have tok: "h_admin_token (srv_handler c) = env ''ADMIN_TOKEN''" and ne: "env ''ADMIN_TOKEN'' \<noteq> []"
    by (auto simp: startup_def Let_def split: if_splits)
  show "srv_addr c = '':'' @ env ''PORT''" using c by (auto simp: startup_def Let_def split: if_splits)
  show "h_admin_token (srv_handler c) = env ''ADMIN_TOKEN''" by (rule tok)
  show "\<not> list_all is_space (drop (length bearer) auth)"
    if "require_admin (h_admin_token (srv_handler c)) auth"
    using require_admin_nonblank [OF that] tok ne by (metis trim_space_Nil_iff)
qed

theorem startup_checks_witness:
  "(\<exists>e. startup (\<lambda>_. True) ex_env = Inl e) = False \<and>
   startup (\<lambda>_. True) ex_env =
     Inr \<lparr>srv_addr = '':8080'', srv_handler = \<lparr>h_admin_token = ''secret''\<rparr>,
          srv_read_timeout = 5, srv_write_timeout = 5, srv_idle_timeout = 60\<rparr> \<and>
   srv_addr \<lparr>srv_addr = '':8080'', srv_handler = \<lparr>h_admin_token = ''secret''\<rparr>,
             srv_read_timeout = 5, srv_write_timeout = 5, srv_idle_timeout = 60\<rparr> = '':'' @ ex_env ''PORT'' \<and>
   \<not> require_admin ''secret'' ''Bearer   ''"
proof -
  have st: "startup (\<lambda>_. True) ex_env =
     Inr \<lparr>srv_addr = '':8080'', srv_handler = \<lparr>h_admin_token = ''secret''\<rparr>,
          srv_read_timeout = 5, srv_write_timeout = 5, srv_idle_timeout = 60\<rparr>"
    by (simp add: startup_def ex_env_def)
  have sp: "list_all is_space (drop (length bearer) ''Bearer   '')" by (simp add: bearer_def is_space_def)
  show ?thesis
    using startup_checks [where ok = "\<lambda>_. True" and env = ex_env and auth = "''Bearer   ''"
                          and c = "\<lparr>srv_addr = '':8080'', srv_handler = \<lparr>h_admin_token = ''secret''\<rparr>,
                                   srv_read_timeout = 5, srv_write_timeout = 5, srv_idle_timeout = 60\<rparr>"] st sp
    by (simp add: ex_env_def)
qed


end
