(* ===== verification/Spec2Isabelle.thy ===== *)
theory Spec2Isabelle
  imports TeamScope Concurrency Interleaving Assignment Responses UnitTests Server
begin

text \<open>
  \<^bold>\<open>Review manager: a verification development.\<close>
  This library models the Go microservice under \<open>src/microservice\<close>. The service
  assigns code reviewers to pull requests. The model keeps the repositories over
  PostgreSQL, the services above them and the HTTP handlers on top. Each definition
  translates one function, method or type of the sources; \<open>PROJECT.json\<close> maps every
  definition to its file and lines.

  \<^medskip>\<^bold>\<open>The parts and how they interact.\<close>
  An HTTP handler (\<open>internal/httpapi\<close>) validates the decoded request
  (\<open>internal/validation\<close>) and calls a service (\<open>internal/service\<close>). The service
  calls the repositories (\<open>internal/repository\<close>), and each repository method is one
  SQL statement on four tables. The model replaces the database by an explicit store
  and threads it through every call: a service returns
  \<open>(error + 'a) \<times> store\<close>, its response or error together with the store it leaves.

  \<^item> \<open>Prelude\<close>: the identifier and time types, and shared list lemmas. These cover
    in-place replacement, as done by \<open>UPDATE\<close>; a sort by a random key, as done by
    \<open>ORDER BY random()\<close>; and \<open>strings.TrimSpace\<close>.
  \<^item> \<open>Store\<close>: \<open>types.go\<close> (records for the row structs, \<open>error\<close> for the sentinel
    errors, \<open>ErrDb\<close> for a raw SQLSTATE); the store record of the four tables plus the
    team id sequence; \<open>WithinTx\<close> of \<open>tx.go\<close>; and the random source \<open>rng\<close>.
  \<^item> \<open>PrRepo\<close>, \<open>TeamRepo\<close>, \<open>UserRepo\<close>: the methods of \<open>pr_repo.go\<close>,
    \<open>team_repo.go\<close> and \<open>user_repo.go\<close>, one definition per statement. The candidate
    query \<open>FindActiveInTeamExcept\<close> is \<open>find_active_in_team_except\<close>:
    \<open>take n\<close> of the eligible users sorted by the random key \<open>order_key\<close>.
  \<^item> \<open>StoreInvariant\<close>: \<open>wf_store\<close>, the keys the schema enforces plus the shape of
    the pull request rows, and the lemmas showing that each write keeps it.
  \<^item> \<open>Scenarios\<close>: the stores of the specification's section 8 scenario (team
    \<open>backend\<close>, users \<open>u1\<close> to \<open>u5\<close>, pull request \<open>pr-1\<close>), on which the
    witnesses evaluate.
  \<^item> \<open>PrService\<close>: \<open>PRService.Create\<close>, \<open>Merge\<close> and \<open>Reassign\<close> as
    \<open>pr_create\<close>, \<open>pr_merge\<close> and \<open>pr_reassign\<close>. Each keeps every guard in the
    code's order and every repository call; \<open>rand.Intn\<close> is \<open>intn\<close> of the \<open>rng\<close>.
  \<^item> \<open>DirectoryService\<close>: \<open>TeamService\<close> and \<open>UserService\<close>.
  \<^item> \<open>System\<close>: the writing requests as an \<open>event\<close> datatype; \<open>step\<close>, the store one
    request leaves; and \<open>reachable\<close>, the stores produced from the empty database.
  \<^item> \<open>Http\<close>: validators, handlers, the mapping from errors to status codes, and
    \<open>requireAdmin\<close>.
  \<^item> \<open>TeamScope\<close>: the team-scoping property over the reachable stores.
  \<^item> \<open>Concurrency\<close>: \<open>Reassign\<close> split at its \<open>UPDATE\<close> (\<open>reassign_read\<close>,
    \<open>reassign_write\<close>), with other requests run in between; \<open>creachable\<close> is the set
    of stores this reaches.
  \<^item> \<open>Interleaving\<close>: every writing request at the granularity of its SQL
    statements. Since \<open>currentDB\<close> is never called, each statement autocommits, also
    inside \<open>WithinTx\<close>, and \<open>net/http\<close> serves each request in its own goroutine.
    A request in flight is a thread: its \<open>event\<close> and a program counter \<open>pc\<close>
    holding the values read so far. \<open>create_stmt\<close>, \<open>merge_stmt\<close>,
    \<open>reassign_stmt\<close>, \<open>team_add_stmt\<close> and \<open>set_active_stmt\<close> run one statement
    of \<open>Create\<close>, \<open>Merge\<close>, \<open>Reassign\<close>, \<open>TeamAdd\<close> and \<open>SetIsActive\<close>. That
    includes each reviewer insert of \<open>AddReviewers\<close>, each member upsert of
    \<open>UpsertTeamMembers\<close>, and the two queries of \<open>GetWithReviewers\<close>.
    \<open>run_sched\<close> runs threads under any scheduler; \<open>run_schedule\<close> runs them under
    an explicit one.
  \<^item> \<open>Assignment\<close>: an abstract specification of review assignment (\<open>astate\<close>,
    the step relation \<open>astep\<close> and its reachable states \<open>areachable\<close>) and the
    abstraction \<open>abs_store\<close> from the store to it.
  \<^item> \<open>Responses\<close>: \<open>dto.PullRequestStatus\<close> and \<open>dto_conforms\<close>, the shape of a
    response as the specification describes it.
  \<^item> \<open>Interfaces\<close>: \<open>PrRepo\<close>, \<open>UserRepo\<close>, \<open>TeamRepo\<close> and \<open>TxManager\<close> as
    records of operations over an abstract state, the service structs as
    \<open>pr_service\<close>, \<open>team_service\<close> and \<open>user_service\<close>, and every service method
    written once more against them (\<open>svc_create\<close>, \<open>svc_merge\<close>, \<open>svc_reassign\<close>,
    \<open>svc_team_add\<close>, \<open>svc_team_get\<close>, \<open>svc_set_is_active\<close>,
    \<open>svc_get_review_prs\<close>, \<open>svc_get_reviewer_stats\<close>). \<open>pg_pr_service\<close>,
    \<open>pg_team_service\<close> and \<open>pg_user_service\<close> are the wiring of
    \<open>cmd/main.go\<close> over the store.
  \<^item> \<open>TestDoubles\<close>: the unit tests' \<open>MockPrRepo\<close> and \<open>MockUserRepo\<close>
    (\<open>tests/unittests\<close>) and \<open>MockTxManager\<close> (\<open>tests/unit\<close>) over
    \<open>mock_state\<close>, its three Go maps, wired as \<open>newTestPRService\<close> wires them
    (\<open>mock_pr_service\<close>), plus \<open>MockTeamRepo\<close> and the \<open>MockUserRepo\<close> of
    \<open>tests/unit\<close> (\<open>mock_team_service\<close>, \<open>mock_user_service\<close>). A range loop
    over a Go map visits it in an
    unspecified order; the model takes that order from a key, as for
    \<open>ORDER BY random()\<close>.
  \<^item> \<open>UnitTests\<close>: each test function of \<open>tests/unit\<close> as a boolean function of the
    random sources and the clock, \<open>True\<close> when no \<open>t.Fatalf\<close> is reached.
  \<^item> \<open>Server\<close>: the whole HTTP server. \<open>serve\<close> is \<open>NewMux\<close> of \<open>router.go\<close>
    (\<open>routes\<close>, \<open>new_mux\<close>: exact paths, any method, a plain-text 404
    otherwise) followed by the \<open>Handler\<close> method of the route: \<open>requireAdmin\<close>
    first where the method has it, then \<open>decodeJSON\<close> (\<open>with_body\<close>; a request
    carries what the decoder makes of its body), then the \<open>Http\<close> handler, whose
    result \<open>write_reply\<close> and \<open>write_error\<close> turn into the response
    (\<open>writeJSON\<close>, \<open>writeError\<close>, the wire types of \<open>models/dto\<close> and
    \<open>dto\<close>). \<open>startup\<close> is \<open>main\<close> of \<open>cmd/main.go\<close> up to the server it
    builds; \<open>serve_run\<close> serves requests one after another.

  \<^medskip>\<^bold>\<open>What the lemmas show.\<close>
  \<^item> C1 to C8 (\<open>PrService\<close>):
    \<^item> the response of \<open>Create\<close>, and its reviewer rules: distinct, not the author,
      active members of the author's team, and \<open>min 2\<close> of the eligible users;
    \<^item> \<open>Reassign\<close>: the replacement it makes, its guards in order, when it reports no
      candidate, and that every error leaves the store unchanged;
    \<^item> \<open>Merge\<close>: its effect and its idempotence.
  \<^item> C9 to C12 (\<open>System\<close>):
    \<^item> in every reachable store the reviewers are distinct and at most two;
    \<^item> the number of reviewers never changes after creation;
    \<^item> a merged pull request is frozen;
    \<^item> a counterexample to the specification's rule that the author never reviews the
      own pull request: \<open>Reassign\<close> can pick the author.
  \<^item> C13 to C15 and C17 (\<open>Http\<close>), the status codes:
    \<^item> a duplicate pull request id gets 500;
    \<^item> a valid reassign never gets 500;
    \<^item> \<open>/team/get\<close> always fails and \<open>/users/getReview\<close> never answers 404;
    \<^item> what \<open>requireAdmin\<close> accepts.
  \<^item> C18 and C19 (\<open>TeamScope\<close>):
    \<^item> team scoping holds in every store reached by requests that move no existing
      user;
    \<^item> \<open>/team/add\<close> moves a user, and scoping then fails in a reachable store.
  \<^item> C21 and C23 (\<open>Concurrency\<close>):
    \<^item> the reviewer keys survive any requests inside the gap of \<open>Reassign\<close>;
    \<^item> two reassigns on one pull request can collide on the unique key and get 500.
  \<^item> C16, C20, C22 and C36 (\<open>Interleaving\<close>):
    \<^item> every interleaving of the statements of any requests terminates, under any
      scheduler, within a bound of statements per request, and keeps the store
      well-formed (the termination of \<open>run_sched\<close> is proved by the measure
      \<open>work\<close>, the statements left);
    \<^item> a request run alone is its sequential handler (the statement model is
      faithful);
    \<^item> a merge inside a reassign or inside a create changes a merged pull
      request's reviewers;
    \<^item> a reassign inside the reviewer inserts of a create loses a reviewer.
  \<^item> C24 to C26 (\<open>DirectoryService\<close>): the effect of \<open>TeamAdd\<close>, of
    \<open>SetIsActive\<close> (including its error), and that \<open>GetReviewPrs\<close> lists exactly the
    pull requests the user reviews.
  \<^item> C27 and C31 (\<open>Assignment\<close>):
    \<^item> every reachable store maps to a reachable abstract state, and every request
      is an abstract step (a refinement by a simulation);
    \<^item> every candidate the specification allows for \<open>Reassign\<close> is drawn under
      some outcome of the two random sources, so none is starved.
  \<^item> C28 to C30 (\<open>Responses\<close>): every successful answer conforms to
    \<open>dto.PullRequest\<close>; what \<open>Insert\<close> and \<open>AddReviewers\<close> write,
    \<open>GetWithReviewers\<close> reads back; what \<open>SetActive\<close> returns, \<open>GetByID\<close> reads
    back.
  \<^item> C32 and C33 (\<open>TestDoubles\<close>):
    \<^item> the doubles answer \<open>Create\<close>, \<open>Merge\<close> and \<open>Reassign\<close> as PostgreSQL
      does and keep the same tables, related by \<open>mock_rel\<close>;
    \<^item> the early-exit loop of the double's \<open>FindActiveInTeamExcept\<close> is
      \<open>LIMIT\<close>, except at limit 0.
  \<^item> C34 (\<open>Interfaces\<close>): the services over the interfaces, wired with the
    PostgreSQL repositories, are the services of \<open>PrService\<close> and
    \<open>DirectoryService\<close>.
  \<^item> C35 (\<open>UnitTests\<close>): eight of the nine PR service tests pass for every
    random outcome and clock, and \<open>TestPRService_Create_PRAlreadyExists\<close> fails on
    every run; the team and user service tests pass, the \<open>TeamGet\<close> one included,
    while \<open>TeamGet\<close> over PostgreSQL always fails.
  \<^item> C37 to C40 (\<open>Server\<close>):
    \<^item> only \<open>/users/setIsActive\<close> checks the admin token, before its body, and no
      answer depends on the method;
    \<^item> the server refines the step model: from the empty database every sequence
      of requests reaches a well-formed store of \<open>System\<close>, so the invariants of
      the reachable stores hold of the server;
    \<^item> startup fails exactly on a missing variable or pool, and the server it
      builds holds the token;
    \<^item> every response has a declared status and error code, and the plain-text 404
      answers exactly the unknown paths.

  Claims whose statement has a hypothesis have a \<open>_witness\<close> theorem. It applies the
  claim to a scenario store, and \<open>simp\<close> evaluates the definitions there.

  \<^medskip>\<^bold>\<open>Bounds and randomness.\<close>
  No loop of the sources needs fuel: every Go loop runs over a finite slice and
  becomes a \<open>map\<close>, \<open>filter\<close> or \<open>fold\<close>; the loops of the test doubles
  that break early (\<open>mock_find_loop\<close>, \<open>replace_first\<close>) and the request loop
  of the server (\<open>serve_run\<close>) are structural recursions over the list they
  visit. The scheduler \<open>run_sched\<close> and the solo run \<open>solo\<close> of \<open>Interleaving\<close>
  are not structural: they are \<open>function\<close>s whose termination is proved by a
  measure, the statements the threads have left (\<open>remaining\<close>). The bounds are
  eight for \<open>Create\<close> (\<open>LIMIT 2\<close> caps its reviewer inserts), three for
  \<open>Merge\<close>, seven for \<open>Reassign\<close>, one plus one per member for \<open>TeamAdd\<close>,
  and one for \<open>SetIsActive\<close>; C16 states them.
  The two query limits are kept as written:
  \<^item> \<open>LIMIT 2\<close> for the reviewers chosen by \<open>Create\<close>;
  \<^item> \<open>LIMIT 20\<close> for the candidates of \<open>Reassign\<close>. Since a pull request has at most
    two reviewers, this limit never hides a candidate (C5).

  Randomness is a parameter, not an assumption. Each handler takes a \<open>rng\<close>, and the
  theorems hold for every \<open>rng\<close> that keeps the contract of \<open>rand.Intn\<close>
  (\<open>rng_ok\<close>).

  \<^medskip>\<^bold>\<open>What is not modelled.\<close>
  \<^item> The byte-level JSON codec: a request carries the structs \<open>decodeJSON\<close>
    produces or its failure, and a response the value \<open>writeJSON\<close> encodes.
  \<^item> Of \<open>http.ServeMux\<close>, path cleaning and its redirects; of \<open>main\<close>, signal
    handling and graceful shutdown, and the DSN parser of \<open>pgxpool.New\<close>, which is
    a parameter of \<open>startup\<close>.
  \<^item> \<open>src/service/internal/repository/types.go\<close>, an older copy of the repository
    types that nothing imports; it declares data only.
  \<^item> Unicode white space beyond ASCII in \<open>TrimSpace\<close>.
  \<^item> The serial value used up by a failed team insert.
  \<^item> The foreign keys of the schema, whose violations the reachable stores never
    trigger.
  \<^item> The read-only requests (\<open>TeamGet\<close>, \<open>GetReview\<close>, the statistics) in the
    interleavings: they write nothing, so they change no other request's outcome. The
    status lookup inside \<open>SetMerged\<close> is taken with the \<open>UPDATE\<close> as one step,
    since no request writes \<open>pr_statuses\<close>.
  \<^item> \<open>ListByTeam\<close> and \<open>GetReviewerStats\<close>, which have no implementation in the
    sources, and the contents of the \<open>pr_statuses\<close> table: these are modelled from
    the specification.
  \<^item> The end-to-end tests of \<open>tests/e2e\<close>, which drive a running server over HTTP,
    and the duplicates in \<open>tests/unittests\<close> of the unit tests modelled. Neither unit
    test package compiles as given (see the findings): the doubles and tests are
    modelled as they mean to be wired.
\<close>

end
